(* ===== verification/Sponsor_Prelude.thy ===== *)
theory Sponsor_Prelude
  imports Main "HOL-Library.Word"
begin

text \<open>
  The vocabulary shared by every component of the development.

  Rust code that mutates storage and returns a \<open>Result\<close> is a function from the state to
  a result and a state: an early return keeps the writes made before it.  The operators below
  are the ones the sources use: the question mark operator (\<open>and_then\<close>), \<open>ensure!\<close>,
  \<open>Ok\<close>, \<open>Err\<close>, \<open>map_err\<close>, a storage read and a storage write.  The storage
  layer that FRAME opens around every dispatchable, which discards the writes of a failing
  call, is \<open>with_storage_layer\<close>.  Balances are machine words of any width: the runtime
  uses \<open>u128\<close>, the mock runtime \<open>u64\<close>.
\<close>

section \<open>Named collections of the development\<close>

named_theorems op_simps "results of the state and error operators"
named_theorems nat_of_word "from comparisons and arithmetic of words to natural numbers"

section \<open>State and error\<close>

type_synonym ('s, 'e, 'a) op = "'s \<Rightarrow> ('e + 'a) \<times> 's"

definition ok :: "'a \<Rightarrow> ('s, 'e, 'a) op" where
  "ok x = (\<lambda>s. (Inr x, s))"

definition err :: "'e \<Rightarrow> ('s, 'e, 'a) op" where
  "err e = (\<lambda>s. (Inl e, s))"

definition and_then :: "('s, 'e, 'a) op \<Rightarrow> ('a \<Rightarrow> ('s, 'e, 'b) op) \<Rightarrow> ('s, 'e, 'b) op" where
  "and_then m f = (\<lambda>s. case m s of (Inl e, t) \<Rightarrow> (Inl e, t) | (Inr x, t) \<Rightarrow> f x t)"

definition of_result :: "'e + 'a \<Rightarrow> ('s, 'e, 'a) op" where
  "of_result r = (\<lambda>s. (r, s))"

definition ensure :: "bool \<Rightarrow> 'e \<Rightarrow> ('s, 'e, unit) op" where
  "ensure c e = (\<lambda>s. (if c then Inr () else Inl e, s))"

definition ensure_state :: "('s \<Rightarrow> bool) \<Rightarrow> 'e \<Rightarrow> ('s, 'e, unit) op" where
  "ensure_state c e = (\<lambda>s. (if c s then Inr () else Inl e, s))"

definition gets :: "('s \<Rightarrow> 'a) \<Rightarrow> ('s, 'e, 'a) op" where
  "gets f = (\<lambda>s. (Inr (f s), s))"

definition modify :: "('s \<Rightarrow> 's) \<Rightarrow> ('s, 'e, unit) op" where
  "modify f = (\<lambda>s. (Inr (), f s))"

definition map_err :: "('d \<Rightarrow> 'e) \<Rightarrow> ('s, 'd, 'a) op \<Rightarrow> ('s, 'e, 'a) op" where
  "map_err g m = (\<lambda>s. case m s of (Inl d, t) \<Rightarrow> (Inl (g d), t) | (Inr x, t) \<Rightarrow> (Inr x, t))"

definition with_storage_layer :: "('s, 'e, 'a) op \<Rightarrow> ('s, 'e, 'a) op" where
  "with_storage_layer m = (\<lambda>s. case m s of (Inl e, t) \<Rightarrow> (Inl e, s) | (Inr x, t) \<Rightarrow> (Inr x, t))"

lemma ok_run [op_simps]: "ok x s = (r, t) \<longleftrightarrow> r = Inr x \<and> t = s"
  by (auto simp: ok_def)

lemma err_run [op_simps]: "err e s = (r, t) \<longleftrightarrow> r = Inl e \<and> t = s"
  by (auto simp: err_def)

lemma of_result_run [op_simps]: "of_result q s = (r, t) \<longleftrightarrow> r = q \<and> t = s"
  by (auto simp: of_result_def)

lemma ensure_run [op_simps]:
  "ensure c e s = (r, t) \<longleftrightarrow> t = s \<and> r = (if c then Inr () else Inl e)"
  by (auto simp: ensure_def)

lemma ensure_state_run [op_simps]:
  "ensure_state c e s = (r, t) \<longleftrightarrow> t = s \<and> r = (if c s then Inr () else Inl e)"
  by (auto simp: ensure_state_def)

lemma gets_run [op_simps]: "gets f s = (r, t) \<longleftrightarrow> r = Inr (f s) \<and> t = s"
  by (auto simp: gets_def)

lemma modify_run [op_simps]: "modify f s = (r, t) \<longleftrightarrow> r = Inr () \<and> t = f s"
  by (auto simp: modify_def)

lemma map_err_Inr [op_simps]: "map_err g m s = (Inr x, t) \<longleftrightarrow> m s = (Inr x, t)"
  by (auto simp: map_err_def split: prod.splits sum.splits)

lemma map_err_Inl [op_simps]: "map_err g m s = (Inl e, t) \<longleftrightarrow> (\<exists>d. m s = (Inl d, t) \<and> e = g d)"
  by (auto simp: map_err_def split: prod.splits sum.splits)

lemma and_then_Inr [op_simps]:
  "and_then m f s = (Inr y, t) \<longleftrightarrow> (\<exists>x u. m s = (Inr x, u) \<and> f x u = (Inr y, t))"
  by (auto simp: and_then_def split: prod.splits sum.splits)

lemma and_then_Inl [op_simps]:
  "and_then m f s = (Inl e, t) \<longleftrightarrow>
     m s = (Inl e, t) \<or> (\<exists>x u. m s = (Inr x, u) \<and> f x u = (Inl e, t))"
  by (auto simp: and_then_def split: prod.splits sum.splits)

lemma with_storage_layer_Inr [op_simps]:
  "with_storage_layer m s = (Inr x, t) \<longleftrightarrow> m s = (Inr x, t)"
  by (auto simp: with_storage_layer_def split: prod.splits sum.splits)

lemma with_storage_layer_Inl [op_simps]:
  "with_storage_layer m s = (Inl e, t) \<longleftrightarrow> t = s \<and> (\<exists>u. m s = (Inl e, u))"
  by (auto simp: with_storage_layer_def split: prod.splits sum.splits)

text \<open>Rules that run an operator on a known state, for forward evaluation.\<close>

lemma and_then_left [simp]: "m s = (Inl e, t) \<Longrightarrow> and_then m f s = (Inl e, t)"
  by (simp add: and_then_def)

lemma and_then_right [simp]: "m s = (Inr x, t) \<Longrightarrow> and_then m f s = f x t"
  by (simp add: and_then_def)

lemmas op_run_defs = ok_def err_def of_result_def ensure_def ensure_state_def gets_def modify_def

section \<open>Unsigned machine arithmetic\<close>

text \<open>\<open>saturating_sub\<close> and \<open>saturating_add\<close> of Rust's unsigned integers.\<close>

definition saturating_sub :: "'w::len word \<Rightarrow> 'w word \<Rightarrow> 'w word" where
  "saturating_sub a b = (if b \<le> a then a - b else 0)"

definition saturating_add :: "'w::len word \<Rightarrow> 'w word \<Rightarrow> 'w word" where
  "saturating_add a b = (if unat a + unat b < 2 ^ LENGTH('w) then a + b else - 1)"

definition saturating_mul :: "'w::len word \<Rightarrow> 'w word \<Rightarrow> 'w word" where
  "saturating_mul a b = (if unat a * unat b < 2 ^ LENGTH('w) then a * b else - 1)"

lemma unat_saturating_sub [nat_of_word]: "unat (saturating_sub a b) = unat a - unat b"
  by (auto simp: saturating_sub_def unat_sub word_le_nat_alt)

lemma unat_minus_one_max: "unat (- 1 :: 'w::len word) = 2 ^ LENGTH('w) - 1"
  by transfer (simp add: mask_eq_exp_minus_1 nat_diff_distrib nat_power_eq)

lemma unat_saturating_add [nat_of_word]:
  "unat (saturating_add a (b :: 'w::len word)) = min (2 ^ LENGTH('w) - 1) (unat a + unat b)"
  by (auto simp: saturating_add_def unat_minus_one_max unat_word_ariths min_def)

lemma unat_saturating_mul [nat_of_word]:
  "unat (saturating_mul a (b :: 'w::len word)) = min (2 ^ LENGTH('w) - 1) (unat a * unat b)"
  by (auto simp: saturating_mul_def unat_minus_one_max unat_word_ariths min_def)

lemma unat_min [nat_of_word]: "unat (min a b) = min (unat a) (unat b)"
  by (simp add: min_def word_le_nat_alt)

lemmas word_order_nat [nat_of_word] = word_le_nat_alt word_less_nat_alt

lemma unat_eq_zero_iff [nat_of_word]: "a = 0 \<longleftrightarrow> unat a = 0"
  by (simp add: unat_eq_0)

lemma unat_minus [nat_of_word]: "b \<le> a \<Longrightarrow> unat (a - b) = unat a - unat b"
  by (simp add: unat_sub)

end
