(* ===== verification/Sponsor_Types.thy ===== *)
theory Sponsor_Types
  imports Sponsor_Prelude
begin

text \<open>
  The data of the sponsored-tx pallet: the policy and state a sponsor stores
  (\<^verbatim>\<open>pallets/sponsored-tx/src/types.rs\<close>), the hold reasons, events and errors the pallet
  declares (\<^verbatim>\<open>pallets/sponsored-tx/src/lib.rs\<close>), and the chain state its code reads and
  writes.  Account identifiers (\<open>'acc\<close>) and balances (\<open>'n\<close>) are type parameters, as
  they are in the generic Rust code; the operations fix balances to unsigned machine words.
\<close>

section \<open>Hold reasons\<close>

datatype HoldReason = SponsorshipBudget | SponsorshipPending

text \<open>
  \<open>RuntimeHoldReason\<close> is the composite enum of the runtime: one variant per pallet that
  declares hold reasons.  Everything that is not this pallet's is \<open>OtherHold\<close>.
\<close>

datatype 'r RuntimeHoldReason = SponsoredTxHold HoldReason | OtherHold 'r

section \<open>Sponsor policy and sponsor state\<close>

record ('acc, 'n) SponsorPolicy =
  allowed_callers :: "'acc list"
  max_fee_per_tx :: 'n

record ('acc, 'n) SponsorState =
  active :: bool
  policy :: "('acc, 'n) SponsorPolicy"

section \<open>Events and errors\<close>

datatype ('acc, 'n) Event =
    SponsorRegistered 'acc 'n
  | BudgetIncreased 'acc 'n 'n
  | BudgetDecreased 'acc 'n 'n
  | SponsorPolicyUpdated 'acc
  | SponsorPaused 'acc
  | SponsorResumed 'acc
  | SponsorUnregistered 'acc
  | SponsoredTransactionFeePaid 'acc 'acc 'n 'n

datatype Error =
    AlreadyRegistered
  | NotRegistered
  | AlreadyPaused
  | AlreadyActive
  | EmptyAllowlist
  | DuplicateAllowedCaller
  | ZeroBudget
  | InsufficientAvailableBudget
  | PendingBudgetNotEmpty

text \<open>
  A dispatchable fails with one of the pallet's errors or with an error that a called pallet
  returned (\<open>BadOrigin\<close> of \<open>ensure_signed\<close>, a token error of the balances pallet).
\<close>

datatype 'e DispatchError = ModuleError Error | SystemError 'e

text \<open>
  The errors a transaction extension returns: a custom code of this pallet's extension,
  \<open>InvalidTransaction::Payment\<close>, or an error of the wrapped payment extension.
\<close>

datatype 'v TransactionValidityError = Custom "8 word" | Payment | BaseInvalid 'v

section \<open>Chain state\<close>

text \<open>
  The state the pallet works on: its storage map \<open>Sponsors\<close>, the rest of the runtime
  storage (which only other pallets' code reads and writes, here one opaque component), and the
  events the pallet deposited, oldest first.
\<close>

record ('acc, 'n, 'b) chain =
  Sponsors :: "'acc \<rightharpoonup> ('acc, 'n) SponsorState"
  ledger :: 'b
  events :: "('acc, 'n) Event list"

definition deposit_event :: "('acc, 'n) Event \<Rightarrow> ('acc, 'n, 'b) chain \<Rightarrow> ('acc, 'n, 'b) chain" where
  "deposit_event ev s = s\<lparr>events := events s @ [ev]\<rparr>"

lemma deposit_event_sel [simp]:
  "Sponsors (deposit_event ev s) = Sponsors s"
  "ledger (deposit_event ev s) = ledger s"
  "events (deposit_event ev s) = events s @ [ev]"
  by (simp_all add: deposit_event_def)

text \<open>An operation of another pallet, run on the part of the storage it owns.\<close>

definition on_ledger :: "('b, 'e, 'a) op \<Rightarrow> (('acc, 'n, 'b) chain, 'e, 'a) op" where
  "on_ledger m s = (case m (ledger s) of (r, b) \<Rightarrow> (r, s\<lparr>ledger := b\<rparr>))"

lemma on_ledger_run [op_simps]:
  "on_ledger m s = (r, t) \<longleftrightarrow> (\<exists>b. m (ledger s) = (r, b) \<and> t = s\<lparr>ledger := b\<rparr>)"
  by (auto simp: on_ledger_def split: prod.splits)

end
