(* ===== verification/Frame_Interface.thy ===== *)
theory Frame_Interface
  imports Sponsor_Types
begin

text \<open>
  What the pallet uses of FRAME.  The balances pallet, the origin check and the fee destination
  are not part of the repository: their operations are the fields of two records that every
  operation of the model takes as an argument, and what the pallet relies on is stated as the
  laws of the locales \<open>hold_ledger\<close>, \<open>live_ledger\<close>, \<open>rehold_ledger\<close>, \<open>fee_sink\<close> and
  \<open>burning_sink\<close>.  The laws are the documented contract of the traits \<open>InspectHold\<close>,
  \<open>MutateHold\<close>, \<open>BalancedHold\<close>, \<open>Imbalance\<close> and \<open>OnUnbalanced\<close> of
  \<^verbatim>\<open>frame_support::traits\<close>.
\<close>

section \<open>The operations\<close>

datatype Precision = Exact | BestEffort

record ('acc, 'n, 'c, 'e, 'r, 'b) balances_api =
  hold :: "'r RuntimeHoldReason \<Rightarrow> 'acc \<Rightarrow> 'n \<Rightarrow> ('b, 'e, unit) op"
  release :: "'r RuntimeHoldReason \<Rightarrow> 'acc \<Rightarrow> 'n \<Rightarrow> Precision \<Rightarrow> ('b, 'e, 'n) op"
  balance_on_hold :: "'r RuntimeHoldReason \<Rightarrow> 'acc \<Rightarrow> 'b \<Rightarrow> 'n"
  slash :: "'r RuntimeHoldReason \<Rightarrow> 'acc \<Rightarrow> 'n \<Rightarrow> 'b \<Rightarrow> ('c \<times> 'n) \<times> 'b"
  credit_split :: "'c \<Rightarrow> 'n \<Rightarrow> 'c \<times> 'c"

text \<open>
  The associated types and functions of the pallet's \<open>Config\<close> trait that its code uses:
  the balances pallet, \<open>ensure_signed\<close> on the runtime's origin type, and
  \<open>FeeDestination::on_unbalanceds\<close>.
\<close>

record ('acc, 'n, 'c, 'e, 'r, 'b, 'o) Config =
  Balances :: "('acc, 'n, 'c, 'e, 'r, 'b) balances_api"
  ensure_signed :: "'o \<Rightarrow> 'e + 'acc"
  FeeDestination :: "'c list \<Rightarrow> 'b \<Rightarrow> 'b"
  MaxAllowedCallers :: "32 word"

section \<open>Observations\<close>

definition held ::
  "('acc, 'w::len word, 'c, 'e, 'r, 'b) balances_api \<Rightarrow> 'r RuntimeHoldReason \<Rightarrow> 'acc \<Rightarrow> 'b \<Rightarrow> nat"
where
  "held B r a b = unat (balance_on_hold B r a b)"

text \<open>The amount \<open>n\<close> at one reason of one account, and nothing elsewhere.\<close>

definition at_hold :: "'r RuntimeHoldReason \<Rightarrow> 'acc \<Rightarrow> nat \<Rightarrow> 'r RuntimeHoldReason \<Rightarrow> 'acc \<Rightarrow> nat" where
  "at_hold r a n r' a' = (if r' = r \<and> a' = a then n else 0)"

lemma at_hold_same [simp]: "at_hold r a n r a = n"
  by (simp add: at_hold_def)

lemma at_hold_reason [simp]: "r' \<noteq> r \<Longrightarrow> at_hold r a n r' a' = 0"
  by (simp add: at_hold_def)

lemma at_hold_account [simp]: "a' \<noteq> a \<Longrightarrow> at_hold r a n r' a' = 0"
  by (simp add: at_hold_def)

section \<open>The contract of the balances pallet\<close>

text \<open>
  \<open>wf\<close> is the well-formedness of the balances storage that its own code maintains,
  \<open>total\<close> is \<open>Inspect::total_balance\<close> and \<open>peek\<close> is \<open>Imbalance::peek\<close>.
  Holding and releasing move funds inside one account, a slash takes funds out of it into a
  credit; none of them touches another account or another hold reason, and a failing operation
  changes nothing.
\<close>

locale hold_ledger =
  fixes B :: "('acc, 'w::len word, 'c, 'e, 'r, 'b) balances_api"
    and wf :: "'b \<Rightarrow> bool"
    and total :: "'acc \<Rightarrow> 'b \<Rightarrow> nat"
    and peek :: "'c \<Rightarrow> 'w word"
  assumes hold_wf: "wf b \<Longrightarrow> hold B r a n b = (Inr u, b') \<Longrightarrow> wf b'"
    and hold_held: "wf b \<Longrightarrow> hold B r a n b = (Inr u, b') \<Longrightarrow>
      held B r' a' b' = held B r' a' b + at_hold r a (unat n) r' a'"
    and hold_total: "wf b \<Longrightarrow> hold B r a n b = (Inr u, b') \<Longrightarrow> total a' b' = total a' b"
    and hold_err: "wf b \<Longrightarrow> hold B r a n b = (Inl e, b') \<Longrightarrow> b' = b"
    and release_wf: "wf b \<Longrightarrow> release B r a n p b = (Inr m, b') \<Longrightarrow> wf b'"
    and release_held: "wf b \<Longrightarrow> release B r a n p b = (Inr m, b') \<Longrightarrow>
      held B r' a' b = held B r' a' b' + at_hold r a (unat m) r' a'"
    and release_exact: "wf b \<Longrightarrow> release B r a n Exact b = (Inr m, b') \<Longrightarrow> m = n"
    and release_best: "wf b \<Longrightarrow> release B r a n BestEffort b = (Inr m, b') \<Longrightarrow>
      unat m = min (unat n) (held B r a b)"
    and release_total: "wf b \<Longrightarrow> release B r a n p b = (Inr m, b') \<Longrightarrow> total a' b' = total a' b"
    and release_err: "wf b \<Longrightarrow> release B r a n p b = (Inl e, b') \<Longrightarrow> b' = b"
    and slash_wf: "wf b \<Longrightarrow> slash B r a n b = ((c, missing), b') \<Longrightarrow> wf b'"
    and slash_held: "wf b \<Longrightarrow> slash B r a n b = ((c, missing), b') \<Longrightarrow>
      held B r' a' b = held B r' a' b' + at_hold r a (unat (peek c)) r' a'"
    and slash_amount: "wf b \<Longrightarrow> slash B r a n b = ((c, missing), b') \<Longrightarrow>
      unat (peek c) = min (unat n) (held B r a b)"
    and slash_missing: "wf b \<Longrightarrow> slash B r a n b = ((c, missing), b') \<Longrightarrow>
      unat missing + unat (peek c) = unat n"
    and slash_total: "wf b \<Longrightarrow> slash B r a n b = ((c, missing), b') \<Longrightarrow>
      total a' b = total a' b' + (if a' = a then unat (peek c) else 0)"
    and split_first: "credit_split B c n = (c1, c2) \<Longrightarrow> peek c1 = min n (peek c)"
    and split_sum: "credit_split B c n = (c1, c2) \<Longrightarrow>
      unat (peek c1) + unat (peek c2) = unat (peek c)"
begin

text \<open>A release followed by a hold: the way the pallet moves funds between its two reasons.\<close>

lemma release_then_hold_total:
  assumes "wf b0" and "release B r1 a1 n1 p b0 = (Inr m, b)" and "hold B r2 a2 n2 b = (Inr u, b')"
  shows "total a b' = total a b0"
  using hold_total [OF release_wf [OF assms(1,2)] assms(3)] release_total [OF assms(1,2)] by simp

lemma release_then_hold_held:
  assumes "wf b0" and "release B r1 a1 n1 p b0 = (Inr m, b)" and "hold B r2 a2 n2 b = (Inr u, b')"
  shows "held B r a b' + at_hold r1 a1 (unat m) r a = held B r a b0 + at_hold r2 a2 (unat n2) r a"
  using hold_held [OF release_wf [OF assms(1,2)] assms(3), of r a] release_held [OF assms(1,2), of r a]
  by simp

end

text \<open>
  Progress of a release: a hold that is there can be released.  The balances pallet refuses it
  only where the account could not receive its own funds.
\<close>

locale live_ledger = hold_ledger +
  assumes release_live: "wf b \<Longrightarrow> unat n \<le> held B r a b \<Longrightarrow>
      \<exists>m b'. release B r a n p b = (Inr m, b')"

text \<open>
  Funds that were just released from a hold of an account can be held again under any reason of
  that account: the free balance has grown by exactly that amount, and an account with a hold
  keeps its existential deposit.  The pallet's own comment in
  \<^verbatim>\<open>restore_pending_to_budget\<close> states this expectation.
\<close>

locale rehold_ledger = live_ledger +
  assumes rehold: "wf b \<Longrightarrow> release B r a n p b = (Inr m, b') \<Longrightarrow>
      \<exists>b''. hold B r' a m b' = (Inr (), b'')"

text \<open>
  The destination of the fee credits (\<open>Config::FeeDestination\<close>) may pay them into any
  account, but it does not touch holds.  A burning destination, the unit type \<open>()\<close> that
  the runtime and the mock runtime configure, changes no account at all.
\<close>

locale fee_sink = hold_ledger +
  fixes D :: "'c list \<Rightarrow> 'b \<Rightarrow> 'b"
  assumes sink_wf: "wf b \<Longrightarrow> wf (D cs b)"
    and sink_held: "wf b \<Longrightarrow> held B r a (D cs b) = held B r a b"

locale burning_sink = fee_sink +
  assumes sink_total: "wf b \<Longrightarrow> total a (D cs b) = total a b"

end
