(* ===== verification/Sponsor_Pallet.thy ===== *)
theory Sponsor_Pallet
  imports Frame_Interface
begin

text \<open>
  The sponsored-tx pallet (\<^verbatim>\<open>pallets/sponsored-tx/src/lib.rs\<close>): its seven dispatchables and
  the helper functions they and the transaction extension call, one definition per Rust function
  and in the order of its checks.  \<open>T\<close> is the pallet's configuration.  The lemmas give the
  result of every dispatchable on every branch, over the laws of the balances pallet.
\<close>

section \<open>Helpers of the pallet\<close>

definition budget_hold_reason :: "'r RuntimeHoldReason" where
  "budget_hold_reason = SponsoredTxHold SponsorshipBudget"

definition pending_hold_reason :: "'r RuntimeHoldReason" where
  "pending_hold_reason = SponsoredTxHold SponsorshipPending"

definition budget_on_hold ::
  "('acc, 'w::len word, 'c, 'e, 'r, 'b, 'o) Config \<Rightarrow> 'acc \<Rightarrow> ('acc, 'w word, 'b) chain \<Rightarrow> 'w word"
where
  "budget_on_hold T who s = balance_on_hold (Balances T) budget_hold_reason who (ledger s)"

definition pending_on_hold ::
  "('acc, 'w::len word, 'c, 'e, 'r, 'b, 'o) Config \<Rightarrow> 'acc \<Rightarrow> ('acc, 'w word, 'b) chain \<Rightarrow> 'w word"
where
  "pending_on_hold T who s = balance_on_hold (Balances T) pending_hold_reason who (ledger s)"

definition sponsor_state ::
  "'acc \<Rightarrow> ('acc, 'n, 'b) chain \<Rightarrow> ('acc, 'n) SponsorState option"
where
  "sponsor_state who s = Sponsors s who"

text \<open>The origin check and a call into the balances pallet, with their errors as \<open>DispatchError\<close>.\<close>

definition signed_by ::
  "('acc, 'n, 'c, 'e, 'r, 'b, 'o) Config \<Rightarrow> 'o \<Rightarrow> ('s, 'e DispatchError, 'acc) op"
where
  "signed_by T origin = of_result (map_sum SystemError id (ensure_signed T origin))"

definition balances_call ::
  "('b, 'e, 'a) op \<Rightarrow> (('acc, 'n, 'b) chain, 'e DispatchError, 'a) op"
where
  "balances_call m = map_err SystemError (on_ledger m)"

text \<open>
  \<open>Sponsors::try_mutate\<close>: the closure sees the stored value, and what it leaves is written
  back only when it returns \<open>Ok\<close>.
\<close>

definition try_mutate ::
  "'acc \<Rightarrow> (('acc, 'n) SponsorState option \<Rightarrow> 'e + ('acc, 'n) SponsorState option)
     \<Rightarrow> (('acc, 'n, 'b) chain, 'e, unit) op"
where
  "try_mutate who f s = (case f (Sponsors s who) of
       Inl e \<Rightarrow> (Inl e, s)
     | Inr v \<Rightarrow> (Inr (), s\<lparr>Sponsors := (Sponsors s)(who := v)\<rparr>))"

definition ensure_registered :: "'acc \<Rightarrow> (('acc, 'n, 'b) chain, 'e DispatchError, unit) op" where
  "ensure_registered who = ensure_state (\<lambda>s. Sponsors s who \<noteq> None) (ModuleError NotRegistered)"

text \<open>The loop of \<open>ensure_valid_policy\<close>: each caller against the callers after it.\<close>

fun duplicate_loop :: "'acc list \<Rightarrow> (nat \<times> 'acc) list \<Rightarrow> Error + unit" where
  "duplicate_loop callers [] = Inr ()"
| "duplicate_loop callers ((idx, caller) # rest) =
     (if list_ex (\<lambda>other. other = caller) (drop (idx + 1) callers)
      then Inl DuplicateAllowedCaller
      else duplicate_loop callers rest)"

definition ensure_valid_policy :: "('acc, 'n) SponsorPolicy \<Rightarrow> Error + unit" where
  "ensure_valid_policy p =
     (if allowed_callers p = [] then Inl EmptyAllowlist
      else duplicate_loop (allowed_callers p) (List.enumerate 0 (allowed_callers p)))"

section \<open>Dispatchables\<close>

definition register_sponsor ::
  "('acc, 'w::len word, 'c, 'e, 'r, 'b, 'o) Config \<Rightarrow> 'o \<Rightarrow> 'w word \<Rightarrow> ('acc, 'w word) SponsorPolicy
     \<Rightarrow> (('acc, 'w word, 'b) chain, 'e DispatchError, unit) op"
where
  "register_sponsor T origin initial_budget p =
     and_then (signed_by T origin) (\<lambda>sponsor.
     and_then (ensure (initial_budget \<noteq> 0) (ModuleError ZeroBudget)) (\<lambda>_.
     and_then (ensure_state (\<lambda>s. Sponsors s sponsor = None) (ModuleError AlreadyRegistered)) (\<lambda>_.
     and_then (of_result (map_sum ModuleError id (ensure_valid_policy p))) (\<lambda>_.
     and_then (balances_call (hold (Balances T) budget_hold_reason sponsor initial_budget)) (\<lambda>_.
     and_then (modify (\<lambda>s. s\<lparr>Sponsors := (Sponsors s)(sponsor \<mapsto> \<lparr>active = True, policy = p\<rparr>)\<rparr>)) (\<lambda>_.
     and_then (modify (deposit_event (SponsorRegistered sponsor initial_budget))) ok))))))"

definition increase_budget ::
  "('acc, 'w::len word, 'c, 'e, 'r, 'b, 'o) Config \<Rightarrow> 'o \<Rightarrow> 'w word
     \<Rightarrow> (('acc, 'w word, 'b) chain, 'e DispatchError, unit) op"
where
  "increase_budget T origin amount =
     and_then (signed_by T origin) (\<lambda>sponsor.
     and_then (ensure (amount \<noteq> 0) (ModuleError ZeroBudget)) (\<lambda>_.
     and_then (ensure_registered sponsor) (\<lambda>_.
     and_then (balances_call (hold (Balances T) budget_hold_reason sponsor amount)) (\<lambda>_.
     and_then (gets (budget_on_hold T sponsor)) (\<lambda>new_budget.
     and_then (modify (deposit_event (BudgetIncreased sponsor amount new_budget))) ok)))))"

definition decrease_budget ::
  "('acc, 'w::len word, 'c, 'e, 'r, 'b, 'o) Config \<Rightarrow> 'o \<Rightarrow> 'w word
     \<Rightarrow> (('acc, 'w word, 'b) chain, 'e DispatchError, unit) op"
where
  "decrease_budget T origin amount =
     and_then (signed_by T origin) (\<lambda>sponsor.
     and_then (ensure (amount \<noteq> 0) (ModuleError ZeroBudget)) (\<lambda>_.
     and_then (ensure_registered sponsor) (\<lambda>_.
     and_then (ensure_state (\<lambda>s. amount \<le> budget_on_hold T sponsor s)
                 (ModuleError InsufficientAvailableBudget)) (\<lambda>_.
     and_then (balances_call (release (Balances T) budget_hold_reason sponsor amount Exact)) (\<lambda>_.
     and_then (gets (budget_on_hold T sponsor)) (\<lambda>new_budget.
     and_then (modify (deposit_event (BudgetDecreased sponsor amount new_budget))) ok))))))"

definition set_policy ::
  "('acc, 'w::len word, 'c, 'e, 'r, 'b, 'o) Config \<Rightarrow> 'o \<Rightarrow> ('acc, 'w word) SponsorPolicy
     \<Rightarrow> (('acc, 'w word, 'b) chain, 'e DispatchError, unit) op"
where
  "set_policy T origin p =
     and_then (signed_by T origin) (\<lambda>sponsor.
     and_then (of_result (map_sum ModuleError id (ensure_valid_policy p))) (\<lambda>_.
     and_then (try_mutate sponsor (\<lambda>state. case state of
          None \<Rightarrow> Inl (ModuleError NotRegistered)
        | Some st \<Rightarrow> Inr (Some (st\<lparr>policy := p\<rparr>)))) (\<lambda>_.
     and_then (modify (deposit_event (SponsorPolicyUpdated sponsor))) ok)))"

definition pause ::
  "('acc, 'w::len word, 'c, 'e, 'r, 'b, 'o) Config \<Rightarrow> 'o
     \<Rightarrow> (('acc, 'w word, 'b) chain, 'e DispatchError, unit) op"
where
  "pause T origin =
     and_then (signed_by T origin) (\<lambda>sponsor.
     and_then (try_mutate sponsor (\<lambda>state. case state of
          None \<Rightarrow> Inl (ModuleError NotRegistered)
        | Some st \<Rightarrow> if active st then Inr (Some (st\<lparr>active := False\<rparr>))
                     else Inl (ModuleError AlreadyPaused))) (\<lambda>_.
     and_then (modify (deposit_event (SponsorPaused sponsor))) ok))"

definition resume ::
  "('acc, 'w::len word, 'c, 'e, 'r, 'b, 'o) Config \<Rightarrow> 'o
     \<Rightarrow> (('acc, 'w word, 'b) chain, 'e DispatchError, unit) op"
where
  "resume T origin =
     and_then (signed_by T origin) (\<lambda>sponsor.
     and_then (try_mutate sponsor (\<lambda>state. case state of
          None \<Rightarrow> Inl (ModuleError NotRegistered)
        | Some st \<Rightarrow> if \<not> active st then Inr (Some (st\<lparr>active := True\<rparr>))
                     else Inl (ModuleError AlreadyActive))) (\<lambda>_.
     and_then (modify (deposit_event (SponsorResumed sponsor))) ok))"

definition unregister ::
  "('acc, 'w::len word, 'c, 'e, 'r, 'b, 'o) Config \<Rightarrow> 'o
     \<Rightarrow> (('acc, 'w word, 'b) chain, 'e DispatchError, unit) op"
where
  "unregister T origin =
     and_then (signed_by T origin) (\<lambda>sponsor.
     and_then (ensure_registered sponsor) (\<lambda>_.
     and_then (ensure_state (\<lambda>s. pending_on_hold T sponsor s = 0)
                 (ModuleError PendingBudgetNotEmpty)) (\<lambda>_.
     and_then (gets (budget_on_hold T sponsor)) (\<lambda>budget.
     and_then (if budget \<noteq> 0
               then and_then (balances_call
                      (release (Balances T) budget_hold_reason sponsor budget Exact)) (\<lambda>_. ok ())
               else ok ()) (\<lambda>_.
     and_then (modify (\<lambda>s. s\<lparr>Sponsors := (Sponsors s)(sponsor := None)\<rparr>)) (\<lambda>_.
     and_then (modify (deposit_event (SponsorUnregistered sponsor))) ok))))))"

section \<open>Hold movements around a sponsored transaction\<close>

text \<open>
  \<open>move_budget_to_pending\<close> runs outside a storage layer: when the second step fails, the
  first one has happened.
\<close>

definition move_budget_to_pending ::
  "('acc, 'w::len word, 'c, 'e, 'r, 'b, 'o) Config \<Rightarrow> 'acc \<Rightarrow> 'w word
     \<Rightarrow> (('acc, 'w word, 'b) chain, 'v TransactionValidityError, unit) op"
where
  "move_budget_to_pending T who amount =
     and_then (map_err (\<lambda>_. Payment)
                 (on_ledger (release (Balances T) budget_hold_reason who amount Exact))) (\<lambda>_.
     and_then (map_err (\<lambda>_. Payment)
                 (on_ledger (hold (Balances T) pending_hold_reason who amount))) (\<lambda>_. ok ()))"

definition restore_pending_to_budget ::
  "('acc, 'w::len word, 'c, 'e, 'r, 'b, 'o) Config \<Rightarrow> 'acc
     \<Rightarrow> ('acc, 'w word, 'b) chain \<Rightarrow> ('acc, 'w word, 'b) chain"
where
  "restore_pending_to_budget T who s =
     (let pending = pending_on_hold T who s in
      if pending = 0 then s
      else (case on_ledger (release (Balances T) pending_hold_reason who pending BestEffort) s of
          (Inl _, t) \<Rightarrow> t
        | (Inr released, t) \<Rightarrow>
            if released = 0 then t
            else snd (on_ledger (hold (Balances T) budget_hold_reason who released) t)))"

section \<open>The call enum and its dispatch\<close>

datatype ('acc, 'n) Call =
    register_sponsor_call 'n "('acc, 'n) SponsorPolicy"
  | increase_budget_call 'n
  | decrease_budget_call 'n
  | set_policy_call "('acc, 'n) SponsorPolicy"
  | pause_call
  | resume_call
  | unregister_call

text \<open>The body of each call, and its dispatch inside the storage layer FRAME puts around it.\<close>

fun call_body ::
  "('acc, 'w::len word, 'c, 'e, 'r, 'b, 'o) Config \<Rightarrow> 'o \<Rightarrow> ('acc, 'w word) Call
     \<Rightarrow> (('acc, 'w word, 'b) chain, 'e DispatchError, unit) op"
where
  "call_body T origin (register_sponsor_call n p) = register_sponsor T origin n p"
| "call_body T origin (increase_budget_call n) = increase_budget T origin n"
| "call_body T origin (decrease_budget_call n) = decrease_budget T origin n"
| "call_body T origin (set_policy_call p) = set_policy T origin p"
| "call_body T origin pause_call = pause T origin"
| "call_body T origin resume_call = resume T origin"
| "call_body T origin unregister_call = unregister T origin"

definition dispatch_call ::
  "('acc, 'w::len word, 'c, 'e, 'r, 'b, 'o) Config \<Rightarrow> 'o \<Rightarrow> ('acc, 'w word) Call
     \<Rightarrow> (('acc, 'w word, 'b) chain, 'e DispatchError, unit) op"
where
  "dispatch_call T origin c = with_storage_layer (call_body T origin c)"

section \<open>Policy validation\<close>

lemma duplicate_loop_enumerate:
  "duplicate_loop (xs @ ys) (List.enumerate (length xs) ys) =
     (if distinct ys then Inr () else Inl DuplicateAllowedCaller)"
proof (induction ys arbitrary: xs)
  case Nil
  then show ?case by simp
next
  case (Cons y ys)
  have "duplicate_loop (xs @ y # ys) (List.enumerate (Suc (length xs)) ys) =
      (if distinct ys then Inr () else Inl DuplicateAllowedCaller)"
    using Cons [of "xs @ [y]"] by simp
  then show ?case by (auto simp: list_ex_iff)
qed

text \<open>The pairwise loop decides whether the allowlist is free of duplicates.\<close>

lemma ensure_valid_policy_eq:
  "ensure_valid_policy p =
     (if allowed_callers p = [] then Inl EmptyAllowlist
      else if distinct (allowed_callers p) then Inr ()
      else Inl DuplicateAllowedCaller)"
  using duplicate_loop_enumerate [of "[]" "allowed_callers p"]
  by (simp add: ensure_valid_policy_def)

definition valid_policy :: "('acc, 'n) SponsorPolicy \<Rightarrow> bool" where
  "valid_policy p \<longleftrightarrow> allowed_callers p \<noteq> [] \<and> distinct (allowed_callers p)"

lemma ensure_valid_policy_Inr: "ensure_valid_policy p = Inr u \<longleftrightarrow> valid_policy p"
  by (auto simp: ensure_valid_policy_eq valid_policy_def)

section \<open>Runs of the dispatchables\<close>

lemma reason_distinct [simp]:
  "budget_hold_reason \<noteq> pending_hold_reason"
  "pending_hold_reason \<noteq> budget_hold_reason"
  "OtherHold r \<noteq> budget_hold_reason" "OtherHold r \<noteq> pending_hold_reason"
  "budget_hold_reason \<noteq> OtherHold r" "pending_hold_reason \<noteq> OtherHold r"
  by (simp_all add: budget_hold_reason_def pending_hold_reason_def)

lemma signed_by_Inr [op_simps]:
  "signed_by T origin s = (Inr who, t) \<longleftrightarrow> ensure_signed T origin = Inr who \<and> t = s"
  by (cases "ensure_signed T origin") (auto simp: signed_by_def of_result_def)

lemma signed_by_known: "ensure_signed T origin = Inr who \<Longrightarrow> signed_by T origin s = (Inr who, s)"
  by (simp add: signed_by_def of_result_def)

lemma balances_call_Inr [op_simps]:
  "balances_call m s = (Inr x, t) \<longleftrightarrow> (\<exists>b. m (ledger s) = (Inr x, b) \<and> t = s\<lparr>ledger := b\<rparr>)"
  by (simp add: balances_call_def op_simps)

lemma balances_call_Inl [op_simps]:
  "balances_call m s = (Inl d, t) \<longleftrightarrow>
     (\<exists>e b. m (ledger s) = (Inl e, b) \<and> d = SystemError e \<and> t = s\<lparr>ledger := b\<rparr>)"
  by (auto simp: balances_call_def op_simps)

lemma try_mutate_run [op_simps]:
  "try_mutate who f s = (Inr u, t) \<longleftrightarrow>
     (\<exists>v. f (Sponsors s who) = Inr v \<and> t = s\<lparr>Sponsors := (Sponsors s)(who := v)\<rparr>)"
  "try_mutate who f s = (Inl e, t) \<longleftrightarrow> f (Sponsors s who) = Inl e \<and> t = s"
  by (auto simp: try_mutate_def split: sum.splits)

lemmas dispatchable_defs =
  register_sponsor_def increase_budget_def decrease_budget_def set_policy_def
  pause_def resume_def unregister_def ensure_registered_def

lemma register_sponsor_run:
  assumes "ensure_signed T origin = Inr who"
  shows "register_sponsor T origin n p s =
    (if n = 0 then (Inl (ModuleError ZeroBudget), s)
     else if Sponsors s who \<noteq> None then (Inl (ModuleError AlreadyRegistered), s)
     else (case ensure_valid_policy p of
         Inl e \<Rightarrow> (Inl (ModuleError e), s)
       | Inr _ \<Rightarrow> (case hold (Balances T) budget_hold_reason who n (ledger s) of
           (Inl e, b) \<Rightarrow> (Inl (SystemError e), s\<lparr>ledger := b\<rparr>)
         | (Inr _, b) \<Rightarrow> (Inr (), deposit_event (SponsorRegistered who n)
             (s\<lparr>Sponsors := (Sponsors s)(who \<mapsto> \<lparr>active = True, policy = p\<rparr>), ledger := b\<rparr>)))))"
  using assms
  by (cases "ensure_valid_policy p")
    (auto simp: register_sponsor_def signed_by_def balances_call_def map_err_def on_ledger_def
      and_then_def op_run_defs split: sum.splits prod.splits)

lemma increase_budget_run:
  assumes "ensure_signed T origin = Inr who"
  shows "increase_budget T origin n s =
    (if n = 0 then (Inl (ModuleError ZeroBudget), s)
     else if Sponsors s who = None then (Inl (ModuleError NotRegistered), s)
     else (case hold (Balances T) budget_hold_reason who n (ledger s) of
         (Inl e, b) \<Rightarrow> (Inl (SystemError e), s\<lparr>ledger := b\<rparr>)
       | (Inr _, b) \<Rightarrow> (Inr (), deposit_event
           (BudgetIncreased who n (budget_on_hold T who (s\<lparr>ledger := b\<rparr>))) (s\<lparr>ledger := b\<rparr>))))"
  using assms
  by (auto simp: increase_budget_def ensure_registered_def signed_by_def balances_call_def
      map_err_def on_ledger_def and_then_def op_run_defs split: sum.splits prod.splits)

lemma decrease_budget_run:
  assumes "ensure_signed T origin = Inr who"
  shows "decrease_budget T origin n s =
    (if n = 0 then (Inl (ModuleError ZeroBudget), s)
     else if Sponsors s who = None then (Inl (ModuleError NotRegistered), s)
     else if budget_on_hold T who s < n then (Inl (ModuleError InsufficientAvailableBudget), s)
     else (case release (Balances T) budget_hold_reason who n Exact (ledger s) of
         (Inl e, b) \<Rightarrow> (Inl (SystemError e), s\<lparr>ledger := b\<rparr>)
       | (Inr _, b) \<Rightarrow> (Inr (), deposit_event
           (BudgetDecreased who n (budget_on_hold T who (s\<lparr>ledger := b\<rparr>))) (s\<lparr>ledger := b\<rparr>))))"
  using assms
  by (auto simp: decrease_budget_def ensure_registered_def signed_by_def balances_call_def
      map_err_def on_ledger_def and_then_def op_run_defs split: sum.splits prod.splits)

lemma set_policy_run:
  assumes "ensure_signed T origin = Inr who"
  shows "set_policy T origin p s =
    (case ensure_valid_policy p of
       Inl e \<Rightarrow> (Inl (ModuleError e), s)
     | Inr _ \<Rightarrow> (case Sponsors s who of
         None \<Rightarrow> (Inl (ModuleError NotRegistered), s)
       | Some st \<Rightarrow> (Inr (), deposit_event (SponsorPolicyUpdated who)
           (s\<lparr>Sponsors := (Sponsors s)(who \<mapsto> st\<lparr>policy := p\<rparr>)\<rparr>))))"
  using assms
  by (cases "ensure_valid_policy p")
    (auto simp: set_policy_def try_mutate_def signed_by_def and_then_def op_run_defs
      split: sum.splits option.splits)

lemma pause_run:
  assumes "ensure_signed T origin = Inr who"
  shows "pause T origin s =
    (case Sponsors s who of
       None \<Rightarrow> (Inl (ModuleError NotRegistered), s)
     | Some st \<Rightarrow> if active st
         then (Inr (), deposit_event (SponsorPaused who)
                (s\<lparr>Sponsors := (Sponsors s)(who \<mapsto> st\<lparr>active := False\<rparr>)\<rparr>))
         else (Inl (ModuleError AlreadyPaused), s))"
  using assms
  by (auto simp: pause_def try_mutate_def signed_by_def and_then_def op_run_defs
      split: sum.splits option.splits)

lemma resume_run:
  assumes "ensure_signed T origin = Inr who"
  shows "resume T origin s =
    (case Sponsors s who of
       None \<Rightarrow> (Inl (ModuleError NotRegistered), s)
     | Some st \<Rightarrow> if active st then (Inl (ModuleError AlreadyActive), s)
         else (Inr (), deposit_event (SponsorResumed who)
                (s\<lparr>Sponsors := (Sponsors s)(who \<mapsto> st\<lparr>active := True\<rparr>)\<rparr>)))"
  using assms
  by (auto simp: resume_def try_mutate_def signed_by_def and_then_def op_run_defs
      split: sum.splits option.splits)

lemma unregister_run:
  assumes "ensure_signed T origin = Inr who"
  shows "unregister T origin s =
    (if Sponsors s who = None then (Inl (ModuleError NotRegistered), s)
     else if pending_on_hold T who s \<noteq> 0 then (Inl (ModuleError PendingBudgetNotEmpty), s)
     else if budget_on_hold T who s = 0
     then (Inr (), deposit_event (SponsorUnregistered who) (s\<lparr>Sponsors := (Sponsors s)(who := None)\<rparr>))
     else (case release (Balances T) budget_hold_reason who (budget_on_hold T who s) Exact (ledger s) of
         (Inl e, b) \<Rightarrow> (Inl (SystemError e), s\<lparr>ledger := b\<rparr>)
       | (Inr _, b) \<Rightarrow> (Inr (), deposit_event (SponsorUnregistered who)
           (s\<lparr>Sponsors := (Sponsors s)(who := None), ledger := b\<rparr>))))"
  using assms
  by (auto simp: unregister_def ensure_registered_def signed_by_def balances_call_def
      map_err_def on_ledger_def and_then_def op_run_defs split: sum.splits prod.splits)

lemmas dispatchable_runs =
  register_sponsor_run increase_budget_run decrease_budget_run set_policy_run
  pause_run resume_run unregister_run

text \<open>An unsigned origin is refused by every call, with the error of \<open>ensure_signed\<close>.\<close>

lemma call_body_unsigned:
  "ensure_signed T origin = Inl e \<Longrightarrow> call_body T origin c s = (Inl (SystemError e), s)"
  by (cases c) (simp_all add: dispatchable_defs signed_by_def and_then_def op_run_defs)

end
