(* ===== verification/Sponsor_Spec.thy ===== *)
theory Sponsor_Spec
  imports Sponsor_Pallet
begin

text \<open>
  What the pallet promises, without the balances pallet: every account has a registration, an
  available budget and a pending reservation, and each call is a guarded update of the caller's
  entry (\<open>spec_call\<close>).  The lemmas of the locale \<open>sponsor_config\<close>, a pallet
  configuration whose balances pallet and fee destination keep their contracts, show that the
  dispatchables refine this specification through the view \<open>view\<close> of the chain state.
\<close>

section \<open>The abstract escrow\<close>

record ('acc, 'n) escrow =
  registration :: "('acc, 'n) SponsorState option"
  budget :: nat
  pending :: nat

definition view ::
  "('acc, 'w::len word, 'c, 'e, 'r, 'b, 'o) Config \<Rightarrow> ('acc, 'w word, 'b) chain
     \<Rightarrow> 'acc \<Rightarrow> ('acc, 'w word) escrow"
where
  "view T s a = \<lparr>registration = Sponsors s a,
                 budget = unat (budget_on_hold T a s),
                 pending = unat (pending_on_hold T a s)\<rparr>"

lemma view_sel [simp]:
  "registration (view T s a) = Sponsors s a"
  "budget (view T s a) = unat (budget_on_hold T a s)"
  "pending (view T s a) = unat (pending_on_hold T a s)"
  by (simp_all add: view_def)

lemma hold_sel:
  "unat (budget_on_hold T a s) = held (Balances T) budget_hold_reason a (ledger s)"
  "unat (pending_on_hold T a s) = held (Balances T) pending_hold_reason a (ledger s)"
  by (simp_all add: budget_on_hold_def pending_on_hold_def held_def)

lemma on_hold_frame [simp]:
  "budget_on_hold T a (deposit_event ev s) = budget_on_hold T a s"
  "pending_on_hold T a (deposit_event ev s) = pending_on_hold T a s"
  "budget_on_hold T a (s\<lparr>Sponsors := m\<rparr>) = budget_on_hold T a s"
  "pending_on_hold T a (s\<lparr>Sponsors := m\<rparr>) = pending_on_hold T a s"
  "budget_on_hold T a (s\<lparr>events := es\<rparr>) = budget_on_hold T a s"
  "pending_on_hold T a (s\<lparr>events := es\<rparr>) = pending_on_hold T a s"
  by (simp_all add: budget_on_hold_def pending_on_hold_def)

lemma view_deposit_event [simp]: "view T (deposit_event ev s) = view T s"
  by (rule ext) (simp add: view_def)

fun spec_call ::
  "'acc \<Rightarrow> ('acc, 'w::len word) Call \<Rightarrow> ('acc \<Rightarrow> ('acc, 'w word) escrow)
     \<Rightarrow> Error + ('acc \<Rightarrow> ('acc, 'w word) escrow)"
where
  "spec_call who (register_sponsor_call n p) v =
     (if n = 0 then Inl ZeroBudget
      else if registration (v who) \<noteq> None then Inl AlreadyRegistered
      else if allowed_callers p = [] then Inl EmptyAllowlist
      else if \<not> distinct (allowed_callers p) then Inl DuplicateAllowedCaller
      else Inr (v(who := (v who)\<lparr>registration := Some \<lparr>active = True, policy = p\<rparr>,
                                 budget := budget (v who) + unat n\<rparr>)))"
| "spec_call who (increase_budget_call n) v =
     (if n = 0 then Inl ZeroBudget
      else if registration (v who) = None then Inl NotRegistered
      else Inr (v(who := (v who)\<lparr>budget := budget (v who) + unat n\<rparr>)))"
| "spec_call who (decrease_budget_call n) v =
     (if n = 0 then Inl ZeroBudget
      else if registration (v who) = None then Inl NotRegistered
      else if budget (v who) < unat n then Inl InsufficientAvailableBudget
      else Inr (v(who := (v who)\<lparr>budget := budget (v who) - unat n\<rparr>)))"
| "spec_call who (set_policy_call p) v =
     (if allowed_callers p = [] then Inl EmptyAllowlist
      else if \<not> distinct (allowed_callers p) then Inl DuplicateAllowedCaller
      else (case registration (v who) of
          None \<Rightarrow> Inl NotRegistered
        | Some st \<Rightarrow> Inr (v(who := (v who)\<lparr>registration := Some (st\<lparr>policy := p\<rparr>)\<rparr>))))"
| "spec_call who pause_call v = (case registration (v who) of
        None \<Rightarrow> Inl NotRegistered
      | Some st \<Rightarrow> if active st
          then Inr (v(who := (v who)\<lparr>registration := Some (st\<lparr>active := False\<rparr>)\<rparr>))
          else Inl AlreadyPaused)"
| "spec_call who resume_call v = (case registration (v who) of
        None \<Rightarrow> Inl NotRegistered
      | Some st \<Rightarrow> if active st then Inl AlreadyActive
          else Inr (v(who := (v who)\<lparr>registration := Some (st\<lparr>active := True\<rparr>)\<rparr>)))"
| "spec_call who unregister_call v =
     (if registration (v who) = None then Inl NotRegistered
      else if pending (v who) \<noteq> 0 then Inl PendingBudgetNotEmpty
      else Inr (v(who := \<lparr>registration = None, budget = 0, pending = 0\<rparr>)))"

text \<open>
  A result \<open>r\<close> and state \<open>t\<close> implement the specification of call \<open>c\<close> from
  \<open>s\<close>: the specified error and no change, or the specified update, or an error of the
  balances pallet and no change.
\<close>

definition implements_call ::
  "('acc, 'w::len word, 'c, 'e, 'r, 'b, 'o) Config \<Rightarrow> 'acc \<Rightarrow> ('acc, 'w word) Call
     \<Rightarrow> ('acc, 'w word, 'b) chain \<Rightarrow> ('e DispatchError + unit) \<times> ('acc, 'w word, 'b) chain \<Rightarrow> bool"
where
  "implements_call T who c s rt \<longleftrightarrow>
     (case spec_call who c (view T s) of
        Inl e \<Rightarrow> rt = (Inl (ModuleError e), s)
      | Inr v \<Rightarrow> fst rt = Inr () \<and> view T (snd rt) = v \<or> (\<exists>e. rt = (Inl (SystemError e), s)))"

text \<open>
  A sound escrow: a registered account has a policy with a non-empty allowlist free of
  duplicates, and an account that is not registered has no funds in escrow.
\<close>

definition entry_sound :: "('acc, 'n) escrow \<Rightarrow> bool" where
  "entry_sound x \<longleftrightarrow> (case registration x of
       None \<Rightarrow> budget x = 0 \<and> pending x = 0
     | Some st \<Rightarrow> valid_policy (policy st))"

definition escrow_sound :: "('acc \<Rightarrow> ('acc, 'n) escrow) \<Rightarrow> bool" where
  "escrow_sound v \<longleftrightarrow> (\<forall>a. entry_sound (v a))"

lemma escrow_sound_upd:
  assumes "escrow_sound v" and "entry_sound x"
  shows "escrow_sound (v(a := x))"
  using assms by (simp add: escrow_sound_def)

lemma escrow_sound_at:
  "escrow_sound v \<Longrightarrow> registration (v a) = Some st \<Longrightarrow> valid_policy (policy st)"
  "escrow_sound v \<Longrightarrow> registration (v a) = None \<Longrightarrow> budget (v a) = 0"
  "escrow_sound v \<Longrightarrow> registration (v a) = None \<Longrightarrow> pending (v a) = 0"
  by (auto simp: escrow_sound_def entry_sound_def dest: spec [of _ a])

lemma spec_call_sound:
  assumes "escrow_sound v" and "spec_call who c v = Inr v'"
  shows "escrow_sound v'"
  using assms(2) escrow_sound_at [OF assms(1), of who]
  by (cases c; cases "registration (v who)")
    (auto simp: valid_policy_def entry_sound_def intro!: escrow_sound_upd [OF assms(1)] split: if_splits)

lemma spec_call_pending:
  assumes "spec_call who c v = Inr v'"
  shows "pending (v' a) = pending (v a)"
  using assms by (cases c) (auto split: if_splits option.splits)

lemma spec_call_others:
  assumes "spec_call who c v = Inr v'" and "a \<noteq> who"
  shows "v' a = v a"
  using assms by (cases c) (auto split: if_splits option.splits)

text \<open>The event a successful call deposits.\<close>

fun call_event ::
  "('acc, 'w::len word, 'c, 'e, 'r, 'b, 'o) Config \<Rightarrow> 'acc \<Rightarrow> ('acc, 'w word) Call
     \<Rightarrow> ('acc, 'w word, 'b) chain \<Rightarrow> ('acc, 'w word) Event"
where
  "call_event T who (register_sponsor_call n p) t = SponsorRegistered who n"
| "call_event T who (increase_budget_call n) t = BudgetIncreased who n (budget_on_hold T who t)"
| "call_event T who (decrease_budget_call n) t = BudgetDecreased who n (budget_on_hold T who t)"
| "call_event T who (set_policy_call p) t = SponsorPolicyUpdated who"
| "call_event T who pause_call t = SponsorPaused who"
| "call_event T who resume_call t = SponsorResumed who"
| "call_event T who unregister_call t = SponsorUnregistered who"

lemma dispatch_event:
  assumes "ensure_signed T origin = Inr who" and "dispatch_call T origin c s = (Inr u, t)"
  shows "events t = events s @ [call_event T who c t]"
proof -
  have "call_body T origin c s = (Inr u, t)"
    using assms(2) by (simp add: dispatch_call_def op_simps)
  then show ?thesis
    by (cases c) (auto simp: dispatchable_runs [OF assms(1)]
        split: if_splits sum.splits prod.splits option.splits)
qed

lemma dispatch_failure: "dispatch_call T origin c s = (Inl e, t) \<Longrightarrow> t = s"
  by (simp add: dispatch_call_def op_simps)

lemma dispatch_signed:
  assumes "dispatch_call T origin c s = (Inr u, t)"
  obtains who where "ensure_signed T origin = Inr who"
proof (cases "ensure_signed T origin")
  case (Inl e)
  with assms show ?thesis by (simp add: dispatch_call_def op_simps call_body_unsigned)
qed (rule that)

section \<open>The ledger after a call\<close>

text \<open>
  Whatever a call returns, the balances storage is as before, or went through one successful
  hold or one successful exact release of the budget reason.
\<close>

lemma dispatch_ledger:
  assumes "dispatch_call T origin c s = (r, t)"
  shows "ledger t = ledger s
    \<or> (\<exists>a n. hold (Balances T) budget_hold_reason a n (ledger s) = (Inr (), ledger t))
    \<or> (\<exists>a n m. release (Balances T) budget_hold_reason a n Exact (ledger s) = (Inr m, ledger t))"
proof (cases r)
  case (Inl e)
  with assms show ?thesis by (auto simp: dispatch_call_def op_simps)
next
  case (Inr u)
  with assms have run: "call_body T origin c s = (Inr u, t)"
    by (simp add: dispatch_call_def op_simps)
  then obtain who where who: "ensure_signed T origin = Inr who"
    using call_body_unsigned by (cases "ensure_signed T origin") fastforce+
  show ?thesis
    using run
    by (cases c) (auto simp: dispatchable_runs [OF who] split: if_splits sum.splits prod.splits option.splits)
qed

section \<open>A configuration that keeps its contracts\<close>

locale sponsor_config = fee_sink "Balances T" wf total peek "FeeDestination T"
  for T :: "('acc, 'w::len word, 'c, 'e, 'r, 'b, 'o) Config"
    and wf :: "'b \<Rightarrow> bool"
    and total :: "'acc \<Rightarrow> 'b \<Rightarrow> nat"
    and peek :: "'c \<Rightarrow> 'w word"
begin

lemma view_hold_budget:
  assumes "wf (ledger s)" and "hold (Balances T) budget_hold_reason who n (ledger s) = (Inr u, b)"
  shows "view T (s\<lparr>ledger := b\<rparr>) = (view T s)(who := (view T s who)\<lparr>budget := budget (view T s who) + unat n\<rparr>)"
  using hold_held [OF assms] by (auto simp: fun_eq_iff view_def hold_sel at_hold_def)

lemma view_release_budget:
  assumes "wf (ledger s)"
    and "release (Balances T) budget_hold_reason who n p (ledger s) = (Inr m, b)"
  shows "view T (s\<lparr>ledger := b\<rparr>) = (view T s)(who := (view T s who)\<lparr>budget := budget (view T s who) - unat m\<rparr>)"
  using release_held [OF assms] by (auto simp: fun_eq_iff view_def hold_sel at_hold_def)

lemma view_Sponsors:
  "view T (s\<lparr>Sponsors := (Sponsors s)(who := x)\<rparr>) =
     (view T s)(who := (view T s who)\<lparr>registration := x\<rparr>)"
  by (auto simp: view_def fun_eq_iff)

lemma view_both:
  "view T (s\<lparr>Sponsors := (Sponsors s)(who := x), ledger := b\<rparr>) =
     (view T (s\<lparr>ledger := b\<rparr>))(who := (view T (s\<lparr>ledger := b\<rparr>) who)\<lparr>registration := x\<rparr>)"
  by (auto simp: view_def fun_eq_iff budget_on_hold_def pending_on_hold_def)

lemmas view_updates = view_Sponsors view_both view_hold_budget view_release_budget

lemma register_sponsor_refines:
  assumes "wf (ledger s)" and "ensure_signed T origin = Inr who"
  shows "implements_call T who (register_sponsor_call n p) s
    (dispatch_call T origin (register_sponsor_call n p) s)"
  using assms
  by (auto simp: implements_call_def dispatch_call_def with_storage_layer_def register_sponsor_run
      ensure_valid_policy_eq view_updates split: sum.splits prod.splits)

lemma increase_budget_refines:
  assumes "wf (ledger s)" and "ensure_signed T origin = Inr who"
  shows "implements_call T who (increase_budget_call n) s
    (dispatch_call T origin (increase_budget_call n) s)"
  using assms
  by (auto simp: implements_call_def dispatch_call_def with_storage_layer_def increase_budget_run
      view_updates split: sum.splits prod.splits)

lemma decrease_budget_refines:
  assumes "wf (ledger s)" and "ensure_signed T origin = Inr who"
  shows "implements_call T who (decrease_budget_call n) s
    (dispatch_call T origin (decrease_budget_call n) s)"
  using assms release_exact [of "ledger s" budget_hold_reason who n]
  by (auto simp: implements_call_def dispatch_call_def with_storage_layer_def decrease_budget_run
      view_updates word_less_nat_alt split: sum.splits prod.splits)

lemma set_policy_refines:
  assumes "ensure_signed T origin = Inr who"
  shows "implements_call T who (set_policy_call p) s (dispatch_call T origin (set_policy_call p) s)"
  using assms
  by (auto simp: implements_call_def dispatch_call_def with_storage_layer_def set_policy_run
      ensure_valid_policy_eq view_updates split: sum.splits option.splits)

lemma pause_refines:
  assumes "ensure_signed T origin = Inr who"
  shows "implements_call T who pause_call s (dispatch_call T origin pause_call s)"
  using assms
  by (auto simp: implements_call_def dispatch_call_def with_storage_layer_def pause_run
      view_updates split: option.splits)

lemma resume_refines:
  assumes "ensure_signed T origin = Inr who"
  shows "implements_call T who resume_call s (dispatch_call T origin resume_call s)"
  using assms
  by (auto simp: implements_call_def dispatch_call_def with_storage_layer_def resume_run
      view_updates split: option.splits)

lemma unregister_refines:
  assumes "wf (ledger s)" and "ensure_signed T origin = Inr who"
  shows "implements_call T who unregister_call s (dispatch_call T origin unregister_call s)"
  using assms release_exact [of "ledger s" budget_hold_reason who "budget_on_hold T who s"]
  by (auto simp: implements_call_def dispatch_call_def with_storage_layer_def unregister_run
      view_updates unat_eq_0 split: sum.splits prod.splits)

lemma dispatch_refines:
  assumes "wf (ledger s)" and "ensure_signed T origin = Inr who"
  shows "implements_call T who c s (dispatch_call T origin c s)"
  using assms
  by (cases c)
    (auto intro: register_sponsor_refines increase_budget_refines decrease_budget_refines
      set_policy_refines pause_refines resume_refines unregister_refines)

lemma dispatch_success:
  assumes "wf (ledger s)" and "ensure_signed T origin = Inr who"
    and "dispatch_call T origin c s = (Inr u, t)"
  shows "spec_call who c (view T s) = Inr (view T t)"
  using dispatch_refines [OF assms(1,2), of c] assms(3)
  by (auto simp: implements_call_def split: sum.splits)

text \<open>
  The bodies check before they write: a failing body leaves the state as it was, also without
  the storage layer that FRAME puts around it.
\<close>

lemma call_body_failure:
  assumes "wf (ledger s)" and "call_body T origin c s = (Inl e, t)"
  shows "t = s"
proof (cases "ensure_signed T origin")
  case (Inl d)
  with assms(2) show ?thesis by (simp add: call_body_unsigned)
next
  case (Inr who)
  from assms(2) show ?thesis
    by (cases c) (auto simp: dispatchable_runs [OF Inr] dest!: hold_err [OF assms(1)] release_err [OF assms(1)]
        split: if_splits sum.splits prod.splits option.splits)
qed

subsection \<open>What a call leaves alone\<close>

lemma dispatch_others:
  assumes "wf (ledger s)" and "ensure_signed T origin = Inr who"
    and "dispatch_call T origin c s = (r, t)" and "a \<noteq> who"
  shows "view T t a = view T s a"
proof (cases r)
  case (Inl e)
  with assms(3) show ?thesis by (auto dest: dispatch_failure)
next
  case (Inr u)
  with assms show ?thesis by (auto intro: spec_call_others dest: dispatch_success)
qed

lemma dispatch_holds:
  assumes "wf (ledger s)" and "dispatch_call T origin c s = (r, t)" and "rs \<noteq> budget_hold_reason"
  shows "held (Balances T) rs a (ledger t) = held (Balances T) rs a (ledger s)"
  using assms(1,3) dispatch_ledger [OF assms(2)]
  by (auto dest: hold_held [where r' = rs and a' = a] release_held [where r' = rs and a' = a])

lemma dispatch_total:
  assumes "wf (ledger s)" and "dispatch_call T origin c s = (r, t)"
  shows "total a (ledger t) = total a (ledger s)"
  using assms(1) dispatch_ledger [OF assms(2)] by (auto dest: hold_total release_total)

lemma dispatch_wf:
  assumes "wf (ledger s)" and "dispatch_call T origin c s = (r, t)"
  shows "wf (ledger t)"
  using assms(1) dispatch_ledger [OF assms(2)] by (auto dest: hold_wf release_wf)

lemma dispatch_pending:
  assumes "wf (ledger s)" and "dispatch_call T origin c s = (r, t)"
  shows "pending_on_hold T a t = pending_on_hold T a s"
  using dispatch_holds [OF assms, of pending_hold_reason a]
  by (simp add: word_unat_eq_iff flip: hold_sel)

end

end
