(* ===== verification/Sponsor_Extension.thy ===== *)
theory Sponsor_Extension
  imports Sponsor_Spec
begin

text \<open>
  The transaction extension \<open>SponsoredChargeTransactionPayment\<close>
  (\<^verbatim>\<open>pallets/sponsored-tx/src/extension.rs\<close>): \<open>weight\<close>, \<open>validate\<close>,
  \<open>prepare\<close>, \<open>post_dispatch_details\<close> and \<open>settle_sponsored_fee\<close>.  The
  wrapped extension \<open>ChargeTransactionPayment\<close>, the fee computation of the transaction
  payment pallet, the conversions between the two balance types and the weight arithmetic are not
  part of the repository: they are the fields of \<open>payment_api\<close>.
\<close>

section \<open>What the extension uses of the transaction payment pallet\<close>

record ('acc, 'n, 'fee, 'u, 'o, 'call, 'info, 'post, 'res, 'imp, 'src, 'v, 'valid, 'val, 'pre, 'weight, 'b)
  payment_api =
  compute_fee :: "32 word \<Rightarrow> 'info \<Rightarrow> 'fee \<Rightarrow> 'b \<Rightarrow> 'fee"
  compute_actual_fee :: "32 word \<Rightarrow> 'info \<Rightarrow> 'post \<Rightarrow> 'fee \<Rightarrow> 'b \<Rightarrow> 'fee"
  get_priority :: "'info \<Rightarrow> 'u \<Rightarrow> 'fee \<Rightarrow> 'fee \<Rightarrow> 64 word"
  with_priority :: "64 word \<Rightarrow> 'valid"
  as_system_origin_signer :: "'o \<Rightarrow> 'acc option"
  into_fee :: "'n \<Rightarrow> 'fee"
  from_fee :: "'fee \<Rightarrow> 'n"
  base_weight :: "'fee \<Rightarrow> 'call \<Rightarrow> 'weight"
  base_validate :: "'fee \<Rightarrow> 'o \<Rightarrow> 'call \<Rightarrow> 'info \<Rightarrow> 'u \<Rightarrow> 'imp \<Rightarrow> 'src \<Rightarrow> 'b \<Rightarrow> 'v + ('valid \<times> 'val \<times> 'o)"
  base_prepare :: "'fee \<Rightarrow> 'val \<Rightarrow> 'o \<Rightarrow> 'call \<Rightarrow> 'info \<Rightarrow> 'u \<Rightarrow> ('b, 'v, 'pre) op"
  base_post_dispatch_details :: "'pre \<Rightarrow> 'info \<Rightarrow> 'post \<Rightarrow> 'u \<Rightarrow> 'res \<Rightarrow> ('b, 'v, 'weight) op"
  db_reads_writes :: "64 word \<Rightarrow> 64 word \<Rightarrow> 'weight"
  weight_saturating_add :: "'weight \<Rightarrow> 'weight \<Rightarrow> 'weight"

section \<open>Data of the extension\<close>

datatype InvalidSponsoredTransaction =
    UnsupportedOrigin
  | UnknownSponsor
  | InactiveSponsor
  | CallerNotAllowed
  | FeeCapExceeded
  | InsufficientBudget

fun invalid_code :: "InvalidSponsoredTransaction \<Rightarrow> 8 word" where
  "invalid_code UnsupportedOrigin = 0"
| "invalid_code UnknownSponsor = 1"
| "invalid_code InactiveSponsor = 2"
| "invalid_code CallerNotAllowed = 3"
| "invalid_code FeeCapExceeded = 4"
| "invalid_code InsufficientBudget = 5"

definition invalid :: "InvalidSponsoredTransaction \<Rightarrow> 'v TransactionValidityError" where
  "invalid reason = Custom (invalid_code reason)"

record ('acc, 'n) SponsoredChargeTransactionPayment =
  tip :: 'n
  sponsor :: "'acc option"

definition new :: "'n \<Rightarrow> 'acc option \<Rightarrow> ('acc, 'n) SponsoredChargeTransactionPayment" where
  "new t sp = \<lparr>tip = t, sponsor = sp\<rparr>"

text \<open>The name under which the runtime's metadata lists the extension.\<close>

definition IDENTIFIER :: string where
  "IDENTIFIER = ''SponsoredChargeTransactionPayment''"

lemma new_sel [simp]: "tip (new t sp) = t" "sponsor (new t sp) = sp"
  by (simp_all add: new_def)

datatype ('acc, 'n, 'val) SponsoredVal =
    ValUnsponsored 'val
  | ValSponsored 'acc 'acc 'n 'n

datatype ('acc, 'n, 'pre) SponsoredPre =
    PreUnsponsored 'pre
  | PreSponsored 'acc 'acc 'n 'n

section \<open>Weight, validation and reservation\<close>

definition ext_weight ::
  "('acc, 'n, 'fee, 'u, 'o, 'call, 'info, 'post, 'res, 'imp, 'src, 'v, 'valid, 'val, 'pre, 'weight, 'b)
     payment_api \<Rightarrow> ('acc, 'n) SponsoredChargeTransactionPayment \<Rightarrow> 'call \<Rightarrow> 'weight"
where
  "ext_weight P self call =
     (let base = base_weight P (into_fee P (tip self)) call in
      if sponsor self \<noteq> None then weight_saturating_add P base (db_reads_writes P 2 2)
      else base)"

definition validate ::
  "('acc, 'w::len word, 'c, 'e, 'r, 'b, 'o) Config \<Rightarrow>
   ('acc, 'w word, 'fee, 'u::len word, 'o, 'call, 'info, 'post, 'res, 'imp, 'src, 'v, 'valid, 'val, 'pre, 'weight, 'b)
     payment_api \<Rightarrow> ('acc, 'w word) SponsoredChargeTransactionPayment
     \<Rightarrow> 'o \<Rightarrow> 'call \<Rightarrow> 'info \<Rightarrow> 'u word \<Rightarrow> 'imp \<Rightarrow> 'src \<Rightarrow> ('acc, 'w word, 'b) chain
     \<Rightarrow> 'v TransactionValidityError + ('valid \<times> ('acc, 'w word, 'val) SponsoredVal \<times> 'o)"
where
  "validate T P self origin call info len imp src s =
     (case sponsor self of
        None \<Rightarrow>
          (case base_validate P (into_fee P (tip self)) origin call info len imp src (ledger s) of
             Inl e \<Rightarrow> Inl (BaseInvalid e)
           | Inr (validity, val, origin') \<Rightarrow> Inr (validity, ValUnsponsored val, origin'))
      | Some spons \<Rightarrow>
          (case as_system_origin_signer P origin of
             None \<Rightarrow> Inl (invalid UnsupportedOrigin)
           | Some signer \<Rightarrow>
          (case sponsor_state spons s of
             None \<Rightarrow> Inl (invalid UnknownSponsor)
           | Some state \<Rightarrow>
               if \<not> active state then Inl (invalid InactiveSponsor)
               else if \<not> list_ex (\<lambda>account. account = signer) (allowed_callers (policy state))
               then Inl (invalid CallerNotAllowed)
               else
                 let fee_with_tip =
                       from_fee P (compute_fee P (ucast len) info (into_fee P (tip self)) (ledger s))
                 in if max_fee_per_tx (policy state) < fee_with_tip then Inl (invalid FeeCapExceeded)
                    else if budget_on_hold T spons s < fee_with_tip then Inl (invalid InsufficientBudget)
                    else Inr (with_priority P
                                (get_priority P info len (into_fee P (tip self)) (into_fee P fee_with_tip)),
                              ValSponsored spons signer fee_with_tip (tip self), origin))))"

definition prepare ::
  "('acc, 'w::len word, 'c, 'e, 'r, 'b, 'o) Config \<Rightarrow>
   ('acc, 'w word, 'fee, 'u::len word, 'o, 'call, 'info, 'post, 'res, 'imp, 'src, 'v, 'valid, 'val, 'pre, 'weight, 'b)
     payment_api \<Rightarrow> ('acc, 'w word) SponsoredChargeTransactionPayment
     \<Rightarrow> ('acc, 'w word, 'val) SponsoredVal \<Rightarrow> 'o \<Rightarrow> 'call \<Rightarrow> 'info \<Rightarrow> 'u word
     \<Rightarrow> (('acc, 'w word, 'b) chain, 'v TransactionValidityError, ('acc, 'w word, 'pre) SponsoredPre) op"
where
  "prepare T P self v origin call info len =
     (case v of
        ValUnsponsored val \<Rightarrow>
          and_then (map_err BaseInvalid
              (on_ledger (base_prepare P (into_fee P (tip self)) val origin call info len)))
            (\<lambda>pre. ok (PreUnsponsored pre))
      | ValSponsored spons signer fee_with_tip t \<Rightarrow>
          and_then (move_budget_to_pending T spons fee_with_tip)
            (\<lambda>_. ok (PreSponsored spons signer fee_with_tip t)))"

section \<open>Settlement\<close>

definition SPONSORED_POST_DISPATCH_READS :: "64 word" where
  "SPONSORED_POST_DISPATCH_READS = 7"

definition SPONSORED_POST_DISPATCH_WRITES :: "64 word" where
  "SPONSORED_POST_DISPATCH_WRITES = 7"

definition settle_sponsored_fee ::
  "('acc, 'w::len word, 'c, 'e, 'r, 'b, 'o) Config \<Rightarrow>
   ('acc, 'w word, 'fee, 'u::len word, 'o, 'call, 'info, 'post, 'res, 'imp, 'src, 'v, 'valid, 'val, 'pre, 'weight, 'b)
     payment_api \<Rightarrow> 'acc \<Rightarrow> 'acc \<Rightarrow> 'w word \<Rightarrow> 'w word \<Rightarrow> 'info \<Rightarrow> 'post \<Rightarrow> 'u word
     \<Rightarrow> ('acc, 'w word, 'b) chain \<Rightarrow> 'weight \<times> ('acc, 'w word, 'b) chain"
where
  "settle_sponsored_fee T P spons signer estimated_fee_with_tip t info post_info len s =
     (let settlement_weight =
            db_reads_writes P SPONSORED_POST_DISPATCH_READS SPONSORED_POST_DISPATCH_WRITES;
          actual = from_fee P
            (compute_actual_fee P (ucast len) info post_info (into_fee P t) (ledger s));
          charged = (if estimated_fee_with_tip < actual then estimated_fee_with_tip else actual)
      in case slash (Balances T) pending_hold_reason spons charged (ledger s) of
        ((credit, missing), b) \<Rightarrow>
          let charged_fee_with_tip = (if missing \<noteq> 0 then saturating_sub charged missing else charged);
              actual_tip = min t charged_fee_with_tip
          in case credit_split (Balances T) credit actual_tip of
            (tip_credit, fee_credit) \<Rightarrow>
              (settlement_weight,
               deposit_event
                 (SponsoredTransactionFeePaid spons signer charged_fee_with_tip actual_tip)
                 (restore_pending_to_budget T spons
                    (s\<lparr>ledger := FeeDestination T [fee_credit, tip_credit] b\<rparr>))))"

definition post_dispatch_details ::
  "('acc, 'w::len word, 'c, 'e, 'r, 'b, 'o) Config \<Rightarrow>
   ('acc, 'w word, 'fee, 'u::len word, 'o, 'call, 'info, 'post, 'res, 'imp, 'src, 'v, 'valid, 'val, 'pre, 'weight, 'b)
     payment_api \<Rightarrow> ('acc, 'w word, 'pre) SponsoredPre \<Rightarrow> 'info \<Rightarrow> 'post \<Rightarrow> 'u word \<Rightarrow> 'res
     \<Rightarrow> (('acc, 'w word, 'b) chain, 'v TransactionValidityError, 'weight) op"
where
  "post_dispatch_details T P pre info post_info len result =
     (case pre of
        PreUnsponsored base_pre \<Rightarrow>
          map_err BaseInvalid
            (on_ledger (base_post_dispatch_details P base_pre info post_info len result))
      | PreSponsored spons signer estimated_fee_with_tip t \<Rightarrow>
          (\<lambda>s. case settle_sponsored_fee T P spons signer estimated_fee_with_tip t info post_info len s of
             (w, s') \<Rightarrow> (Inr w, s')))"

section \<open>Validation\<close>

lemma invalid_code_inject [simp]: "invalid_code x = invalid_code y \<longleftrightarrow> x = y"
  by (cases x; cases y) simp_all

text \<open>
  What can be wrong with a sponsored transaction, each fault on its own: the others do not matter
  for it.  A sponsor that is not registered is not active, allows nobody and covers no fee.
\<close>

fun has_fault ::
  "('acc, 'w::len word) SponsorState option \<Rightarrow> 'acc option \<Rightarrow> 'w word \<Rightarrow> 'w word
     \<Rightarrow> InvalidSponsoredTransaction \<Rightarrow> bool"
where
  "has_fault st signer budget_left fee UnsupportedOrigin \<longleftrightarrow> signer = None"
| "has_fault st signer budget_left fee UnknownSponsor \<longleftrightarrow> st = None"
| "has_fault st signer budget_left fee InactiveSponsor \<longleftrightarrow>
     (case st of None \<Rightarrow> True | Some state \<Rightarrow> \<not> active state)"
| "has_fault st signer budget_left fee CallerNotAllowed \<longleftrightarrow>
     (case (st, signer) of (Some state, Some who) \<Rightarrow> who \<notin> set (allowed_callers (policy state)) | _ \<Rightarrow> True)"
| "has_fault st signer budget_left fee FeeCapExceeded \<longleftrightarrow>
     (case st of None \<Rightarrow> True | Some state \<Rightarrow> max_fee_per_tx (policy state) < fee)"
| "has_fault st signer budget_left fee InsufficientBudget \<longleftrightarrow> budget_left < fee"

text \<open>The fault with the least code; \<open>None\<close> when there is none.\<close>

definition first_fault ::
  "('acc, 'w::len word) SponsorState option \<Rightarrow> 'acc option \<Rightarrow> 'w word \<Rightarrow> 'w word
     \<Rightarrow> InvalidSponsoredTransaction option"
where
  "first_fault st signer budget_left fee = find (has_fault st signer budget_left fee)
     [UnsupportedOrigin, UnknownSponsor, InactiveSponsor, CallerNotAllowed, FeeCapExceeded, InsufficientBudget]"

lemma first_fault_None: "first_fault st signer budget_left fee = None \<longleftrightarrow> (\<forall>f. \<not> has_fault st signer budget_left fee f)"
proof -
  have "f \<in> {UnsupportedOrigin, UnknownSponsor, InactiveSponsor, CallerNotAllowed, FeeCapExceeded, InsufficientBudget}" for f
    by (cases f) simp_all
  then show ?thesis by (auto simp only: first_fault_def find_None_iff list.set)
qed

lemma first_fault_SomeD:
  assumes "first_fault st signer budget_left fee = Some f"
  shows "has_fault st signer budget_left fee f"
    and "invalid_code g < invalid_code f \<Longrightarrow> \<not> has_fault st signer budget_left fee g"
proof -
  show "has_fault st signer budget_left fee f"
    using assms unfolding first_fault_def by (auto simp only: find_Some_iff)
  assume "invalid_code g < invalid_code f"
  with assms show "\<not> has_fault st signer budget_left fee g"
    by (cases f; cases g) (simp_all add: first_fault_def del: has_fault.simps split: if_splits)
qed

lemma first_fault_Some:
  "first_fault st signer budget_left fee = Some f \<longleftrightarrow> has_fault st signer budget_left fee f
     \<and> (\<forall>g. has_fault st signer budget_left fee g \<longrightarrow> invalid_code f \<le> invalid_code g)"
  (is "?l \<longleftrightarrow> ?r")
proof
  show "?l \<Longrightarrow> ?r" using first_fault_SomeD not_less by blast
next
  assume r: ?r
  then obtain f' where f': "first_fault st signer budget_left fee = Some f'"
    using first_fault_None [of st signer budget_left fee] by (cases "first_fault st signer budget_left fee") auto
  with r have "invalid_code f = invalid_code f'"
    using first_fault_SomeD [OF f'] by (meson not_less antisym)
  with f' show ?l by simp
qed

definition estimated_fee ::
  "('acc, 'w::len word, 'fee, 'u::len word, 'o, 'call, 'info, 'post, 'res, 'imp, 'src, 'v, 'valid, 'val, 'pre, 'weight, 'b)
     payment_api \<Rightarrow> 'w word \<Rightarrow> 'info \<Rightarrow> 'u word \<Rightarrow> ('acc, 'w word, 'b) chain \<Rightarrow> 'w word"
where
  "estimated_fee P t info len s =
     from_fee P (compute_fee P (ucast len) info (into_fee P t) (ledger s))"

lemma validate_sponsored_eq:
  assumes "sponsor self = Some spons"
  shows "validate T P self origin call info len imp src s =
    (let fee = estimated_fee P (tip self) info len s in
     case first_fault (Sponsors s spons) (as_system_origin_signer P origin)
            (budget_on_hold T spons s) fee of
       Some why \<Rightarrow> Inl (invalid why)
     | None \<Rightarrow> Inr (with_priority P (get_priority P info len (into_fee P (tip self)) (into_fee P fee)),
         ValSponsored spons (the (as_system_origin_signer P origin)) fee (tip self), origin))"
  using assms
  by (auto simp: validate_def first_fault_def sponsor_state_def estimated_fee_def Let_def
      list_ex_iff split: option.splits)

lemma validate_sponsored:
  assumes "validate T P self origin call info len imp src s = Inr (valid, ValSponsored spons signer fee t, origin')"
  obtains st where "Sponsors s spons = Some st" and "active st"
    and "signer \<in> set (allowed_callers (policy st))" and "as_system_origin_signer P origin = Some signer"
    and "fee \<le> max_fee_per_tx (policy st)" and "fee \<le> budget_on_hold T spons s"
    and "fee = estimated_fee P t info len s"
proof -
  obtain sp where "sponsor self = Some sp"
    using assms by (cases "sponsor self") (auto simp: validate_def split: sum.splits prod.splits)
  note eq = validate_sponsored_eq [OF this, of T P origin call info len imp src s]
  define fee' where "fee' = estimated_fee P (tip self) info len s"
  have "first_fault (Sponsors s sp) (as_system_origin_signer P origin) (budget_on_hold T sp s) fee' = None"
    and ids: "spons = sp" "signer = the (as_system_origin_signer P origin)" "fee = fee'" "t = tip self"
    using assms eq unfolding Let_def fee'_def [symmetric] by (auto split: option.splits)
  then obtain st who where "as_system_origin_signer P origin = Some who" and "Sponsors s sp = Some st"
    and "active st" and "who \<in> set (allowed_callers (policy st))"
    and "fee' \<le> max_fee_per_tx (policy st)" and "fee' \<le> budget_on_hold T sp s"
    by (auto simp: first_fault_def not_less split: option.splits if_splits)
  with that [of st] ids fee'_def show ?thesis by simp
qed

end
