(* ===== verification/Sponsor_Settlement.thy ===== *)
theory Sponsor_Settlement
  imports Sponsor_Extension
begin

text \<open>
  The money flow of a sponsored transaction: the reservation \<open>move_budget_to_pending\<close> before
  dispatch, and the settlement \<open>settle_sponsored_fee\<close> with
  \<open>restore_pending_to_budget\<close> after it.  The locale \<open>escrow_account\<close> is what the
  extension relies on from the pallet; every pallet configuration that keeps its contracts
  provides it.
\<close>

section \<open>The interface between the extension and the pallet\<close>

locale escrow_account =
  fixes inv :: "'s \<Rightarrow> bool"
    and avail :: "'acc \<Rightarrow> 's \<Rightarrow> nat"
    and inflight :: "'acc \<Rightarrow> 's \<Rightarrow> nat"
    and reserve :: "'acc \<Rightarrow> 'w::len word \<Rightarrow> ('s, 'x, unit) op"
    and restore :: "'acc \<Rightarrow> 's \<Rightarrow> 's"
  assumes reserve_inv: "inv s \<Longrightarrow> reserve a n s = (Inr u, t) \<Longrightarrow> inv t"
    and reserve_avail: "inv s \<Longrightarrow> reserve a n s = (Inr u, t) \<Longrightarrow>
      avail a' s = avail a' t + (if a' = a then unat n else 0)"
    and reserve_inflight: "inv s \<Longrightarrow> reserve a n s = (Inr u, t) \<Longrightarrow>
      inflight a' t = inflight a' s + (if a' = a then unat n else 0)"
    and restore_inv: "inv s \<Longrightarrow> inv (restore a s)"
    and restore_frame: "inv s \<Longrightarrow> a' \<noteq> a \<Longrightarrow>
      avail a' (restore a s) = avail a' s \<and> inflight a' (restore a s) = inflight a' s"
    and restore_cases: "inv s \<Longrightarrow>
      (avail a (restore a s), inflight a (restore a s)) \<in>
        {(avail a s, inflight a s), (avail a s, 0), (avail a s + inflight a s, 0)}"
begin

lemma reserve_conserves:
  "inv s \<Longrightarrow> reserve a n s = (Inr u, t) \<Longrightarrow> avail a' t + inflight a' t = avail a' s + inflight a' s"
  using reserve_avail [of s a n u t a'] reserve_inflight [of s a n u t a'] by simp

lemma restore_bounded:
  "inv s \<Longrightarrow> avail a' (restore a s) + inflight a' (restore a s) \<le> avail a' s + inflight a' s"
  using restore_cases [of s a] restore_frame [of s a' a] by (cases "a' = a") auto

lemma restore_avail_mono: "inv s \<Longrightarrow> avail a' s \<le> avail a' (restore a s)"
  using restore_cases [of s a] restore_frame [of s a' a] by (cases "a' = a") auto

end

section \<open>Reservation\<close>

lemma move_budget_run:
  "move_budget_to_pending T who n s =
     (case release (Balances T) budget_hold_reason who n Exact (ledger s) of
        (Inl _, b) \<Rightarrow> (Inl Payment, s\<lparr>ledger := b\<rparr>)
      | (Inr _, b) \<Rightarrow> (case hold (Balances T) pending_hold_reason who n b of
          (Inl _, b') \<Rightarrow> (Inl Payment, s\<lparr>ledger := b'\<rparr>)
        | (Inr _, b') \<Rightarrow> (Inr (), s\<lparr>ledger := b'\<rparr>)))"
  by (auto simp: move_budget_to_pending_def map_err_def on_ledger_def and_then_def op_run_defs
      split: sum.splits prod.splits)

context sponsor_config
begin

lemma move_budget_steps:
  assumes "wf (ledger s)" and "move_budget_to_pending T who n s = (Inr u, t)"
  obtains b b' where "release (Balances T) budget_hold_reason who n Exact (ledger s) = (Inr n, b)"
    and "wf b" and "hold (Balances T) pending_hold_reason who n b = (Inr (), b')"
    and "t = s\<lparr>ledger := b'\<rparr>"
proof -
  from assms(2) obtain m b b' where rel: "release (Balances T) budget_hold_reason who n Exact (ledger s) = (Inr m, b)"
    and hol: "hold (Balances T) pending_hold_reason who n b = (Inr (), b')" and t: "t = s\<lparr>ledger := b'\<rparr>"
    by (auto simp: move_budget_run split: prod.splits sum.splits)
  from that [of b b'] rel hol t show ?thesis
    using release_exact [OF assms(1) rel] release_wf [OF assms(1) rel] by simp
qed

lemma move_budget_holds:
  assumes "wf (ledger s)" and "move_budget_to_pending T who n s = (Inr u, t)"
  shows "held (Balances T) r a (ledger s) + at_hold pending_hold_reason who (unat n) r a =
    held (Balances T) r a (ledger t) + at_hold budget_hold_reason who (unat n) r a"
  by (rule move_budget_steps [OF assms])
    (auto dest: release_then_hold_held [OF assms(1), where r = r and a = a])

lemma move_budget_wf:
  assumes "wf (ledger s)" and "move_budget_to_pending T who n s = (Inr u, t)"
  shows "wf (ledger t)"
  by (rule move_budget_steps [OF assms]) (auto dest: hold_wf)

lemma move_budget_total:
  assumes "wf (ledger s)" and "move_budget_to_pending T who n s = (Inr u, t)"
  shows "total a (ledger t) = total a (ledger s)"
  by (rule move_budget_steps [OF assms])
    (auto dest: release_then_hold_total [OF assms(1), where a = a])

lemma move_budget_frame:
  assumes "wf (ledger s)" and "move_budget_to_pending T who n s = (Inr u, t)"
  shows "Sponsors t = Sponsors s" and "events t = events s"
  by (rule move_budget_steps [OF assms], simp)+

lemma move_budget_view:
  assumes "wf (ledger s)" and "move_budget_to_pending T who n s = (Inr u, t)"
  shows "unat n \<le> budget (view T s who)"
    and "view T t = (view T s)(who := (view T s who)\<lparr>budget := budget (view T s who) - unat n,
        pending := pending (view T s who) + unat n\<rparr>)"
proof -
  note eq = move_budget_holds [OF assms]
  show "unat n \<le> budget (view T s who)"
    using eq [of budget_hold_reason who] by (simp add: hold_sel)
  have "held (Balances T) budget_hold_reason a (ledger t) =
      held (Balances T) budget_hold_reason a (ledger s) - (if a = who then unat n else 0)" for a
    using eq [of budget_hold_reason a] by (auto simp: at_hold_def split: if_splits)
  moreover have "held (Balances T) pending_hold_reason a (ledger t) =
      held (Balances T) pending_hold_reason a (ledger s) + (if a = who then unat n else 0)" for a
    using eq [of pending_hold_reason a] by (auto simp: at_hold_def split: if_splits)
  ultimately show "view T t = (view T s)(who := (view T s who)\<lparr>budget := budget (view T s who) - unat n,
        pending := pending (view T s who) + unat n\<rparr>)"
    by (auto simp: view_def fun_eq_iff hold_sel move_budget_frame [OF assms])
qed

text \<open>
  A failing reservation reports \<open>Payment\<close>; either nothing happened, or the amount left the
  budget and is free again.
\<close>

lemma move_budget_failure:
  assumes "wf (ledger s)" and "move_budget_to_pending T who n s = (Inl e, t)"
  shows "e = Payment"
    and "t = s \<or> unat n \<le> budget (view T s who) \<and>
      view T t = (view T s)(who := (view T s who)\<lparr>budget := budget (view T s who) - unat n\<rparr>)"
proof -
  show "e = Payment"
    using assms(2) by (auto simp: move_budget_run split: prod.splits sum.splits)
  consider (release_failed) b d where "release (Balances T) budget_hold_reason who n Exact (ledger s) = (Inl d, b)"
      and "t = s\<lparr>ledger := b\<rparr>"
    | (hold_failed) m b d b' where "release (Balances T) budget_hold_reason who n Exact (ledger s) = (Inr m, b)"
      and "hold (Balances T) pending_hold_reason who n b = (Inl d, b')" and "t = s\<lparr>ledger := b'\<rparr>"
    using assms(2) by (auto simp: move_budget_run split: prod.splits sum.splits)
  then show "t = s \<or> unat n \<le> budget (view T s who) \<and>
      view T t = (view T s)(who := (view T s who)\<lparr>budget := budget (view T s who) - unat n\<rparr>)"
  proof cases
    case release_failed
    then show ?thesis using release_err [OF assms(1) release_failed(1)] by simp
  next
    case hold_failed
    have "m = n" and "b' = b"
      using release_exact [OF assms(1) hold_failed(1)] release_wf [OF assms(1) hold_failed(1)]
        hold_err hold_failed(2) by blast+
    then show ?thesis
      using view_release_budget [OF assms(1) hold_failed(1)] hold_failed(3)
        release_held [OF assms(1) hold_failed(1), of budget_hold_reason who]
      by (simp add: hold_sel)
  qed
qed

lemma move_budget_failure_frame:
  assumes "wf (ledger s)" and "move_budget_to_pending T who n s = (Inl e, t)"
  shows "Sponsors t = Sponsors s" and "events t = events s"
    and "total a (ledger t) = total a (ledger s)"
proof -
  show "Sponsors t = Sponsors s" and "events t = events s"
    using assms(2) by (auto simp: move_budget_run split: prod.splits sum.splits)
  have "ledger t = ledger s
    \<or> (\<exists>m. release (Balances T) budget_hold_reason who n Exact (ledger s) = (Inr m, ledger t))"
    using assms(2) release_err [OF assms(1)] hold_err [OF release_wf [OF assms(1)]]
    by (auto simp: move_budget_run split: prod.splits sum.splits) blast+
  then show "total a (ledger t) = total a (ledger s)"
    using release_total [OF assms(1)] by auto
qed

subsection \<open>Restoring what is left of a reservation\<close>

lemma view_release_pending:
  assumes "wf (ledger s)"
    and "release (Balances T) pending_hold_reason who n p (ledger s) = (Inr m, b)"
  shows "view T (s\<lparr>ledger := b\<rparr>) = (view T s)(who := (view T s who)\<lparr>pending := pending (view T s who) - unat m\<rparr>)"
  using release_held [OF assms] by (auto simp: fun_eq_iff view_def hold_sel at_hold_def)

text \<open>
  The three ways a restoration ends: nothing to do or a refused release, a release whose funds
  stay free because the new hold was refused, a complete move back to the budget.
\<close>

lemma restore_pending_cases:
  assumes wf: "wf (ledger s)"
  obtains (unchanged) "restore_pending_to_budget T who s = s"
      and "pending_on_hold T who s = 0
        \<or> (\<exists>e. fst (release (Balances T) pending_hold_reason who (pending_on_hold T who s) BestEffort (ledger s)) = Inl e)"
    | (freed) b where "release (Balances T) pending_hold_reason who (pending_on_hold T who s) BestEffort (ledger s)
          = (Inr (pending_on_hold T who s), b)"
        and "wf b" and "restore_pending_to_budget T who s = s\<lparr>ledger := b\<rparr>"
        and "\<exists>e. fst (hold (Balances T) budget_hold_reason who (pending_on_hold T who s) b) = Inl e"
    | (moved) b b' where "release (Balances T) pending_hold_reason who (pending_on_hold T who s) BestEffort (ledger s)
          = (Inr (pending_on_hold T who s), b)"
        and "wf b" and "hold (Balances T) budget_hold_reason who (pending_on_hold T who s) b = (Inr (), b')"
        and "restore_pending_to_budget T who s = s\<lparr>ledger := b'\<rparr>"
proof (cases "pending_on_hold T who s = 0")
  case True
  then show ?thesis
    using unchanged by (simp add: restore_pending_to_budget_def)
next
  case False
  let ?p = "pending_on_hold T who s"
  obtain r b where rel: "release (Balances T) pending_hold_reason who ?p BestEffort (ledger s) = (r, b)"
    by (cases "release (Balances T) pending_hold_reason who ?p BestEffort (ledger s)")
  show ?thesis
  proof (cases r)
    case (Inl e)
    with rel release_err [OF wf] have "restore_pending_to_budget T who s = s"
      by (simp add: restore_pending_to_budget_def on_ledger_def False)
    with rel Inl unchanged show ?thesis by simp
  next
    case (Inr m)
    with rel have run: "release (Balances T) pending_hold_reason who ?p BestEffort (ledger s) = (Inr m, b)"
      by simp
    have m: "m = ?p"
      using release_best [OF wf run] by (simp add: word_unat_eq_iff flip: hold_sel)
    note wf_b = release_wf [OF wf run]
    obtain q b' where hol: "hold (Balances T) budget_hold_reason who ?p b = (q, b')"
      by (cases "hold (Balances T) budget_hold_reason who ?p b")
    then have res: "restore_pending_to_budget T who s = s\<lparr>ledger := b'\<rparr>"
      using run m False by (simp add: restore_pending_to_budget_def on_ledger_def)
    show ?thesis
    proof (cases q)
      case (Inl e)
      with hol hold_err [OF wf_b] have "b' = b" by simp
      with freed [of b] run m wf_b res hol Inl show ?thesis by simp
    next
      case (Inr u)
      with moved [of b b'] run m wf_b hol res show ?thesis by simp
    qed
  qed
qed

lemma restore_view:
  assumes "wf (ledger s)"
  shows "view T (restore_pending_to_budget T who s) = view T s
    \<or> view T (restore_pending_to_budget T who s) = (view T s)(who := (view T s who)\<lparr>pending := 0\<rparr>)
    \<or> view T (restore_pending_to_budget T who s) = (view T s)(who := (view T s who)
        \<lparr>pending := 0, budget := budget (view T s who) + pending (view T s who)\<rparr>)"
proof (rule restore_pending_cases [OF assms, of who])
  assume "restore_pending_to_budget T who s = s"
  then show ?thesis by simp
next
  fix b
  assume "release (Balances T) pending_hold_reason who (pending_on_hold T who s) BestEffort (ledger s)
      = (Inr (pending_on_hold T who s), b)" and "restore_pending_to_budget T who s = s\<lparr>ledger := b\<rparr>"
  then show ?thesis using view_release_pending [OF assms] by simp
next
  fix b b'
  assume rel: "release (Balances T) pending_hold_reason who (pending_on_hold T who s) BestEffort (ledger s)
      = (Inr (pending_on_hold T who s), b)" and "wf b"
    and hol: "hold (Balances T) budget_hold_reason who (pending_on_hold T who s) b = (Inr (), b')"
    and res: "restore_pending_to_budget T who s = s\<lparr>ledger := b'\<rparr>"
  have "view T (s\<lparr>ledger := b'\<rparr>) = (view T (s\<lparr>ledger := b\<rparr>))(who := (view T (s\<lparr>ledger := b\<rparr>) who)
      \<lparr>budget := budget (view T (s\<lparr>ledger := b\<rparr>) who) + unat (pending_on_hold T who s)\<rparr>)"
    using view_hold_budget [of "s\<lparr>ledger := b\<rparr>" who "pending_on_hold T who s" "()" b'] \<open>wf b\<close> hol by simp
  then show ?thesis
    by (simp add: res view_release_pending [OF assms rel])
qed

lemma restore_wf:
  assumes "wf (ledger s)"
  shows "wf (ledger (restore_pending_to_budget T who s))"
  by (rule restore_pending_cases [OF assms, of who]) (auto simp: assms dest: hold_wf)

lemma restore_total:
  assumes "wf (ledger s)"
  shows "total a (ledger (restore_pending_to_budget T who s)) = total a (ledger s)"
  by (rule restore_pending_cases [OF assms, of who])
    (auto dest: release_then_hold_total [OF assms, where a = a] release_total [OF assms, where a' = a])

lemma restore_other_holds:
  assumes "wf (ledger s)" and "r \<noteq> budget_hold_reason" and "r \<noteq> pending_hold_reason"
  shows "held (Balances T) r a (ledger (restore_pending_to_budget T who s)) = held (Balances T) r a (ledger s)"
  using assms(2,3)
  by (rule_tac restore_pending_cases [OF assms(1), of who])
    (auto dest: release_then_hold_held [OF assms(1), where r = r and a = a]
      release_held [OF assms(1), where r' = r and a' = a])

lemma restore_chain_frame:
  assumes "wf (ledger s)"
  shows "Sponsors (restore_pending_to_budget T who s) = Sponsors s"
    and "events (restore_pending_to_budget T who s) = events s"
  by (rule restore_pending_cases [OF assms, of who], simp_all)+

end

text \<open>The pallet of every such configuration provides the extension's interface.\<close>

sublocale sponsor_config \<subseteq> escrow: escrow_account
  "\<lambda>s. wf (ledger s)" "\<lambda>a s. unat (budget_on_hold T a s)" "\<lambda>a s. unat (pending_on_hold T a s)"
  "move_budget_to_pending T" "restore_pending_to_budget T"
proof unfold_locales
  fix s t :: "('acc, 'w word, 'b) chain" and a a' n u
  assume wf: "wf (ledger s)"
  {
    assume run: "move_budget_to_pending T a n s = (Inr u, t)"
    note v = move_budget_view [OF wf run]
    show "wf (ledger t)" by (rule move_budget_wf [OF wf run])
    show "unat (budget_on_hold T a' s) = unat (budget_on_hold T a' t) + (if a' = a then unat n else 0)"
      using v(1) arg_cong [OF v(2), of "\<lambda>v. budget (v a')"] by (auto split: if_splits)
    show "unat (pending_on_hold T a' t) = unat (pending_on_hold T a' s) + (if a' = a then unat n else 0)"
      using arg_cong [OF v(2), of "\<lambda>v. pending (v a')"] by (auto split: if_splits)
  }
  note v = restore_view [OF wf, of a]
  show "wf (ledger (restore_pending_to_budget T a s))" by (rule restore_wf [OF wf])
  show "unat (budget_on_hold T a' (restore_pending_to_budget T a s)) = unat (budget_on_hold T a' s)
      \<and> unat (pending_on_hold T a' (restore_pending_to_budget T a s)) = unat (pending_on_hold T a' s)"
    if "a' \<noteq> a"
    using that v by (auto dest!: arg_cong [where f = "\<lambda>v. (budget (v a'), pending (v a'))"])
  show "(unat (budget_on_hold T a (restore_pending_to_budget T a s)),
       unat (pending_on_hold T a (restore_pending_to_budget T a s))) \<in>
    {(unat (budget_on_hold T a s), unat (pending_on_hold T a s)), (unat (budget_on_hold T a s), 0),
     (unat (budget_on_hold T a s) + unat (pending_on_hold T a s), 0)}"
    using v by (auto dest!: arg_cong [where f = "\<lambda>v. (budget (v a), pending (v a))"])
qed

end
