(* ===== verification/Reference_Ledger.thy ===== *)
theory Reference_Ledger
  imports Sponsor_Settlement
begin

text \<open>
  An executable ledger that keeps every law of \<open>rehold_ledger\<close> and \<open>burning_sink\<close>, so
  that the hypotheses of the properties are known to hold together and the witnesses can run the
  pallet.  It is not a model of the balances pallet: it has one free balance per account, an
  existential deposit that a hold never eats into, one amount per hold reason, and a total
  issuance from which dropped credits are burned.  Its account identifiers are natural numbers and
  its hold reasons are this pallet's two and one of another pallet.
\<close>

section \<open>State and operations\<close>

record ref_ledger =
  ref_free :: "nat \<Rightarrow> nat"
  ref_held :: "unit RuntimeHoldReason \<Rightarrow> nat \<Rightarrow> nat"
  ref_issuance :: nat

datatype ref_error = RefBadOrigin | FundsUnavailable | HoldTooSmall

datatype ref_origin = RefSigned nat | RefRoot | RefNone

definition ref_total :: "nat \<Rightarrow> ref_ledger \<Rightarrow> nat" where
  "ref_total a b = ref_free b a + ref_held b budget_hold_reason a
     + ref_held b pending_hold_reason a + ref_held b (OtherHold ()) a"

definition ref_existential_deposit :: nat where
  "ref_existential_deposit = 1"

definition ref_wf :: "'w::len itself \<Rightarrow> ref_ledger \<Rightarrow> bool" where
  "ref_wf _ b \<longleftrightarrow> (\<forall>a. ref_total a b < 2 ^ LENGTH('w)
     \<and> (ref_free b a < ref_existential_deposit \<longrightarrow> ref_total a b = ref_free b a))"

definition ref_move ::
  "unit RuntimeHoldReason \<Rightarrow> nat \<Rightarrow> nat \<Rightarrow> nat \<Rightarrow> ref_ledger \<Rightarrow> ref_ledger"
where
  "ref_move r a free_to held_to b =
     b\<lparr>ref_free := (ref_free b)(a := free_to),
       ref_held := (ref_held b)(r := (ref_held b r)(a := held_to))\<rparr>"

definition ref_hold ::
  "unit RuntimeHoldReason \<Rightarrow> nat \<Rightarrow> 'w::len word \<Rightarrow> (ref_ledger, ref_error, unit) op"
where
  "ref_hold r a n b =
     (if unat n + ref_existential_deposit \<le> ref_free b a \<or> n = 0
      then (Inr (), ref_move r a (ref_free b a - unat n) (ref_held b r a + unat n) b)
      else (Inl FundsUnavailable, b))"

definition ref_release ::
  "unit RuntimeHoldReason \<Rightarrow> nat \<Rightarrow> 'w::len word \<Rightarrow> Precision \<Rightarrow> (ref_ledger, ref_error, 'w word) op"
where
  "ref_release r a n p b =
     (if p = Exact \<and> ref_held b r a < unat n then (Inl HoldTooSmall, b)
      else let m = min (unat n) (ref_held b r a) in
        (Inr (of_nat m), ref_move r a (ref_free b a + m) (ref_held b r a - m) b))"

definition ref_balance_on_hold :: "unit RuntimeHoldReason \<Rightarrow> nat \<Rightarrow> ref_ledger \<Rightarrow> 'w::len word" where
  "ref_balance_on_hold r a b = of_nat (ref_held b r a)"

definition ref_slash ::
  "unit RuntimeHoldReason \<Rightarrow> nat \<Rightarrow> 'w::len word \<Rightarrow> ref_ledger \<Rightarrow> ('w word \<times> 'w word) \<times> ref_ledger"
where
  "ref_slash r a n b =
     (let m = min (unat n) (ref_held b r a) in
      ((of_nat m, of_nat (unat n - m)), ref_move r a (ref_free b a) (ref_held b r a - m) b))"

definition ref_split :: "'w::len word \<Rightarrow> 'w word \<Rightarrow> 'w word \<times> 'w word" where
  "ref_split c n = (min n c, c - min n c)"

definition ref_burn :: "'w::len word list \<Rightarrow> ref_ledger \<Rightarrow> ref_ledger" where
  "ref_burn cs b = b\<lparr>ref_issuance := ref_issuance b - sum_list (map unat cs)\<rparr>"

definition ref_balances ::
  "(nat, 'w::len word, 'w word, ref_error, unit, ref_ledger) balances_api"
where
  "ref_balances = \<lparr>hold = ref_hold, release = ref_release, balance_on_hold = ref_balance_on_hold,
     slash = ref_slash, credit_split = ref_split\<rparr>"

fun ref_ensure_signed :: "ref_origin \<Rightarrow> ref_error + nat" where
  "ref_ensure_signed (RefSigned who) = Inr who"
| "ref_ensure_signed RefRoot = Inl RefBadOrigin"
| "ref_ensure_signed RefNone = Inl RefBadOrigin"

definition ref_config ::
  "(nat, 'w::len word, 'w word, ref_error, unit, ref_ledger, ref_origin) Config"
where
  "ref_config = \<lparr>Balances = ref_balances, ensure_signed = ref_ensure_signed,
     FeeDestination = ref_burn, MaxAllowedCallers = 8\<rparr>"

section \<open>The laws hold\<close>

lemma ref_balances_sel [simp]:
  "hold ref_balances = ref_hold" "release ref_balances = ref_release"
  "balance_on_hold ref_balances = ref_balance_on_hold" "slash ref_balances = ref_slash"
  "credit_split ref_balances = ref_split"
  by (simp_all add: ref_balances_def)

lemma ref_config_sel [simp]:
  "Balances ref_config = ref_balances" "ensure_signed ref_config = ref_ensure_signed"
  "FeeDestination ref_config = ref_burn" "MaxAllowedCallers ref_config = 8"
  by (simp_all add: ref_config_def)

lemma runtime_reason_cases:
  obtains "r = budget_hold_reason" | "r = pending_hold_reason" | "r = OtherHold ()"
proof (cases r)
  case (SponsoredTxHold x)
  then show ?thesis
    using that by (cases x) (auto simp: budget_hold_reason_def pending_hold_reason_def)
next
  case (OtherHold x)
  then show ?thesis using that by simp
qed

lemma ref_held_le_total: "ref_held b r a \<le> ref_total a b"
  by (rule runtime_reason_cases [of r]) (auto simp: ref_total_def)

lemma ref_held_bound: "ref_wf TYPE('w::len) b \<Longrightarrow> ref_held b r a < 2 ^ LENGTH('w)"
  using ref_held_le_total [of b r a] by (auto simp: ref_wf_def intro: le_less_trans)

lemma ref_total_move:
  "ref_total a' (ref_move r a f h b) + (if a' = a then ref_free b a + ref_held b r a else 0) =
     ref_total a' b + (if a' = a then f + h else 0)"
  by (rule runtime_reason_cases [of r]) (auto simp: ref_total_def ref_move_def)

lemma ref_held_move:
  "ref_held (ref_move r a f h b) r' a' = (if r' = r \<and> a' = a then h else ref_held b r' a')"
  by (auto simp: ref_move_def)

lemma held_ref:
  "ref_wf TYPE('w::len) b \<Longrightarrow>
     held (ref_balances :: (nat, 'w word, 'w word, ref_error, unit, ref_ledger) balances_api) r a b
       = ref_held b r a"
  using ref_held_bound [where 'w = 'w, of b r a] by (simp add: held_def ref_balance_on_hold_def unat_of_nat)

lemma ref_hold_Inr:
  assumes "ref_hold r a n b = (Inr u, b')"
  shows "unat n \<le> ref_free b a"
    and "b' = ref_move r a (ref_free b a - unat n) (ref_held b r a + unat n) b"
  using assms by (auto simp: ref_hold_def split: if_splits)

lemma ref_hold_total:
  assumes "ref_hold r a n b = (Inr u, b')"
  shows "ref_total a' b' = ref_total a' b"
  using ref_hold_Inr [OF assms]
    ref_total_move [of a' r a "ref_free b a - unat n" "ref_held b r a + unat n" b]
  by (auto split: if_splits)

lemma ref_release_Inr:
  assumes "ref_release r a n p b = (Inr m, b')"
  shows "m = of_nat (min (unat n) (ref_held b r a))"
    and "b' = ref_move r a (ref_free b a + min (unat n) (ref_held b r a))
           (ref_held b r a - min (unat n) (ref_held b r a)) b"
    and "p = Exact \<longrightarrow> unat n \<le> ref_held b r a"
  using assms by (auto simp: ref_release_def Let_def split: if_splits)

lemma unat_of_nat_min: "unat (of_nat (min (unat n) k) :: 'w::len word) = min (unat (n :: 'w word)) k"
proof -
  have "min (unat n) k < 2 ^ LENGTH('w)"
    by (simp add: min_less_iff_disj)
  then show ?thesis by (simp add: unat_of_nat)
qed

lemma ref_release_total:
  assumes "ref_release r a n p b = (Inr m, b')"
  shows "ref_total a' b' = ref_total a' b"
  using ref_release_Inr(2) [OF assms]
    ref_total_move [of a' r a "ref_free b a + min (unat n) (ref_held b r a)"
      "ref_held b r a - min (unat n) (ref_held b r a)" b]
  by (auto split: if_splits)

lemma ref_slash_eq:
  assumes "ref_slash r a n b = ((c, missing), b')"
  shows "c = of_nat (min (unat n) (ref_held b r a))"
    and "missing = of_nat (unat n - min (unat n) (ref_held b r a))"
    and "b' = ref_move r a (ref_free b a) (ref_held b r a - min (unat n) (ref_held b r a)) b"
  using assms by (auto simp: ref_slash_def Let_def)

lemma ref_slash_total:
  assumes "ref_slash r a n b = ((c, missing), b')"
  shows "ref_total a' b = ref_total a' b' + (if a' = a then unat c else 0)"
  using ref_slash_eq [OF assms]
    ref_total_move [of a' r a "ref_free b a" "ref_held b r a - min (unat n) (ref_held b r a)" b]
  by (auto simp: unat_of_nat_min split: if_splits)

lemma ref_slash_total_cases:
  "ref_slash r a n b = ((c, missing), b') \<Longrightarrow> ref_total a b = ref_total a b' + unat c"
  "ref_slash r a n b = ((c, missing), b') \<Longrightarrow> a' \<noteq> a \<Longrightarrow> ref_total a' b = ref_total a' b'"
  using ref_slash_total [of r a n b c missing b'] by simp_all

lemma ref_held_deposit:
  assumes "ref_wf TYPE('w::len) b" and "0 < ref_held b r a"
  shows "ref_existential_deposit \<le> ref_free b a"
  using assms(1) assms(2) ref_wf_def [where 'w = 'w, of "TYPE('w)" b]
  by (rule_tac runtime_reason_cases [of r]) (auto simp: ref_total_def not_less [symmetric])

lemma ref_wf_move:
  assumes "ref_wf TYPE('w::len) b" and "f + h \<le> ref_free b a + ref_held b r a"
    and "f < ref_existential_deposit \<Longrightarrow> ref_free b a < ref_existential_deposit \<and> f = ref_free b a \<and> h = ref_held b r a"
  shows "ref_wf TYPE('w) (ref_move r a f h b)"
  unfolding ref_wf_def
proof (intro allI conjI impI)
  fix a'
  have "ref_total a' b < 2 ^ LENGTH('w)"
    using assms(1) by (simp add: ref_wf_def)
  then show "ref_total a' (ref_move r a f h b) < 2 ^ LENGTH('w)"
    using assms(2) ref_total_move [of a' r a f h b] by (auto split: if_splits)
  assume small: "ref_free (ref_move r a f h b) a' < ref_existential_deposit"
  have unmoved: "ref_move r a f h b = b" if "f < ref_existential_deposit"
    using assms(3) [OF that] by (simp add: ref_move_def)
  show "ref_total a' (ref_move r a f h b) = ref_free (ref_move r a f h b) a'"
  proof (cases "f < ref_existential_deposit")
    case True
    with small assms(1) show ?thesis by (simp add: unmoved ref_wf_def)
  next
    case False
    with small have "a' \<noteq> a" and "ref_free b a' < ref_existential_deposit"
      by (auto simp: ref_move_def split: if_splits)
    with assms(1) ref_total_move [of a' r a f h b] show ?thesis
      by (simp add: ref_wf_def ref_move_def)
  qed
qed

lemma ref_split_eq:
  assumes "ref_split c n = (c1, c2)"
  shows "c1 = min n c" and "unat c1 + unat c2 = unat c"
  using assms by (auto simp: ref_split_def nat_of_word)

text \<open>Each law in the form in which the interface states it.\<close>

abbreviation ref_api :: "(nat, 'w::len word, 'w word, ref_error, unit, ref_ledger) balances_api" where
  "ref_api \<equiv> ref_balances"

lemma ref_hold_law:
  assumes "ref_wf TYPE('w::len) b" and "ref_hold r a (n :: 'w word) b = (Inr u, b')"
  shows "ref_wf TYPE('w) b'"
    and "held (ref_api :: (_, 'w word, _, _, _, _) balances_api) r' a' b' =
      held (ref_api :: (_, 'w word, _, _, _, _) balances_api) r' a' b + at_hold r a (unat n) r' a'"
proof -
  show wf': "ref_wf TYPE('w) b'"
    unfolding ref_hold_Inr(2) [OF assms(2)]
    using assms(2) ref_hold_Inr(1) [OF assms(2)]
    by (intro ref_wf_move [OF assms(1)]) (auto simp: ref_hold_def split: if_splits)
  show "held (ref_api :: (_, 'w word, _, _, _, _) balances_api) r' a' b' =
      held (ref_api :: (_, 'w word, _, _, _, _) balances_api) r' a' b + at_hold r a (unat n) r' a'"
    unfolding held_ref [OF wf'] held_ref [OF assms(1)]
    by (simp add: ref_hold_Inr(2) [OF assms(2)] ref_held_move at_hold_def)
qed

lemma ref_release_law:
  assumes "ref_wf TYPE('w::len) b" and "ref_release r a (n :: 'w word) p b = (Inr m, b')"
  shows "ref_wf TYPE('w) b'"
    and "held (ref_api :: (_, 'w word, _, _, _, _) balances_api) r' a' b =
      held (ref_api :: (_, 'w word, _, _, _, _) balances_api) r' a' b' + at_hold r a (unat m) r' a'"
    and "p = Exact \<Longrightarrow> m = n"
    and "unat m = min (unat n) (held (ref_api :: (_, 'w word, _, _, _, _) balances_api) r a b)"
proof -
  note eqs = ref_release_Inr [OF assms(2)]
  show wf': "ref_wf TYPE('w) b'"
    unfolding eqs(2) using ref_held_deposit [OF assms(1), of r a]
    by (cases "ref_held b r a = 0"; intro ref_wf_move [OF assms(1)]) auto
  show "held (ref_api :: (_, 'w word, _, _, _, _) balances_api) r' a' b =
      held (ref_api :: (_, 'w word, _, _, _, _) balances_api) r' a' b' + at_hold r a (unat m) r' a'"
    unfolding held_ref [OF wf'] held_ref [OF assms(1)]
    by (simp add: eqs(1,2) ref_held_move at_hold_def unat_of_nat_min)
  show "m = n" if "p = Exact"
    using that eqs(1,3) by (simp add: min_def)
  show "unat m = min (unat n) (held (ref_api :: (_, 'w word, _, _, _, _) balances_api) r a b)"
    by (simp add: held_ref [OF assms(1)] eqs(1) unat_of_nat_min)
qed

lemma ref_slash_law:
  assumes "ref_wf TYPE('w::len) b" and "ref_slash r a (n :: 'w word) b = ((c, missing), b')"
  shows "ref_wf TYPE('w) b'"
    and "held (ref_api :: (_, 'w word, _, _, _, _) balances_api) r' a' b =
      held (ref_api :: (_, 'w word, _, _, _, _) balances_api) r' a' b' + at_hold r a (unat c) r' a'"
    and "unat c = min (unat n) (held (ref_api :: (_, 'w word, _, _, _, _) balances_api) r a b)"
    and "unat missing + unat c = unat n"
proof -
  note eqs = ref_slash_eq [OF assms(2)]
  show wf': "ref_wf TYPE('w) b'"
    unfolding eqs(3) using ref_held_deposit [OF assms(1), of r a]
    by (cases "ref_held b r a = 0"; intro ref_wf_move [OF assms(1)]) auto
  show "held (ref_api :: (_, 'w word, _, _, _, _) balances_api) r' a' b =
      held (ref_api :: (_, 'w word, _, _, _, _) balances_api) r' a' b' + at_hold r a (unat c) r' a'"
    unfolding held_ref [OF wf'] held_ref [OF assms(1)]
    by (simp add: eqs(1,3) ref_held_move at_hold_def unat_of_nat_min)
  show "unat c = min (unat n) (held (ref_api :: (_, 'w word, _, _, _, _) balances_api) r a b)"
    by (simp add: held_ref [OF assms(1)] eqs(1) unat_of_nat_min)
  have "unat n - min (unat n) (ref_held b r a) < 2 ^ LENGTH('w)"
    by (rule le_less_trans [OF diff_le_self]) simp
  then have "unat missing = unat n - min (unat n) (ref_held b r a)"
    unfolding eqs(2) unat_of_nat by simp
  then show "unat missing + unat c = unat n"
    by (simp add: eqs(1) unat_of_nat_min)
qed

lemma ref_release_progress:
  assumes "ref_wf TYPE('w::len) b"
    and "unat n \<le> held (ref_api :: (_, 'w word, _, _, _, _) balances_api) r a b"
  shows "\<exists>m b'. ref_release r a n p b = (Inr m, b')"
  using assms by (auto simp: ref_release_def Let_def held_ref)

lemma ref_rehold:
  assumes "ref_wf TYPE('w::len) b" and "ref_release r a (n :: 'w word) p b = (Inr m, b')"
  shows "\<exists>b''. ref_hold r' a m b' = (Inr (), b'')"
proof (cases "ref_held b r a = 0")
  case True
  with ref_release_Inr(1) [OF assms(2)] show ?thesis by (simp add: ref_hold_def)
next
  case False
  have "unat m = min (unat n) (ref_held b r a)"
    and "ref_free b' a = ref_free b a + min (unat n) (ref_held b r a)"
    using ref_release_Inr(1,2) [OF assms(2)] by (simp_all add: unat_of_nat_min ref_move_def)
  with False ref_held_deposit [OF assms(1), of r a] show ?thesis
    by (simp add: ref_hold_def)
qed

lemma ref_failure:
  "ref_hold r a n b = (Inl e, b') \<Longrightarrow> b' = b"
  "ref_release r a n p b = (Inl e, b') \<Longrightarrow> b' = b"
  by (auto simp: ref_hold_def ref_release_def Let_def split: if_splits)

lemma ref_burn_law:
  assumes "ref_wf TYPE('w::len) b"
  shows "ref_wf TYPE('w) (ref_burn cs b)"
    and "held (ref_api :: (_, 'w word, _, _, _, _) balances_api) r a (ref_burn cs b) =
      held (ref_api :: (_, 'w word, _, _, _, _) balances_api) r a b"
    and "ref_total a (ref_burn cs b) = ref_total a b"
  using assms by (simp_all add: ref_wf_def ref_burn_def ref_total_def held_def ref_balance_on_hold_def)

interpretation ref: rehold_ledger ref_balances "ref_wf TYPE('w::len)" ref_total "id :: 'w word \<Rightarrow> 'w word"
  by unfold_locales
    (auto dest: ref_hold_law ref_hold_total ref_release_law ref_release_total ref_slash_law
      ref_slash_total_cases ref_failure ref_split_eq intro: ref_release_progress ref_rehold)

interpretation ref_sink: burning_sink ref_balances "ref_wf TYPE('w::len)" ref_total
  "id :: 'w word \<Rightarrow> 'w word" ref_burn
  by unfold_locales (simp_all add: ref_burn_law)

interpretation ref_pallet: sponsor_config
  "ref_config :: (nat, 'w::len word, 'w word, ref_error, unit, ref_ledger, ref_origin) Config"
  "ref_wf TYPE('w)" ref_total id
  by (intro sponsor_config.intro) (simp add: ref_sink.fee_sink_axioms)

section \<open>The mock runtime\<close>

text \<open>
  The mock runtime of \<^verbatim>\<open>pallets/sponsored-tx/src/mock.rs\<close> over the reference ledger:
  64-bit balances, an allowlist of at most 8 accounts, a destination that burns the credits.
  \<open>new_test_ext\<close> is its initial state (accounts 1, 2 and 3 own 1000 each),
  \<open>mock_policy\<close> its \<open>policy\<close> helper, and \<open>registered_ext\<close> the state that
  most of its tests start from: account 1 sponsors account 2.
\<close>

abbreviation Test :: "(nat, 64 word, 64 word, ref_error, unit, ref_ledger, ref_origin) Config" where
  "Test \<equiv> ref_config"

definition ref_genesis_ledger :: ref_ledger where
  "ref_genesis_ledger = \<lparr>ref_free = (\<lambda>a. if a \<in> {1, 2, 3} then 1000 else 0),
     ref_held = (\<lambda>_ _. 0), ref_issuance = 3000\<rparr>"

definition new_test_ext :: "(nat, 64 word, ref_ledger) chain" where
  "new_test_ext = \<lparr>Sponsors = Map.empty, ledger = ref_genesis_ledger, events = []\<rparr>"

definition mock_policy :: "nat list \<Rightarrow> 64 word \<Rightarrow> (nat, 64 word) SponsorPolicy" where
  "mock_policy callers max_fee = \<lparr>allowed_callers = callers, max_fee_per_tx = max_fee\<rparr>"

definition registered_ext :: "(nat, 64 word, ref_ledger) chain" where
  "registered_ext =
     snd (dispatch_call Test (RefSigned 1) (register_sponsor_call 200 (mock_policy [2] 50)) new_test_ext)"

lemma ref_genesis_wf [simp]: "ref_wf TYPE(64) ref_genesis_ledger"
  by (auto simp: ref_wf_def ref_total_def ref_genesis_ledger_def ref_existential_deposit_def)

lemma new_test_ext_wf [simp]: "ref_wf TYPE(64) (ledger new_test_ext)"
  by (simp add: new_test_ext_def)

lemmas ref_op_defs = ref_hold_def ref_release_def ref_slash_def ref_split_def ref_burn_def
  ref_balance_on_hold_def ref_move_def ref_existential_deposit_def

lemmas mock_defs = new_test_ext_def ref_genesis_ledger_def mock_policy_def

lemma registered_ext_eq:
  "registered_ext = \<lparr>Sponsors = [1 \<mapsto> \<lparr>active = True, policy = mock_policy [2] 50\<rparr>],
     ledger = ref_move budget_hold_reason 1 800 200 ref_genesis_ledger,
     events = [SponsorRegistered 1 200]\<rparr>"
  by (simp add: registered_ext_def dispatch_call_def with_storage_layer_def register_sponsor_run
      ensure_valid_policy_eq mock_defs ref_hold_def ref_existential_deposit_def deposit_event_def
      ref_move_def)

lemma registered_ext_wf [simp]: "ref_wf TYPE(64) (ledger registered_ext)"
  using ref_pallet.dispatch_wf [where 'w = 64, OF new_test_ext_wf, of "RefSigned 1"
      "register_sponsor_call 200 (mock_policy [2] 50)"]
  unfolding registered_ext_def by (cases "dispatch_call Test (RefSigned 1)
      (register_sponsor_call 200 (mock_policy [2] 50)) new_test_ext") simp

lemma registered_ext_sel [simp]:
  "Sponsors registered_ext = [1 \<mapsto> \<lparr>active = True, policy = mock_policy [2] 50\<rparr>]"
  "budget_on_hold Test 1 registered_ext = 200"
  "pending_on_hold Test 1 registered_ext = 0"
  "events registered_ext = [SponsorRegistered 1 200]"
  by (simp_all add: registered_ext_eq budget_on_hold_def pending_on_hold_def ref_balance_on_hold_def
      ref_move_def ref_genesis_ledger_def)

lemmas registered_ext_sel_Suc [simp] = registered_ext_sel(2,3) [unfolded One_nat_def]

end
