(* ===== verification/Fee_Settlement.thy ===== *)
theory Fee_Settlement
  imports Reference_Ledger
begin

text \<open>
  What \<open>settle_sponsored_fee\<close> charges, routes, restores and reports.  The locale
  \<open>settling_config\<close> adds that a hold can be released and its funds held again, under which
  a reservation succeeds and a settlement restores the whole remainder; \<open>burning_config\<close>
  adds a fee destination that pays nobody, under which the settlement conserves every balance but
  the charged one.  Both are interpreted on the reference ledger.
\<close>

section \<open>The charged amount\<close>

definition actual_fee ::
  "('acc, 'w::len word, 'fee, 'u::len word, 'o, 'call, 'info, 'post, 'res, 'imp, 'src, 'v, 'valid, 'val, 'pre, 'weight, 'b)
     payment_api \<Rightarrow> 'w word \<Rightarrow> 'info \<Rightarrow> 'post \<Rightarrow> 'u word \<Rightarrow> ('acc, 'w word, 'b) chain \<Rightarrow> 'w word"
where
  "actual_fee P t info post len s =
     from_fee P (compute_actual_fee P (ucast len) info post (into_fee P t) (ledger s))"

definition charged_fee ::
  "('acc, 'w::len word, 'c, 'e, 'r, 'b, 'o) Config \<Rightarrow>
   ('acc, 'w word, 'fee, 'u::len word, 'o, 'call, 'info, 'post, 'res, 'imp, 'src, 'v, 'valid, 'val, 'pre, 'weight, 'b)
     payment_api \<Rightarrow> 'acc \<Rightarrow> 'w word \<Rightarrow> 'w word \<Rightarrow> 'info \<Rightarrow> 'post \<Rightarrow> 'u word
     \<Rightarrow> ('acc, 'w word, 'b) chain \<Rightarrow> 'w word"
where
  "charged_fee T P spons est t info post len s =
     min (min est (actual_fee P t info post len s)) (pending_on_hold T spons s)"

section \<open>Steps of a settlement\<close>

context sponsor_config
begin

lemma slash_charge:
  assumes "wf (ledger s)"
    and "slash (Balances T) pending_hold_reason spons n (ledger s) = ((credit, missing), b)"
  shows "(if missing \<noteq> 0 then saturating_sub n missing else n) = min n (pending_on_hold T spons s)"
    and "peek credit = min n (pending_on_hold T spons s)"
proof -
  have "unat missing + unat (peek credit) = unat n"
    and eq: "unat (peek credit) = min (unat n) (unat (pending_on_hold T spons s))"
    using slash_missing [OF assms] slash_amount [OF assms] by (simp_all add: hold_sel)
  then have "unat (if missing \<noteq> 0 then saturating_sub n missing else n) = unat (peek credit)"
    by (auto simp: nat_of_word)
  then show "(if missing \<noteq> 0 then saturating_sub n missing else n) = min n (pending_on_hold T spons s)"
    and "peek credit = min n (pending_on_hold T spons s)"
    using eq by (simp_all add: word_unat_eq_iff unat_min del: if_split)
qed

lemma settle_steps:
  fixes s spons est t info post len P
  defines "k \<equiv> charged_fee T P spons est t info post len s"
  assumes wf: "wf (ledger s)"
  obtains credit missing b tip_credit fee_credit where
      "slash (Balances T) pending_hold_reason spons (min est (actual_fee P t info post len s)) (ledger s)
         = ((credit, missing), b)"
    and "wf b" and "peek credit = k"
    and "credit_split (Balances T) credit (min t k) = (tip_credit, fee_credit)"
    and "settle_sponsored_fee T P spons signer est t info post len s =
      (db_reads_writes P SPONSORED_POST_DISPATCH_READS SPONSORED_POST_DISPATCH_WRITES,
       deposit_event (SponsoredTransactionFeePaid spons signer k (min t k))
         (restore_pending_to_budget T spons
           (s\<lparr>ledger := FeeDestination T [fee_credit, tip_credit] b\<rparr>)))"
proof -
  define n where "n = min est (actual_fee P t info post len s)"
  have n: "(if est < actual_fee P t info post len s then est else actual_fee P t info post len s) = n"
    by (auto simp: n_def min_def)
  obtain credit missing b where sl:
    "slash (Balances T) pending_hold_reason spons n (ledger s) = ((credit, missing), b)"
    by (metis surj_pair)
  obtain tc fc where sp: "credit_split (Balances T) credit (min t k) = (tc, fc)"
    by (cases "credit_split (Balances T) credit (min t k)")
  have k: "k = min n (pending_on_hold T spons s)"
    by (simp add: k_def charged_fee_def n_def)
  note charge = slash_charge [OF wf sl, folded k]
  show ?thesis
  proof (rule that [folded n_def])
    show "settle_sponsored_fee T P spons signer est t info post len s =
      (db_reads_writes P SPONSORED_POST_DISPATCH_READS SPONSORED_POST_DISPATCH_WRITES,
       deposit_event (SponsoredTransactionFeePaid spons signer k (min t k))
         (restore_pending_to_budget T spons (s\<lparr>ledger := FeeDestination T [fc, tc] b\<rparr>)))"
      unfolding settle_sponsored_fee_def Let_def
      unfolding actual_fee_def [symmetric] n sl prod.case charge(1) sp ..
  qed (use sl sp charge(2) slash_wf [OF wf sl] in simp_all)
qed

lemma credit_parts:
  assumes "credit_split (Balances T) credit (min t k) = (tip_credit, fee_credit)" and "peek credit = k"
  shows "peek tip_credit = min t k" and "unat (peek fee_credit) + unat (peek tip_credit) = unat k"
  using split_first [OF assms(1)] split_sum [OF assms(1)] assms(2) by (simp_all add: min.assoc)

lemma slash_short:
  assumes "wf (ledger s)"
    and "slash (Balances T) pending_hold_reason spons n (ledger s) = ((credit, missing), b)"
  shows "unat missing + unat (peek credit) = unat n"
  by (rule slash_missing [OF assms])

lemma slash_pending:
  assumes "wf (ledger s)"
    and "slash (Balances T) pending_hold_reason spons n (ledger s) = ((credit, missing), b)"
  shows "held (Balances T) pending_hold_reason spons (ledger s)
    = held (Balances T) pending_hold_reason spons b + unat (peek credit)"
  using slash_held [OF assms] by simp

lemma slash_view:
  assumes "wf (ledger s)"
    and "slash (Balances T) pending_hold_reason spons n (ledger s) = ((credit, missing), b)"
  shows "view T (s\<lparr>ledger := FeeDestination T cs b\<rparr>) =
    (view T s)(spons := (view T s spons)\<lparr>pending := pending (view T s spons) - unat (peek credit)\<rparr>)"
  using slash_held [OF assms] sink_held [OF slash_wf [OF assms]]
  by (auto simp: fun_eq_iff view_def hold_sel at_hold_def)

lemma settle_wf:
  assumes "wf (ledger s)"
  shows "wf (ledger (snd (settle_sponsored_fee T P spons signer est t info post len s)))"
  by (rule settle_steps [OF assms, of spons est P t info post len signer]) (simp add: restore_wf sink_wf)

lemma settle_frame:
  assumes "wf (ledger s)"
  shows "Sponsors (snd (settle_sponsored_fee T P spons signer est t info post len s)) = Sponsors s"
    and "events (snd (settle_sponsored_fee T P spons signer est t info post len s)) = events s @
      [SponsoredTransactionFeePaid spons signer (charged_fee T P spons est t info post len s)
        (min t (charged_fee T P spons est t info post len s))]"
  by (rule settle_steps [OF assms, of spons est P t info post len signer],
      simp add: restore_chain_frame sink_wf)+

text \<open>
  The escrow after a settlement: the charged amount has left the pending reservation, and the
  remainder is back in the budget, or free, or still pending where the balances pallet refused a
  step of the restoration.  No other account's entry changes.
\<close>

lemma settle_view:
  fixes s spons signer est t info post len P
  defines "k \<equiv> charged_fee T P spons est t info post len s"
  defines "s' \<equiv> snd (settle_sponsored_fee T P spons signer est t info post len s)"
  assumes wf: "wf (ledger s)"
  obtains (refused) "view T s' = (view T s)(spons := (view T s spons)
        \<lparr>pending := pending (view T s spons) - unat k\<rparr>)"
    | (freed) "view T s' = (view T s)(spons := (view T s spons)\<lparr>pending := 0\<rparr>)"
    | (restored) "view T s' = (view T s)(spons := (view T s spons)
        \<lparr>pending := 0, budget := budget (view T s spons) + (pending (view T s spons) - unat k)\<rparr>)"
proof (rule settle_steps [OF wf, of spons est P t info post len signer, folded k_def])
  fix credit missing b tc fc
  assume sl: "slash (Balances T) pending_hold_reason spons (min est (actual_fee P t info post len s)) (ledger s)
      = ((credit, missing), b)" and "wf b" and k: "peek credit = k"
    and res: "settle_sponsored_fee T P spons signer est t info post len s =
      (db_reads_writes P SPONSORED_POST_DISPATCH_READS SPONSORED_POST_DISPATCH_WRITES,
       deposit_event (SponsoredTransactionFeePaid spons signer k (min t k))
         (restore_pending_to_budget T spons (s\<lparr>ledger := FeeDestination T [fc, tc] b\<rparr>)))"
  have "wf (ledger (s\<lparr>ledger := FeeDestination T [fc, tc] b\<rparr>))"
    using \<open>wf b\<close> by (simp add: sink_wf)
  from restore_view [OF this, of spons] show ?thesis
    using refused freed restored
    by (auto simp: s'_def res slash_view [OF wf sl] k)
qed

lemma settle_other_holds:
  assumes wf: "wf (ledger s)" and "r \<noteq> budget_hold_reason" and "r \<noteq> pending_hold_reason"
  shows "held (Balances T) r a (ledger (snd (settle_sponsored_fee T P spons signer est t info post len s)))
    = held (Balances T) r a (ledger s)"
proof (rule settle_steps [OF wf, of spons est P t info post len signer])
  fix credit missing b tc fc
  assume sl: "slash (Balances T) pending_hold_reason spons (min est (actual_fee P t info post len s)) (ledger s)
      = ((credit, missing), b)" and "wf b"
    and res: "settle_sponsored_fee T P spons signer est t info post len s =
      (db_reads_writes P SPONSORED_POST_DISPATCH_READS SPONSORED_POST_DISPATCH_WRITES,
       deposit_event (SponsoredTransactionFeePaid spons signer (charged_fee T P spons est t info post len s)
           (min t (charged_fee T P spons est t info post len s)))
         (restore_pending_to_budget T spons (s\<lparr>ledger := FeeDestination T [fc, tc] b\<rparr>)))"
  show ?thesis
    using assms(2,3) slash_held [OF wf sl, of r a] \<open>wf b\<close>
    by (simp add: res restore_other_holds sink_wf sink_held)
qed

end

section \<open>Configurations with progress and with a burning destination\<close>

locale settling_config = sponsor_config T wf total peek + rehold_ledger "Balances T" wf total peek
  for T :: "('acc, 'w::len word, 'c, 'e, 'r, 'b, 'o) Config"
    and wf :: "'b \<Rightarrow> bool"
    and total :: "'acc \<Rightarrow> 'b \<Rightarrow> nat"
    and peek :: "'c \<Rightarrow> 'w word"
begin

lemma reserve_succeeds:
  assumes "wf (ledger s)" and "n \<le> budget_on_hold T who s"
  shows "\<exists>t. move_budget_to_pending T who n s = (Inr (), t)"
proof -
  have "unat n \<le> held (Balances T) budget_hold_reason who (ledger s)"
    using assms(2) by (simp add: word_le_nat_alt flip: hold_sel)
  then obtain m b where rel: "release (Balances T) budget_hold_reason who n Exact (ledger s) = (Inr m, b)"
    using release_live [OF assms(1)] by blast
  moreover obtain b' where "hold (Balances T) pending_hold_reason who n b = (Inr (), b')"
    using rehold [OF assms(1) rel] release_exact [OF assms(1) rel] by blast
  ultimately show ?thesis by (simp add: move_budget_run)
qed

lemma prepare_succeeds:
  fixes P :: "('acc, 'w word, 'fee, 'u::len word, 'o, 'call, 'info, 'post, 'res, 'imp, 'src, 'v, 'valid, 'val, 'pre, 'weight, 'b)
     payment_api"
  assumes "wf (ledger s)" and "fee \<le> budget_on_hold T spons s"
  obtains u where "prepare T P self (ValSponsored spons signer fee t) origin call info len s
      = (Inr (PreSponsored spons signer fee t), u)"
    and "view T u = (view T s)(spons := (view T s spons)\<lparr>budget := budget (view T s spons) - unat fee,
         pending := pending (view T s spons) + unat fee\<rparr>)"
    and "wf (ledger u)" and "Sponsors u = Sponsors s" and "events u = events s"
    and "\<And>a. total a (ledger u) = total a (ledger s)"
proof -
  obtain u where run: "(move_budget_to_pending T spons fee s :: ('v TransactionValidityError + unit) \<times> _)
      = (Inr (), u)"
    using reserve_succeeds [OF assms] by blast
  then have "prepare T P self (ValSponsored spons signer fee t) origin call info len s
      = (Inr (PreSponsored spons signer fee t), u)"
    by (simp add: prepare_def ok_def)
  then show ?thesis
    by (rule that [OF _ move_budget_view(2) [OF assms(1) run] move_budget_wf [OF assms(1) run]
      move_budget_frame [OF assms(1) run] move_budget_total [OF assms(1) run]])
qed

lemma unregister_succeeds:
  assumes "wf (ledger s)" and "ensure_signed T origin = Inr who"
    and "Sponsors s who \<noteq> None" and "pending_on_hold T who s = 0"
  obtains t where "dispatch_call T origin unregister_call s = (Inr (), t)"
proof -
  have "\<exists>m b. release (Balances T) budget_hold_reason who (budget_on_hold T who s) Exact (ledger s) = (Inr m, b)"
    by (rule release_live [OF assms(1)]) (simp flip: hold_sel)
  then have "\<exists>t. dispatch_call T origin unregister_call s = (Inr (), t)"
    using assms(2-)
    by (auto simp: dispatch_call_def with_storage_layer_def unregister_run split: prod.splits if_splits)
  with that show ?thesis by blast
qed

lemma decrease_budget_succeeds:
  assumes "wf (ledger s)" and "ensure_signed T origin = Inr who" and "n \<noteq> 0"
    and "Sponsors s who \<noteq> None" and "n \<le> budget_on_hold T who s"
  obtains t where "dispatch_call T origin (decrease_budget_call n) s = (Inr (), t)"
proof -
  have "\<exists>m b. release (Balances T) budget_hold_reason who n Exact (ledger s) = (Inr m, b)"
    using assms(5) by (intro release_live [OF assms(1)]) (simp add: word_le_nat_alt flip: hold_sel)
  then have "\<exists>t. dispatch_call T origin (decrease_budget_call n) s = (Inr (), t)"
    using assms(2-)
    by (auto simp: dispatch_call_def with_storage_layer_def decrease_budget_run split: prod.splits if_splits)
  with that show ?thesis by blast
qed

lemma restore_complete:
  assumes "wf (ledger s)"
  shows "view T (restore_pending_to_budget T who s) = (view T s)(who := (view T s who)
    \<lparr>pending := 0, budget := budget (view T s who) + pending (view T s who)\<rparr>)"
proof (rule restore_pending_cases [OF assms, of who])
  assume same: "restore_pending_to_budget T who s = s"
    and why: "pending_on_hold T who s = 0
      \<or> (\<exists>e. fst (release (Balances T) pending_hold_reason who (pending_on_hold T who s) BestEffort (ledger s)) = Inl e)"
  have "\<exists>m b. release (Balances T) pending_hold_reason who (pending_on_hold T who s) BestEffort (ledger s) = (Inr m, b)"
    by (rule release_live [OF assms]) (simp flip: hold_sel)
  with why have "pending_on_hold T who s = 0" by auto
  with same show ?thesis by (auto simp: fun_eq_iff view_def)
next
  fix b
  assume rel: "release (Balances T) pending_hold_reason who (pending_on_hold T who s) BestEffort (ledger s)
      = (Inr (pending_on_hold T who s), b)"
    and "\<exists>e. fst (hold (Balances T) budget_hold_reason who (pending_on_hold T who s) b) = Inl e"
  with rehold [OF assms rel, of budget_hold_reason] show ?thesis by auto
next
  fix b b'
  assume rel: "release (Balances T) pending_hold_reason who (pending_on_hold T who s) BestEffort (ledger s)
      = (Inr (pending_on_hold T who s), b)" and "wf b"
    and hol: "hold (Balances T) budget_hold_reason who (pending_on_hold T who s) b = (Inr (), b')"
    and res: "restore_pending_to_budget T who s = s\<lparr>ledger := b'\<rparr>"
  show ?thesis
    using view_hold_budget [of "s\<lparr>ledger := b\<rparr>" who "pending_on_hold T who s" "()" b'] \<open>wf b\<close> hol
    by (simp add: res view_release_pending [OF assms rel])
qed

lemma settle_exact:
  assumes wf: "wf (ledger s)"
  shows "view T (snd (settle_sponsored_fee T P spons signer est t info post len s)) =
    (view T s)(spons := (view T s spons)\<lparr>pending := 0,
       budget := budget (view T s spons)
         + (pending (view T s spons) - unat (charged_fee T P spons est t info post len s))\<rparr>)"
  by (rule settle_steps [OF wf, of spons est P t info post len signer])
    (simp add: restore_complete sink_wf slash_view [OF wf])

end

locale burning_config = sponsor_config T wf total peek
    + burning_sink "Balances T" wf total peek "FeeDestination T"
  for T :: "('acc, 'w::len word, 'c, 'e, 'r, 'b, 'o) Config"
    and wf :: "'b \<Rightarrow> bool"
    and total :: "'acc \<Rightarrow> 'b \<Rightarrow> nat"
    and peek :: "'c \<Rightarrow> 'w word"
begin

lemma settle_total:
  assumes wf: "wf (ledger s)"
  shows "total a (ledger s) =
    total a (ledger (snd (settle_sponsored_fee T P spons signer est t info post len s)))
      + (if a = spons then unat (charged_fee T P spons est t info post len s) else 0)"
  by (rule settle_steps [OF wf, of spons est P t info post len signer])
    (use slash_total [OF wf] in \<open>auto simp: restore_total sink_wf sink_total\<close>)

end

interpretation ref_settling: settling_config
  "ref_config :: (nat, 'w::len word, 'w word, ref_error, unit, ref_ledger, ref_origin) Config"
  "ref_wf TYPE('w)" ref_total id
  by (intro settling_config.intro ref_pallet.sponsor_config_axioms)
    (simp add: ref.rehold_ledger_axioms)

interpretation ref_burning: burning_config
  "ref_config :: (nat, 'w::len word, 'w word, ref_error, unit, ref_ledger, ref_origin) Config"
  "ref_wf TYPE('w)" ref_total id
  by (intro burning_config.intro ref_pallet.sponsor_config_axioms)
    (simp add: ref_sink.burning_sink_axioms)

end
