(* ===== verification/Reference_Payment.thy ===== *)
theory Reference_Payment
  imports Reference_Ledger
begin

text \<open>
  An executable payment extension over the reference ledger, so that witnesses can run whole
  transactions.  It is not a model of the transaction payment pallet: a fee is the declared (or
  the actual) amount plus one unit per byte plus the tip, an ordinary transaction withdraws its
  fee from the signer's free balance, and weights are reads plus writes.
\<close>

definition ref_compute_fee :: "32 word \<Rightarrow> 'w::len word \<Rightarrow> 'w word \<Rightarrow> ref_ledger \<Rightarrow> 'w word" where
  "ref_compute_fee len info t b = saturating_add (saturating_add (ucast len) info) t"

definition ref_compute_actual_fee ::
  "32 word \<Rightarrow> 'w::len word \<Rightarrow> 'w word \<Rightarrow> 'w word \<Rightarrow> ref_ledger \<Rightarrow> 'w word"
where
  "ref_compute_actual_fee len info post t b =
     saturating_add (saturating_add (ucast len) (min info post)) t"

fun ref_signer :: "ref_origin \<Rightarrow> nat option" where
  "ref_signer (RefSigned who) = Some who"
| "ref_signer RefRoot = None"
| "ref_signer RefNone = None"

definition ref_base_validate ::
  "'w::len word \<Rightarrow> ref_origin \<Rightarrow> unit \<Rightarrow> 'w word \<Rightarrow> 64 word \<Rightarrow> unit \<Rightarrow> unit \<Rightarrow> ref_ledger
     \<Rightarrow> ref_error + (64 word \<times> (nat \<times> 'w word) option \<times> ref_origin)"
where
  "ref_base_validate t origin call info len imp src b =
     (case ref_signer origin of
        None \<Rightarrow> Inr (0, None, origin)
      | Some who \<Rightarrow>
          let fee = ref_compute_fee (ucast len) info t b in
          if unat fee + ref_existential_deposit \<le> ref_free b who
          then Inr (ucast t, Some (who, fee), origin)
          else Inl FundsUnavailable)"

definition ref_base_prepare ::
  "'w::len word \<Rightarrow> (nat \<times> 'w word) option \<Rightarrow> ref_origin \<Rightarrow> unit \<Rightarrow> 'w word \<Rightarrow> 64 word
     \<Rightarrow> (ref_ledger, ref_error, unit) op"
where
  "ref_base_prepare t val origin call info len b =
     (case val of
        None \<Rightarrow> (Inr (), b)
      | Some (who, fee) \<Rightarrow>
          if unat fee + ref_existential_deposit \<le> ref_free b who
          then (Inr (), b\<lparr>ref_free := (ref_free b)(who := ref_free b who - unat fee)\<rparr>)
          else (Inl FundsUnavailable, b))"

definition ref_payment ::
  "(nat, 'w::len word, 'w word, 64 word, ref_origin, unit, 'w word, 'w word, unit, unit, unit,
    ref_error, 64 word, (nat \<times> 'w word) option, unit, 64 word, ref_ledger) payment_api"
where
  "ref_payment = \<lparr>compute_fee = ref_compute_fee, compute_actual_fee = ref_compute_actual_fee,
     get_priority = (\<lambda>info len t fee. ucast t), with_priority = id,
     as_system_origin_signer = ref_signer, into_fee = id, from_fee = id,
     base_weight = (\<lambda>_ _. 1), base_validate = ref_base_validate, base_prepare = ref_base_prepare,
     base_post_dispatch_details = (\<lambda>_ _ _ _ _ b. (Inr 0, b)),
     db_reads_writes = (+), weight_saturating_add = saturating_add\<rparr>"

lemma ref_payment_sel [simp]:
  "compute_fee ref_payment = ref_compute_fee"
  "compute_actual_fee ref_payment = ref_compute_actual_fee"
  "get_priority ref_payment = (\<lambda>info len t fee. ucast t)"
  "with_priority ref_payment = id"
  "as_system_origin_signer ref_payment = ref_signer"
  "into_fee ref_payment = id" "from_fee ref_payment = id"
  "base_weight ref_payment = (\<lambda>_ _. 1)"
  "base_validate ref_payment = ref_base_validate"
  "base_prepare ref_payment = ref_base_prepare"
  "base_post_dispatch_details ref_payment = (\<lambda>_ _ _ _ _ b. (Inr 0, b))"
  "db_reads_writes ref_payment = (+)" "weight_saturating_add ref_payment = saturating_add"
  by (simp_all add: ref_payment_def)

lemma ref_base_prepare_law:
  assumes "ref_wf TYPE('w::len) b" and "ref_base_prepare t val origin call info len b = (Inr u, b')"
  shows "ref_wf TYPE('w) b'" and "ref_held b' = ref_held b"
proof -
  show "ref_held b' = ref_held b"
    using assms(2) by (auto simp: ref_base_prepare_def split: option.splits if_splits)
  then have sum: "ref_total a b' + ref_free b a = ref_total a b + ref_free b' a" for a
    by (simp add: ref_total_def)
  have free: "ref_free b' a \<le> ref_free b a"
    and small: "ref_free b' a < ref_existential_deposit \<Longrightarrow> ref_free b' a = ref_free b a" for a
    using assms(2) by (auto simp: ref_base_prepare_def split: option.splits if_splits)
  show "ref_wf TYPE('w) b'"
    unfolding ref_wf_def
  proof (intro allI conjI impI)
    fix a
    have bound: "ref_total a b < 2 ^ LENGTH('w)"
      and low: "ref_free b a < ref_existential_deposit \<longrightarrow> ref_total a b = ref_free b a"
      using assms(1) by (simp_all add: ref_wf_def)
    show "ref_total a b' < 2 ^ LENGTH('w)"
      using sum [of a] free [of a] bound by linarith
    assume "ref_free b' a < ref_existential_deposit"
    with small [of a] low sum [of a] show "ref_total a b' = ref_free b' a" by simp
  qed
qed

section \<open>A transaction of the mock runtime\<close>

text \<open>
  The transaction of the mock tests: account 2 sends a call with a tip of 5, sponsored by account
  1, with a declared fee of 10 and a length of 3, so the estimate is 18.  \<open>prepared_ext\<close>
  is the state after validation and preparation.
\<close>

abbreviation TestPayment ::
  "(nat, 64 word, 64 word, 64 word, ref_origin, unit, 64 word, 64 word, unit, unit, unit,
    ref_error, 64 word, (nat \<times> 64 word) option, unit, 64 word, ref_ledger) payment_api"
where
  "TestPayment \<equiv> ref_payment"

definition prepared_ext :: "(nat, 64 word, ref_ledger) chain" where
  "prepared_ext = snd (prepare Test TestPayment (new 5 (Some 1)) (ValSponsored 1 2 18 5) (RefSigned 2) () 10 3 registered_ext)"

lemmas ref_fee_defs = ref_compute_fee_def ref_compute_actual_fee_def saturating_add_def

lemma mock_validate:
  "validate Test TestPayment (new 5 (Some 1)) (RefSigned 2) () 10 3 () () registered_ext =
     Inr (5, ValSponsored 1 2 18 5, RefSigned 2)"
  by (simp add: validate_def sponsor_state_def mock_policy_def ref_fee_defs)

lemma mock_prepare:
  "prepare Test TestPayment (new 5 (Some 1)) (ValSponsored 1 2 18 5) (RefSigned 2) () 10 3 registered_ext =
     (Inr (PreSponsored 1 2 18 5), prepared_ext)"
  "prepared_ext = \<lparr>Sponsors = [1 \<mapsto> \<lparr>active = True, policy = mock_policy [2] 50\<rparr>],
     ledger = ref_move pending_hold_reason 1 800 18 (ref_move budget_hold_reason 1 818 182 ref_genesis_ledger),
     events = [SponsorRegistered 1 200]\<rparr>"
  by (simp_all add: prepared_ext_def prepare_def move_budget_run and_then_def ok_def registered_ext_eq
      ref_op_defs ref_genesis_ledger_def)

lemma prepared_ext_wf [simp]: "ref_wf TYPE(64) (ledger prepared_ext)"
  using mock_prepare(1) unfolding prepare_def SponsoredVal.case
  by (auto simp: op_simps dest!: ref_pallet.move_budget_wf [where 'w = 64, OF registered_ext_wf])

lemma prepared_ext_sel [simp]:
  "Sponsors prepared_ext = [1 \<mapsto> \<lparr>active = True, policy = mock_policy [2] 50\<rparr>]"
  "budget_on_hold Test 1 prepared_ext = 182" "pending_on_hold Test 1 prepared_ext = 18"
  "events prepared_ext = [SponsorRegistered 1 200]"
  by (simp_all add: mock_prepare(2) budget_on_hold_def pending_on_hold_def ref_op_defs
      ref_genesis_ledger_def)

lemmas prepared_ext_sel_Suc [simp] = prepared_ext_sel(2,3) [unfolded One_nat_def]

end
