(* ===== verification/Sponsor_Lifecycle.thy ===== *)
theory Sponsor_Lifecycle
  imports Fee_Settlement Reference_Payment
begin

text \<open>
  The pallet and its extension as a state machine.  A block executes one extrinsic at a time:
  \<open>validate\<close> and \<open>prepare\<close> open a transaction, the dispatch in between may run any
  number of calls of this pallet (by any origin, as a batch can) and any code of other pallets
  that leaves this pallet's storage and holds alone, and \<open>post_dispatch_details\<close> closes
  it.  The invariants are proved by rule induction over the reachable states, in a configuration
  that keeps the contracts of the balances and of the transaction payment pallet.
\<close>

section \<open>States and steps\<close>

datatype ('acc, 'n, 'pre) phase = Idle | Dispatching "('acc, 'n, 'pre) SponsoredPre"

text \<open>
  An allowlist is a \<open>BoundedVec\<close>: a call whose policy is longer than
  \<open>MaxAllowedCallers\<close> does not decode.
\<close>

definition policy_bounded ::
  "('acc, 'w::len word, 'c, 'e, 'r, 'b, 'o) Config \<Rightarrow> ('acc, 'w word) SponsorPolicy \<Rightarrow> bool"
where
  "policy_bounded T p \<longleftrightarrow> length (allowed_callers p) \<le> unat (MaxAllowedCallers T)"

fun call_decodes ::
  "('acc, 'w::len word, 'c, 'e, 'r, 'b, 'o) Config \<Rightarrow> ('acc, 'w word) Call \<Rightarrow> bool"
where
  "call_decodes T (register_sponsor_call n p) \<longleftrightarrow> policy_bounded T p"
| "call_decodes T (set_policy_call p) \<longleftrightarrow> policy_bounded T p"
| "call_decodes T _ \<longleftrightarrow> True"

inductive lifecycle_step ::
  "('acc, 'w::len word, 'c, 'e, 'r, 'b, 'o) Config \<Rightarrow> ('b \<Rightarrow> bool) \<Rightarrow>
   ('acc, 'w word, 'fee, 'u::len word, 'o, 'call, 'info, 'post, 'res, 'imp, 'src, 'v, 'valid, 'val, 'pre, 'weight, 'b)
     payment_api \<Rightarrow> ('acc, 'w word, 'pre) phase \<times> ('acc, 'w word, 'b) chain
     \<Rightarrow> ('acc, 'w word, 'pre) phase \<times> ('acc, 'w word, 'b) chain \<Rightarrow> bool"
  for T wf P
where
  open_transaction:
    "validate T P self origin call info len imp src s = Inr (valid, val, origin') \<Longrightarrow>
     prepare T P self val origin' call info len s = (Inr pre, t) \<Longrightarrow>
     lifecycle_step T wf P (Idle, s) (Dispatching pre, t)"
| pallet_call:
    "call_decodes T c \<Longrightarrow> dispatch_call T origin c s = (r, t) \<Longrightarrow>
     lifecycle_step T wf P (ph, s) (ph, t)"
| other_pallets:
    "wf b \<Longrightarrow> (\<And>h a. held (Balances T) (SponsoredTxHold h) a b
        = held (Balances T) (SponsoredTxHold h) a (ledger s)) \<Longrightarrow>
     lifecycle_step T wf P (ph, s) (ph, s\<lparr>ledger := b\<rparr>)"
| close_transaction:
    "post_dispatch_details T P pre info post len res s = (Inr w, t) \<Longrightarrow>
     lifecycle_step T wf P (Dispatching pre, s) (Idle, t)"

inductive_cases lifecycle_stepE: "lifecycle_step T W P x y"

text \<open>A chain starts with no sponsor, no escrowed funds and no event of this pallet.\<close>

definition genesis ::
  "('acc, 'w::len word, 'c, 'e, 'r, 'b, 'o) Config \<Rightarrow> ('b \<Rightarrow> bool) \<Rightarrow> ('acc, 'w word, 'b) chain \<Rightarrow> bool"
where
  "genesis T W s \<longleftrightarrow> W (ledger s) \<and> Sponsors s = Map.empty \<and> events s = []
     \<and> (\<forall>a. budget_on_hold T a s = 0 \<and> pending_on_hold T a s = 0)"

inductive reachable ::
  "('acc, 'w::len word, 'c, 'e, 'r, 'b, 'o) Config \<Rightarrow> ('b \<Rightarrow> bool) \<Rightarrow>
   ('acc, 'w word, 'fee, 'u::len word, 'o, 'call, 'info, 'post, 'res, 'imp, 'src, 'v, 'valid, 'val, 'pre, 'weight, 'b)
     payment_api \<Rightarrow> ('acc, 'w word, 'pre) phase \<Rightarrow> ('acc, 'w word, 'b) chain \<Rightarrow> bool"
  for T wf P
where
  initially: "genesis T wf s \<Longrightarrow> reachable T wf P Idle s"
| stepped: "reachable T wf P ph s \<Longrightarrow> lifecycle_step T wf P (ph, s) (ph', t) \<Longrightarrow> reachable T wf P ph' t"

section \<open>The invariant\<close>

text \<open>What the phase says is reserved of an account.\<close>

fun reserved :: "('acc, 'w::len word, 'pre) phase \<Rightarrow> 'acc \<Rightarrow> nat" where
  "reserved (Dispatching (PreSponsored spons signer est t)) a = (if a = spons then unat est else 0)"
| "reserved (Dispatching (PreUnsponsored pre)) a = 0"
| "reserved Idle a = 0"

text \<open>The funds of an account in escrow, as its owner can compute them from the events.\<close>

fun replay_event :: "'acc \<Rightarrow> ('acc, 'w::len word) Event \<Rightarrow> nat \<Rightarrow> nat" where
  "replay_event a (SponsorRegistered who n) x = (if who = a then x + unat n else x)"
| "replay_event a (BudgetIncreased who n _) x = (if who = a then x + unat n else x)"
| "replay_event a (BudgetDecreased who n _) x = (if who = a then x - unat n else x)"
| "replay_event a (SponsorUnregistered who) x = (if who = a then 0 else x)"
| "replay_event a (SponsoredTransactionFeePaid who _ fee _) x = (if who = a then x - unat fee else x)"
| "replay_event a (SponsorPolicyUpdated _) x = x"
| "replay_event a (SponsorPaused _) x = x"
| "replay_event a (SponsorResumed _) x = x"

definition replay :: "('acc, 'w::len word) Event list \<Rightarrow> 'acc \<Rightarrow> nat" where
  "replay evs a = fold (replay_event a) evs 0"

lemma replay_snoc [simp]: "replay (evs @ [e]) a = replay_event a e (replay evs a)"
  by (simp add: replay_def)

lemma replay_Nil [simp]: "replay [] a = 0"
  by (simp add: replay_def)

definition escrow_inv ::
  "('acc, 'w::len word, 'c, 'e, 'r, 'b, 'o) Config \<Rightarrow> ('b \<Rightarrow> bool) \<Rightarrow>
   ('acc, 'w word, 'pre) phase \<Rightarrow> ('acc, 'w word, 'b) chain \<Rightarrow> bool"
where
  "escrow_inv T W ph s \<longleftrightarrow> W (ledger s) \<and> escrow_sound (view T s)
     \<and> (\<forall>a st. Sponsors s a = Some st \<longrightarrow> policy_bounded T (policy st))
     \<and> (\<forall>a. pending (view T s a) = reserved ph a)
     \<and> (\<forall>a. budget (view T s a) + pending (view T s a) = replay (events s) a)"

lemma escrow_invI:
  assumes "W (ledger s)" and "escrow_sound (view T s)"
    and "\<And>a st. Sponsors s a = Some st \<Longrightarrow> policy_bounded T (policy st)"
    and "\<And>a. pending (view T s a) = reserved ph a"
    and "\<And>a. budget (view T s a) + pending (view T s a) = replay (events s) a"
  shows "escrow_inv T W ph s"
  using assms unfolding escrow_inv_def by blast

lemma escrow_invD:
  assumes "escrow_inv T W ph s"
  shows "W (ledger s)" and "escrow_sound (view T s)"
    and "Sponsors s a = Some st \<Longrightarrow> policy_bounded T (policy st)"
    and "pending (view T s a) = reserved ph a"
    and "budget (view T s a) + pending (view T s a) = replay (events s) a"
  using assms unfolding escrow_inv_def by blast+

text \<open>The effect of a successful call on the replayed events, at the level of the specification.\<close>

lemma spec_call_replay:
  assumes "spec_call who c v = Inr v'" and "escrow_sound v"
    and "budget (v a) + pending (v a) = x"
  shows "budget (v' a) + pending (v' a) = replay_event a (call_event T who c t) x"
  using assms escrow_sound_at(2,3) [OF assms(2), of who]
  by (cases c) (auto split: if_splits option.splits)

lemma spec_call_bounded:
  assumes "spec_call who c v = Inr v'" and "call_decodes T c"
    and "\<And>a st. registration (v a) = Some st \<Longrightarrow> policy_bounded T (policy st)"
    and "registration (v' a) = Some st"
  shows "policy_bounded T (policy st)"
  using assms by (cases c) (auto split: if_splits option.splits)

section \<open>A configuration with its payment pallet\<close>

text \<open>
  What the wrapped payment extension keeps: it moves free balance, it does not touch holds
  (\<open>OnChargeTransaction\<close> of the transaction payment pallet withdraws and refunds).
\<close>

locale payment_config = settling_config T wf total peek
  for T :: "('acc, 'w::len word, 'c, 'e, 'r, 'b, 'o) Config"
    and wf :: "'b \<Rightarrow> bool"
    and total :: "'acc \<Rightarrow> 'b \<Rightarrow> nat"
    and peek :: "'c \<Rightarrow> 'w word" +
  fixes P :: "('acc, 'w word, 'fee, 'u::len word, 'o, 'call, 'info, 'post, 'res, 'imp, 'src, 'v, 'valid, 'val, 'pre, 'weight, 'b)
     payment_api"
  assumes base_prepare_keeps: "wf b \<Longrightarrow> base_prepare P f val origin call info len b = (Inr pre, b') \<Longrightarrow>
      wf b' \<and> held (Balances T) r a b' = held (Balances T) r a b"
    and base_post_keeps: "wf b \<Longrightarrow> base_post_dispatch_details P pre info post len res b = (Inr w, b') \<Longrightarrow>
      wf b' \<and> held (Balances T) r a b' = held (Balances T) r a b"
begin

lemma view_same_holds:
  assumes "\<And>h a. held (Balances T) (SponsoredTxHold h) a b = held (Balances T) (SponsoredTxHold h) a (ledger s)"
  shows "view T (s\<lparr>ledger := b\<rparr>) = view T s"
  using assms by (auto simp: fun_eq_iff view_def hold_sel budget_hold_reason_def pending_hold_reason_def)

lemma inv_same_holds:
  assumes "escrow_inv T wf ph s" and "wf b" and "reserved ph' = reserved ph"
    and "\<And>h a. held (Balances T) (SponsoredTxHold h) a b = held (Balances T) (SponsoredTxHold h) a (ledger s)"
  shows "escrow_inv T wf ph' (s\<lparr>ledger := b\<rparr>)"
  using escrow_invD [OF assms(1)] assms(2,3)
  by (intro escrow_invI) (simp_all add: view_same_holds [OF assms(4)] del: view_sel)

lemma inv_call:
  assumes inv: "escrow_inv T wf ph s" and "call_decodes T c" and run: "dispatch_call T origin c s = (r, t)"
  shows "escrow_inv T wf ph t"
proof (cases r)
  case (Inl e)
  with inv run show ?thesis by (auto dest: dispatch_failure)
next
  case (Inr u)
  have wf: "wf (ledger s)" using inv by (simp add: escrow_inv_def)
  from run Inr obtain who where who: "ensure_signed T origin = Inr who" by (auto elim: dispatch_signed)
  with run Inr have spec: "spec_call who c (view T s) = Inr (view T t)"
    by (auto intro: dispatch_success [OF wf])
  note facts = escrow_invD [OF inv]
  have ev: "events t = events s @ [call_event T who c t]"
    using dispatch_event [OF who] run Inr by blast
  show ?thesis
  proof (rule escrow_invI)
    show "Sponsors t a = Some st \<Longrightarrow> policy_bounded T (policy st)" for a st
      using spec_call_bounded [OF spec \<open>call_decodes T c\<close>, of a st] facts(3) by simp
    show "budget (view T t a) + pending (view T t a) = replay (events t) a" for a
      unfolding ev replay_snoc by (rule spec_call_replay [OF spec facts(2,5)])
    show "pending (view T t a) = reserved ph a" for a
      using spec_call_pending [OF spec, of a] facts(4) by simp
  qed (rule dispatch_wf [OF wf run] spec_call_sound [OF facts(2) spec])+
qed

lemma inv_prepare_sponsored:
  assumes inv: "escrow_inv T wf Idle s" and "Sponsors s spons \<noteq> None"
    and run: "move_budget_to_pending T spons fee s = (Inr u, t)"
  shows "escrow_inv T wf (Dispatching (PreSponsored spons signer fee tp)) t"
proof -
  have wf: "wf (ledger s)" using inv by (simp add: escrow_inv_def)
  note v = move_budget_view [OF wf run] and frame = move_budget_frame [OF wf run]
  note facts = escrow_invD [OF inv]
  show ?thesis
  proof (rule escrow_invI)
    show "escrow_sound (view T t)"
      unfolding v(2) using assms(2) escrow_sound_at(1) [OF facts(2), of spons]
      by (intro escrow_sound_upd [OF facts(2)]) (auto simp: entry_sound_def)
    show "pending (view T t a) = reserved (Dispatching (PreSponsored spons signer fee tp)) a" for a
      using v(2) facts(4) by (simp del: view_sel)
    show "budget (view T t a) + pending (view T t a) = replay (events t) a" for a
      using v facts(5) [of a] by (cases "a = spons") (simp_all add: frame del: view_sel)
  qed (use facts(3) frame in \<open>auto intro: move_budget_wf [OF wf run]\<close>)
qed

lemma settle_in_flight:
  assumes inv: "escrow_inv T wf (Dispatching (PreSponsored spons signer est t)) s"
  shows "charged_fee T P spons est t info post len s = min est (actual_fee P t info post len s)"
proof -
  have "unat (pending_on_hold T spons s) = unat est"
    using inv by (simp add: escrow_inv_def)
  then show ?thesis by (simp add: charged_fee_def word_unat_eq_iff [symmetric] min.absorb1)
qed

lemma inv_settle:
  assumes inv: "escrow_inv T wf (Dispatching (PreSponsored spons signer est t)) s"
  shows "escrow_inv T wf Idle (snd (settle_sponsored_fee T P spons signer est t info post len s))"
    (is "escrow_inv T wf Idle ?s'")
proof -
  note facts = escrow_invD [OF inv]
  let ?k = "charged_fee T P spons est t info post len s"
  note v = settle_exact [OF facts(1), of P spons signer est t info post len]
  have k: "unat ?k \<le> pending (view T s spons)"
    by (simp add: charged_fee_def unat_min)
  show ?thesis
  proof (rule escrow_invI)
    have "entry_sound ((view T s spons)\<lparr>pending := 0, budget := budget (view T s spons)
        + (pending (view T s spons) - unat ?k)\<rparr>)"
      using escrow_sound_at [OF facts(2), of spons]
      by (cases "registration (view T s spons)") (auto simp: entry_sound_def simp del: view_sel)
    then show "escrow_sound (view T ?s')"
      unfolding v by (rule escrow_sound_upd [OF facts(2)])
    show "pending (view T ?s' a) = reserved Idle a" for a
      using v facts(4) [of a] by (simp del: view_sel)
    show "budget (view T ?s' a) + pending (view T ?s' a) = replay (events ?s') a" for a
      unfolding settle_frame(2) [OF facts(1)] replay_snoc v
      using facts(4,5) [of a] k by (auto simp del: view_sel)
  qed (use facts(3) in \<open>auto simp: settle_frame(1) [OF facts(1)] intro: settle_wf [OF facts(1)]\<close>)
qed

lemma inv_open:
  assumes inv: "escrow_inv T wf Idle s"
    and val: "validate T P self origin call info len imp src s = Inr (valid, v, origin')"
    and pre: "prepare T P self v origin'' call info len s = (Inr pre, t)"
  shows "escrow_inv T wf (Dispatching pre) t"
proof (cases v)
  case (ValUnsponsored bv)
  with pre obtain bp b where run: "base_prepare P (into_fee P (tip self)) bv origin'' call info len (ledger s) = (Inr bp, b)"
    and "t = s\<lparr>ledger := b\<rparr>" and "pre = PreUnsponsored bp"
    by (auto simp: prepare_def op_simps)
  with base_prepare_keeps [OF escrow_invD(1) [OF inv] run] show ?thesis
    by (auto intro!: inv_same_holds [OF inv])
next
  case (ValSponsored spons signer fee tp)
  with val validate_sponsored obtain st where "Sponsors s spons = Some st" by metis
  moreover from pre ValSponsored
  have run: "(move_budget_to_pending T spons fee s :: ('v TransactionValidityError + unit) \<times> _) = (Inr (), t)"
    and "pre = PreSponsored spons signer fee tp"
    by (auto simp: prepare_def op_simps)
  ultimately show ?thesis using inv_prepare_sponsored [OF inv _ run] by auto
qed

lemma inv_close:
  assumes inv: "escrow_inv T wf (Dispatching pre) s"
    and run: "post_dispatch_details T P pre info post len res s = (Inr w, t)"
  shows "escrow_inv T wf Idle t"
proof (cases pre)
  case (PreUnsponsored bp)
  with run obtain b where post: "base_post_dispatch_details P bp info post len res (ledger s) = (Inr w, b)"
    and "t = s\<lparr>ledger := b\<rparr>"
    by (auto simp: post_dispatch_details_def op_simps)
  with base_post_keeps [OF escrow_invD(1) [OF inv] post] PreUnsponsored show ?thesis
    by (auto intro!: inv_same_holds [OF inv])
next
  case (PreSponsored spons signer est tp)
  with run have "t = snd (settle_sponsored_fee T P spons signer est tp info post len s)"
    by (auto simp: post_dispatch_details_def split: prod.splits)
  with inv_settle inv PreSponsored show ?thesis by simp
qed

lemma inv_step:
  assumes "lifecycle_step T wf P x y" and "escrow_inv T wf (fst x) (snd x)"
  shows "escrow_inv T wf (fst y) (snd y)"
  using assms
proof (induction rule: lifecycle_step.induct)
  case (other_pallets b s ph)
  then show ?case using inv_same_holds [of ph s b ph] by simp
qed (auto intro: inv_open inv_call inv_close)

lemma inv_genesis: "genesis T wf s \<Longrightarrow> escrow_inv T wf Idle s"
  by (rule escrow_invI) (auto simp: genesis_def escrow_sound_def entry_sound_def)

lemma inv_reachable: "reachable T wf P ph s \<Longrightarrow> escrow_inv T wf ph s"
proof (induction rule: reachable.induct)
  case (initially s)
  then show ?case by (rule inv_genesis)
next
  case (stepped ph s ph' t)
  then show ?case using inv_step [of "(ph, s)" "(ph', t)"] by simp
qed

end

interpretation ref_lifecycle: payment_config
  "ref_config :: (nat, 'w::len word, 'w word, ref_error, unit, ref_ledger, ref_origin) Config"
  "ref_wf TYPE('w)" ref_total id ref_payment
proof (intro payment_config.intro ref_settling.settling_config_axioms payment_config_axioms.intro)
  show "ref_wf TYPE('w) b' \<and> held (Balances (ref_config :: (nat, 'w word, 'w word, ref_error, unit, ref_ledger, ref_origin) Config)) r a b' =
      held (Balances (ref_config :: (nat, 'w word, 'w word, ref_error, unit, ref_ledger, ref_origin) Config)) r a b"
    if "ref_wf TYPE('w) b" and "base_prepare ref_payment f val origin call info len b = (Inr pre, b')"
    for b b' r a and f :: "'w word" and val origin call info len pre
    using ref_base_prepare_law [OF that(1), of f val origin call info len pre b'] that(2)
    by (simp add: held_def ref_balance_on_hold_def)
qed simp

text \<open>The states of the mock transaction are reachable.\<close>

lemma mock_genesis: "genesis Test (ref_wf TYPE(64)) new_test_ext"
  unfolding genesis_def
  by (rule conjI [OF new_test_ext_wf]) (simp add: new_test_ext_def budget_on_hold_def
      pending_on_hold_def ref_balance_on_hold_def ref_genesis_ledger_def)

lemma registered_ext_reachable: "reachable Test (ref_wf TYPE(64)) TestPayment Idle registered_ext"
proof (rule reachable.stepped [OF reachable.initially [OF mock_genesis]])
  show "lifecycle_step Test (ref_wf TYPE(64)) TestPayment (Idle, new_test_ext) (Idle, registered_ext)"
    by (rule lifecycle_step.pallet_call [where c = "register_sponsor_call 200 (mock_policy [2] 50)"
          and origin = "RefSigned 1" and r = "fst (dispatch_call Test (RefSigned 1)
            (register_sponsor_call 200 (mock_policy [2] 50)) new_test_ext)"])
      (simp_all add: policy_bounded_def mock_policy_def registered_ext_def)
qed

lemma prepared_ext_reachable:
  "reachable Test (ref_wf TYPE(64)) TestPayment (Dispatching (PreSponsored 1 2 18 5)) prepared_ext"
  by (rule reachable.stepped [OF registered_ext_reachable
        lifecycle_step.open_transaction [OF mock_validate mock_prepare(1)]])

end
