(* ===== verification/Extension_Properties.thy ===== *)
theory Extension_Properties
  imports Sponsor_Lifecycle
begin

text \<open>
  The properties of the transaction extension: what \<open>validate\<close> accepts and why it refuses,
  what \<open>prepare\<close> reserves, what the settlement charges, routes, restores and reports, and
  that an unsponsored transaction is the wrapped extension's business alone.
\<close>

section \<open>Validation\<close>

text \<open>
  C11: a transaction that names a sponsor is refused exactly when something is wrong with it, and
  among all that is wrong the error names the fault with the least code: an unsupported origin
  before an unknown sponsor, before an inactive one, before a caller that is not allowed, before a
  fee above the cap, before a budget below the fee.  Each fault is judged on its own.
\<close>

theorem validate_reports_first_fault:
  "validate T P (new t (Some spons)) origin call info len imp src s = Inl e \<longleftrightarrow>
    (let bad = has_fault (Sponsors s spons) (as_system_origin_signer P origin) (budget_on_hold T spons s)
                 (estimated_fee P t info len s)
     in \<exists>f. e = Custom (invalid_code f) \<and> bad f \<and> (\<forall>g. bad g \<longrightarrow> invalid_code f \<le> invalid_code g))"
  using validate_sponsored_eq [of "new t (Some spons)" spons T P origin call info len imp src s]
  by (auto simp: invalid_def Let_def first_fault_Some [symmetric] split: option.splits)

text \<open>An outsider with a fee beyond the cap is told the first of the two.\<close>

theorem validate_reports_first_fault_witness:
  "validate Test TestPayment (new 90 (Some 1)) (RefSigned 3) () 10 3 () () registered_ext = Inl (Custom 3)
   \<and> has_fault (Sponsors registered_ext 1) (Some 3) 200 (estimated_fee TestPayment 90 10 3 registered_ext) FeeCapExceeded"
proof -
  let ?bad = "has_fault (Sponsors registered_ext 1) (Some 3) 200 (estimated_fee TestPayment 90 10 3 registered_ext)"
  have bad: "?bad CallerNotAllowed" "?bad FeeCapExceeded" "\<not> ?bad UnsupportedOrigin" "\<not> ?bad UnknownSponsor" "\<not> ?bad InactiveSponsor"
    by (simp_all add: registered_ext_eq mock_policy_def estimated_fee_def ref_fee_defs)
  have "?bad g \<Longrightarrow> invalid_code CallerNotAllowed \<le> invalid_code g" for g
    using bad by (cases g) (simp_all del: has_fault.simps)
  with bad(1,2) show ?thesis
    unfolding validate_reports_first_fault Let_def
    by (intro conjI exI [of _ CallerNotAllowed]) (auto simp del: has_fault.simps)
qed

text \<open>
  C10: a sponsored transaction is valid exactly when a normal signer sent it, the sponsor is
  registered and active, the signer is on its allowlist, and the estimated fee including the tip
  is within the policy's cap and within the available budget.
\<close>

theorem validate_accepts_iff:
  "(\<exists>x. validate T P (new t (Some spons)) origin call info len imp src s = Inr x) \<longleftrightarrow>
   (\<exists>signer st. as_system_origin_signer P origin = Some signer \<and> Sponsors s spons = Some st
      \<and> active st \<and> signer \<in> set (allowed_callers (policy st))
      \<and> estimated_fee P t info len s \<le> max_fee_per_tx (policy st)
      \<and> estimated_fee P t info len s \<le> budget_on_hold T spons s)"
  by (auto simp: validate_sponsored_eq [of "new t (Some spons)" spons] Let_def
      first_fault_def not_less split: option.splits if_splits)

text \<open>
  Without a sponsor the extension is the wrapped payment extension.  Validation, preparation
  and the post-dispatch step return what the wrapped extension returns, and the pallet's own
  storage and events are not touched.
\<close>

theorem unsponsored_is_base_payment:
  "validate T P (new t None) origin call info len imp src s =
     map_sum BaseInvalid (\<lambda>(validity, val, origin'). (validity, ValUnsponsored val, origin'))
       (base_validate P (into_fee P t) origin call info len imp src (ledger s))
   \<and> prepare T P (new t None) (ValUnsponsored val) origin call info len s =
     (case base_prepare P (into_fee P t) val origin call info len (ledger s) of
        (r, b) \<Rightarrow> (map_sum BaseInvalid PreUnsponsored r, s\<lparr>ledger := b\<rparr>))
   \<and> post_dispatch_details T P (PreUnsponsored pre) info post len res s =
     (case base_post_dispatch_details P pre info post len res (ledger s) of
        (r, b) \<Rightarrow> (map_sum BaseInvalid id r, s\<lparr>ledger := b\<rparr>))"
  by (auto simp: validate_def prepare_def post_dispatch_details_def new_def and_then_def map_err_def
      on_ledger_def ok_def split: sum.splits prod.splits)

text \<open>
  The custom codes are pairwise different, so a client can tell the reason of a rejection from the
  code, and they are the six codes 0 to 5.
\<close>

lemma invalid_codes_identify_reason:
  "(invalid x = invalid y) = (x = y) \<and> unat (invalid_code x) < 6"
  by (cases x; cases y) (simp_all add: invalid_def)

section \<open>Reservation\<close>

text \<open>
  C13: preparation follows validation.  Over a balances pallet that lets a hold be released and
  held again, a transaction that \<open>validate\<close> accepted is prepared without error in the same
  state: exactly the estimated fee moves from the sponsor's budget to its pending reservation, and
  no registration, event or total balance changes.
\<close>

theorem prepare_reserves_estimate:
  assumes "settling_config T W tot peek" and "W (ledger s)"
    and "validate T P self origin call info len imp src s
      = Inr (validity, ValSponsored spons signer fee t, origin')"
  shows "\<exists>u. prepare T P self (ValSponsored spons signer fee t) origin call info len s
      = (Inr (PreSponsored spons signer fee t), u)
    \<and> view T u = (view T s)(spons := (view T s spons)\<lparr>budget := budget (view T s spons) - unat fee,
         pending := pending (view T s spons) + unat fee\<rparr>)
    \<and> unat fee \<le> budget (view T s spons)
    \<and> Sponsors u = Sponsors s \<and> events u = events s \<and> tot a (ledger u) = tot a (ledger s)"
proof -
  have le: "fee \<le> budget_on_hold T spons s"
    using assms(3) by (rule validate_sponsored)
  obtain u where "prepare T P self (ValSponsored spons signer fee t) origin call info len s
      = (Inr (PreSponsored spons signer fee t), u)"
    and "view T u = (view T s)(spons := (view T s spons)\<lparr>budget := budget (view T s spons) - unat fee,
         pending := pending (view T s spons) + unat fee\<rparr>)"
    and "Sponsors u = Sponsors s" and "events u = events s" and "tot a (ledger u) = tot a (ledger s)"
    by (rule settling_config.prepare_succeeds [OF assms(1,2) le]) blast
  with le show ?thesis by (auto simp: word_le_nat_alt)
qed

theorem prepare_reserves_estimate_witness:
  "\<exists>u. prepare Test TestPayment (new 5 (Some 1)) (ValSponsored 1 2 18 5) (RefSigned 2) () 10 3 registered_ext
      = (Inr (PreSponsored 1 2 18 5), u)
    \<and> view Test u 1 = \<lparr>registration = Sponsors registered_ext 1, budget = 182, pending = 18\<rparr>
    \<and> ref_total 2 (ledger u) = ref_total 2 (ledger registered_ext)"
proof -
  obtain u where "prepare Test TestPayment (new 5 (Some 1)) (ValSponsored 1 2 18 5) (RefSigned 2) () 10 3 registered_ext
      = (Inr (PreSponsored 1 2 18 5), u)"
    and view: "view Test u = (view Test registered_ext)(1 := (view Test registered_ext 1)
      \<lparr>budget := budget (view Test registered_ext 1) - unat (18 :: 64 word),
       pending := pending (view Test registered_ext 1) + unat (18 :: 64 word)\<rparr>)"
    and "ref_total 2 (ledger u) = ref_total 2 (ledger registered_ext)"
    using prepare_reserves_estimate [OF ref_settling.settling_config_axioms registered_ext_wf mock_validate, of 2]
    by blast
  moreover have "view Test u 1 = \<lparr>registration = Sponsors registered_ext 1, budget = 182, pending = 18\<rparr>"
    unfolding view by (simp add: view_def)
  ultimately show ?thesis by blast
qed

text \<open>
  C26: a preparation that fails reports \<open>InvalidTransaction::Payment\<close>.  It has changed
  nothing, or (the two steps are not atomic) the estimate has left the budget and is free balance
  of the sponsor; it never reaches another account, and no registration or event changes.
\<close>

theorem prepare_failure_is_bounded:
  assumes "sponsor_config T W tot peek" and "W (ledger s)"
    and "prepare T P self (ValSponsored spons signer fee t) origin call info len s = (Inl e, u)"
  shows "e = Payment \<and> (u = s \<or> unat fee \<le> budget (view T s spons)
    \<and> view T u = (view T s)(spons := (view T s spons)\<lparr>budget := budget (view T s spons) - unat fee\<rparr>))
    \<and> Sponsors u = Sponsors s \<and> events u = events s \<and> tot a (ledger u) = tot a (ledger s)"
proof -
  have run: "move_budget_to_pending T spons fee s = (Inl e, u)"
    using assms(3) unfolding prepare_def SponsoredVal.case by (simp add: op_simps)
  show ?thesis
    using sponsor_config.move_budget_failure [OF assms(1,2) run]
      sponsor_config.move_budget_failure_frame [OF assms(1,2) run] by simp
qed

theorem prepare_failure_is_bounded_witness:
  "\<exists>e u. prepare Test TestPayment (new 5 (Some 3)) (ValSponsored 3 2 18 5) (RefSigned 2) () 10 3 registered_ext
      = (Inl e, u) \<and> e = Payment \<and> Sponsors u = Sponsors registered_ext"
proof -
  obtain e u where run: "prepare Test TestPayment (new 5 (Some 3)) (ValSponsored 3 2 18 5) (RefSigned 2) () 10 3
      registered_ext = (Inl e, u)"
    by (simp add: prepare_def move_budget_run and_then_def registered_ext_eq ref_op_defs ref_genesis_ledger_def)
  with prepare_failure_is_bounded [OF ref_pallet.sponsor_config_axioms registered_ext_wf run] show ?thesis by blast
qed

section \<open>Settlement\<close>

lemma mock_charge: "charged_fee Test TestPayment 1 18 5 10 4 3 prepared_ext = 12"
  by (simp add: charged_fee_def actual_fee_def ref_fee_defs)

text \<open>
  C6: what a settlement does to the escrow and what it reports.  The charged amount is the least
  of the estimate, the actual fee and the pending reservation; the whole remainder of the
  reservation is back in the sponsor's budget and nothing stays pending; no other account's entry
  and no registration changes; and exactly one event reports the sponsor, the signer, the charged
  amount and the part of it that is the tip.
\<close>

theorem settlement_charges_and_restores:
  assumes "settling_config T W tot peek" and "W (ledger s)"
    and "k = charged_fee T P spons est t info post len s"
    and "settle_sponsored_fee T P spons signer est t info post len s = (w, u)"
  shows "view T u = (view T s)(spons := (view T s spons)\<lparr>pending := 0,
      budget := budget (view T s spons) + (pending (view T s spons) - unat k)\<rparr>)
    \<and> unat k = min (min (unat est) (unat (actual_fee P t info post len s))) (pending (view T s spons))
    \<and> events u = events s @ [SponsoredTransactionFeePaid spons signer k (min t k)]"
  using settling_config.settle_exact [OF assms(1,2), of P spons signer est t info post len]
    sponsor_config.settle_frame(2) [OF settling_config.axioms(1) [OF assms(1)] assms(2), of P spons signer est t info post len]
  by (simp add: assms(3,4) charged_fee_def unat_min)

theorem settlement_charges_and_restores_witness:
  "\<exists>w u. settle_sponsored_fee Test TestPayment 1 2 18 5 10 4 3 prepared_ext = (w, u)
    \<and> budget (view Test u 1) = 188 \<and> pending (view Test u 1) = 0
    \<and> events u = [SponsorRegistered 1 200, SponsoredTransactionFeePaid 1 2 12 5]"
proof -
  obtain w u where run: "settle_sponsored_fee Test TestPayment 1 2 18 5 10 4 3 prepared_ext = (w, u)"
    by (cases "settle_sponsored_fee Test TestPayment 1 2 18 5 10 4 3 prepared_ext")
  note mock_charge
  with settlement_charges_and_restores [OF ref_settling.settling_config_axioms prepared_ext_wf refl run] run
  show ?thesis by (simp del: view_sel) (simp add: view_def)
qed

text \<open>
  C8: how the charged amount leaves.  The slash takes exactly the charged amount out of the
  pending hold, the credit is split into a tip part (the tip, or all of it when the charge is
  smaller) and a fee part, both parts together are the charge, and the destination receives the
  fee part first and the tip part second, before the remainder is restored and the event deposited.
\<close>

theorem settlement_routes_whole_charge:
  assumes "sponsor_config T W tot peek" and "W (ledger s)"
    and "k = charged_fee T P spons est t info post len s"
  shows "\<exists>b tip_credit fee_credit.
      settle_sponsored_fee T P spons signer est t info post len s =
        (db_reads_writes P 7 7, deposit_event (SponsoredTransactionFeePaid spons signer k (min t k))
          (restore_pending_to_budget T spons (s\<lparr>ledger := FeeDestination T [fee_credit, tip_credit] b\<rparr>)))
    \<and> held (Balances T) pending_hold_reason spons (ledger s)
        = held (Balances T) pending_hold_reason spons b + unat k
    \<and> peek tip_credit = min t k \<and> unat (peek fee_credit) + unat (peek tip_credit) = unat k"
proof (rule sponsor_config.settle_steps [OF assms(1,2), of spons est P t info post len signer, folded assms(3)])
  fix credit missing b tc fc
  assume sl: "slash (Balances T) pending_hold_reason spons (min est (actual_fee P t info post len s)) (ledger s)
      = ((credit, missing), b)" and k: "peek credit = k"
    and sp: "credit_split (Balances T) credit (min t k) = (tc, fc)"
    and res: "settle_sponsored_fee T P spons signer est t info post len s =
      (db_reads_writes P SPONSORED_POST_DISPATCH_READS SPONSORED_POST_DISPATCH_WRITES,
       deposit_event (SponsoredTransactionFeePaid spons signer k (min t k))
         (restore_pending_to_budget T spons (s\<lparr>ledger := FeeDestination T [fc, tc] b\<rparr>)))"
  note res [unfolded SPONSORED_POST_DISPATCH_READS_def SPONSORED_POST_DISPATCH_WRITES_def]
    sponsor_config.slash_pending [OF assms(1,2) sl, unfolded k]
    sponsor_config.credit_parts [OF assms(1) sp k]
  then show ?thesis by blast
qed

theorem settlement_routes_whole_charge_witness:
  "\<exists>b tip_credit fee_credit.
      settle_sponsored_fee Test TestPayment 1 2 18 5 10 4 3 prepared_ext =
        (db_reads_writes TestPayment 7 7, deposit_event (SponsoredTransactionFeePaid 1 2 12 (min 5 12))
          (restore_pending_to_budget Test 1 (prepared_ext\<lparr>ledger := FeeDestination Test [fee_credit, tip_credit] b\<rparr>)))
    \<and> held (Balances Test) pending_hold_reason 1 (ledger prepared_ext)
        = held (Balances Test) pending_hold_reason 1 b + unat (12 :: 64 word)
    \<and> id tip_credit = min 5 12 \<and> unat (id fee_credit) + unat (id tip_credit) = unat (12 :: 64 word)"
  by (rule settlement_routes_whole_charge
      [OF ref_pallet.sponsor_config_axioms prepared_ext_wf mock_charge [symmetric]])

text \<open>
  C7: conservation.  With a destination that burns what it receives, the settlement takes exactly
  the charged amount from the sponsor's total balance and changes nobody else's; in particular the
  signer of a sponsored transaction pays nothing.
\<close>

theorem settlement_conserves_balances:
  assumes "burning_config T W tot peek" and "W (ledger s)"
    and "settle_sponsored_fee T P spons signer est t info post len s = (w, u)"
  shows "tot a (ledger s) = tot a (ledger u)
    + (if a = spons then unat (charged_fee T P spons est t info post len s) else 0)"
  using burning_config.settle_total [OF assms(1,2), of a P spons signer est t info post len]
  by (simp add: assms(3))

theorem settlement_conserves_balances_witness:
  "ref_total 1 (ledger (snd (settle_sponsored_fee Test TestPayment 1 2 18 5 10 4 3 prepared_ext))) = 988
   \<and> ref_total 2 (ledger (snd (settle_sponsored_fee Test TestPayment 1 2 18 5 10 4 3 prepared_ext))) = 1000"
proof -
  obtain w u where run: "settle_sponsored_fee Test TestPayment 1 2 18 5 10 4 3 prepared_ext = (w, u)"
    by (cases "settle_sponsored_fee Test TestPayment 1 2 18 5 10 4 3 prepared_ext")
  have "ref_total 1 (ledger prepared_ext) = 1000" and "ref_total 2 (ledger prepared_ext) = 1000"
    by (simp_all add: mock_prepare(2) ref_total_def ref_move_def ref_genesis_ledger_def)
  with mock_charge settlement_conserves_balances [OF ref_burning.burning_config_axioms prepared_ext_wf run, of 1]
    settlement_conserves_balances [OF ref_burning.burning_config_axioms prepared_ext_wf run, of 2] run
  show ?thesis by simp
qed

text \<open>
  C27: even where the balances pallet refuses a step of the restoration, a settlement ends in one
  of three states of the sponsor's entry: the remainder still pending, the remainder free, or the
  remainder back in the budget.  The charge has left the reservation in each of them, the budget
  never shrinks, and no other entry changes.
\<close>

theorem settlement_outcomes:
  assumes "sponsor_config T W tot peek" and "W (ledger s)"
    and "settle_sponsored_fee T P spons signer est t info post len s = (w, u)"
  shows "view T u \<in>
    (let k = unat (charged_fee T P spons est t info post len s); x = view T s spons in
     {(view T s)(spons := x\<lparr>pending := pending x - k\<rparr>),
      (view T s)(spons := x\<lparr>pending := 0\<rparr>),
      (view T s)(spons := x\<lparr>pending := 0, budget := budget x + (pending x - k)\<rparr>)})"
  by (rule sponsor_config.settle_view [OF assms(1,2), where P = P and spons = spons and signer = signer
        and est = est and t = t and info = info and post = post and len = len])
    (auto simp: assms(3) Let_def simp del: view_sel)

theorem settlement_outcomes_witness:
  "view Test (snd (settle_sponsored_fee Test TestPayment 1 2 18 5 10 4 3 prepared_ext)) \<in>
     {(view Test prepared_ext)(1 := (view Test prepared_ext 1)\<lparr>pending := 6\<rparr>),
      (view Test prepared_ext)(1 := (view Test prepared_ext 1)\<lparr>pending := 0\<rparr>),
      (view Test prepared_ext)(1 := (view Test prepared_ext 1)\<lparr>pending := 0, budget := 188\<rparr>)}"
proof -
  obtain w u where run: "settle_sponsored_fee Test TestPayment 1 2 18 5 10 4 3 prepared_ext = (w, u)"
    by (cases "settle_sponsored_fee Test TestPayment 1 2 18 5 10 4 3 prepared_ext")
  from settlement_outcomes [OF ref_pallet.sponsor_config_axioms prepared_ext_wf run] run mock_charge show ?thesis
    by (simp add: Let_def)
qed

text \<open>
  The post-dispatch step of a sponsored transaction never fails, so it never invalidates a
  block, and the weight it returns is that of seven reads and seven writes whatever happened,
  while the weight declared before dispatch adds two reads and two writes to the wrapped
  extension's.
\<close>

theorem sponsored_post_dispatch_weight:
  "fst (post_dispatch_details T P (PreSponsored spons signer est t) info post len res s)
     = Inr (db_reads_writes P 7 7)
   \<and> ext_weight P (new t (Some spons)) call
     = weight_saturating_add P (base_weight P (into_fee P t) call) (db_reads_writes P 2 2)
   \<and> ext_weight P (new t None) call = base_weight P (into_fee P t) call"
  by (auto simp: post_dispatch_details_def settle_sponsored_fee_def ext_weight_def Let_def
      SPONSORED_POST_DISPATCH_READS_def SPONSORED_POST_DISPATCH_WRITES_def split: prod.splits)

text \<open>
  C24: the stages of the extension fit together.  What \<open>prepare\<close> hands to the post-dispatch
  step has the shape that the transaction asked for: without a sponsor it is the wrapped extension's
  own value, with a sponsor it is that sponsor, the signer of the transaction, the estimate computed
  at validation and the tip, unchanged through both stages; so the settlement never meets a value of
  the other kind and never one for another sponsor.
\<close>

theorem extension_stages_fit:
  assumes "validate T P self origin call info len imp src s = Inr (validity, val, origin')"
    and "prepare T P self val origin'' call info len t = (Inr pre, u)"
  shows "case sponsor self of
      None \<Rightarrow> (\<exists>v p. val = ValUnsponsored v \<and> pre = PreUnsponsored p)
    | Some spons \<Rightarrow> (\<exists>signer. as_system_origin_signer P origin = Some signer \<and> origin' = origin
        \<and> val = ValSponsored spons signer (estimated_fee P (tip self) info len s) (tip self)
        \<and> pre = PreSponsored spons signer (estimated_fee P (tip self) info len s) (tip self))"
proof (cases "sponsor self")
  case None
  with assms show ?thesis
    by (auto simp: validate_def prepare_def op_simps split: sum.splits prod.splits)
next
  case (Some spons)
  with assms(1) obtain signer where "as_system_origin_signer P origin = Some signer" "origin' = origin"
    and val: "val = ValSponsored spons signer (estimated_fee P (tip self) info len s) (tip self)"
    by (auto simp: validate_def estimated_fee_def Let_def split: option.splits if_splits)
  moreover have "pre = PreSponsored spons signer (estimated_fee P (tip self) info len s) (tip self)"
    using assms(2) by (auto simp: prepare_def val op_simps)
  ultimately show ?thesis using Some by simp
qed

theorem extension_stages_fit_witness:
  "fst (prepare Test TestPayment (new 5 (Some 1)) (ValSponsored 1 2 18 5) (RefSigned 2) () 10 3 registered_ext)
     = Inr (PreSponsored 1 2 18 5) \<and> estimated_fee TestPayment 5 10 3 registered_ext = 18"
proof -
  from extension_stages_fit [OF mock_validate mock_prepare(1)] mock_prepare(1) show ?thesis by simp
qed

end
