(* ===== verification/Pallet_Properties.thy ===== *)
theory Pallet_Properties
  imports Fee_Settlement
begin

text \<open>
  The properties of the sponsored-tx pallet's dispatchables, stated over every configuration that
  keeps the contracts of \<open>sponsor_config\<close> (or \<open>settling_config\<close> where a call is shown
  to succeed), with witnesses on the mock runtime.
\<close>

lemmas mock_eval = dispatch_call_def with_storage_layer_def dispatchable_runs ensure_valid_policy_eq
  registered_ext_eq mock_defs ref_op_defs budget_on_hold_def pending_on_hold_def deposit_event_def

section \<open>Refinement of the specification\<close>

text \<open>
  C1: every dispatchable implements the abstract escrow.  From a signed origin, the call ends with
  exactly the error the specification gives and no state change; or it performs exactly the
  specified update of the caller's registration, budget and pending reservation; or, where the
  specification lets it succeed, the balances pallet refused the movement and nothing changed.
\<close>

theorem dispatch_implements_spec:
  assumes "sponsor_config T W tot peek" and "W (ledger s)" and "ensure_signed T origin = Inr who"
  shows "implements_call T who c s (dispatch_call T origin c s)"
  by (rule sponsor_config.dispatch_refines [OF assms])

theorem dispatch_implements_spec_witness:
  "implements_call Test 1 (decrease_budget_call 20) registered_ext
     (dispatch_call Test (RefSigned 1) (decrease_budget_call 20) registered_ext)
   \<and> fst (dispatch_call Test (RefSigned 1) (decrease_budget_call 20) registered_ext) = Inr ()"
  using dispatch_implements_spec [OF ref_pallet.sponsor_config_axioms registered_ext_wf,
      of "RefSigned 1" 1 "decrease_budget_call 20"]
  by (simp add: mock_eval)

text \<open>
  C18: a call moves funds only between the free balance and the budget hold of the caller.  No
  account's total balance changes, no pending reservation and no hold of another pallet changes,
  and the registration and budget of every other account stay as they were, whether the call
  succeeds or fails.
\<close>

theorem dispatch_touches_caller_only:
  assumes "sponsor_config T W tot peek" and "W (ledger s)" and "ensure_signed T origin = Inr who"
    and "dispatch_call T origin c s = (r, t)"
  shows "tot a (ledger t) = tot a (ledger s) \<and> pending_on_hold T a t = pending_on_hold T a s
    \<and> held (Balances T) (OtherHold q) a (ledger t) = held (Balances T) (OtherHold q) a (ledger s)
    \<and> (a \<noteq> who \<longrightarrow> view T t a = view T s a)"
  using sponsor_config.dispatch_total [OF assms(1,2,4), of a]
    sponsor_config.dispatch_pending [OF assms(1,2,4), of a]
    sponsor_config.dispatch_holds [OF assms(1,2,4), of "OtherHold q" a]
    sponsor_config.dispatch_others [OF assms(1-4), of a]
  by simp

theorem dispatch_touches_caller_only_witness:
  "ref_total 1 (ledger (snd (dispatch_call Test (RefSigned 1) unregister_call registered_ext))) = 1000
   \<and> view Test (snd (dispatch_call Test (RefSigned 1) unregister_call registered_ext)) 2
       = view Test registered_ext 2"
proof -
  obtain r t where run: "dispatch_call Test (RefSigned 1) unregister_call registered_ext = (r, t)"
    by (cases "dispatch_call Test (RefSigned 1) unregister_call registered_ext")
  note use = dispatch_touches_caller_only [OF ref_pallet.sponsor_config_axioms registered_ext_wf _ run, of 1]
  have "ref_total 1 (ledger registered_ext) = 1000"
    by (simp add: registered_ext_eq ref_genesis_ledger_def ref_total_def ref_move_def)
  with use [of 1] use [of 2] run show ?thesis by simp
qed

text \<open>
  The dispatchables check before they write.  The body of a call that returns an error has
  changed nothing, even without the storage layer that the framework wraps around it.
\<close>

theorem failing_body_changes_nothing:
  assumes "sponsor_config T W tot peek" and "W (ledger s)" and "call_body T origin c s = (Inl e, t)"
  shows "t = s"
  by (rule sponsor_config.call_body_failure [OF assms])

theorem failing_body_changes_nothing_witness:
  "snd (call_body Test (RefSigned 1) (decrease_budget_call 201) registered_ext) = registered_ext
   \<and> snd (call_body Test (RefSigned 2) (register_sponsor_call 5000 (mock_policy [1] 9)) registered_ext)
       = registered_ext"
proof -
  obtain e t where "call_body Test (RefSigned 1) (decrease_budget_call 201) registered_ext = (Inl e, t)"
    by (simp add: mock_eval)
  moreover obtain d u where "call_body Test (RefSigned 2) (register_sponsor_call 5000 (mock_policy [1] 9)) registered_ext
      = (Inl d, u)"
    by (simp add: mock_eval)
  ultimately show ?thesis
    using failing_body_changes_nothing [OF ref_pallet.sponsor_config_axioms registered_ext_wf]
    by (metis snd_conv)
qed

text \<open>
  C25: the pairwise loop of \<open>ensure_valid_policy\<close> accepts exactly the non-empty
  allowlists without duplicates, an empty one is reported before a duplicate, and it never
  depends on the fee cap.
\<close>

theorem policy_check_decides:
  "ensure_valid_policy p =
     (if allowed_callers p = [] then Inl EmptyAllowlist
      else if distinct (allowed_callers p) then Inr ()
      else Inl DuplicateAllowedCaller)"
  by (rule ensure_valid_policy_eq)

text \<open>
  A successful call deposits exactly one event, at the end of the log, and the event names the
  caller, the amount of the call and, for budget changes, the budget that is on hold afterwards.
\<close>

theorem dispatch_deposits_one_event:
  assumes "ensure_signed T origin = Inr who" and "dispatch_call T origin c s = (Inr (), t)"
  shows "events t = events s @ [call_event T who c t]"
  by (rule dispatch_event [OF assms])

theorem dispatch_deposits_one_event_witness:
  "events (snd (dispatch_call Test (RefSigned 1) (increase_budget_call 25) registered_ext))
     = [SponsorRegistered 1 200, BudgetIncreased 1 25 225]"
proof -
  obtain t where run: "dispatch_call Test (RefSigned 1) (increase_budget_call 25) registered_ext = (Inr (), t)"
    and "budget_on_hold Test 1 t = 225"
    by (simp add: mock_eval)
  with dispatch_deposits_one_event [OF _ run, of 1] show ?thesis by simp
qed

section \<open>Leaving the pallet\<close>

text \<open>
  A registered sponsor with nothing in flight can always leave.  \<open>unregister\<close>
  succeeds, the registration and the budget hold are gone, and the sponsor's total balance is
  unchanged: every unit that was in the budget is the sponsor's again.
\<close>

theorem unregister_recovers_budget:
  assumes "settling_config T W tot peek" and "W (ledger s)" and "ensure_signed T origin = Inr who"
    and "Sponsors s who \<noteq> None" and "pending_on_hold T who s = 0"
  shows "\<exists>t. dispatch_call T origin unregister_call s = (Inr (), t) \<and> Sponsors t who = None
    \<and> budget_on_hold T who t = 0 \<and> tot who (ledger t) = tot who (ledger s)"
proof -
  have sc: "sponsor_config T W tot peek"
    by (rule settling_config.axioms(1) [OF assms(1)])
  obtain t where run: "dispatch_call T origin unregister_call s = (Inr (), t)"
    by (rule settling_config.unregister_succeeds [OF assms])
  have "view T t = (view T s)(who := \<lparr>registration = None, budget = 0, pending = 0\<rparr>)"
    using sponsor_config.dispatch_success [OF sc assms(2,3) run] by (auto split: if_splits)
  then have "view T t who = \<lparr>registration = None, budget = 0, pending = 0\<rparr>"
    by simp
  then have "Sponsors t who = None" and "budget_on_hold T who t = 0"
    by (simp_all add: view_def unat_eq_0)
  with run sponsor_config.dispatch_total [OF sc assms(2) run] show ?thesis by blast
qed

theorem unregister_recovers_budget_witness:
  "\<exists>t. dispatch_call Test (RefSigned 1) unregister_call registered_ext = (Inr (), t)
    \<and> Sponsors t 1 = None \<and> budget_on_hold Test 1 t = 0
    \<and> ref_total 1 (ledger t) = ref_total 1 (ledger registered_ext)"
  by (rule unregister_recovers_budget [OF ref_settling.settling_config_axioms registered_ext_wf]) simp_all

text \<open>
  While a reservation of a sponsor is pending, \<open>unregister\<close> is refused with
  \<open>PendingBudgetNotEmpty\<close> and changes nothing, whatever the budget is.
\<close>

theorem unregister_blocked_in_flight:
  assumes "ensure_signed T origin = Inr who" and "Sponsors s who \<noteq> None" and "pending_on_hold T who s \<noteq> 0"
  shows "dispatch_call T origin unregister_call s = (Inl (ModuleError PendingBudgetNotEmpty), s)"
  using assms by (simp add: dispatch_call_def with_storage_layer_def unregister_run)

theorem unregister_blocked_in_flight_witness:
  "\<exists>s. (move_budget_to_pending Test 1 30 registered_ext :: (unit TransactionValidityError + unit) \<times> _) = (Inr (), s)
    \<and> dispatch_call Test (RefSigned 1) unregister_call s = (Inl (ModuleError PendingBudgetNotEmpty), s)"
proof -
  obtain s where s: "(move_budget_to_pending Test 1 30 registered_ext :: (unit TransactionValidityError + unit) \<times> _)
      = (Inr (), s)"
    using ref_settling.reserve_succeeds [where 'w = 64, OF registered_ext_wf, of 30 1] by auto
  have "Sponsors s 1 \<noteq> None" and "unat (pending_on_hold Test 1 s) = 30"
    using ref_pallet.move_budget_frame(1) [where 'w = 64, OF registered_ext_wf s]
      arg_cong [OF ref_pallet.move_budget_view(2) [where 'w = 64, OF registered_ext_wf s], of "\<lambda>v. pending (v 1)"]
    by simp_all
  then have "Sponsors s 1 \<noteq> None" and "pending_on_hold Test 1 s \<noteq> 0" by auto
  with s unregister_blocked_in_flight [of Test "RefSigned 1" 1 s] show ?thesis by simp
qed

section \<open>Round trips\<close>

text \<open>
  C28: registering and leaving at once is a round trip.  An account without registration and
  without escrowed funds that registers successfully can unregister successfully, and its entry in
  the escrow and its total balance are as before.
\<close>

theorem register_then_unregister:
  assumes "settling_config T W tot peek" and "W (ledger s)" and "ensure_signed T origin = Inr who"
    and "budget_on_hold T who s = 0" and "pending_on_hold T who s = 0"
    and "dispatch_call T origin (register_sponsor_call n p) s = (Inr (), t)"
  shows "\<exists>u. dispatch_call T origin unregister_call t = (Inr (), u) \<and> view T u = view T s
    \<and> tot who (ledger u) = tot who (ledger s)"
proof -
  have sc: "sponsor_config T W tot peek"
    by (rule settling_config.axioms(1) [OF assms(1)])
  note step = sponsor_config.dispatch_success [OF sc assms(2,3,6)]
  have wf: "W (ledger t)" by (rule sponsor_config.dispatch_wf [OF sc assms(2,6)])
  have none: "Sponsors s who = None" and reg: "view T t = (view T s)(who := (view T s who)
      \<lparr>registration := Some \<lparr>active = True, policy = p\<rparr>, budget := budget (view T s who) + unat n\<rparr>)"
    using step by (auto split: if_splits)
  then have "registration (view T t who) \<noteq> None" and "pending (view T t who) = 0"
    using assms(5) by simp_all
  then obtain u where run: "dispatch_call T origin unregister_call t = (Inr (), u)"
    using settling_config.unregister_succeeds [OF assms(1) wf assms(3)] by (auto simp: unat_eq_0)
  have "view T u = (view T t)(who := \<lparr>registration = None, budget = 0, pending = 0\<rparr>)"
    using sponsor_config.dispatch_success [OF sc wf assms(3) run] by (auto split: if_splits)
  also have "\<dots> = (view T s)(who := \<lparr>registration = None, budget = 0, pending = 0\<rparr>)"
    using spec_call_others [OF step] by (auto simp: fun_eq_iff)
  also have "\<dots> = view T s"
    using none assms(4,5) by (auto simp: fun_eq_iff view_def)
  finally show ?thesis
    using run sponsor_config.dispatch_total [OF sc assms(2,6)] sponsor_config.dispatch_total [OF sc wf run] by auto
qed

theorem register_then_unregister_witness:
  "\<exists>u. dispatch_call Test (RefSigned 1) unregister_call registered_ext = (Inr (), u)
    \<and> view Test u = view Test new_test_ext \<and> ref_total 1 (ledger u) = ref_total 1 (ledger new_test_ext)"
proof (rule register_then_unregister [OF ref_settling.settling_config_axioms new_test_ext_wf])
  show "dispatch_call Test (RefSigned 1) (register_sponsor_call 200 (mock_policy [2] 50)) new_test_ext
      = (Inr (), registered_ext)"
    by (simp add: mock_eval)
qed (simp_all add: mock_eval)

text \<open>
  Pausing and resuming is a round trip, and each half takes effect.  An active sponsor can
  pause, a paused one cannot pause again, resuming restores the very same registration, and
  neither call moves funds.
\<close>

theorem pause_then_resume:
  assumes "ensure_signed T origin = Inr who" and "Sponsors s who = Some st" and "active st"
  shows "\<exists>t u. dispatch_call T origin pause_call s = (Inr (), t)
    \<and> Sponsors t who = Some (st\<lparr>active := False\<rparr>)
    \<and> dispatch_call T origin pause_call t = (Inl (ModuleError AlreadyPaused), t)
    \<and> dispatch_call T origin resume_call t = (Inr (), u)
    \<and> Sponsors u = Sponsors s \<and> ledger u = ledger s"
  using assms
  by (auto simp: dispatch_call_def with_storage_layer_def pause_run resume_run fun_eq_iff)

theorem pause_then_resume_witness:
  "\<exists>t u. dispatch_call Test (RefSigned 1) pause_call registered_ext = (Inr (), t)
    \<and> Sponsors t 1 = Some \<lparr>active = False, policy = mock_policy [2] 50\<rparr>
    \<and> dispatch_call Test (RefSigned 1) pause_call t = (Inl (ModuleError AlreadyPaused), t)
    \<and> dispatch_call Test (RefSigned 1) resume_call t = (Inr (), u)
    \<and> Sponsors u = Sponsors registered_ext \<and> ledger u = ledger registered_ext"
  using pause_then_resume [of Test "RefSigned 1" 1 registered_ext "\<lparr>active = True, policy = mock_policy [2] 50\<rparr>"]
  by simp

text \<open>
  A successful budget increase can be undone.  Decreasing by the same amount succeeds and
  gives back the escrow, and nobody's total balance has changed on the way.
\<close>

theorem increase_then_decrease:
  assumes "settling_config T W tot peek" and "W (ledger s)" and "ensure_signed T origin = Inr who"
    and "dispatch_call T origin (increase_budget_call n) s = (Inr (), t)"
  shows "\<exists>u. dispatch_call T origin (decrease_budget_call n) t = (Inr (), u) \<and> view T u = view T s
    \<and> tot a (ledger u) = tot a (ledger s)"
proof -
  have sc: "sponsor_config T W tot peek"
    by (rule settling_config.axioms(1) [OF assms(1)])
  have wf: "W (ledger t)" by (rule sponsor_config.dispatch_wf [OF sc assms(2,4)])
  have n: "n \<noteq> 0" and reg: "Sponsors s who \<noteq> None"
    and up: "view T t = (view T s)(who := (view T s who)\<lparr>budget := budget (view T s who) + unat n\<rparr>)"
    using sponsor_config.dispatch_success [OF sc assms(2-4)] by (auto split: if_splits)
  have "Sponsors t who \<noteq> None" and "n \<le> budget_on_hold T who t"
    using reg arg_cong [OF up, of "\<lambda>v. registration (v who)"] arg_cong [OF up, of "\<lambda>v. budget (v who)"]
    by (simp_all add: word_le_nat_alt)
  then obtain u where run: "dispatch_call T origin (decrease_budget_call n) t = (Inr (), u)"
    by (rule settling_config.decrease_budget_succeeds [OF assms(1) wf assms(3) n])
  have "view T u = (view T t)(who := (view T t who)\<lparr>budget := budget (view T t who) - unat n\<rparr>)"
    using sponsor_config.dispatch_success [OF sc wf assms(3) run] by (auto split: if_splits)
  also have "\<dots> = view T s" unfolding up by (simp del: view_sel)
  finally show ?thesis
    using run sponsor_config.dispatch_total [OF sc assms(2,4)] sponsor_config.dispatch_total [OF sc wf run] by auto
qed

theorem increase_then_decrease_witness:
  "\<exists>t u. dispatch_call Test (RefSigned 1) (increase_budget_call 25) registered_ext = (Inr (), t)
    \<and> dispatch_call Test (RefSigned 1) (decrease_budget_call 25) t = (Inr (), u)
    \<and> view Test u = view Test registered_ext"
proof -
  obtain t where run: "dispatch_call Test (RefSigned 1) (increase_budget_call 25) registered_ext = (Inr (), t)"
    by (simp add: mock_eval)
  with increase_then_decrease [OF ref_settling.settling_config_axioms registered_ext_wf _ run, of 1]
  show ?thesis by auto
qed

end
