(* ===== verification/Runtime_Weights.thy ===== *)
theory Runtime_Weights
  imports Sponsor_Pallet
begin

text \<open>
  The weights: what the sponsored-tx pallet declares per call
  (\<^verbatim>\<open>pallets/sponsored-tx/src/weights.rs\<close>), what the template pallet declares
  (\<^verbatim>\<open>pallets/template/src/weights.rs\<close>), and the database, block and extrinsic weights of
  the runtime (\<^verbatim>\<open>runtime/src/weights\<close>).  The type \<open>Weight\<close> and its
  operations belong to the framework: they are the fields of \<open>weight_api\<close>, with the
  documented componentwise saturating behaviour as the laws of \<open>weight_arithmetic\<close>.
\<close>

section \<open>What the sources use of the weight type\<close>

record RuntimeDbWeight =
  db_read :: "64 word"
  db_write :: "64 word"

record 'weight weight_api =
  from_parts :: "64 word \<Rightarrow> 64 word \<Rightarrow> 'weight"
  weight_add :: "'weight \<Rightarrow> 'weight \<Rightarrow> 'weight"
  ref_time :: "'weight \<Rightarrow> 64 word"
  proof_size :: "'weight \<Rightarrow> 64 word"
  db_reads :: "RuntimeDbWeight \<Rightarrow> 64 word \<Rightarrow> 'weight"
  db_writes :: "RuntimeDbWeight \<Rightarrow> 64 word \<Rightarrow> 'weight"
  db_both :: "RuntimeDbWeight \<Rightarrow> 64 word \<Rightarrow> 64 word \<Rightarrow> 'weight"
  WEIGHT_REF_TIME_PER_NANOS :: "64 word"
  WEIGHT_REF_TIME_PER_MICROS :: "64 word"
  WEIGHT_REF_TIME_PER_MILLIS :: "64 word"

locale weight_arithmetic =
  fixes A :: "'weight weight_api"
  assumes ref_time_from_parts: "ref_time A (from_parts A r p) = r"
    and proof_size_from_parts: "proof_size A (from_parts A r p) = p"
    and ref_time_add: "ref_time A (weight_add A x y) = saturating_add (ref_time A x) (ref_time A y)"
    and proof_size_add: "proof_size A (weight_add A x y) = saturating_add (proof_size A x) (proof_size A y)"
    and ref_time_reads: "ref_time A (db_reads A db n) = saturating_mul (db_read db) n"
    and ref_time_writes: "ref_time A (db_writes A db n) = saturating_mul (db_write db) n"
    and ref_time_both: "ref_time A (db_both A db n m) = saturating_add (saturating_mul (db_read db) n) (saturating_mul (db_write db) m)"
    and proof_size_db: "proof_size A (db_reads A db n) = 0" "proof_size A (db_writes A db n) = 0"
      "proof_size A (db_both A db n m) = 0"
    and time_units: "WEIGHT_REF_TIME_PER_NANOS A = 1000" "WEIGHT_REF_TIME_PER_MICROS A = 1000000"
      "WEIGHT_REF_TIME_PER_MILLIS A = 1000000000"

section \<open>Weights of the runtime\<close>

definition RocksDbWeight :: "'weight weight_api \<Rightarrow> RuntimeDbWeight" where
  "RocksDbWeight A = \<lparr>db_read = 25000 * WEIGHT_REF_TIME_PER_NANOS A, db_write = 100000 * WEIGHT_REF_TIME_PER_NANOS A\<rparr>"

definition ParityDbWeight :: "'weight weight_api \<Rightarrow> RuntimeDbWeight" where
  "ParityDbWeight A = \<lparr>db_read = 8000 * WEIGHT_REF_TIME_PER_NANOS A, db_write = 50000 * WEIGHT_REF_TIME_PER_NANOS A\<rparr>"

definition BlockExecutionWeight :: "'weight weight_api \<Rightarrow> 'weight" where
  "BlockExecutionWeight A = from_parts A (saturating_mul (WEIGHT_REF_TIME_PER_NANOS A) 5000000) 0"

definition ExtrinsicBaseWeight :: "'weight weight_api \<Rightarrow> 'weight" where
  "ExtrinsicBaseWeight A = from_parts A (saturating_mul (WEIGHT_REF_TIME_PER_NANOS A) 125000) 0"

text \<open>The checks of the modules \<open>test_db_weights\<close> and \<open>test_weights\<close>.\<close>

definition sane_db_weight :: "'weight weight_api \<Rightarrow> RuntimeDbWeight \<Rightarrow> bool" where
  "sane_db_weight A W \<longleftrightarrow>
     WEIGHT_REF_TIME_PER_MICROS A \<le> ref_time A (db_reads A W 1)
   \<and> WEIGHT_REF_TIME_PER_MICROS A \<le> ref_time A (db_writes A W 1)
   \<and> ref_time A (db_reads A W 1) \<le> WEIGHT_REF_TIME_PER_MILLIS A
   \<and> ref_time A (db_writes A W 1) \<le> WEIGHT_REF_TIME_PER_MILLIS A"

definition sane_block_weight :: "'weight weight_api \<Rightarrow> bool" where
  "sane_block_weight A \<longleftrightarrow>
     100 * WEIGHT_REF_TIME_PER_MICROS A \<le> ref_time A (BlockExecutionWeight A)
   \<and> ref_time A (BlockExecutionWeight A) \<le> 50 * WEIGHT_REF_TIME_PER_MILLIS A"

definition sane_extrinsic_weight :: "'weight weight_api \<Rightarrow> bool" where
  "sane_extrinsic_weight A \<longleftrightarrow>
     10 * WEIGHT_REF_TIME_PER_MICROS A \<le> ref_time A (ExtrinsicBaseWeight A)
   \<and> ref_time A (ExtrinsicBaseWeight A) \<le> WEIGHT_REF_TIME_PER_MILLIS A"

section \<open>Weights of the sponsored-tx calls\<close>

text \<open>
  The trait \<open>WeightInfo\<close> as a record; \<open>SubstrateWeight\<close> takes the database weight of
  the runtime's system configuration, the implementation for \<open>()\<close> the one of RocksDB that
  the framework defines.
\<close>

record 'weight WeightInfo =
  w_register_sponsor :: 'weight
  w_increase_budget :: 'weight
  w_decrease_budget :: 'weight
  w_set_policy :: 'weight
  w_pause :: 'weight
  w_resume :: 'weight
  w_unregister :: 'weight

definition SubstrateWeight :: "'weight weight_api \<Rightarrow> RuntimeDbWeight \<Rightarrow> 'weight WeightInfo" where
  "SubstrateWeight A DbWeight = \<lparr>
     w_register_sponsor = weight_add A (from_parts A 20000000 0) (db_both A DbWeight 2 2),
     w_increase_budget = weight_add A (from_parts A 12000000 0) (db_both A DbWeight 2 1),
     w_decrease_budget = weight_add A (from_parts A 12000000 0) (db_both A DbWeight 2 1),
     w_set_policy = weight_add A (from_parts A 12000000 0) (db_both A DbWeight 1 1),
     w_pause = weight_add A (from_parts A 8000000 0) (db_both A DbWeight 1 1),
     w_resume = weight_add A (from_parts A 8000000 0) (db_both A DbWeight 1 1),
     w_unregister = weight_add A (from_parts A 16000000 0) (db_both A DbWeight 2 2)\<rparr>"

definition unit_WeightInfo :: "'weight weight_api \<Rightarrow> RuntimeDbWeight \<Rightarrow> 'weight WeightInfo" where
  "unit_WeightInfo A FrameRocksDbWeight = \<lparr>
     w_register_sponsor = weight_add A (from_parts A 20000000 0) (db_both A FrameRocksDbWeight 2 2),
     w_increase_budget = weight_add A (from_parts A 12000000 0) (db_both A FrameRocksDbWeight 2 1),
     w_decrease_budget = weight_add A (from_parts A 12000000 0) (db_both A FrameRocksDbWeight 2 1),
     w_set_policy = weight_add A (from_parts A 12000000 0) (db_both A FrameRocksDbWeight 1 1),
     w_pause = weight_add A (from_parts A 8000000 0) (db_both A FrameRocksDbWeight 1 1),
     w_resume = weight_add A (from_parts A 8000000 0) (db_both A FrameRocksDbWeight 1 1),
     w_unregister = weight_add A (from_parts A 16000000 0) (db_both A FrameRocksDbWeight 2 2)\<rparr>"

text \<open>The \<open>pallet::weight\<close> attribute of each call.\<close>

fun call_weight :: "'weight WeightInfo \<Rightarrow> ('acc, 'n) Call \<Rightarrow> 'weight" where
  "call_weight WI (register_sponsor_call _ _) = w_register_sponsor WI"
| "call_weight WI (increase_budget_call _) = w_increase_budget WI"
| "call_weight WI (decrease_budget_call _) = w_decrease_budget WI"
| "call_weight WI (set_policy_call _) = w_set_policy WI"
| "call_weight WI pause_call = w_pause WI"
| "call_weight WI resume_call = w_resume WI"
| "call_weight WI unregister_call = w_unregister WI"

section \<open>Weights of the template calls\<close>

definition template_do_something_weight :: "'weight weight_api \<Rightarrow> RuntimeDbWeight \<Rightarrow> 'weight" where
  "template_do_something_weight A DbWeight = weight_add A (from_parts A 9000000 0) (db_writes A DbWeight 1)"

definition template_cause_error_weight :: "'weight weight_api \<Rightarrow> RuntimeDbWeight \<Rightarrow> 'weight" where
  "template_cause_error_weight A DbWeight =
     weight_add A (weight_add A (from_parts A 6000000 1489) (db_reads A DbWeight 1)) (db_writes A DbWeight 1)"

definition template_unit_do_something_weight :: "'weight weight_api \<Rightarrow> RuntimeDbWeight \<Rightarrow> 'weight" where
  "template_unit_do_something_weight A FrameRocksDbWeight =
     weight_add A (from_parts A 9000000 0) (db_writes A FrameRocksDbWeight 1)"

definition template_unit_cause_error_weight :: "'weight weight_api \<Rightarrow> RuntimeDbWeight \<Rightarrow> 'weight" where
  "template_unit_cause_error_weight A FrameRocksDbWeight =
     weight_add A (weight_add A (from_parts A 6000000 1489) (db_reads A FrameRocksDbWeight 1))
       (db_writes A FrameRocksDbWeight 1)"

section \<open>Lemmas\<close>

lemma saturating_exact:
  "unat a + unat b < 2 ^ LENGTH('w) \<Longrightarrow> unat (saturating_add a (b :: 'w::len word)) = unat a + unat b"
  "unat a * unat b < 2 ^ LENGTH('w) \<Longrightarrow> unat (saturating_mul a (b :: 'w::len word)) = unat a * unat b"
  by (simp_all add: nat_of_word)

context weight_arithmetic
begin

lemmas weight_sel = ref_time_from_parts proof_size_from_parts ref_time_add proof_size_add
  ref_time_reads ref_time_writes ref_time_both proof_size_db

lemma rocksdb_read_write [simp]: "db_read (RocksDbWeight A) = 25000000" "db_write (RocksDbWeight A) = 100000000"
  by (simp_all add: RocksDbWeight_def time_units)

lemma paritydb_read_write [simp]: "db_read (ParityDbWeight A) = 8000000" "db_write (ParityDbWeight A) = 50000000"
  by (simp_all add: ParityDbWeight_def time_units)

lemma call_weight_bounds:
  "108000000 \<le> ref_time A (call_weight (SubstrateWeight A (RocksDbWeight A)) c)"
  "ref_time A (call_weight (SubstrateWeight A (RocksDbWeight A)) c) \<le> 270000000"
  "proof_size A (call_weight (SubstrateWeight A (RocksDbWeight A)) c) = 0"
  by (cases c; simp add: SubstrateWeight_def weight_sel saturating_add_def saturating_mul_def)+

end

section \<open>The weight type is a pair\<close>

definition pair_weights :: "(64 word \<times> 64 word) weight_api" where
  "pair_weights = \<lparr>from_parts = Pair,
     weight_add = (\<lambda>(a, b) (c, d). (saturating_add a c, saturating_add b d)),
     ref_time = fst, proof_size = snd,
     db_reads = (\<lambda>db n. (saturating_mul (db_read db) n, 0)),
     db_writes = (\<lambda>db n. (saturating_mul (db_write db) n, 0)),
     db_both = (\<lambda>db n m. (saturating_add (saturating_mul (db_read db) n) (saturating_mul (db_write db) m), 0)),
     WEIGHT_REF_TIME_PER_NANOS = 1000, WEIGHT_REF_TIME_PER_MICROS = 1000000,
     WEIGHT_REF_TIME_PER_MILLIS = 1000000000\<rparr>"

interpretation pair_weights: weight_arithmetic pair_weights
  by unfold_locales (simp_all add: pair_weights_def split: prod.splits)

end
