(* ===== verification/Template_Pallet.thy ===== *)
theory Template_Pallet
  imports Runtime_Weights
begin

text \<open>
  The template pallet (\<^verbatim>\<open>pallets/template/src/lib.rs\<close>): one stored block number, a call
  that sets it and a call that increments it and fails on overflow.  Block numbers are machine
  words; \<open>bn.into()\<close>, the lossless conversion from \<open>u32\<close> that every block number type
  has, is \<open>ucast\<close>.
\<close>

section \<open>State and calls\<close>

record 'n CompositeStruct =
  block_number :: 'n

datatype ('acc, 'n) template_event = SomethingStored 'n 'acc

datatype template_error = NoneValue | StorageOverflow

datatype 'e template_dispatch_error = TemplateError template_error | TemplateSystem 'e

record ('acc, 'n) template_state =
  Something :: "'n CompositeStruct option"
  template_events :: "('acc, 'n) template_event list"

definition checked_add :: "'w::len word \<Rightarrow> 'w word \<Rightarrow> 'w word option" where
  "checked_add a b = (if unat a + unat b < 2 ^ LENGTH('w) then Some (a + b) else None)"

definition do_something ::
  "('o \<Rightarrow> 'e + 'acc) \<Rightarrow> 'o \<Rightarrow> 32 word
     \<Rightarrow> (('acc, 'w::len word) template_state, 'e template_dispatch_error, unit) op"
where
  "do_something check_signed origin bn =
     and_then (of_result (map_sum TemplateSystem id (check_signed origin))) (\<lambda>who.
     let number = ucast bn in
     and_then (modify (\<lambda>s. s\<lparr>Something := Some \<lparr>block_number = number\<rparr>\<rparr>)) (\<lambda>_.
     and_then (modify (\<lambda>s. s\<lparr>template_events := template_events s @ [SomethingStored number who]\<rparr>)) ok))"

definition cause_error ::
  "('o \<Rightarrow> 'e + 'acc) \<Rightarrow> 'o \<Rightarrow> (('acc, 'w::len word) template_state, 'e template_dispatch_error, unit) op"
where
  "cause_error check_signed origin =
     and_then (of_result (map_sum TemplateSystem id (check_signed origin))) (\<lambda>_.
     and_then (gets Something) (\<lambda>stored.
     case stored of
       None \<Rightarrow> err (TemplateError NoneValue)
     | Some old \<Rightarrow>
         (case checked_add (block_number old) 1 of
            None \<Rightarrow> err (TemplateError StorageOverflow)
          | Some n \<Rightarrow> modify (\<lambda>s. s\<lparr>Something := Some (old\<lparr>block_number := n\<rparr>)\<rparr>))))"

text \<open>
  The weights that the calls declare in their \<open>pallet::weight\<close> attributes; \<open>+\<close> on
  weights does not saturate.
\<close>

definition do_something_declared :: "'weight weight_api \<Rightarrow> ('weight \<Rightarrow> 'weight \<Rightarrow> 'weight) \<Rightarrow> RuntimeDbWeight \<Rightarrow> 'weight" where
  "do_something_declared A w_plus DbWeight = w_plus (from_parts A 10000 0) (db_writes A DbWeight 1)"

definition cause_error_declared :: "'weight weight_api \<Rightarrow> ('weight \<Rightarrow> 'weight \<Rightarrow> 'weight) \<Rightarrow> RuntimeDbWeight \<Rightarrow> 'weight" where
  "cause_error_declared A w_plus DbWeight = w_plus (from_parts A 10000 0) (db_both A DbWeight 1 1)"

section \<open>Behaviour\<close>

lemma checked_add_one:
  "checked_add a (1 :: 'w::len word) = (if a = - 1 then None else Some (a + 1))"
proof -
  have "unat a + 1 < 2 ^ LENGTH('w) \<longleftrightarrow> a \<noteq> - 1"
  proof -
    have "unat a \<le> 2 ^ LENGTH('w) - 1"
      using unsigned_less [where 'a = nat, of a] by linarith
    moreover have "unat a = 2 ^ LENGTH('w) - 1 \<longleftrightarrow> a = - 1"
      by (metis unat_minus_one_max word_unat_eq_iff)
    ultimately show ?thesis by (cases "unat a = 2 ^ LENGTH('w) - 1") auto
  qed
  then show ?thesis by (simp add: checked_add_def)
qed

lemma do_something_run:
  "check_signed origin = Inr who \<Longrightarrow> do_something check_signed origin bn s =
     (Inr (), \<lparr>Something = Some \<lparr>block_number = ucast bn\<rparr>,
        template_events = template_events s @ [SomethingStored (ucast bn) who]\<rparr>)"
  by (simp add: do_something_def and_then_def op_run_defs Let_def)

lemma cause_error_run:
  "check_signed origin = Inr who \<Longrightarrow> cause_error check_signed origin s =
     (case Something s of
        None \<Rightarrow> (Inl (TemplateError NoneValue), s)
      | Some old \<Rightarrow>
          if block_number old = - 1 then (Inl (TemplateError StorageOverflow), s)
          else (Inr (), s\<lparr>Something := Some \<lparr>block_number = block_number old + 1\<rparr>\<rparr>))"
  by (auto simp: cause_error_def and_then_def op_run_defs checked_add_one split: option.splits)

text \<open>Repeated increments, as a batch of \<open>cause_error\<close> calls performs them.\<close>

fun cause_errors ::
  "('o \<Rightarrow> 'e + 'acc) \<Rightarrow> 'o \<Rightarrow> nat \<Rightarrow> (('acc, 'w::len word) template_state, 'e template_dispatch_error, unit) op"
where
  "cause_errors check_signed origin 0 = ok ()"
| "cause_errors check_signed origin (Suc k) = and_then (cause_error check_signed origin) (\<lambda>_. cause_errors check_signed origin k)"

lemma cause_errors_count:
  fixes n :: "'w::len word"
  assumes "check_signed origin = Inr who" and "Something s = Some \<lparr>block_number = n\<rparr>"
    and "unat n + k < 2 ^ LENGTH('w)"
  shows "cause_errors check_signed origin k s = (Inr (), s\<lparr>Something := Some \<lparr>block_number = n + of_nat k\<rparr>\<rparr>)"
  using assms(2,3)
proof (induction k arbitrary: s n)
  case 0
  then show ?case by (simp add: ok_def)
next
  case (Suc k)
  let ?s = "s\<lparr>Something := Some \<lparr>block_number = n + 1\<rparr>\<rparr>"
  have "n \<noteq> - 1"
    using Suc.prems(2) by (auto simp: unat_minus_one_max)
  moreover from this have "unat (n + 1) + k < 2 ^ LENGTH('w)"
    using Suc.prems(2) by (simp add: unat_word_ariths)
  ultimately show ?case
    using Suc.IH [of ?s "n + 1"] Suc.prems(1) cause_error_run [of check_signed origin who s, OF assms(1)]
    by (simp add: add.assoc)
qed

section \<open>Properties\<close>

text \<open>
  C37: the stored number counts exactly.  After \<open>do_something\<close> with \<open>bn\<close>, any number
  \<open>k\<close> of \<open>cause_error\<close> calls succeeds and stores \<open>bn + k\<close> without wrap-around,
  as long as the sum fits the block number type; the log has one event of the first call only.
\<close>

theorem template_counts_exactly:
  assumes "check_signed origin = Inr who" and "32 \<le> LENGTH('w::len)" and "unat bn + k < 2 ^ LENGTH('w)"
  shows "\<exists>t u. do_something check_signed origin bn s = (Inr (), t)
    \<and> cause_errors check_signed origin k t = (Inr (), u)
    \<and> map_option (\<lambda>c. unat (block_number c :: 'w word)) (Something u) = Some (unat bn + k)
    \<and> template_events u = template_events s @ [SomethingStored (ucast bn) who]"
proof -
  have bn: "unat (ucast bn :: 'w word) = unat bn"
    using assms(3) by (simp add: unsigned_ucast_eq take_bit_nat_eq_self)
  let ?t = "\<lparr>Something = Some \<lparr>block_number = ucast bn :: 'w word\<rparr>,
        template_events = template_events s @ [SomethingStored (ucast bn) who]\<rparr>"
  have "cause_errors check_signed origin k ?t
      = (Inr (), ?t\<lparr>Something := Some \<lparr>block_number = ucast bn + of_nat k\<rparr>\<rparr>)"
    by (rule cause_errors_count [of check_signed origin, OF assms(1)]) (use assms(3) bn in simp_all)
  moreover have "unat (ucast bn + of_nat k :: 'w word) = unat bn + k"
    using assms(3) bn by (simp add: unat_word_ariths unat_of_nat)
  ultimately show ?thesis
    using do_something_run [of check_signed origin who bn s, OF assms(1)] by auto
qed

theorem template_counts_exactly_witness:
  "\<exists>t u. do_something (Inr :: nat \<Rightarrow> unit + nat) 1 42 \<lparr>Something = None, template_events = []\<rparr> = (Inr (), t)
    \<and> cause_errors (Inr :: nat \<Rightarrow> unit + nat) 1 3 t = (Inr (), u)
    \<and> map_option (\<lambda>c. unat (block_number c :: 32 word)) (Something u) = Some 45
    \<and> template_events u = [SomethingStored 42 1]"
  using template_counts_exactly [where 'w = 32, of "Inr :: nat \<Rightarrow> unit + nat" 1 1 42 3
      "\<lparr>Something = None, template_events = []\<rparr>"]
  by (simp add: One_nat_def [symmetric] del: One_nat_def cause_errors.simps)

text \<open>
  \<open>cause_error\<close> fails exactly when it has to.  It reports \<open>NoneValue\<close> when
  nothing is stored and \<open>StorageOverflow\<close> when the stored number is the largest one, it
  leaves the state alone in both cases, and otherwise it succeeds.
\<close>

theorem template_cause_error_cases:
  assumes "check_signed origin = Inr who"
  shows "cause_error check_signed origin s =
     (case Something s of
        None \<Rightarrow> (Inl (TemplateError NoneValue), s)
      | Some old \<Rightarrow>
          if block_number old = - 1 then (Inl (TemplateError StorageOverflow), s)
          else (Inr (), s\<lparr>Something := Some \<lparr>block_number = block_number old + 1\<rparr>\<rparr>))"
  by (rule cause_error_run [of check_signed origin who s, OF assms])

theorem template_cause_error_cases_witness:
  "cause_error (Inr :: nat \<Rightarrow> unit + nat) 1
      \<lparr>Something = Some \<lparr>block_number = 4294967295 :: 32 word\<rparr>, template_events = []\<rparr>
    = (Inl (TemplateError StorageOverflow),
        \<lparr>Something = Some \<lparr>block_number = 4294967295\<rparr>, template_events = []\<rparr>)"
  using template_cause_error_cases [of "Inr :: nat \<Rightarrow> unit + nat" 1 1
      "\<lparr>Something = Some \<lparr>block_number = 4294967295 :: 32 word\<rparr>, template_events = []\<rparr>"]
  by simp

end
