(* ===== verification/Runtime_Config.thy ===== *)
theory Runtime_Config
  imports Template_Pallet
begin

text \<open>
  The runtime's constants and configuration (\<^verbatim>\<open>runtime/src/lib.rs\<close> and
  \<^verbatim>\<open>runtime/src/configs/mod.rs\<close>): block times, currency units, the weight-to-fee
  polynomial, the block weight limits, the pallet indices, the order of the transaction
  extensions, and the constants of the sponsored-tx, session and message queue pallets.
  \<open>Perbill\<close>, the block weights builder and the constants of the relay chain are the
  framework's: they are arguments.
\<close>

section \<open>Time and currency\<close>

definition MILLI_SECS_PER_BLOCK :: "64 word" where
  "MILLI_SECS_PER_BLOCK = 6000"

definition SLOT_DURATION :: "64 word" where
  "SLOT_DURATION = MILLI_SECS_PER_BLOCK"

definition MINUTES :: "32 word" where
  "MINUTES = 60000 div ucast MILLI_SECS_PER_BLOCK"

definition HOURS :: "32 word" where
  "HOURS = MINUTES * 60"

definition DAYS :: "32 word" where
  "DAYS = HOURS * 24"

definition UNIT :: "128 word" where
  "UNIT = 1000000000000"

definition CENTS :: "128 word" where
  "CENTS = UNIT div 100"

definition MILLI_UNIT :: "128 word" where
  "MILLI_UNIT = 1000000000"

definition MICRO_UNIT :: "128 word" where
  "MICRO_UNIT = 1000000"

definition EXISTENTIAL_DEPOSIT :: "128 word" where
  "EXISTENTIAL_DEPOSIT = MILLI_UNIT"

section \<open>Parameters of the configured pallets\<close>

definition TransactionByteFee :: "128 word" where
  "TransactionByteFee = 10 * MICRO_UNIT"

definition MaxSponsoredCallers :: "32 word" where
  "MaxSponsoredCallers = 32"

definition ToSiblingBaseDeliveryFee :: "128 word" where
  "ToSiblingBaseDeliveryFee = saturating_mul CENTS 3"

definition ToParentBaseDeliveryFee :: "128 word" where
  "ToParentBaseDeliveryFee = saturating_mul CENTS 3"

definition Period :: "32 word" where
  "Period = 6 * HOURS"

definition Offset :: "32 word" where
  "Offset = 0"

definition SessionLength :: "32 word" where
  "SessionLength = 6 * HOURS"

definition UNINCLUDED_SEGMENT_CAPACITY :: "32 word" where
  "UNINCLUDED_SEGMENT_CAPACITY = 3"

definition BLOCK_PROCESSING_VELOCITY :: "32 word" where
  "BLOCK_PROCESSING_VELOCITY = 1"

definition RELAY_CHAIN_SLOT_DURATION_MILLIS :: "32 word" where
  "RELAY_CHAIN_SLOT_DURATION_MILLIS = 6000"

text \<open>
  \<open>impl pallet_sponsored_tx::Config for Runtime\<close>: fees are burned (the unit destination
  drops its credits, \<open>drop_credits\<close>) and an allowlist has at most 32 callers.
\<close>

definition runtime_sponsored_config ::
  "('acc, 128 word, 'c, 'e, 'r, 'b) balances_api \<Rightarrow> ('o \<Rightarrow> 'e + 'acc) \<Rightarrow> ('c list \<Rightarrow> 'b \<Rightarrow> 'b)
     \<Rightarrow> ('acc, 128 word, 'c, 'e, 'r, 'b, 'o) Config"
where
  "runtime_sponsored_config B check_signed drop_credits =
     \<lparr>Balances = B, ensure_signed = check_signed, FeeDestination = drop_credits,
      MaxAllowedCallers = MaxSponsoredCallers\<rparr>"

section \<open>Weight to fee\<close>

record 'perbill WeightToFeeCoefficient =
  coeff_integer :: "128 word"
  coeff_frac :: 'perbill
  negative :: bool
  degree :: "8 word"

definition polynomial ::
  "'weight weight_api \<Rightarrow> (128 word \<Rightarrow> 128 word \<Rightarrow> 'perbill) \<Rightarrow> 'perbill WeightToFeeCoefficient list"
where
  "polynomial A from_rational =
     (let p = MILLI_UNIT div 10;
          q = 100 * ucast (ref_time A (ExtrinsicBaseWeight A))
      in [\<lparr>coeff_integer = p div q, coeff_frac = from_rational (p mod q) q, negative = False, degree = 1\<rparr>])"

section \<open>Block weights\<close>

datatype DispatchClass = Normal | Operational | Mandatory

record 'weight WeightsPerClass =
  base_extrinsic :: 'weight
  max_total :: "'weight option"
  class_reserved :: "'weight option"

text \<open>
  The builder of the framework: a record of its operations, and \<open>class_weights\<close>, what a
  builder state holds for a class.
\<close>

record ('weight, 'perbill, 'bw) block_weights_api =
  all_classes :: "DispatchClass list"
  set_base_block :: "'weight \<Rightarrow> 'bw \<Rightarrow> 'bw"
  for_class :: "DispatchClass list \<Rightarrow> ('weight WeightsPerClass \<Rightarrow> 'weight WeightsPerClass) \<Rightarrow> 'bw \<Rightarrow> 'bw"
  avg_block_initialization :: "'perbill \<Rightarrow> 'bw \<Rightarrow> 'bw"
  class_weights :: "'bw \<Rightarrow> DispatchClass \<Rightarrow> 'weight WeightsPerClass"

locale block_weights_builder =
  fixes BW :: "('weight, 'perbill, 'bw) block_weights_api"
  assumes all_listed: "c \<in> set (all_classes BW)"
    and base_keeps: "class_weights BW (set_base_block BW w b) c = class_weights BW b c"
    and init_keeps: "class_weights BW (avg_block_initialization BW r b) c = class_weights BW b c"
    and for_class_applies: "class_weights BW (for_class BW cs f b) c
      = (if c \<in> set cs then f (class_weights BW b c) else class_weights BW b c)"

definition MAXIMUM_BLOCK_WEIGHT :: "'weight weight_api \<Rightarrow> 64 word \<Rightarrow> 64 word \<Rightarrow> 'weight" where
  "MAXIMUM_BLOCK_WEIGHT A per_second max_pov_size = from_parts A (saturating_mul per_second 2) max_pov_size"

definition AVERAGE_ON_INITIALIZE_RATIO :: "(nat \<Rightarrow> 'perbill) \<Rightarrow> 'perbill" where
  "AVERAGE_ON_INITIALIZE_RATIO from_percent = from_percent 5"

definition NORMAL_DISPATCH_RATIO :: "(nat \<Rightarrow> 'perbill) \<Rightarrow> 'perbill" where
  "NORMAL_DISPATCH_RATIO from_percent = from_percent 75"

definition RuntimeBlockLength :: "(64 word \<Rightarrow> 'perbill \<Rightarrow> 'l) \<Rightarrow> (nat \<Rightarrow> 'perbill) \<Rightarrow> 'l" where
  "RuntimeBlockLength max_with_normal_ratio from_percent =
     max_with_normal_ratio (5 * 1024 * 1024) (NORMAL_DISPATCH_RATIO from_percent)"

text \<open>
  The builder chain of \<open>RuntimeBlockWeights\<close>, from the framework's default builder
  \<open>start\<close> up to the validating \<open>build_or_panic\<close>; \<open>ratio_mul\<close> is
  \<open>Perbill * Weight\<close> and \<open>w_sub\<close> the subtraction of weights.
\<close>

definition RuntimeBlockWeights ::
  "'weight weight_api \<Rightarrow> ('weight, 'perbill, 'bw) block_weights_api \<Rightarrow> ('perbill \<Rightarrow> 'weight \<Rightarrow> 'weight)
     \<Rightarrow> ('weight \<Rightarrow> 'weight \<Rightarrow> 'weight) \<Rightarrow> (nat \<Rightarrow> 'perbill) \<Rightarrow> 'weight \<Rightarrow> 'bw \<Rightarrow> 'bw"
where
  "RuntimeBlockWeights A BW ratio_mul w_sub from_percent max_block start =
     (let normal = ratio_mul (NORMAL_DISPATCH_RATIO from_percent) max_block;
          b1 = set_base_block BW (BlockExecutionWeight A) start;
          b2 = for_class BW (all_classes BW) (\<lambda>w. w\<lparr>base_extrinsic := ExtrinsicBaseWeight A\<rparr>) b1;
          b3 = for_class BW [Normal] (\<lambda>w. w\<lparr>max_total := Some normal\<rparr>) b2;
          b4 = for_class BW [Operational] (\<lambda>w. w\<lparr>max_total := Some max_block,
                 class_reserved := Some (w_sub max_block normal)\<rparr>) b3
      in avg_block_initialization BW (AVERAGE_ON_INITIALIZE_RATIO from_percent) b4)"

section \<open>Pallets and transaction extensions\<close>

datatype runtime_pallet = System | ParachainSystem | Timestamp | ParachainInfo | WeightReclaim
  | BalancesPallet | TransactionPayment | SponsoredTx | Sudo | Authorship | CollatorSelection | Session
  | Aura | AuraExt | XcmpQueue | PolkadotXcm | CumulusXcm | MessageQueue | TemplatePallet

fun pallet_index :: "runtime_pallet \<Rightarrow> 8 word" where
  "pallet_index System = 0"
| "pallet_index ParachainSystem = 1"
| "pallet_index Timestamp = 2"
| "pallet_index ParachainInfo = 3"
| "pallet_index WeightReclaim = 4"
| "pallet_index BalancesPallet = 10"
| "pallet_index TransactionPayment = 11"
| "pallet_index SponsoredTx = 12"
| "pallet_index Sudo = 15"
| "pallet_index Authorship = 20"
| "pallet_index CollatorSelection = 21"
| "pallet_index Session = 22"
| "pallet_index Aura = 23"
| "pallet_index AuraExt = 24"
| "pallet_index XcmpQueue = 30"
| "pallet_index PolkadotXcm = 31"
| "pallet_index CumulusXcm = 32"
| "pallet_index MessageQueue = 33"
| "pallet_index TemplatePallet = 50"

datatype tx_extension = AuthorizeCall | CheckNonZeroSender | CheckSpecVersion | CheckTxVersion
  | CheckGenesis | CheckEra | CheckNonce | CheckWeight | SponsoredCharge | CheckMetadataHash

text \<open>The tuple inside \<open>StorageWeightReclaim\<close>, in the order in which its members run.\<close>

definition TxExtension :: "tx_extension list" where
  "TxExtension = [AuthorizeCall, CheckNonZeroSender, CheckSpecVersion, CheckTxVersion, CheckGenesis,
     CheckEra, CheckNonce, CheckWeight, SponsoredCharge, CheckMetadataHash]"

lemmas currency_defs = UNIT_def CENTS_def MILLI_UNIT_def MICRO_UNIT_def EXISTENTIAL_DEPOSIT_def
lemmas time_defs = MILLI_SECS_PER_BLOCK_def SLOT_DURATION_def MINUTES_def HOURS_def DAYS_def
  Period_def SessionLength_def RELAY_CHAIN_SLOT_DURATION_MILLIS_def

section \<open>Fractions of the framework\<close>

lemma saturating_add_0: "saturating_add 0 x = x"
  using unsigned_less [of x, where 'a = nat] by (simp add: saturating_add_def)

text \<open>
  What the runtime relies on from \<open>Perbill\<close>: a percentage and a rational are stored in
  parts per billion, and multiplying by a fraction is exact where the product divides evenly
  and elsewhere off by less than one.
\<close>

locale perbill_arithmetic = weight_arithmetic A
  for A :: "'weight weight_api" +
  fixes parts :: "'perbill \<Rightarrow> nat"
    and from_percent :: "nat \<Rightarrow> 'perbill"
    and from_rational :: "128 word \<Rightarrow> 128 word \<Rightarrow> 'perbill"
    and perbill_mul :: "'perbill \<Rightarrow> 128 word \<Rightarrow> 128 word"
    and ratio_mul :: "'perbill \<Rightarrow> 'weight \<Rightarrow> 'weight"
    and w_sub :: "'weight \<Rightarrow> 'weight \<Rightarrow> 'weight"
  assumes parts_percent: "n \<le> 100 \<Longrightarrow> parts (from_percent n) = n * 10000000"
    and parts_rational: "p \<le> q \<Longrightarrow> q \<noteq> 0 \<Longrightarrow> unat q dvd unat p * 1000000000 \<Longrightarrow>
      parts (from_rational p q) = unat p * 1000000000 div unat q"
    and mul_exact: "1000000000 dvd parts r * unat x \<Longrightarrow>
      unat (perbill_mul r x) = parts r * unat x div 1000000000"
    and mul_near: "parts r * unat x < 1000000000 * (unat (perbill_mul r x) + 1)"
      "1000000000 * unat (perbill_mul r x) < parts r * unat x + 1000000000"
    and ratio_mul_exact: "1000000000 dvd parts r * unat (ref_time A w) \<Longrightarrow>
      unat (ref_time A (ratio_mul r w)) = parts r * unat (ref_time A w) div 1000000000"
    and w_sub_ref_time: "ref_time A (w_sub v w) = ref_time A v - ref_time A w"
begin

lemma base_ref_time: "ref_time A (ExtrinsicBaseWeight A) = 125000000"
  by (simp add: ExtrinsicBaseWeight_def ref_time_from_parts time_units saturating_mul_def)

lemma polynomial_frac: "parts (coeff_frac (hd (polynomial A from_rational))) = 8000000"
  by (simp add: polynomial_def Let_def base_ref_time currency_defs parts_rational)

lemma normal_share:
  assumes "ref_time A w = 2000000000000"
  shows "unat (ref_time A (ratio_mul (NORMAL_DISPATCH_RATIO from_percent) w)) = 1500000000000"
  by (simp add: NORMAL_DISPATCH_RATIO_def ratio_mul_exact parts_percent assms)

end

text \<open>
  The framework turns a weight into a fee by evaluating the polynomial at its execution time:
  \<open>weight_to_fee\<close> is documented to add, term by term, the integer and the fractional
  coefficient times that power of it, with saturation.  The law is the case of one positive linear
  term, all that the runtime's polynomial has.
\<close>

locale polynomial_fees = perbill_arithmetic A parts from_percent from_rational perbill_mul ratio_mul w_sub
  for A :: "'weight weight_api" and parts :: "'perbill \<Rightarrow> nat" and from_percent from_rational perbill_mul ratio_mul w_sub +
  fixes weight_to_fee :: "'perbill WeightToFeeCoefficient list \<Rightarrow> 'weight \<Rightarrow> 128 word"
  assumes linear_fee: "degree c = 1 \<Longrightarrow> \<not> negative c \<Longrightarrow> weight_to_fee [c] w =
      saturating_add (saturating_mul (coeff_integer c) (ucast (ref_time A w))) (perbill_mul (coeff_frac c) (ucast (ref_time A w)))"
begin

lemma runtime_polynomial:
  obtains c where "polynomial A from_rational = [c]" and "degree c = 1" and "\<not> negative c"
    and "coeff_integer c = 0" and "parts (coeff_frac c) = 8000000"
  by (simp add: polynomial_def Let_def base_ref_time currency_defs parts_rational)

lemma runtime_fee:
  "unat (ref_time A w) < 125 * (unat (weight_to_fee (polynomial A from_rational) w) + 1)"
  "125 * unat (weight_to_fee (polynomial A from_rational) w) < unat (ref_time A w) + 125"
proof -
  obtain c where c: "polynomial A from_rational = [c]" "degree c = 1" "\<not> negative c" "coeff_integer c = 0"
    "parts (coeff_frac c) = 8000000" by (rule runtime_polynomial)
  let ?x = "ucast (ref_time A w) :: 128 word"
  have x: "unat ?x = unat (ref_time A w)" 
    using unsigned_less [of "ref_time A w", where 'a = nat] by (simp add: unsigned_ucast_eq take_bit_nat_eq_self)
  have "weight_to_fee (polynomial A from_rational) w = perbill_mul (coeff_frac c) ?x"
    by (simp add: c linear_fee saturating_add_0 saturating_mul_def)
  with mul_near [of "coeff_frac c" ?x]
  show "unat (ref_time A w) < 125 * (unat (weight_to_fee (polynomial A from_rational) w) + 1)"
    "125 * unat (weight_to_fee (polynomial A from_rational) w) < unat (ref_time A w) + 125"
    by (simp_all add: c(5) x)
qed

lemma runtime_fee_exact:
  assumes "unat (ref_time A w) = 125 * n"
  shows "unat (weight_to_fee (polynomial A from_rational) w) = n"
  using runtime_fee [of w] assms by simp

end

text \<open>A builder that has the laws: the weights of each class.\<close>

definition map_builder :: "('weight, 'perbill, DispatchClass \<Rightarrow> 'weight WeightsPerClass) block_weights_api" where
  "map_builder = \<lparr>all_classes = [Normal, Operational, Mandatory], set_base_block = (\<lambda>_ b. b),
     for_class = (\<lambda>cs f b c. if c \<in> set cs then f (b c) else b c),
     avg_block_initialization = (\<lambda>_ b. b), class_weights = (\<lambda>b. b)\<rparr>"

lemma class_weights_map_builder: "class_weights map_builder b = b"
  by (simp add: map_builder_def)

interpretation map_builder: block_weights_builder map_builder
proof unfold_locales
  show "c \<in> set (all_classes map_builder)" for c
    by (cases c) (simp_all add: map_builder_def)
qed (simp_all add: map_builder_def)

definition nat_ratio :: "nat \<Rightarrow> 'w::len word \<Rightarrow> 'w word" where
  "nat_ratio r x = of_nat (min (unat x) (r * unat x div 1000000000))"

interpretation nat_perbill: perbill_arithmetic pair_weights "min 1000000000 :: nat \<Rightarrow> nat" "\<lambda>n. n * 10000000"
  "\<lambda>p q. unat p * 1000000000 div unat q" "\<lambda>r. nat_ratio (min 1000000000 r)"
  "\<lambda>r w. (nat_ratio (min 1000000000 r) (fst w), 0)"
  "\<lambda>x y. (fst x - fst y, snd x - snd y)"
proof unfold_locales
  have ratio: "unat (nat_ratio r x) = r * unat x div 1000000000" if "r \<le> 1000000000" for r and x :: "'w::len word"
  proof -
    have "r * unat x div 1000000000 \<le> unat x"
      using div_le_mono [OF mult_le_mono1 [OF that], of "unat x" 1000000000] by simp
    moreover from this have "r * unat x div 1000000000 < 2 ^ LENGTH('w)"
      by (rule le_less_trans) simp
    ultimately show ?thesis by (simp add: nat_ratio_def unat_of_nat min_absorb2)
  qed
  show "min 1000000000 (unat p * 1000000000 div unat q) = unat p * 1000000000 div unat q"
    if "p \<le> q" and "q \<noteq> 0" for p q :: "128 word"
    using that div_le_mono [of "unat p * 1000000000" "unat q * 1000000000" "unat q"]
    by (simp add: word_le_nat_alt unat_eq_0 min_absorb2)
  show "unat (nat_ratio (min 1000000000 r) x) = min 1000000000 r * unat x div 1000000000" for r and x :: "128 word"
    by (simp add: ratio)
  show "min 1000000000 r * unat x < 1000000000 * (unat (nat_ratio (min 1000000000 r) x) + 1)"
    "1000000000 * unat (nat_ratio (min 1000000000 r) x) < min 1000000000 r * unat x + 1000000000" for r and x :: "128 word"
    unfolding ratio [OF min.cobounded1]
    using div_mult_mod_eq [of "min 1000000000 r * unat x" 1000000000] mod_less_divisor [of 1000000000 "min 1000000000 r * unat x"]
    by simp_all
  show "unat (ref_time pair_weights (nat_ratio (min 1000000000 r) (fst w), 0))
      = min 1000000000 r * unat (ref_time pair_weights w) div 1000000000" for r w
    by (simp add: pair_weights_def ratio)
qed (simp_all add: pair_weights_def)

definition nat_weight_to_fee :: "nat WeightToFeeCoefficient list \<Rightarrow> 64 word \<times> 64 word \<Rightarrow> 128 word" where
  "nat_weight_to_fee cs w = fold (\<lambda>c fee. saturating_add fee (saturating_add
     (saturating_mul (coeff_integer c) (ucast (fst w) ^ unat (degree c)))
     (nat_ratio (min 1000000000 (coeff_frac c)) (ucast (fst w) ^ unat (degree c))))) cs 0"

interpretation nat_fees: polynomial_fees pair_weights "min 1000000000 :: nat \<Rightarrow> nat" "\<lambda>n. n * 10000000"
  "\<lambda>p q. unat p * 1000000000 div unat q" "\<lambda>r. nat_ratio (min 1000000000 r)"
  "\<lambda>r w. (nat_ratio (min 1000000000 r) (fst w), 0)"
  "\<lambda>x y. (fst x - fst y, snd x - snd y)" nat_weight_to_fee
  by unfold_locales (simp add: nat_weight_to_fee_def pair_weights_def saturating_add_0)

section \<open>Properties\<close>

text \<open>
  Every call of the sponsored-tx pallet has a positive declared execution time between 108
  and 270 microseconds under the runtime's database weights, and it declares no proof size.
\<close>

theorem sponsored_call_weights_bounded:
  assumes "weight_arithmetic A"
  shows "let w = call_weight (SubstrateWeight A (RocksDbWeight A)) c in
    108 * WEIGHT_REF_TIME_PER_MICROS A \<le> ref_time A w
    \<and> ref_time A w \<le> 270 * WEIGHT_REF_TIME_PER_MICROS A \<and> proof_size A w = 0"
  using weight_arithmetic.call_weight_bounds [OF assms, of c]
  by (simp add: Let_def weight_arithmetic.time_units [OF assms])

theorem sponsored_call_weights_bounded_witness:
  "ref_time pair_weights (call_weight (SubstrateWeight pair_weights (RocksDbWeight pair_weights)) pause_call)
     \<le> 270 * WEIGHT_REF_TIME_PER_MICROS pair_weights"
  using sponsored_call_weights_bounded [OF pair_weights.weight_arithmetic_axioms, of pause_call]
  by (simp add: Let_def)

text \<open>
  The runtime's weight constants pass their sanity checks: a database access costs between a
  microsecond and a millisecond for RocksDB and for ParityDB, an empty block between 100
  microseconds and 50 milliseconds, an empty extrinsic between 10 microseconds and a millisecond.
\<close>

theorem runtime_weights_sane:
  assumes "weight_arithmetic A"
  shows "sane_db_weight A (RocksDbWeight A) \<and> sane_db_weight A (ParityDbWeight A)
    \<and> sane_block_weight A \<and> sane_extrinsic_weight A"
proof -
  note sel = weight_arithmetic.weight_sel [OF assms] weight_arithmetic.time_units [OF assms]
    weight_arithmetic.rocksdb_read_write [OF assms] weight_arithmetic.paritydb_read_write [OF assms]
  show ?thesis
    by (simp add: sane_db_weight_def sane_block_weight_def sane_extrinsic_weight_def
        BlockExecutionWeight_def ExtrinsicBaseWeight_def sel saturating_mul_def)
qed

theorem runtime_weights_sane_witness:
  "sane_db_weight pair_weights (RocksDbWeight pair_weights) \<and> sane_block_weight pair_weights"
  using runtime_weights_sane [OF pair_weights.weight_arithmetic_axioms] by simp

text \<open>
  C35: what execution time costs.  The weight-to-fee polynomial is a single positive linear term, its
  integer part is zero, and the fee of every weight is its execution time in picoseconds divided by
  125, with no saturation, exact at multiples and off by less than one planck elsewhere.  The
  base weight of an extrinsic costs one \<open>MICRO_UNIT\<close>, a hundredth of the tenth of a
  \<open>MILLI_UNIT\<close> that it is meant to cost.
\<close>

theorem weight_fee_is_linear:
  assumes "polynomial_fees A parts from_percent from_rational perbill_mul ratio_mul w_sub weight_to_fee"
  shows "(\<exists>c. polynomial A from_rational = [c] \<and> degree c = 1 \<and> \<not> negative c \<and> coeff_integer c = 0)
    \<and> 125 * unat (weight_to_fee (polynomial A from_rational) w) < unat (ref_time A w) + 125
    \<and> unat (ref_time A w) < 125 * unat (weight_to_fee (polynomial A from_rational) w) + 125
    \<and> (\<forall>n. unat (ref_time A w) = 125 * n \<longrightarrow> unat (weight_to_fee (polynomial A from_rational) w) = n)
    \<and> weight_to_fee (polynomial A from_rational) (ExtrinsicBaseWeight A) = MICRO_UNIT
    \<and> 100 * MICRO_UNIT = MILLI_UNIT div 10"
proof -
  note base = perbill_arithmetic.base_ref_time [OF polynomial_fees.axioms(1) [OF assms]]
  have "unat (weight_to_fee (polynomial A from_rational) (ExtrinsicBaseWeight A)) = 1000000"
    by (rule polynomial_fees.runtime_fee_exact [OF assms]) (simp add: base)
  then have "weight_to_fee (polynomial A from_rational) (ExtrinsicBaseWeight A) = MICRO_UNIT"
    by (simp add: word_unat_eq_iff currency_defs)
  moreover have "\<exists>c. polynomial A from_rational = [c] \<and> degree c = 1 \<and> \<not> negative c \<and> coeff_integer c = 0"
    by (rule polynomial_fees.runtime_polynomial [OF assms]) blast
  ultimately show ?thesis
    using polynomial_fees.runtime_fee [OF assms, of w] polynomial_fees.runtime_fee_exact [OF assms, of w]
    by (simp add: currency_defs)
qed

theorem weight_fee_is_linear_witness:
  "nat_weight_to_fee (polynomial pair_weights (\<lambda>p q. unat p * 1000000000 div unat q)) (ExtrinsicBaseWeight pair_weights) = MICRO_UNIT
   \<and> unat (nat_weight_to_fee (polynomial pair_weights (\<lambda>p q. unat p * 1000000000 div unat q)) (250000, 64)) = 2000"
  using weight_fee_is_linear [OF nat_fees.polynomial_fees_axioms, of "(250000, 64)"]
  by (simp add: pair_weights_def)

text \<open>
  The block limits add up.  With two seconds of compute per block, normal extrinsics may use
  one and a half seconds, operational ones the whole block, and the part reserved for operational
  extrinsics is exactly what normal ones leave.
\<close>

theorem block_weight_limits_add_up:
  assumes "perbill_arithmetic A parts from_percent from_rational perbill_mul ratio_mul w_sub"
    and "block_weights_builder BW"
    and "M = MAXIMUM_BLOCK_WEIGHT A 1000000000000 max_pov_size"
    and "b = RuntimeBlockWeights A BW ratio_mul w_sub from_percent M start"
  shows "\<exists>n r. max_total (class_weights BW b Normal) = Some n \<and> max_total (class_weights BW b Operational) = Some M
    \<and> class_reserved (class_weights BW b Operational) = Some r
    \<and> unat (ref_time A n) = 1500000000000
    \<and> unat (ref_time A n) + unat (ref_time A r) = unat (ref_time A M)
    \<and> base_extrinsic (class_weights BW b c) = ExtrinsicBaseWeight A"
proof -
  note pb = perbill_arithmetic.axioms(1) [OF assms(1)]
  note builder = block_weights_builder.all_listed [OF assms(2)] block_weights_builder.base_keeps [OF assms(2)]
    block_weights_builder.init_keeps [OF assms(2)] block_weights_builder.for_class_applies [OF assms(2)]
  have max: "ref_time A M = 2000000000000"
    by (simp add: assms(3) MAXIMUM_BLOCK_WEIGHT_def weight_arithmetic.ref_time_from_parts [OF pb] saturating_mul_def)
  let ?n = "ratio_mul (NORMAL_DISPATCH_RATIO from_percent) M"
  have n: "unat (ref_time A ?n) = 1500000000000"
    by (rule perbill_arithmetic.normal_share [OF assms(1) max])
  then have "unat (ref_time A (w_sub M ?n)) = 500000000000"
    using perbill_arithmetic.w_sub_ref_time [OF assms(1), of M ?n] max
    by (simp add: unat_sub word_le_nat_alt)
  with n max show ?thesis
    by (cases c) (simp_all add: assms(4) RuntimeBlockWeights_def Let_def builder)
qed

theorem block_weight_limits_add_up_witness:
  "\<exists>n. max_total (RuntimeBlockWeights pair_weights map_builder (\<lambda>r w. (nat_ratio (min 1000000000 r) (fst w), 0))
        (\<lambda>x y. (fst x - fst y, snd x - snd y)) (\<lambda>n. n * 10000000)
        (MAXIMUM_BLOCK_WEIGHT pair_weights 1000000000000 5242880)
        (\<lambda>_. \<lparr>base_extrinsic = (0, 0), max_total = None, class_reserved = None\<rparr>) Normal) = Some n
    \<and> unat (ref_time pair_weights n) = 1500000000000"
  using block_weight_limits_add_up [OF nat_perbill.perbill_arithmetic_axioms map_builder.block_weights_builder_axioms
      refl refl, where max_pov_size = 5242880
        and start = "\<lambda>_. \<lparr>base_extrinsic = (0, 0), max_total = None, class_reserved = None\<rparr>"
        and c = Normal]
  unfolding class_weights_map_builder by blast

text \<open>
  The indices that tell the pallets apart in encoded calls, events and errors are pairwise
  different, and the sponsored payment extension runs once, after every check of sender, nonce
  and weight, so that a transaction those refuse never reserves a sponsor's funds.
\<close>

theorem runtime_composition_is_sound:
  "(pallet_index x = pallet_index y) = (x = y)
   \<and> distinct TxExtension
   \<and> takeWhile (\<lambda>e. e \<noteq> SponsoredCharge) TxExtension
      = [AuthorizeCall, CheckNonZeroSender, CheckSpecVersion, CheckTxVersion, CheckGenesis, CheckEra,
         CheckNonce, CheckWeight]"
  by (cases x; cases y; simp add: TxExtension_def)

text \<open>
  The time and currency constants are exact: a minute, an hour and a day of blocks last
  60, 3600 and 86400 seconds, a session lasts six hours, the slot is the relay chain's, no
  division truncates, and the existential deposit is positive.
\<close>

theorem runtime_constants_exact:
  "unat MINUTES * unat MILLI_SECS_PER_BLOCK = 60 * 1000
   \<and> unat HOURS * unat MILLI_SECS_PER_BLOCK = 3600 * 1000
   \<and> unat DAYS * unat MILLI_SECS_PER_BLOCK = 86400 * 1000
   \<and> unat Period * unat MILLI_SECS_PER_BLOCK = 6 * 3600 * 1000 \<and> SessionLength = Period
   \<and> unat RELAY_CHAIN_SLOT_DURATION_MILLIS = unat SLOT_DURATION
   \<and> unat CENTS * 100 = unat UNIT \<and> unat MILLI_UNIT * 1000 = unat UNIT \<and> unat MICRO_UNIT * 1000 = unat MILLI_UNIT
   \<and> 0 < EXISTENTIAL_DEPOSIT"
  by (simp add: time_defs currency_defs)

end
