(* ===== verification/Genesis_Presets.thy ===== *)
theory Genesis_Presets
  imports Runtime_Config
begin

text \<open>
  The genesis presets of the runtime (\<^verbatim>\<open>runtime/src/genesis_config_presets.rs\<close>): the
  testnet genesis, the two presets built from it, their lookup by name and the list of names.  The
  well-known keys, the preset names, the XCM version and the JSON serialiser belong to the
  framework and are arguments.
\<close>

section \<open>The genesis configuration\<close>

record 'aura SessionKeys =
  aura :: 'aura

record ('acc, 'aura) RuntimeGenesisConfig =
  balances :: "('acc \<times> 128 word) list"
  parachain_id :: "32 word"
  invulnerables :: "'acc list"
  candidacy_bond :: "128 word"
  session_keys :: "('acc \<times> 'acc \<times> 'aura SessionKeys) list"
  safe_xcm_version :: "32 word option"
  sudo_key :: "'acc option"

record ('acc, 'aura) keyring =
  Alice :: 'acc
  Alice_public :: 'aura
  Bob :: 'acc
  Bob_public :: 'aura
  well_known :: "'acc list"

definition PARACHAIN_ID :: "32 word" where
  "PARACHAIN_ID = 1000"

definition template_session_keys :: "'aura \<Rightarrow> 'aura SessionKeys" where
  "template_session_keys keys = \<lparr>aura = keys\<rparr>"

definition testnet_genesis ::
  "32 word \<Rightarrow> ('acc \<times> 'aura) list \<Rightarrow> 'acc list \<Rightarrow> 'acc \<Rightarrow> 32 word \<Rightarrow> ('acc, 'aura) RuntimeGenesisConfig"
where
  "testnet_genesis XCM_VERSION invulns endowed_accounts root para_id = \<lparr>
     balances = map (\<lambda>k. (k, push_bit 60 1)) endowed_accounts,
     parachain_id = para_id,
     invulnerables = map fst invulns,
     candidacy_bond = EXISTENTIAL_DEPOSIT * 16,
     session_keys = map (\<lambda>(acc, aura). (acc, acc, template_session_keys aura)) invulns,
     safe_xcm_version = Some XCM_VERSION,
     sudo_key = Some root\<rparr>"

definition local_testnet_genesis :: "32 word \<Rightarrow> ('acc, 'aura) keyring \<Rightarrow> ('acc, 'aura) RuntimeGenesisConfig" where
  "local_testnet_genesis XCM_VERSION K =
     testnet_genesis XCM_VERSION [(Alice K, Alice_public K), (Bob K, Bob_public K)] (well_known K) (Alice K) PARACHAIN_ID"

definition development_config_genesis :: "32 word \<Rightarrow> ('acc, 'aura) keyring \<Rightarrow> ('acc, 'aura) RuntimeGenesisConfig" where
  "development_config_genesis XCM_VERSION K =
     testnet_genesis XCM_VERSION [(Alice K, Alice_public K), (Bob K, Bob_public K)] (well_known K) (Alice K) PARACHAIN_ID"

record preset_ids =
  DEV_RUNTIME_PRESET :: string
  LOCAL_TESTNET_RUNTIME_PRESET :: string

definition get_preset ::
  "preset_ids \<Rightarrow> 32 word \<Rightarrow> (('acc, 'aura) RuntimeGenesisConfig \<Rightarrow> 8 word list) \<Rightarrow> ('acc, 'aura) keyring
     \<Rightarrow> string \<Rightarrow> 8 word list option"
where
  "get_preset ids XCM_VERSION to_json K preset =
     (if preset = LOCAL_TESTNET_RUNTIME_PRESET ids then Some (to_json (local_testnet_genesis XCM_VERSION K))
      else if preset = DEV_RUNTIME_PRESET ids then Some (to_json (development_config_genesis XCM_VERSION K))
      else None)"

definition preset_names :: "preset_ids \<Rightarrow> string list" where
  "preset_names ids = [DEV_RUNTIME_PRESET ids, LOCAL_TESTNET_RUNTIME_PRESET ids]"

section \<open>Properties\<close>

text \<open>
  The presets the runtime lists are exactly those it can build, every preset endows each
  well-known account with the same \<open>2 ^ 60\<close> (more than a million times the existential
  deposit), and each initial collator has session keys under its own account.
\<close>

theorem presets_complete_and_endowed:
  "(get_preset ids v to_json K preset \<noteq> None) = (preset \<in> set (preset_names ids))
   \<and> balances (local_testnet_genesis v K) = map (\<lambda>a. (a, 2 ^ 60)) (well_known K)
   \<and> unat EXISTENTIAL_DEPOSIT * 1000000 < unat (2 ^ 60 :: 128 word)
   \<and> map (\<lambda>(a, validator, k). (a = validator, a)) (session_keys (local_testnet_genesis v K))
      = map (Pair True) (invulnerables (local_testnet_genesis v K))
   \<and> development_config_genesis v K = local_testnet_genesis v K"
proof -
  have "push_bit 60 1 = (2 ^ 60 :: 128 word)" by simp
  then show ?thesis
    by (auto simp: get_preset_def preset_names_def local_testnet_genesis_def development_config_genesis_def
        testnet_genesis_def currency_defs)
qed

end
