(* ===== verification/Collator_Node.thy ===== *)
theory Collator_Node
  imports Genesis_Presets
begin

text \<open>
  The collator's command line (\<^verbatim>\<open>node/src/command.rs\<close>, \<^verbatim>\<open>node/src/cli.rs\<close>,
  \<^verbatim>\<open>node/src/chain_spec.rs\<close>): the chain specifications and their lookup by name, the
  relay chain arguments and how the relay chain's identifier and base path are resolved.  Reading a
  specification from a file and parsing arguments are the framework's: they are arguments.
\<close>

section \<open>Chain specifications\<close>

datatype ChainType = Development | Local

datatype property_value = TextProperty string | NumberProperty nat

record Extensions =
  relay_chain :: string

record 'wasm ChainSpec =
  spec_code :: 'wasm
  spec_extensions :: Extensions
  spec_name :: string
  spec_id :: string
  chain_type :: ChainType
  genesis_preset :: string
  protocol_id :: "string option"
  properties :: "(string \<times> property_value) list"

definition RELAY_CHAIN :: string where
  "RELAY_CHAIN = ''rococo-local''"

text \<open>\<open>get_extension\<close> is the framework's typed lookup in a specification's extensions.\<close>

definition try_get :: "(Extensions \<Rightarrow> Extensions option) \<Rightarrow> 'wasm ChainSpec \<Rightarrow> Extensions option" where
  "try_get get_extension spec = get_extension (spec_extensions spec)"

text \<open>\<open>WASM_BINARY.expect\<close> stops the program when the binary was not built: \<open>None\<close>.\<close>

definition development_chain_spec :: "preset_ids \<Rightarrow> 'wasm option \<Rightarrow> 'wasm ChainSpec option" where
  "development_chain_spec ids WASM_BINARY = map_option (\<lambda>code. \<lparr>
     spec_code = code, spec_extensions = \<lparr>relay_chain = RELAY_CHAIN\<rparr>,
     spec_name = ''Development'', spec_id = ''dev'', chain_type = Development,
     genesis_preset = DEV_RUNTIME_PRESET ids, protocol_id = None,
     properties = [(''tokenSymbol'', TextProperty ''UNIT''), (''tokenDecimals'', NumberProperty 12),
                   (''ss58Format'', NumberProperty 42)]\<rparr>) WASM_BINARY"

definition local_chain_spec :: "preset_ids \<Rightarrow> 'wasm option \<Rightarrow> 'wasm ChainSpec option" where
  "local_chain_spec ids WASM_BINARY = map_option (\<lambda>code. \<lparr>
     spec_code = code, spec_extensions = \<lparr>relay_chain = RELAY_CHAIN\<rparr>,
     spec_name = ''Local Testnet'', spec_id = ''local_testnet'', chain_type = Local,
     genesis_preset = LOCAL_TESTNET_RUNTIME_PRESET ids, protocol_id = Some ''template-local'',
     properties = [(''tokenSymbol'', TextProperty ''UNIT''), (''tokenDecimals'', NumberProperty 12),
                   (''ss58Format'', NumberProperty 42)]\<rparr>) WASM_BINARY"

text \<open>\<open>load_spec\<close>: the panic of a missing binary is \<open>None\<close>, a file error is \<open>Inl\<close>.\<close>

definition load_spec ::
  "preset_ids \<Rightarrow> 'wasm option \<Rightarrow> (string \<Rightarrow> 'e + 'wasm ChainSpec) \<Rightarrow> string \<Rightarrow> ('e + 'wasm ChainSpec) option"
where
  "load_spec ids WASM_BINARY from_json_file name =
     (if name = ''dev'' then map_option Inr (development_chain_spec ids WASM_BINARY)
      else if name = ''template-rococo'' then map_option Inr (local_chain_spec ids WASM_BINARY)
      else if name = '''' \<or> name = ''local'' then map_option Inr (local_chain_spec ids WASM_BINARY)
      else Some (from_json_file name))"

section \<open>The relay chain's command line\<close>

type_synonym path = "string list"

record 'base RelayChainCli =
  rc_base :: 'base
  rc_chain_id :: "string option"
  rc_base_path :: "path option"

definition relay_chain_cli_new ::
  "(Extensions \<Rightarrow> Extensions option) \<Rightarrow> ('arg list \<Rightarrow> 'base) \<Rightarrow> 'wasm ChainSpec \<Rightarrow> path \<Rightarrow> 'arg list
     \<Rightarrow> 'base RelayChainCli"
where
  "relay_chain_cli_new get_extension parse_from para_spec para_base_path relay_chain_args =
     \<lparr>rc_base = parse_from relay_chain_args,
      rc_chain_id = map_option relay_chain (try_get get_extension para_spec),
      rc_base_path = Some (para_base_path @ [''polkadot''])\<rparr>"

text \<open>
  The two overridden methods of \<open>CliConfiguration\<close>; \<open>base_chain_id\<close> and
  \<open>base_base_path\<close> are what the wrapped polkadot command line answers.
\<close>

definition relay_chain_id ::
  "('base \<Rightarrow> bool \<Rightarrow> 'e + string) \<Rightarrow> 'base RelayChainCli \<Rightarrow> bool \<Rightarrow> 'e + string"
where
  "relay_chain_id base_chain_id self is_dev =
     (case base_chain_id (rc_base self) is_dev of
        Inl e \<Rightarrow> Inl e
      | Inr chain_id \<Rightarrow>
          Inr (if chain_id = '''' then (case rc_chain_id self of None \<Rightarrow> '''' | Some c \<Rightarrow> c) else chain_id))"

definition relay_base_path ::
  "('base \<Rightarrow> 'e + path option) \<Rightarrow> 'base RelayChainCli \<Rightarrow> 'e + path option"
where
  "relay_base_path base_base_path self =
     (case base_base_path (rc_base self) of
        Inl e \<Rightarrow> Inl e
      | Inr (Some p) \<Rightarrow> Inr (Some p)
      | Inr None \<Rightarrow> Inr (rc_base_path self))"

definition p2p_listen_port :: "16 word" where
  "p2p_listen_port = 30334"

definition rpc_listen_port :: "16 word" where
  "rpc_listen_port = 9945"

definition prometheus_listen_port :: "16 word" where
  "prometheus_listen_port = 9616"

section \<open>Properties\<close>

text \<open>
  Which relay chain a collator joins.  For a specification loaded under one of the built-in
  names, an identifier given on the relay chain's command line is used as it is, and without one
  the relay chain is \<open>rococo-local\<close>, the one the specification names; its data goes into the
  directory \<open>polkadot\<close> below the parachain's base path unless the command line names one.
\<close>

theorem builtin_specs_join_their_relay_chain:
  assumes "name \<in> {''dev'', ''template-rococo'', '''', ''local''}"
    and "load_spec ids (Some code) from_json_file name = Some (Inr spec)"
    and "\<And>e. get_extension e = Some e"
    and "cli = relay_chain_cli_new get_extension parse_from spec base_dir args"
  shows "relay_chain_id base_chain_id cli is_dev
      = map_sum (\<lambda>e. e) (\<lambda>c. if c = '''' then RELAY_CHAIN else c) (base_chain_id (parse_from args) is_dev)
    \<and> relay_base_path base_base_path cli
      = map_sum (\<lambda>e. e) (\<lambda>p. Some (case p of None \<Rightarrow> base_dir @ [''polkadot''] | Some q \<Rightarrow> q))
          (base_base_path (parse_from args))"
proof -
  have "try_get get_extension spec = Some \<lparr>relay_chain = RELAY_CHAIN\<rparr>"
    using assms(1,2,3)
    by (auto simp: load_spec_def development_chain_spec_def local_chain_spec_def try_get_def split: if_splits)
  then show ?thesis
    by (auto simp: assms(4) relay_chain_cli_new_def relay_chain_id_def relay_base_path_def
        split: sum.splits option.splits)
qed

theorem builtin_specs_join_their_relay_chain_witness:
  "\<exists>spec. load_spec \<lparr>DEV_RUNTIME_PRESET = ''development'', LOCAL_TESTNET_RUNTIME_PRESET = ''local_testnet''\<rparr>
      (Some ()) (\<lambda>_. Inl ()) ''dev'' = Some (Inr spec)
    \<and> relay_chain_id (\<lambda>_ _. Inr '''' :: unit + string)
        (relay_chain_cli_new Some (\<lambda>a. a) spec [''data''] [()]) True = Inr RELAY_CHAIN"
proof -
  obtain spec where spec: "load_spec \<lparr>DEV_RUNTIME_PRESET = ''development'', LOCAL_TESTNET_RUNTIME_PRESET = ''local_testnet''\<rparr>
      (Some ()) (\<lambda>_. Inl ()) ''dev'' = Some (Inr spec :: unit + unit ChainSpec)"
    by (simp add: load_spec_def development_chain_spec_def)
  from builtin_specs_join_their_relay_chain [OF _ spec refl refl, of "\<lambda>_ _. Inr '''' :: unit + string"
      "\<lambda>a. a" "[''data'']" "[()]" True "\<lambda>_. Inr None :: unit + path option"] spec
  show ?thesis by auto
qed

end
