(* ===== verification/Collator_Cli.thy ===== *)
theory Collator_Cli
  imports Collator_Node
begin

text \<open>
  The command-line interfaces themselves (\<^verbatim>\<open>node/src/command.rs\<close>,
  \<^verbatim>\<open>node/src/cli.rs\<close>): what the collator and the
  embedded relay chain node say about themselves, the configuration the relay chain node reads from
  the wrapped polkadot command.  Values that are only handed through
  have the opaque type \<open>'x\<close>.
\<close>

section \<open>The two command-line interfaces\<close>

record 'spec SubstrateCli =
  impl_name :: string
  impl_version_text :: string
  description :: string
  author :: string
  support_url :: string
  copyright_start_year :: int
  cli_load_spec :: "string \<Rightarrow> 'spec"

definition cli_description :: "string \<Rightarrow> string" where
  "cli_description executable_name =
     ''Parachain Collator Template'' @ [CHR 0x0A, CHR 0x0A]
     @ ''The command-line arguments provided first will be passed to the parachain node, ''
     @ ''while the arguments provided after -- will be passed to the relay chain node.''
     @ [CHR 0x0A, CHR 0x0A] @ executable_name @ '' <parachain-args> -- <relay-chain-args>''"

text \<open>\<open>version\<close> and \<open>authors\<close> are set when the program is compiled.\<close>

definition collator_cli :: "string \<Rightarrow> string \<Rightarrow> string \<Rightarrow> (string \<Rightarrow> 'spec) \<Rightarrow> 'spec SubstrateCli" where
  "collator_cli version authors executable_name spec_loader = \<lparr>
     impl_name = ''Parachain Collator Template'', impl_version_text = version,
     description = cli_description executable_name, author = authors,
     support_url = ''https://github.com/paritytech/polkadot-sdk/issues/new'',
     copyright_start_year = 2020, cli_load_spec = spec_loader\<rparr>"

text \<open>The relay chain's interface loads specifications through polkadot's own command line.\<close>

definition relay_chain_cli ::
  "string \<Rightarrow> string \<Rightarrow> string \<Rightarrow> (string list \<Rightarrow> string \<Rightarrow> 'spec) \<Rightarrow> 'spec SubstrateCli"
where
  "relay_chain_cli version authors executable_name polkadot_load_spec = \<lparr>
     impl_name = ''Parachain Collator Template'', impl_version_text = version,
     description = cli_description executable_name, author = authors,
     support_url = ''https://github.com/paritytech/polkadot-sdk/issues/new'',
     copyright_start_year = 2020, cli_load_spec = polkadot_load_spec [executable_name]\<rparr>"

section \<open>The relay chain's configuration\<close>

text \<open>\<open>init\<close> is only called on the outer command line: its panic is \<open>None\<close>.\<close>

record ('e, 'x) CliConfiguration =
  cc_shared_params :: 'x
  cc_import_params :: "'x option"
  cc_network_params :: "'x option"
  cc_keystore_params :: "'x option"
  cc_base_path :: "'e + path option"
  cc_rpc_addr :: "16 word \<Rightarrow> 'e + 'x option"
  cc_prometheus_config :: "16 word \<Rightarrow> 'x \<Rightarrow> 'e + 'x option"
  cc_init :: "'x \<Rightarrow> 'x \<Rightarrow> ('e + unit) option"
  cc_chain_id :: "bool \<Rightarrow> 'e + string"
  cc_role :: "bool \<Rightarrow> 'e + 'x"
  cc_transaction_pool :: "bool \<Rightarrow> 'e + 'x"
  cc_trie_cache_maximum_size :: "'e + 64 word option"
  cc_rpc_methods :: "'e + 'x"
  cc_rpc_max_connections :: "'e + 32 word"
  cc_rpc_cors :: "bool \<Rightarrow> 'e + string list option"
  cc_default_heap_pages :: "'e + 64 word option"
  cc_force_authoring :: "'e + bool"
  cc_disable_grandpa :: "'e + bool"
  cc_max_runtime_instances :: "'e + 64 word option"
  cc_announce_block :: "'e + bool"
  cc_telemetry_endpoints :: "'x \<Rightarrow> 'e + 'x option"
  cc_node_name :: "'e + string"

definition relay_cli_configuration ::
  "('base \<Rightarrow> ('e, 'x) CliConfiguration) \<Rightarrow> 'base RelayChainCli \<Rightarrow> ('e, 'x) CliConfiguration"
where
  "relay_cli_configuration B self = \<lparr>
     cc_shared_params = cc_shared_params (B (rc_base self)),
     cc_import_params = cc_import_params (B (rc_base self)),
     cc_network_params = cc_network_params (B (rc_base self)),
     cc_keystore_params = cc_keystore_params (B (rc_base self)),
     cc_base_path = relay_base_path (\<lambda>b. cc_base_path (B b)) self,
     cc_rpc_addr = (\<lambda>default_listen_port. cc_rpc_addr (B (rc_base self)) default_listen_port),
     cc_prometheus_config = (\<lambda>default_listen_port chain_spec.
        cc_prometheus_config (B (rc_base self)) default_listen_port chain_spec),
     cc_init = (\<lambda>_ _. None),
     cc_chain_id = relay_chain_id (\<lambda>b. cc_chain_id (B b)) self,
     cc_role = (\<lambda>is_dev. cc_role (B (rc_base self)) is_dev),
     cc_transaction_pool = (\<lambda>is_dev. cc_transaction_pool (B (rc_base self)) is_dev),
     cc_trie_cache_maximum_size = cc_trie_cache_maximum_size (B (rc_base self)),
     cc_rpc_methods = cc_rpc_methods (B (rc_base self)),
     cc_rpc_max_connections = cc_rpc_max_connections (B (rc_base self)),
     cc_rpc_cors = (\<lambda>is_dev. cc_rpc_cors (B (rc_base self)) is_dev),
     cc_default_heap_pages = cc_default_heap_pages (B (rc_base self)),
     cc_force_authoring = cc_force_authoring (B (rc_base self)),
     cc_disable_grandpa = cc_disable_grandpa (B (rc_base self)),
     cc_max_runtime_instances = cc_max_runtime_instances (B (rc_base self)),
     cc_announce_block = cc_announce_block (B (rc_base self)),
     cc_telemetry_endpoints = (\<lambda>chain_spec. cc_telemetry_endpoints (B (rc_base self)) chain_spec),
     cc_node_name = cc_node_name (B (rc_base self))\<rparr>"

section \<open>What the relay chain's configuration changes\<close>

text \<open>
  Of the wrapped command only the base path and the chain identifier are overridden, each only as a
  fallback, and the logger is never initialised a second time.
\<close>

lemma relay_configuration_overrides:
  "relay_cli_configuration B self = (B (rc_base self))\<lparr>
     cc_base_path := (case cc_base_path (B (rc_base self)) of
        Inr None \<Rightarrow> Inr (rc_base_path self) | r \<Rightarrow> r),
     cc_init := \<lambda>_ _. None,
     cc_chain_id := \<lambda>is_dev. (case cc_chain_id (B (rc_base self)) is_dev of
        Inr [] \<Rightarrow> Inr (case rc_chain_id self of None \<Rightarrow> [] | Some c \<Rightarrow> c) | r \<Rightarrow> r)\<rparr>"
proof -
  have path: "relay_base_path (\<lambda>b. cc_base_path (B b)) self
      = (case cc_base_path (B (rc_base self)) of Inr None \<Rightarrow> Inr (rc_base_path self) | r \<Rightarrow> r)"
    by (simp add: relay_base_path_def split: sum.splits option.splits)
  have chain: "relay_chain_id (\<lambda>b. cc_chain_id (B b)) self = (\<lambda>is_dev. (case cc_chain_id (B (rc_base self)) is_dev of
        Inr [] \<Rightarrow> Inr (case rc_chain_id self of None \<Rightarrow> [] | Some c \<Rightarrow> c) | r \<Rightarrow> r))"
    by (auto simp: fun_eq_iff relay_chain_id_def split: sum.splits list.splits option.splits)
  show ?thesis
    unfolding relay_cli_configuration_def path chain by (cases "B (rc_base self)") simp
qed

end
