(* ===== verification/Collator_Service.thy ===== *)
theory Collator_Service
  imports Collator_Node "HOL-Library.Sublist"
begin

text \<open>
  The collator's service (\<^verbatim>\<open>node/src/service.rs\<close>, \<^verbatim>\<open>node/src/rpc.rs\<close>): how a
  node is put together out of the SDK's parts.  The parts are opaque handles of one type
  \<open>'h\<close>; the SDK's constructors and starters are the fields of \<open>service_api\<close>.  Those
  that perform effects act on a world \<open>'w\<close> that the service itself never looks into.  What
  the service does on its own account is recorded in the state: the tasks it spawns through the
  task manager, in order, and the warnings it logs.  A question mark is \<open>and_then\<close>, and the
  panic of \<open>expect\<close> is an error value of its own.
\<close>

section \<open>State and errors\<close>

datatype 'h spawned_task = Spawned (task_essential: bool) (task_name: string) (task_group: "string option") (task_future: 'h)

record ('w, 'h) node_state =
  world :: 'w
  spawned :: "'h spawned_task list"
  warnings :: "'h list"

datatype 'e service_error =
    TelemetryError 'e
  | ServiceError 'e
  | ApplicationError 'e
  | OtherError string
  | Panic string

type_synonym ('w, 'h, 'e, 'a) service = "(('w, 'h) node_state, 'e service_error, 'a) op"

definition on_world :: "('e \<Rightarrow> 'e service_error) \<Rightarrow> ('w, 'e, 'a) op \<Rightarrow> ('w, 'h, 'e, 'a) service" where
  "on_world wrap m s = (case m (world s) of
      (Inl e, w) \<Rightarrow> (Inl (wrap e), s\<lparr>world := w\<rparr>)
    | (Inr x, w) \<Rightarrow> (Inr x, s\<lparr>world := w\<rparr>))"

lemma on_world_Inr [op_simps]:
  "on_world f m s = (Inr x, t) \<longleftrightarrow> (\<exists>w. m (world s) = (Inr x, w) \<and> t = s\<lparr>world := w\<rparr>)"
  by (auto simp: on_world_def split: prod.splits sum.splits)

definition spawn :: "bool \<Rightarrow> string \<Rightarrow> string option \<Rightarrow> 'h \<Rightarrow> ('w, 'h, 'e, unit) service" where
  "spawn essential name grp fut = modify (\<lambda>s. s\<lparr>spawned := spawned s @ [Spawned essential name grp fut]\<rparr>)"

definition warn :: "'h \<Rightarrow> ('w, 'h, 'e, unit) service" where
  "warn x = modify (\<lambda>s. s\<lparr>warnings := warnings s @ [x]\<rparr>)"

section \<open>Configuration and components\<close>

text \<open>
  The fields of \<open>sc_service::Configuration\<close> that the service reads.  The registry is asked
  for in two ways, by \<open>prometheus_registry()\<close> and through \<open>prometheus_config\<close>.
\<close>

record 'h Configuration =
  telemetry_endpoints :: "'h list option"
  default_heap_pages :: "64 word option"
  wasm_method :: 'h
  max_runtime_instances :: "64 word"
  runtime_cache_size :: "8 word"
  is_authority :: bool
  pool_options :: 'h
  prometheus_registry :: "'h option"
  prometheus_config_registry :: "'h option"
  fork_id :: "string option"
  network_config :: 'h
  allow_non_globals_in_dht :: bool
  public_addresses :: "'h list"
  offchain_worker_enabled :: bool

datatype HeapAllocStrategy = StaticPages "32 word" | DynamicPages "32 word option"

record 'h ParachainExecutor =
  execution_method :: 'h
  onchain_heap_alloc_strategy :: HeapAllocStrategy
  offchain_heap_alloc_strategy :: HeapAllocStrategy
  executor_instances :: "64 word"
  executor_cache_size :: "8 word"

record 'h PartialComponents =
  pc_backend :: 'h
  pc_client :: 'h
  pc_import_queue :: 'h
  pc_keystore :: 'h
  pc_transaction_pool :: 'h
  pc_block_import :: 'h
  pc_telemetry :: "'h option"
  pc_telemetry_worker_handle :: "'h option"

record 'h CollatorOptions =
  embedded_dht_bootnode :: bool
  dht_bootnode_discovery :: bool
  other_options :: 'h

record ('h, 'e) AuraParams =
  aura_inherent_data :: "'h \<Rightarrow> unit \<Rightarrow> 'e + unit"
  aura_block_import :: 'h
  aura_para_client :: 'h
  aura_para_backend :: 'h
  aura_relay_client :: 'h
  aura_code_hash_provider :: "'h \<Rightarrow> 'h option"
  aura_keystore :: 'h
  aura_collator_key :: 'h
  aura_collator_peer_id :: 'h
  aura_para_id :: 'h
  aura_overseer_handle :: 'h
  aura_relay_chain_slot_millis :: nat
  aura_proposer :: 'h
  aura_collator_service :: 'h
  aura_authoring_millis :: nat
  aura_reinitialize :: bool
  aura_max_pov_percentage :: "32 word option"

datatype SybilResistance = Resistant | Unresistant
datatype DARecoveryProfile = CollatorProfile | FullNodeProfile

record 'h BuildNetworkParams =
  net_parachain_config :: "'h Configuration"
  net_config :: 'h
  net_client :: 'h
  net_transaction_pool :: 'h
  net_para_id :: 'h
  net_relay_chain_interface :: 'h
  net_import_queue :: 'h
  net_sybil_resistance_level :: SybilResistance
  net_metrics :: 'h

record 'h OffchainWorkerOptions =
  ocw_runtime_api_provider :: 'h
  ocw_keystore :: "'h option"
  ocw_offchain_db :: "'h option"
  ocw_transaction_pool :: "'h option"
  ocw_network_provider :: 'h
  ocw_is_validator :: bool
  ocw_enable_http_requests :: bool

record ('h, 'm, 'e) SpawnTasksParams =
  st_rpc_builder :: "unit \<Rightarrow> 'e + 'm"
  st_client :: 'h
  st_transaction_pool :: 'h
  st_config :: "'h Configuration"
  st_keystore :: 'h
  st_backend :: 'h
  st_network :: 'h
  st_sync_service :: 'h
  st_system_rpc_tx :: 'h
  st_tx_handler_controller :: 'h
  st_telemetry :: "'h option"
  st_tracing_execute_block :: "'h option"

record 'h StartRelayChainTasksParams =
  rct_client :: 'h
  rct_announce_block :: 'h
  rct_para_id :: 'h
  rct_relay_chain_interface :: 'h
  rct_da_recovery_profile :: DARecoveryProfile
  rct_import_queue :: 'h
  rct_relay_chain_slot_millis :: nat
  rct_recovery_handle :: 'h
  rct_sync_service :: 'h
  rct_prometheus_registry :: "'h option"

record 'h StartBootnodeTasksParams =
  bn_embedded_dht_bootnode :: bool
  bn_dht_bootnode_discovery :: bool
  bn_para_id :: 'h
  bn_relay_chain_interface :: 'h
  bn_relay_chain_fork_id :: "string option"
  bn_relay_chain_network :: 'h
  bn_request_receiver :: 'h
  bn_parachain_network :: 'h
  bn_advertise_non_global_ips :: bool
  bn_parachain_genesis_hash :: 'h
  bn_parachain_fork_id :: "string option"
  bn_parachain_public_addresses :: "'h list"

section \<open>What the service uses of the SDK\<close>

record ('w, 'h, 'm, 'e) service_api =
  telemetry_worker_new :: "nat \<Rightarrow> ('w, 'e, 'h) op"
  worker_handle :: "'h \<Rightarrow> 'h"
  new_telemetry :: "'h \<Rightarrow> 'h list \<Rightarrow> 'h"
  telemetry_handle :: "'h \<Rightarrow> 'h"
  worker_run :: "'h \<Rightarrow> 'h"
  default_heap_strategy :: HeapAllocStrategy
  new_full_parts :: "'h Configuration \<Rightarrow> 'h option \<Rightarrow> 'h ParachainExecutor \<Rightarrow> bool \<Rightarrow> ('w, 'e, 'h \<times> 'h \<times> 'h) op"
  build_pool :: "'h \<Rightarrow> bool \<Rightarrow> 'h \<Rightarrow> 'h option \<Rightarrow> 'h"
  block_import_new :: "'h \<Rightarrow> 'h \<Rightarrow> 'h"
  timestamp_from_system_time :: "('w, 'e, 'h) op"
  verifying_import_queue :: "'h \<Rightarrow> 'h \<Rightarrow> ('h \<Rightarrow> unit \<Rightarrow> ('w, 'e, 'h) op) \<Rightarrow> 'h option \<Rightarrow> 'h option \<Rightarrow> 'h"
  proposer_with_proof_recording :: "'h \<Rightarrow> 'h \<Rightarrow> 'h option \<Rightarrow> 'h option \<Rightarrow> 'h"
  collator_service_new :: "'h \<Rightarrow> 'h \<Rightarrow> 'h \<Rightarrow> 'h"
  code_at :: "'h \<Rightarrow> 'h \<Rightarrow> 'e + 'h"
  validation_code_hash :: "'h \<Rightarrow> 'h"
  aura_run :: "('h, 'e) AuraParams \<Rightarrow> 'h"
  prepare_node_config :: "'h Configuration \<Rightarrow> 'h Configuration"
  full_network_configuration :: "'h \<Rightarrow> 'h option \<Rightarrow> 'h"
  build_relay_chain_interface ::
    "'h Configuration \<Rightarrow> 'h Configuration \<Rightarrow> 'h option \<Rightarrow> 'h CollatorOptions \<Rightarrow> 'h option
       \<Rightarrow> ('w, 'e, 'h \<times> 'h option \<times> 'h \<times> 'h) op"
  import_queue_service :: "'h \<Rightarrow> 'h"
  runtime_parachain_id :: "'h \<Rightarrow> ('w, 'e, 'h) op"
  register_notification_metrics :: "'h option \<Rightarrow> 'h"
  build_network :: "'h BuildNetworkParams \<Rightarrow> ('w, 'e, 'h \<times> 'h \<times> 'h \<times> 'h) op"
  local_peer_id :: "'h \<Rightarrow> 'h"
  offchain_storage :: "'h \<Rightarrow> 'h option"
  offchain_pool_factory :: "'h \<Rightarrow> 'h"
  offchain_workers_new :: "'h OffchainWorkerOptions \<Rightarrow> ('w, 'e, 'h) op"
  offchain_workers_run :: "'h \<Rightarrow> 'h \<Rightarrow> 'h"
  rpc_module_new :: 'm
  rpc_merge :: "'m \<Rightarrow> 'm \<Rightarrow> 'e + 'm"
  system_rpc :: "'h \<Rightarrow> 'h \<Rightarrow> 'm"
  transaction_payment_rpc :: "'h \<Rightarrow> 'm"
  tracing_execute_block_new :: "'h \<Rightarrow> 'h"
  spawn_tasks :: "('h, 'm, 'e) SpawnTasksParams \<Rightarrow> ('w, 'e, unit) op"
  print_hwbench :: "'h \<Rightarrow> 'w \<Rightarrow> 'w"
  check_hardware :: "'h \<Rightarrow> 'h + unit"
  hwbench_telemetry :: "'h \<Rightarrow> 'h \<Rightarrow> 'h"
  announce_block_of :: "'h \<Rightarrow> 'h"
  overseer_handle :: "'h \<Rightarrow> ('w, 'e, 'h) op"
  start_relay_chain_tasks :: "'h StartRelayChainTasksParams \<Rightarrow> ('w, 'e, unit) op"
  start_bootnode_tasks :: "'h StartBootnodeTasksParams \<Rightarrow> 'w \<Rightarrow> 'w"
  encoded_genesis_hash :: "'h \<Rightarrow> 'w \<Rightarrow> 'h"

definition unfailing :: "('w \<Rightarrow> 'w) \<Rightarrow> ('w, 'h, 'e, unit) service" where
  "unfailing f = modify (\<lambda>s. s\<lparr>world := f (world s)\<rparr>)"

section \<open>RPC extensions\<close>

definition create_full :: "('w, 'h, 'm, 'e) service_api \<Rightarrow> 'h \<Rightarrow> 'h \<Rightarrow> 'e + 'm" where
  "create_full A client pool =
     (case rpc_merge A (rpc_module_new A) (system_rpc A client pool) of
        Inl e \<Rightarrow> Inl e
      | Inr m \<Rightarrow> rpc_merge A m (transaction_payment_rpc A client))"

section \<open>Partial components\<close>

definition build_import_queue ::
  "('w, 'h, 'm, 'e) service_api \<Rightarrow> 'h \<Rightarrow> 'h \<Rightarrow> 'h Configuration \<Rightarrow> 'h option \<Rightarrow> 'h"
where
  "build_import_queue A client block_import config telemetry =
     verifying_import_queue A client block_import (\<lambda>_ _. timestamp_from_system_time A)
       (prometheus_registry config) telemetry"

text \<open>The telemetry worker, created only when the list of endpoints is there and not empty.\<close>

definition new_partial_telemetry ::
  "('w, 'h, 'm, 'e) service_api \<Rightarrow> 'h Configuration \<Rightarrow> ('w, 'h, 'e, ('h \<times> 'h) option) service"
where
  "new_partial_telemetry A config =
     (case telemetry_endpoints config of
        None \<Rightarrow> ok None
      | Some endpoints \<Rightarrow>
          if endpoints = [] then ok None
          else and_then (on_world TelemetryError (telemetry_worker_new A 16))
            (\<lambda>worker. ok (Some (worker, new_telemetry A (worker_handle A worker) endpoints))))"

text \<open>\<open>h as _\<close> casts the \<open>u64\<close> of the configuration to the \<open>u32\<close> of the strategy.\<close>

definition parachain_executor ::
  "('w, 'h, 'm, 'e) service_api \<Rightarrow> 'h Configuration \<Rightarrow> 'h ParachainExecutor"
where
  "parachain_executor A config =
     (let heap_pages = (case default_heap_pages config of
            None \<Rightarrow> default_heap_strategy A
          | Some h \<Rightarrow> StaticPages (ucast h))
      in \<lparr>execution_method = wasm_method config,
          onchain_heap_alloc_strategy = heap_pages, offchain_heap_alloc_strategy = heap_pages,
          executor_instances = max_runtime_instances config,
          executor_cache_size = runtime_cache_size config\<rparr>)"

definition new_partial ::
  "('w, 'h, 'm, 'e) service_api \<Rightarrow> 'h Configuration \<Rightarrow> ('w, 'h, 'e, 'h PartialComponents) service"
where
  "new_partial A config =
     and_then (new_partial_telemetry A config) (\<lambda>telemetry.
     and_then (on_world ServiceError (new_full_parts A config
         (map_option (\<lambda>wt. telemetry_handle A (snd wt)) telemetry) (parachain_executor A config) True))
       (\<lambda>(client, backend, keystore).
     and_then (case telemetry of
         None \<Rightarrow> ok ()
       | Some (worker, _) \<Rightarrow> spawn False ''telemetry'' None (worker_run A worker)) (\<lambda>_.
     let pool = build_pool A client (is_authority config) (pool_options config) (prometheus_registry config);
         block_import = block_import_new A client backend;
         import_queue = build_import_queue A client block_import config
           (map_option (\<lambda>wt. telemetry_handle A (snd wt)) telemetry)
     in ok \<lparr>pc_backend = backend, pc_client = client, pc_import_queue = import_queue,
            pc_keystore = keystore, pc_transaction_pool = pool, pc_block_import = block_import,
            pc_telemetry = map_option snd telemetry,
            pc_telemetry_worker_handle = map_option (\<lambda>wt. worker_handle A (fst wt)) telemetry\<rparr>)))"

section \<open>Consensus\<close>

definition start_consensus ::
  "('w, 'h, 'm, 'e) service_api \<Rightarrow> 'h \<Rightarrow> 'h \<Rightarrow> 'h \<Rightarrow> 'h option \<Rightarrow> 'h option \<Rightarrow> 'h \<Rightarrow> 'h \<Rightarrow> 'h \<Rightarrow> nat \<Rightarrow> 'h \<Rightarrow> 'h
     \<Rightarrow> 'h \<Rightarrow> 'h \<Rightarrow> 'h \<Rightarrow> ('w, 'h, 'e, unit) service"
where
  "start_consensus A client backend block_import registry telemetry relay_chain_interface
     transaction_pool keystore relay_chain_slot_millis para_id collator_key collator_peer_id
     overseer announce_block =
     (let proposer = proposer_with_proof_recording A client transaction_pool registry telemetry;
          collator_service = collator_service_new A client announce_block client;
          params = \<lparr>aura_inherent_data = (\<lambda>_ _. Inr ()),
            aura_block_import = block_import, aura_para_client = client, aura_para_backend = backend,
            aura_relay_client = relay_chain_interface,
            aura_code_hash_provider = (\<lambda>block_hash. case code_at A client block_hash of
                Inl _ \<Rightarrow> None | Inr c \<Rightarrow> Some (validation_code_hash A c)),
            aura_keystore = keystore, aura_collator_key = collator_key,
            aura_collator_peer_id = collator_peer_id, aura_para_id = para_id,
            aura_overseer_handle = overseer,
            aura_relay_chain_slot_millis = relay_chain_slot_millis,
            aura_proposer = proposer, aura_collator_service = collator_service,
            aura_authoring_millis = 2000, aura_reinitialize = False, aura_max_pov_percentage = None\<rparr>
      in spawn True ''aura'' None (aura_run A params))"

section \<open>The node\<close>

definition start_offchain_workers ::
  "('w, 'h, 'm, 'e) service_api \<Rightarrow> 'h Configuration \<Rightarrow> 'h PartialComponents \<Rightarrow> 'h \<Rightarrow> ('w, 'h, 'e, unit) service"
where
  "start_offchain_workers A config params network =
     (if offchain_worker_enabled config then
        and_then (on_world ServiceError (offchain_workers_new A
            \<lparr>ocw_runtime_api_provider = pc_client params, ocw_keystore = Some (pc_keystore params),
             ocw_offchain_db = offchain_storage A (pc_backend params),
             ocw_transaction_pool = Some (offchain_pool_factory A (pc_transaction_pool params)),
             ocw_network_provider = network, ocw_is_validator = is_authority config,
             ocw_enable_http_requests = False\<rparr>))
          (\<lambda>workers. spawn False ''offchain-workers-runner'' (Some ''offchain-work'')
             (offchain_workers_run A workers (pc_client params)))
      else ok ())"

definition report_hwbench ::
  "('w, 'h, 'm, 'e) service_api \<Rightarrow> 'h option \<Rightarrow> bool \<Rightarrow> 'h option \<Rightarrow> ('w, 'h, 'e, unit) service"
where
  "report_hwbench A hwbench validator telemetry =
     (case hwbench of
        None \<Rightarrow> ok ()
      | Some bench \<Rightarrow>
          and_then (unfailing (print_hwbench A bench)) (\<lambda>_.
          and_then (case check_hardware A bench of
              Inl e \<Rightarrow> if validator then warn e else ok ()
            | Inr _ \<Rightarrow> ok ()) (\<lambda>_.
          case telemetry of
            None \<Rightarrow> ok ()
          | Some t \<Rightarrow> spawn False ''telemetry_hwbench'' None
              (hwbench_telemetry A (telemetry_handle A t) bench))))"

definition relay_chain_slot_duration_millis :: nat where
  "relay_chain_slot_duration_millis = 6 * 1000"

text \<open>The last steps: the relay chain and bootnode tasks, and consensus on an authority.\<close>

definition start_relay_and_consensus ::
  "('w, 'h, 'm, 'e) service_api \<Rightarrow> 'h Configuration \<Rightarrow> 'h CollatorOptions \<Rightarrow> 'h PartialComponents
     \<Rightarrow> 'h \<Rightarrow> 'h option \<Rightarrow> 'h \<Rightarrow> 'h \<Rightarrow> string option \<Rightarrow> 'h \<Rightarrow> 'h \<Rightarrow> 'h \<Rightarrow> ('w, 'h, 'e, unit) service"
where
  "start_relay_and_consensus A config options params relay_chain_interface collator_key
     relay_chain_network paranode_rx relay_chain_fork_id para_id network sync_service =
     (let validator = is_authority config;
          announce_block = announce_block_of A sync_service
      in and_then (on_world ApplicationError (overseer_handle A relay_chain_interface)) (\<lambda>overseer.
         and_then (on_world ServiceError (start_relay_chain_tasks A
             \<lparr>rct_client = pc_client params, rct_announce_block = announce_block, rct_para_id = para_id,
              rct_relay_chain_interface = relay_chain_interface,
              rct_da_recovery_profile = (if validator then CollatorProfile else FullNodeProfile),
              rct_import_queue = import_queue_service A (pc_import_queue params),
              rct_relay_chain_slot_millis = relay_chain_slot_duration_millis,
              rct_recovery_handle = overseer, rct_sync_service = sync_service,
              rct_prometheus_registry = prometheus_registry config\<rparr>)) (\<lambda>_.
         and_then (unfailing (\<lambda>w. start_bootnode_tasks A
             \<lparr>bn_embedded_dht_bootnode = embedded_dht_bootnode options,
              bn_dht_bootnode_discovery = dht_bootnode_discovery options,
              bn_para_id = para_id, bn_relay_chain_interface = relay_chain_interface,
              bn_relay_chain_fork_id = relay_chain_fork_id, bn_relay_chain_network = relay_chain_network,
              bn_request_receiver = paranode_rx, bn_parachain_network = network,
              bn_advertise_non_global_ips = allow_non_globals_in_dht config,
              bn_parachain_genesis_hash = encoded_genesis_hash A (pc_client params) w,
              bn_parachain_fork_id = fork_id config,
              bn_parachain_public_addresses = public_addresses config\<rparr> w)) (\<lambda>_.
         if validator then
           (case collator_key of
              None \<Rightarrow> err (Panic ''Command line arguments do not allow this. qed'')
            | Some key \<Rightarrow> start_consensus A (pc_client params) (pc_backend params) (pc_block_import params)
                (prometheus_registry config) (map_option (telemetry_handle A) (pc_telemetry params))
                relay_chain_interface (pc_transaction_pool params) (pc_keystore params)
                relay_chain_slot_duration_millis para_id key (local_peer_id A network) overseer announce_block)
         else ok ()))))"

text \<open>Everything after the components: relay chain, network, workers, RPC, and the last steps.\<close>

definition start_node_services ::
  "('w, 'h, 'm, 'e) service_api \<Rightarrow> 'h Configuration \<Rightarrow> 'h Configuration \<Rightarrow> 'h CollatorOptions \<Rightarrow> 'h option
     \<Rightarrow> 'h PartialComponents \<Rightarrow> ('w, 'h, 'e, unit) service"
where
  "start_node_services A config polkadot_config collator_options hwbench params =
     (let net_conf = full_network_configuration A (network_config config) (prometheus_registry config)
      in and_then (on_world ApplicationError (build_relay_chain_interface A polkadot_config config
             (pc_telemetry_worker_handle params) collator_options hwbench))
           (\<lambda>(relay_chain_interface, collator_key, relay_chain_network, paranode_rx).
         and_then (on_world (\<lambda>_. OtherError (''Failed to retrieve parachain id from runtime. Make sure you implement ''
               @ ''`cumulus_primitives_core::GetParachaiNidentity` runtime API.''))
             (runtime_parachain_id A (pc_client params))) (\<lambda>para_id.
         and_then (on_world ServiceError (build_network A
             \<lparr>net_parachain_config = config, net_config = net_conf, net_client = pc_client params,
              net_transaction_pool = pc_transaction_pool params, net_para_id = para_id,
              net_relay_chain_interface = relay_chain_interface, net_import_queue = pc_import_queue params,
              net_sybil_resistance_level = Resistant,
              net_metrics = register_notification_metrics A (prometheus_config_registry config)\<rparr>))
           (\<lambda>(network, system_rpc_tx, tx_handler_controller, sync_service).
         and_then (start_offchain_workers A config params network) (\<lambda>_.
         and_then (on_world ServiceError (spawn_tasks A
             \<lparr>st_rpc_builder = (\<lambda>_. create_full A (pc_client params) (pc_transaction_pool params)),
              st_client = pc_client params, st_transaction_pool = pc_transaction_pool params,
              st_config = config, st_keystore = pc_keystore params, st_backend = pc_backend params,
              st_network = network, st_sync_service = sync_service, st_system_rpc_tx = system_rpc_tx,
              st_tx_handler_controller = tx_handler_controller, st_telemetry = pc_telemetry params,
              st_tracing_execute_block = Some (tracing_execute_block_new A (pc_client params))\<rparr>)) (\<lambda>_.
         and_then (report_hwbench A hwbench (is_authority config) (pc_telemetry params)) (\<lambda>_.
         start_relay_and_consensus A config collator_options params relay_chain_interface
           collator_key relay_chain_network paranode_rx (fork_id polkadot_config) para_id network sync_service)))))))"

definition start_parachain_node ::
  "('w, 'h, 'm, 'e) service_api \<Rightarrow> 'h Configuration \<Rightarrow> 'h Configuration \<Rightarrow> 'h CollatorOptions \<Rightarrow> 'h option
     \<Rightarrow> ('w, 'h, 'e, 'h) service"
where
  "start_parachain_node A parachain_config polkadot_config collator_options hwbench =
     (let config = prepare_node_config A parachain_config
      in and_then (new_partial A config) (\<lambda>params.
         and_then (start_node_services A config polkadot_config collator_options hwbench params) (\<lambda>_.
         ok (pc_client params))))"

section \<open>Tasks launched by a service\<close>

text \<open>
  \<open>launches m Q es ts\<close>: when \<open>m\<close> succeeds it has spawned tasks with the labels
  \<open>ts\<close> and its result has \<open>Q\<close>; when it fails it has spawned an initial part of
  \<open>es\<close>.  It is proved along the code by one rule per operator.
\<close>

definition task_label :: "'h spawned_task \<Rightarrow> bool \<times> string \<times> string option" where
  "task_label t = (task_essential t, task_name t, task_group t)"

definition task_labels :: "('w, 'h) node_state \<Rightarrow> (bool \<times> string \<times> string option) list" where
  "task_labels s = map task_label (spawned s)"

definition launches ::
  "('w, 'h, 'e, 'a) service \<Rightarrow> ('a \<Rightarrow> bool) \<Rightarrow> (bool \<times> string \<times> string option) list
     \<Rightarrow> (bool \<times> string \<times> string option) list \<Rightarrow> bool"
where
  "launches m Q es ts \<longleftrightarrow>
     (\<forall>s x t. m s = (Inr x, t) \<longrightarrow> task_labels t = task_labels s @ ts \<and> Q x)
   \<and> (\<forall>s e t. m s = (Inl e, t) \<longrightarrow> (\<exists>us. task_labels t = task_labels s @ us \<and> prefix us es))"

named_theorems launch_rules "the tasks an operator launches"

lemma launchesI:
  assumes "\<And>s x t. m s = (Inr x, t) \<Longrightarrow> task_labels t = task_labels s @ ts \<and> Q x"
    and "\<And>s e t. m s = (Inl e, t) \<Longrightarrow> \<exists>us. task_labels t = task_labels s @ us \<and> prefix us es"
  shows "launches m Q es ts"
  using assms unfolding launches_def by blast

lemma launchesD:
  assumes "launches m Q es ts"
  shows "m s = (Inr x, t) \<Longrightarrow> task_labels t = task_labels s @ ts" and "m s = (Inr x, t) \<Longrightarrow> Q x"
    and "m s = (Inl e, t) \<Longrightarrow> \<exists>us. task_labels t = task_labels s @ us \<and> prefix us es"
  using assms unfolding launches_def by blast+

lemma launches_ok [launch_rules]: "Q x \<Longrightarrow> launches (ok x) Q [] []"
  by (simp add: launches_def ok_def)

lemma launches_err [launch_rules]: "launches (err e) Q [] ts"
  by (simp add: launches_def err_def)

lemma launches_world [launch_rules]: "launches (on_world f m) (\<lambda>_. True) [] []"
  by (auto simp: launches_def on_world_def task_labels_def split: prod.splits sum.splits)

lemma launches_spawn [launch_rules]: "launches (spawn e n g f) (\<lambda>_. True) [] [(e, n, g)]"
  by (auto simp: launches_def spawn_def modify_def task_labels_def task_label_def)

lemma launches_unfailing [launch_rules]: "launches (unfailing f) (\<lambda>_. True) [] []"
  by (auto simp: launches_def unfailing_def modify_def task_labels_def)

lemma launches_warn [launch_rules]: "launches (warn x) (\<lambda>_. True) [] []"
  by (auto simp: launches_def warn_def modify_def task_labels_def)

lemma launches_and_then:
  assumes m: "launches m Q es ts" and f: "\<And>x. Q x \<Longrightarrow> launches (f x) R es' ts'" and es: "prefix es (ts @ es')"
  shows "launches (and_then m f) R (ts @ es') (ts @ ts')"
proof (rule launchesI)
  fix s y t assume "and_then m f s = (Inr y, t)"
  then obtain x u where m': "m s = (Inr x, u)" and f': "f x u = (Inr y, t)" by (auto simp: op_simps)
  with launchesD(1,2) [OF f, OF launchesD(2) [OF m m'] f'] launchesD(1) [OF m m']
  show "task_labels t = task_labels s @ ts @ ts' \<and> R y" by simp
next
  fix s e t assume "and_then m f s = (Inl e, t)"
  then consider "m s = (Inl e, t)" | x u where "m s = (Inr x, u)" "f x u = (Inl e, t)"
    by (auto simp: op_simps)
  then show "\<exists>us. task_labels t = task_labels s @ us \<and> prefix us (ts @ es')"
  proof cases
    case 1
    from launchesD(3) [OF m 1] es show ?thesis by (blast intro: prefix_order.order_trans)
  next
    case 2
    obtain vs where "task_labels t = task_labels u @ vs" and "prefix vs es'"
      using launchesD(3) [OF f, OF launchesD(2) [OF m 2(1)] 2(2)] by blast
    with launchesD(1) [OF m 2(1)] show ?thesis by (intro exI [of _ "ts @ vs"]) simp
  qed
qed

text \<open>The two common shapes: a first step that launches nothing, and one whose failure launches nothing.\<close>

lemma launches_quiet:
  assumes "launches m Q [] []" and "\<And>x. Q x \<Longrightarrow> launches (f x) R es ts"
  shows "launches (and_then m f) R es ts"
  using launches_and_then [OF assms(1), of f R es ts] assms(2) by simp

lemma launches_then:
  assumes "launches m Q [] ts" and "\<And>x. Q x \<Longrightarrow> launches (f x) R [] []"
  shows "launches (and_then m f) R ts ts"
  using launches_and_then [OF assms(1), of f R "[]" "[]"] assms(2) by simp

lemma launches_done:
  assumes m: "launches m Q es ts" and "\<And>x. Q x \<Longrightarrow> R (g x)"
  shows "launches (and_then m (\<lambda>x. ok (g x))) R es ts"
proof (rule launchesI)
  fix s y t assume "and_then m (\<lambda>x. ok (g x)) s = (Inr y, t)"
  then obtain x where x: "m s = (Inr x, t)" "y = g x" by (auto simp: op_simps)
  with launchesD(1,2) [OF m x(1)] assms(2) show "task_labels t = task_labels s @ ts \<and> R y" by simp
next
  fix s e t assume "and_then m (\<lambda>x. ok (g x)) s = (Inl e, t)"
  then have "m s = (Inl e, t)" by (auto simp: op_simps)
  then show "\<exists>us. task_labels t = task_labels s @ us \<and> prefix us es" by (rule launchesD(3) [OF m])
qed

lemma launches_case_prod:
  "(\<And>a b. launches (f a b) Q es ts) \<Longrightarrow> launches (case p of (a, b) \<Rightarrow> f a b) Q es ts"
  by (cases p) simp

section \<open>The tasks of the node\<close>

definition has_telemetry :: "'h Configuration \<Rightarrow> bool" where
  "has_telemetry config \<longleftrightarrow> (case telemetry_endpoints config of None \<Rightarrow> False | Some endpoints \<Rightarrow> endpoints \<noteq> [])"

definition tasks_when :: "bool \<Rightarrow> bool \<times> string \<times> string option \<Rightarrow> (bool \<times> string \<times> string option) list" where
  "tasks_when c t = (if c then [t] else [])"

definition support_tasks :: "'h Configuration \<Rightarrow> 'h option \<Rightarrow> (bool \<times> string \<times> string option) list" where
  "support_tasks config hwbench =
     tasks_when (has_telemetry config) (False, ''telemetry'', None)
     @ tasks_when (offchain_worker_enabled config) (False, ''offchain-workers-runner'', Some ''offchain-work'')
     @ tasks_when (hwbench \<noteq> None \<and> has_telemetry config) (False, ''telemetry_hwbench'', None)"

definition consensus_tasks :: "'h Configuration \<Rightarrow> (bool \<times> string \<times> string option) list" where
  "consensus_tasks config = tasks_when (is_authority config) (True, ''aura'', None)"

lemma telemetry_launches:
  "launches (new_partial_telemetry A config) (\<lambda>x. (x \<noteq> None) = has_telemetry config) [] []"
  by (auto simp: new_partial_telemetry_def has_telemetry_def split: option.splits
      intro!: launches_quiet [OF launches_world] launches_ok)

lemma new_partial_launches:
  "launches (new_partial A config) (\<lambda>params. (pc_telemetry params \<noteq> None) = has_telemetry config)
     (tasks_when (has_telemetry config) (False, ''telemetry'', None))
     (tasks_when (has_telemetry config) (False, ''telemetry'', None))"
  unfolding new_partial_def Let_def
  by (intro launches_quiet [OF telemetry_launches] launches_quiet [OF launches_world] launches_case_prod
      launches_then [where Q = "\<lambda>_. True"])
    (auto simp: tasks_when_def split: option.splits intro!: launch_rules)

lemma offchain_launches:
  "launches (start_offchain_workers A config params network) (\<lambda>_. True) []
     (tasks_when (offchain_worker_enabled config) (False, ''offchain-workers-runner'', Some ''offchain-work''))"
  by (auto simp: start_offchain_workers_def tasks_when_def intro!: launches_quiet [OF launches_world] launch_rules)

lemma hwbench_launches:
  "launches (report_hwbench A hwbench validator telemetry) (\<lambda>_. True) []
     (tasks_when (hwbench \<noteq> None \<and> telemetry \<noteq> None) (False, ''telemetry_hwbench'', None))"
  by (cases hwbench)
    (auto simp: report_hwbench_def tasks_when_def split: option.splits sum.splits
      intro!: launches_quiet [OF launches_unfailing] launches_quiet [OF launches_ok, where Q = "\<lambda>_. True"]
        launches_quiet [OF launches_warn] launch_rules)

lemma consensus_launches:
  "launches (start_relay_and_consensus A config options params ri key net rx fork para_id network sync)
     (\<lambda>_. True) [] (consensus_tasks config)"
  unfolding start_relay_and_consensus_def Let_def
  by (intro launches_quiet [OF launches_world] launches_quiet [OF launches_unfailing])
    (auto simp: consensus_tasks_def tasks_when_def start_consensus_def Let_def split: option.splits
      intro!: launch_rules)

lemma services_launch:
  assumes "(pc_telemetry params \<noteq> None) = has_telemetry config"
  shows "launches (start_node_services A config polkadot_config options hwbench params) (\<lambda>_. True)
     (tasks_when (offchain_worker_enabled config) (False, ''offchain-workers-runner'', Some ''offchain-work'')
       @ tasks_when (hwbench \<noteq> None \<and> has_telemetry config) (False, ''telemetry_hwbench'', None))
     (tasks_when (offchain_worker_enabled config) (False, ''offchain-workers-runner'', Some ''offchain-work'')
       @ tasks_when (hwbench \<noteq> None \<and> has_telemetry config) (False, ''telemetry_hwbench'', None)
       @ consensus_tasks config)"
proof -
  have bench: "launches (report_hwbench A hwbench validator (pc_telemetry params)) (\<lambda>_. True) []
      (tasks_when (hwbench \<noteq> None \<and> has_telemetry config) (False, ''telemetry_hwbench'', None))" for validator
    using hwbench_launches [of A hwbench validator "pc_telemetry params"] assms by simp
  note finish = launches_and_then [OF bench consensus_launches Nil_prefix, unfolded append_Nil2]
  show ?thesis
    unfolding start_node_services_def Let_def
    by (intro launches_quiet [OF launches_world] launches_case_prod launches_and_then [OF offchain_launches] finish Nil_prefix)
qed

lemma start_node_launches:
  "launches (start_parachain_node A parachain_config polkadot_config options hwbench) (\<lambda>_. True)
     (support_tasks (prepare_node_config A parachain_config) hwbench)
     (support_tasks (prepare_node_config A parachain_config) hwbench
       @ consensus_tasks (prepare_node_config A parachain_config))"
  unfolding start_parachain_node_def Let_def support_tasks_def append_assoc
  by (intro launches_and_then [OF new_partial_launches] launches_done [OF services_launch]) simp_all

section \<open>Parts for a node\<close>

text \<open>
  Parts that can be brought up: every handle is a number, a module is the list of its method names
  and a merge is refused where two names collide.
\<close>

definition sdk_merge :: "string list \<Rightarrow> string list \<Rightarrow> string + string list" where
  "sdk_merge m n = (if set m \<inter> set n = {} then Inr (m @ n) else Inl ''method already registered'')"

definition ready_sdk :: "(unit, nat, string list, string) service_api" where
  "ready_sdk = \<lparr>
     telemetry_worker_new = (\<lambda>n. ok n), worker_handle = Suc, new_telemetry = (\<lambda>h es. h + length es),
     telemetry_handle = Suc, worker_run = id, default_heap_strategy = DynamicPages None,
     new_full_parts = (\<lambda>config th ex record_import. ok (1, 2, 3)),
     build_pool = (\<lambda>client auth options registry. 4), block_import_new = (+),
     timestamp_from_system_time = ok 0, verifying_import_queue = (\<lambda>client bi prov registry th. 5),
     proposer_with_proof_recording = (\<lambda>client pool registry th. 6), collator_service_new = (\<lambda>a b c. 7),
     code_at = (\<lambda>client h. Inr h), validation_code_hash = Suc, aura_run = aura_para_id,
     prepare_node_config = id, full_network_configuration = (\<lambda>n r. n),
     build_relay_chain_interface = (\<lambda>polkadot config th options hw. ok (8, Some 9, 10, 11)),
     import_queue_service = id, runtime_parachain_id = ok, register_notification_metrics = (\<lambda>_. 0),
     build_network = (\<lambda>np. ok (12, 13, 14, 15)), local_peer_id = id, offchain_storage = Some,
     offchain_pool_factory = id, offchain_workers_new = (\<lambda>_. ok 16), offchain_workers_run = (+),
     rpc_module_new = [], rpc_merge = sdk_merge, system_rpc = (\<lambda>client pool. [''system_accountNextIndex'', ''system_dryRun'']),
     transaction_payment_rpc = (\<lambda>client. [''payment_queryInfo'', ''payment_queryFeeDetails'']),
     tracing_execute_block_new = id, spawn_tasks = (\<lambda>_. ok ()),
     print_hwbench = (\<lambda>_. id), check_hardware = Inl, hwbench_telemetry = (+), announce_block_of = id,
     overseer_handle = ok, start_relay_chain_tasks = (\<lambda>_. ok ()), start_bootnode_tasks = (\<lambda>_. id),
     encoded_genesis_hash = (\<lambda>client w. client)\<rparr>"

definition collator_configuration :: "nat Configuration" where
  "collator_configuration = \<lparr>telemetry_endpoints = Some [20], default_heap_pages = Some 2048, wasm_method = 0,
     max_runtime_instances = 8, runtime_cache_size = 2, is_authority = True, pool_options = 0,
     prometheus_registry = None, prometheus_config_registry = None, fork_id = None, network_config = 0,
     allow_non_globals_in_dht = False, public_addresses = [], offchain_worker_enabled = True\<rparr>"

definition empty_node :: "(unit, nat) node_state" where
  "empty_node = \<lparr>world = (), spawned = [], warnings = []\<rparr>"

definition default_collator_options :: "nat CollatorOptions" where
  "default_collator_options = \<lparr>embedded_dht_bootnode = True, dht_bootnode_discovery = True, other_options = 0\<rparr>"

section \<open>Properties\<close>

text \<open>
  C30: which tasks a node runs.  Whatever the SDK's calls return, the service spawns its tasks in
  one order: the telemetry worker exactly when endpoints are configured, the offchain workers exactly
  when they are enabled, the benchmark report exactly when there is a benchmark and telemetry, and
  last, as the only essential one, Aura exactly when the node is an authority.  A start that fails
  has spawned an initial part of the tasks before Aura, so a node that failed to start never
  authors blocks.
\<close>

theorem node_tasks_by_configuration:
  assumes "config = prepare_node_config A parachain_config"
    and "start_parachain_node A parachain_config polkadot_config options hwbench s = (r, t)"
  shows "case r of
      Inr client \<Rightarrow> task_labels t = task_labels s @ support_tasks config hwbench @ consensus_tasks config
    | Inl e \<Rightarrow> (\<exists>us. task_labels t = task_labels s @ us \<and> prefix us (support_tasks config hwbench))"
proof (cases r)
  case (Inl e)
  with launchesD(3) [OF start_node_launches] assms show ?thesis by fastforce
next
  case (Inr x)
  with launchesD(1) [OF start_node_launches] assms show ?thesis by fastforce
qed

theorem node_tasks_by_configuration_witness:
  "\<exists>client t. start_parachain_node ready_sdk collator_configuration collator_configuration
      default_collator_options (Some 30) empty_node = (Inr client, t)
    \<and> map task_name (spawned t) = [''telemetry'', ''offchain-workers-runner'', ''telemetry_hwbench'', ''aura'']"
proof -
  have "\<not> isl (fst (start_parachain_node ready_sdk collator_configuration collator_configuration
      default_collator_options (Some 30) empty_node))"
    by code_simp
  then obtain client t where run: "start_parachain_node ready_sdk collator_configuration collator_configuration
      default_collator_options (Some 30) empty_node = (Inr client, t)"
    by (metis prod.collapse sum.collapse(2))
  have "task_labels t = [(False, ''telemetry'', None),
      (False, ''offchain-workers-runner'', Some ''offchain-work''), (False, ''telemetry_hwbench'', None),
      (True, ''aura'', None)]"
    using node_tasks_by_configuration [OF refl run]
    by (simp add: support_tasks_def consensus_tasks_def tasks_when_def has_telemetry_def
        collator_configuration_def ready_sdk_def task_labels_def empty_node_def)
  then have "map (fst \<circ> snd) (task_labels t)
      = [''telemetry'', ''offchain-workers-runner'', ''telemetry_hwbench'', ''aura'']" by simp
  then have "map task_name (spawned t) = [''telemetry'', ''offchain-workers-runner'', ''telemetry_hwbench'', ''aura'']"
    by (simp add: task_labels_def task_label_def comp_def)
  with run show ?thesis by (intro exI conjI)
qed

text \<open>
  The timing of collator and runtime agree.  An authority that starts runs Aura as an
  essential task with the relay chain's slot of the runtime, and authors for two seconds, less than
  a slot and exactly the execution time that the runtime allows in one block.
\<close>

theorem collator_timing_matches_runtime:
  assumes "weight_arithmetic W" and "is_authority config"
    and "start_relay_and_consensus A config options params ri key net rx fork para_id network sync s = (Inr u, t)"
  shows "\<exists>p. spawned t = spawned s @ [Spawned True ''aura'' None (aura_run A p)]
    \<and> aura_para_client p = pc_client params \<and> Some (aura_collator_key p) = key
    \<and> aura_relay_chain_slot_millis p = unat RELAY_CHAIN_SLOT_DURATION_MILLIS
    \<and> aura_authoring_millis p < unat SLOT_DURATION
    \<and> aura_authoring_millis p * unat (WEIGHT_REF_TIME_PER_MILLIS W)
        = unat (ref_time W (MAXIMUM_BLOCK_WEIGHT W 1000000000000 pov))"
proof -
  have "ref_time W (MAXIMUM_BLOCK_WEIGHT W 1000000000000 pov) = 2000000000000"
    by (simp add: MAXIMUM_BLOCK_WEIGHT_def weight_arithmetic.ref_time_from_parts [OF assms(1)] saturating_mul_def)
  with assms(2,3) show ?thesis
    by (auto simp: start_relay_and_consensus_def start_consensus_def spawn_def unfailing_def Let_def
        op_simps time_defs relay_chain_slot_duration_millis_def weight_arithmetic.time_units [OF assms(1)]
        split: option.splits)
      (intro exI conjI, rule refl, simp_all)
qed

theorem collator_timing_matches_runtime_witness:
  "\<exists>t p. start_relay_and_consensus ready_sdk collator_configuration default_collator_options params 8 (Some 9)
      10 11 None 2000 12 15 empty_node = (Inr (), t)
    \<and> spawned t = [Spawned True ''aura'' None (aura_run ready_sdk p)] \<and> aura_authoring_millis p < 6000"
proof -
  have auth: "is_authority collator_configuration" by (simp add: collator_configuration_def)
  obtain t where run: "start_relay_and_consensus ready_sdk collator_configuration default_collator_options params
      8 (Some 9) 10 11 None 2000 12 15 empty_node = (Inr (), t)"
    by (simp add: start_relay_and_consensus_def start_consensus_def ready_sdk_def collator_configuration_def
        default_collator_options_def and_then_def on_world_def unfailing_def spawn_def ok_def modify_def Let_def)
  show ?thesis
    using collator_timing_matches_runtime [OF pair_weights.weight_arithmetic_axioms auth run] run
    by (auto simp: empty_node_def time_defs)
qed

end
