(* ===== verification/Collator_Command.thy ===== *)
theory Collator_Command
  imports Collator_Cli Collator_Service
begin

text \<open>
  The program (\<open>run\<close> of \<^verbatim>\<open>node/src/command.rs\<close>, \<^verbatim>\<open>node/src/main.rs\<close>): the
  subcommands and the start of the node, on top of the service.  What the framework's command line
  does is the record \<open>cli_api\<close>: creating a runner with its configuration, reading the relay
  chain's configuration, measuring the hardware, and executing a command once it has been given
  its arguments.  The panic of \<open>load_spec\<close> without a binary is an error value of its own.
\<close>

section \<open>Command line\<close>

datatype 'cmd BenchmarkCmd = BenchPallet 'cmd | BenchBlock 'cmd | BenchStorage 'cmd | BenchMachine 'cmd | BenchOther 'cmd

datatype 'cmd Subcommand =
    BuildSpec 'cmd
  | ExportChainSpec 'cmd string
  | CheckBlock 'cmd
  | ExportBlocks 'cmd
  | ExportState 'cmd
  | ImportBlocks 'cmd
  | Revert 'cmd
  | PurgeChain 'cmd
  | ExportGenesisHead 'cmd
  | ExportGenesisWasm 'cmd "string option"
  | Benchmark 'cmd "'cmd BenchmarkCmd"

record 'cmd Cli =
  cli_subcommand :: "'cmd Subcommand option"
  cli_run :: 'cmd
  no_hardware_benchmarks :: bool
  relay_chain_args :: "string list"

text \<open>The configuration of a runner: what the service reads of it, and what \<open>run\<close> reads.\<close>

record ('h, 'wasm) runner_config =
  cfg_service :: "'h Configuration"
  cfg_chain_spec :: "'wasm ChainSpec"
  cfg_base_path :: path
  cfg_database :: 'h
  cfg_database_path :: "path option"

text \<open>The arguments of the commands' own \<open>run\<close> methods.\<close>

datatype ('h, 'wasm) command_args =
    SpecAndNetwork "'wasm ChainSpec" 'h
  | ClientAndQueue 'h 'h
  | SpecOnly "'wasm ChainSpec"
  | ClientAndDatabase 'h 'h
  | ClientAndSpec 'h "'wasm ChainSpec"
  | ClientAndBackend 'h 'h "unit option"
  | BothConfigs "('h, 'wasm) runner_config" "'h Configuration"
  | ClientOnly 'h
  | StorageParts "('h, 'wasm) runner_config" 'h 'h 'h 'h
  | ConfigAndHardware "('h, 'wasm) runner_config" 'h

record ('w, 'h, 'wasm, 'cmd, 'base, 'e, 'x) cli_api =
  create_runner :: "'cmd \<Rightarrow> ('w, 'e, ('h, 'wasm) runner_config) op"
  run_command :: "'cmd \<Rightarrow> ('h, 'wasm) command_args \<Rightarrow> ('w, 'e, unit) op"
  normalize_run :: "'cmd \<Rightarrow> 'cmd"
  collator_options :: "'cmd \<Rightarrow> 'h CollatorOptions"
  executable_name :: string
  get_extension :: "Extensions \<Rightarrow> Extensions option"
  parse_from :: "string list \<Rightarrow> 'base"
  polkadot_command :: "'base \<Rightarrow> ('e, 'x) CliConfiguration"
  create_configuration :: "('e, 'x) CliConfiguration \<Rightarrow> ('w, 'e, 'h Configuration) op"
  gather_hwbench :: "path \<Rightarrow> 'w \<Rightarrow> 'h \<times> 'w"
  reference_hardware :: 'h
  expose_db :: "'h \<Rightarrow> 'h"
  expose_storage :: "'h \<Rightarrow> 'h"
  expose_shared_trie_cache :: "'h \<Rightarrow> 'h"
  preset_names_of :: preset_ids
  wasm_binary :: "'wasm option"
  from_json_file :: "string \<Rightarrow> 'e + 'wasm ChainSpec"
  feature_runtime_benchmarks :: bool

datatype 'e cli_error =
    FrameworkError 'e
  | ServiceFailed "'e service_error"
  | RelayArgumentError 'e
  | SpecError 'e
  | BenchmarkingDisabled
  | StorageBenchmarkingDisabled
  | UnsupportedBenchmark
  | MissingBinary

type_synonym ('w, 'h, 'e, 'a) command = "(('w, 'h) node_state, 'e cli_error, 'a) op"

definition framework :: "('e \<Rightarrow> 'e cli_error) \<Rightarrow> ('w, 'e, 'a) op \<Rightarrow> ('w, 'h, 'e, 'a) command" where
  "framework wrap m s = (case m (world s) of
      (Inl e, w) \<Rightarrow> (Inl (wrap e), s\<lparr>world := w\<rparr>)
    | (Inr x, w) \<Rightarrow> (Inr x, s\<lparr>world := w\<rparr>))"

section \<open>Parts of the program\<close>

text \<open>\<open>cli.load_spec(id)?\<close>\<close>

definition cli_spec ::
  "('w, 'h, 'wasm, 'cmd, 'base, 'e, 'x) cli_api \<Rightarrow> string \<Rightarrow> ('w, 'h, 'e, 'wasm ChainSpec) command"
where
  "cli_spec C name = (case load_spec (preset_names_of C) (wasm_binary C) (from_json_file C) name of
      None \<Rightarrow> err MissingBinary
    | Some (Inl e) \<Rightarrow> err (SpecError e)
    | Some (Inr spec) \<Rightarrow> ok spec)"

definition construct_async_run ::
  "('w, 'h, 'wasm, 'cmd, 'base, 'e, 'x) cli_api \<Rightarrow> ('w, 'h, 'm, 'e) service_api \<Rightarrow> 'cmd
     \<Rightarrow> ('h PartialComponents \<Rightarrow> ('h, 'wasm) runner_config \<Rightarrow> ('h, 'wasm) command_args) \<Rightarrow> ('w, 'h, 'e, unit) command"
where
  "construct_async_run C A cmd code =
     and_then (framework FrameworkError (create_runner C cmd)) (\<lambda>config.
     and_then (map_err ServiceFailed (new_partial A (cfg_service config))) (\<lambda>components.
     framework FrameworkError (run_command C cmd (code components config))))"

text \<open>The relay chain's command line, built from the parachain's configuration, and its configuration.\<close>

definition relay_cli ::
  "('w, 'h, 'wasm, 'cmd, 'base, 'e, 'x) cli_api \<Rightarrow> 'cmd Cli \<Rightarrow> ('h, 'wasm) runner_config \<Rightarrow> 'base RelayChainCli"
where
  "relay_cli C cli config = relay_chain_cli_new (get_extension C) (parse_from C) (cfg_chain_spec config)
     (cfg_base_path config) (executable_name C # relay_chain_args cli)"

definition relay_configuration ::
  "('w, 'h, 'wasm, 'cmd, 'base, 'e, 'x) cli_api \<Rightarrow> 'cmd Cli \<Rightarrow> ('h, 'wasm) runner_config
     \<Rightarrow> ('w, 'h, 'e, 'h Configuration) command"
where
  "relay_configuration C cli config = framework RelayArgumentError
     (create_configuration C (relay_cli_configuration (polkadot_command C) (relay_cli C cli config)))"

text \<open>The outcome of creating the directory is dropped; the measurement cannot fail.\<close>

definition hardware_benchmark ::
  "('w, 'h, 'wasm, 'cmd, 'base, 'e, 'x) cli_api \<Rightarrow> 'cmd Cli \<Rightarrow> ('h, 'wasm) runner_config \<Rightarrow> ('w, 'h, 'e, 'h option) command"
where
  "hardware_benchmark C cli config =
     (if no_hardware_benchmarks cli then ok None
      else (case cfg_database_path config of
        None \<Rightarrow> ok None
      | Some p \<Rightarrow> (\<lambda>s. case gather_hwbench C p (world s) of (h, w) \<Rightarrow> (Inr (Some h), s\<lparr>world := w\<rparr>))))"

definition run_benchmark ::
  "('w, 'h, 'wasm, 'cmd, 'base, 'e, 'x) cli_api \<Rightarrow> ('w, 'h, 'm, 'e) service_api \<Rightarrow> ('h, 'wasm) runner_config
     \<Rightarrow> 'cmd BenchmarkCmd \<Rightarrow> ('w, 'h, 'e, unit) command"
where
  "run_benchmark C A config b =
     (case b of
        BenchPallet cmd \<Rightarrow>
          if feature_runtime_benchmarks C then framework FrameworkError (run_command C cmd (SpecOnly (cfg_chain_spec config)))
          else err BenchmarkingDisabled
      | BenchBlock cmd \<Rightarrow>
          and_then (map_err ServiceFailed (new_partial A (cfg_service config))) (\<lambda>partials.
            framework FrameworkError (run_command C cmd (ClientOnly (pc_client partials))))
      | BenchStorage cmd \<Rightarrow>
          if feature_runtime_benchmarks C then
            and_then (map_err ServiceFailed (new_partial A (cfg_service config))) (\<lambda>partials.
              framework FrameworkError (run_command C cmd (StorageParts config (pc_client partials)
                (expose_db C (pc_backend partials)) (expose_storage C (pc_backend partials))
                (expose_shared_trie_cache C (pc_backend partials)))))
          else err StorageBenchmarkingDisabled
      | BenchMachine cmd \<Rightarrow> framework FrameworkError (run_command C cmd (ConfigAndHardware config (reference_hardware C)))
      | BenchOther cmd \<Rightarrow> err UnsupportedBenchmark)"

section \<open>The program\<close>

definition run_subcommand ::
  "('w, 'h, 'wasm, 'cmd, 'base, 'e, 'x) cli_api \<Rightarrow> ('w, 'h, 'm, 'e) service_api \<Rightarrow> 'cmd Cli \<Rightarrow> 'cmd Subcommand
     \<Rightarrow> ('w, 'h, 'e, unit) command"
where
  "run_subcommand C A cli sub =
     (case sub of
        BuildSpec cmd \<Rightarrow>
          and_then (framework FrameworkError (create_runner C cmd)) (\<lambda>config.
            framework FrameworkError (run_command C cmd
              (SpecAndNetwork (cfg_chain_spec config) (network_config (cfg_service config)))))
      | CheckBlock cmd \<Rightarrow>
          construct_async_run C A cmd (\<lambda>components config. ClientAndQueue (pc_client components) (pc_import_queue components))
      | ExportChainSpec cmd chain \<Rightarrow>
          and_then (cli_spec C chain) (\<lambda>spec. framework FrameworkError (run_command C cmd (SpecOnly spec)))
      | ExportBlocks cmd \<Rightarrow>
          construct_async_run C A cmd (\<lambda>components config. ClientAndDatabase (pc_client components) (cfg_database config))
      | ExportState cmd \<Rightarrow>
          construct_async_run C A cmd (\<lambda>components config. ClientAndSpec (pc_client components) (cfg_chain_spec config))
      | ImportBlocks cmd \<Rightarrow>
          construct_async_run C A cmd (\<lambda>components config. ClientAndQueue (pc_client components) (pc_import_queue components))
      | Revert cmd \<Rightarrow>
          construct_async_run C A cmd (\<lambda>components config. ClientAndBackend (pc_client components) (pc_backend components) None)
      | PurgeChain cmd \<Rightarrow>
          and_then (framework FrameworkError (create_runner C cmd)) (\<lambda>config.
          and_then (relay_configuration C cli config) (\<lambda>polkadot_config.
            framework FrameworkError (run_command C cmd (BothConfigs config polkadot_config))))
      | ExportGenesisHead cmd \<Rightarrow>
          and_then (framework FrameworkError (create_runner C cmd)) (\<lambda>config.
          and_then (map_err ServiceFailed (new_partial A (cfg_service config))) (\<lambda>partials.
            framework FrameworkError (run_command C cmd (ClientOnly (pc_client partials)))))
      | ExportGenesisWasm cmd chain \<Rightarrow>
          and_then (framework FrameworkError (create_runner C cmd)) (\<lambda>config.
          and_then (cli_spec C (case chain of None \<Rightarrow> '''' | Some name \<Rightarrow> name)) (\<lambda>spec.
            framework FrameworkError (run_command C cmd (SpecOnly spec))))
      | Benchmark cmd b \<Rightarrow>
          and_then (framework FrameworkError (create_runner C cmd)) (\<lambda>config. run_benchmark C A config b))"

text \<open>The branch without a subcommand: the node itself.\<close>

definition run_node ::
  "('w, 'h, 'wasm, 'cmd, 'base, 'e, 'x) cli_api \<Rightarrow> ('w, 'h, 'm, 'e) service_api \<Rightarrow> 'cmd Cli \<Rightarrow> ('w, 'h, 'e, unit) command"
where
  "run_node C A cli =
     and_then (framework FrameworkError (create_runner C (normalize_run C (cli_run cli)))) (\<lambda>config.
     and_then (hardware_benchmark C cli config) (\<lambda>hwbench.
     and_then (relay_configuration C cli config) (\<lambda>polkadot_config.
     and_then (map_err ServiceFailed (start_parachain_node A (cfg_service config) polkadot_config
         (collator_options C (cli_run cli)) hwbench)) (\<lambda>_. ok ()))))"

definition run ::
  "('w, 'h, 'wasm, 'cmd, 'base, 'e, 'x) cli_api \<Rightarrow> ('w, 'h, 'm, 'e) service_api \<Rightarrow> 'cmd Cli \<Rightarrow> ('w, 'h, 'e, unit) command"
where
  "run C A cli = (case cli_subcommand cli of None \<Rightarrow> run_node C A cli | Some sub \<Rightarrow> run_subcommand C A cli sub)"

text \<open>\<open>main\<close> is \<open>run\<close>, which starts by parsing the arguments of the process.\<close>

definition node_main ::
  "('w, 'h, 'wasm, 'cmd, 'base, 'e, 'x) cli_api \<Rightarrow> ('w, 'h, 'm, 'e) service_api \<Rightarrow> (string list \<Rightarrow> 'cmd Cli) \<Rightarrow> string list
     \<Rightarrow> ('w, 'h, 'e, unit) command"
where
  "node_main C A from_args args = run C A (from_args args)"

section \<open>Tasks of the program\<close>




lemma framework_labels: "framework f m s = (r, t) \<Longrightarrow> task_labels t = task_labels s"
  by (auto simp: framework_def task_labels_def split: prod.splits sum.splits)

lemma framework_Inr [op_simps]:
  "framework f m s = (Inr x, t) \<longleftrightarrow> (\<exists>w. m (world s) = (Inr x, w) \<and> t = s\<lparr>world := w\<rparr>)"
  by (auto simp: framework_def split: prod.splits sum.splits)





lemma hardware_labels:
  assumes "hardware_benchmark C cli config s = (r, t)"
  shows "task_labels t = task_labels s"
    and "\<exists>hw. r = Inr hw \<and> (hw \<noteq> None) = (\<not> no_hardware_benchmarks cli \<and> cfg_database_path config \<noteq> None)"
  using assms
  by (auto simp: hardware_benchmark_def ok_def task_labels_def split: if_splits option.splits prod.splits)

text \<open>How far a start of the node gets: to a failure before the service, or to the service.\<close>

lemma run_node_cases:
  assumes "run_node C A cli s = (r, t)"
  obtains (early) e where "r = Inl e" and "task_labels t = task_labels s"
  | (service) config w hw polkadot s1 s2 q where
      "create_runner C (normalize_run C (cli_run cli)) (world s) = (Inr config, w)"
    and "(hw \<noteq> None) = (\<not> no_hardware_benchmarks cli \<and> cfg_database_path config \<noteq> None)"
    and "relay_configuration C cli config s1 = (Inr polkadot, s2)" and "task_labels s2 = task_labels s"
    and "start_parachain_node A (cfg_service config) polkadot (collator_options C (cli_run cli)) hw s2 = (q, t)"
    and "r = map_sum ServiceFailed (\<lambda>_. ()) q"
proof -
  let ?cmd = "normalize_run C (cli_run cli)"
  show ?thesis
  proof (cases "create_runner C ?cmd (world s)")
    case (Pair q0 w)
    show ?thesis
    proof (cases q0)
      case (Inl e)
      with Pair assms show ?thesis by (intro early) (auto simp: run_node_def framework_def task_labels_def)
    next
      case (Inr config)
      let ?s0 = "s\<lparr>world := w\<rparr>"
      have runner: "create_runner C ?cmd (world s) = (Inr config, w)" using Pair Inr by simp
      obtain hw s1 where hw: "hardware_benchmark C cli config ?s0 = (Inr hw, s1)" and labels1: "task_labels s1 = task_labels s"
        and some: "(hw \<noteq> None) = (\<not> no_hardware_benchmarks cli \<and> cfg_database_path config \<noteq> None)"
        using hardware_labels [of C cli config ?s0] by (cases "hardware_benchmark C cli config ?s0") (auto simp: task_labels_def)
      obtain p s2 where relay: "relay_configuration C cli config s1 = (p, s2)" by (cases "relay_configuration C cli config s1")
      then have labels2: "task_labels s2 = task_labels s" using labels1 by (auto simp: relay_configuration_def dest: framework_labels)
      show ?thesis
      proof (cases p)
        case (Inl e)
        with assms runner hw relay labels2 show ?thesis by (intro early) (auto simp: run_node_def framework_def)
      next
        case (Inr polkadot)
        obtain q u where start: "start_parachain_node A (cfg_service config) polkadot (collator_options C (cli_run cli)) hw s2 = (q, u)"
          by (cases "start_parachain_node A (cfg_service config) polkadot (collator_options C (cli_run cli)) hw s2")
        have "r = map_sum ServiceFailed (\<lambda>_. ()) q \<and> u = t"
          using assms runner hw relay Inr start
          by (cases q) (auto simp: run_node_def framework_def map_err_def ok_def and_then_def)
        with service [OF runner some relay [unfolded Inr] labels2] start show ?thesis by blast
      qed
    qed
  qed
qed

section \<open>A command line\<close>

text \<open>
  A command line for the parts of \<open>ready_sdk\<close>: commands are strings, each is run with the
  development specification, the relay chain's command line is read as empty.
\<close>

definition dev_spec :: "unit ChainSpec" where
  "dev_spec = the (development_chain_spec \<lparr>DEV_RUNTIME_PRESET = ''development'', LOCAL_TESTNET_RUNTIME_PRESET = ''local_testnet''\<rparr> (Some ()))"

definition silent_command :: "(string, nat) CliConfiguration" where
  "silent_command = \<lparr>cc_shared_params = 0, cc_import_params = None, cc_network_params = None, cc_keystore_params = None,
     cc_base_path = Inr None, cc_rpc_addr = (\<lambda>_. Inr None), cc_prometheus_config = (\<lambda>_ _. Inr None), cc_init = (\<lambda>_ _. None),
     cc_chain_id = (\<lambda>_. Inr []), cc_role = (\<lambda>_. Inr 0), cc_transaction_pool = (\<lambda>_. Inr 0), cc_trie_cache_maximum_size = Inr None,
     cc_rpc_methods = Inr 0, cc_rpc_max_connections = Inr 0, cc_rpc_cors = (\<lambda>_. Inr None), cc_default_heap_pages = Inr None,
     cc_force_authoring = Inr False, cc_disable_grandpa = Inr False, cc_max_runtime_instances = Inr None,
     cc_announce_block = Inr True, cc_telemetry_endpoints = (\<lambda>_. Inr None), cc_node_name = Inr ''relay''\<rparr>"

definition ready_cli :: "(unit, nat, unit, string, string list, string, nat) cli_api" where
  "ready_cli = \<lparr>
     create_runner = (\<lambda>cmd. ok \<lparr>cfg_service = collator_configuration, cfg_chain_spec = dev_spec, cfg_base_path = [''data''],
       cfg_database = 40, cfg_database_path = Some [''data'', ''db'']\<rparr>),
     run_command = (\<lambda>cmd args. ok ()), normalize_run = id, collator_options = (\<lambda>_. default_collator_options),
     executable_name = ''node'', get_extension = Some, parse_from = id, polkadot_command = (\<lambda>_. silent_command),
     create_configuration = (\<lambda>_. ok collator_configuration), gather_hwbench = (\<lambda>p w. (30, w)), reference_hardware = 41,
     expose_db = id, expose_storage = id, expose_shared_trie_cache = id,
     preset_names_of = \<lparr>DEV_RUNTIME_PRESET = ''development'', LOCAL_TESTNET_RUNTIME_PRESET = ''local_testnet''\<rparr>,
     wasm_binary = Some (), from_json_file = (\<lambda>_. Inl ''no file''), feature_runtime_benchmarks = False\<rparr>"

definition node_args :: "string Cli" where
  "node_args = \<lparr>cli_subcommand = None, cli_run = ''--collator'', no_hardware_benchmarks = False, relay_chain_args = []\<rparr>"

section \<open>Properties\<close>



text \<open>
  C34: which relay chain a started node joins.  Called without a subcommand on a configuration whose
  specification was loaded under one of the built-in names, a program that ends without an error has
  started the service with a relay chain configuration made from a command line whose chain is the
  one the relay chain arguments name, or else \<open>rococo-local\<close>, and whose data directory is the one
  they name, or else \<open>polkadot\<close> below the parachain's; and the service was given a hardware
  benchmark exactly when that was not switched off and the database has a path.
\<close>

theorem node_joins_its_relay_chain:
  assumes "run C A cli s = (Inr (), t)" and "cli_subcommand cli = None"
    and "\<And>config w. create_runner C (normalize_run C (cli_run cli)) (world s) = (Inr config, w) \<Longrightarrow>
      load_spec (preset_names_of C) (wasm_binary C) (from_json_file C) name = Some (Inr (cfg_chain_spec config))"
    and "name \<in> {''dev'', ''template-rococo'', '''', ''local''}" and "\<And>e. get_extension C e = Some e"
    and "cc_chain_id (polkadot_command C (parse_from C (executable_name C # relay_chain_args cli))) is_dev = Inr chain"
    and "cc_base_path (polkadot_command C (parse_from C (executable_name C # relay_chain_args cli))) = Inr dir"
  shows "\<exists>config w K u polkadot u' hw s2 client. create_runner C (normalize_run C (cli_run cli)) (world s) = (Inr config, w)
    \<and> create_configuration C K u = (Inr polkadot, u')
    \<and> cc_chain_id K is_dev = Inr (if chain = '''' then RELAY_CHAIN else chain)
    \<and> cc_base_path K = Inr (Some (case dir of None \<Rightarrow> cfg_base_path config @ [''polkadot''] | Some q \<Rightarrow> q))
    \<and> (hw \<noteq> None) = (\<not> no_hardware_benchmarks cli \<and> cfg_database_path config \<noteq> None)
    \<and> start_parachain_node A (cfg_service config) polkadot (collator_options C (cli_run cli)) hw s2 = (Inr client, t)"
proof -
  have "run_node C A cli s = (Inr (), t)" using assms(1,2) by (simp add: run_def)
  then show ?thesis
  proof (cases rule: run_node_cases)
    case (service config w hw polkadot s1 s2 q)
    let ?cli = "relay_cli C cli config"
    from service(6) obtain client where client: "q = Inr client" by (cases q) auto
    from service(3) obtain u' where conf: "create_configuration C (relay_cli_configuration (polkadot_command C) ?cli) (world s1)
        = (Inr polkadot, u')" by (auto simp: relay_configuration_def op_simps)
    note spec = assms(3) [OF service(1)]
    then obtain code where "wasm_binary C = Some code"
      using assms(4) by (auto simp: load_spec_def development_chain_spec_def local_chain_spec_def)
    note join = builtin_specs_join_their_relay_chain [OF assms(4) spec [unfolded this] assms(5) relay_cli_def,
        of "\<lambda>b. cc_chain_id (polkadot_command C b)" cli is_dev "\<lambda>b. cc_base_path (polkadot_command C b)"]
    from join have "cc_chain_id (relay_cli_configuration (polkadot_command C) ?cli) is_dev = Inr (if chain = '''' then RELAY_CHAIN else chain)"
      and "cc_base_path (relay_cli_configuration (polkadot_command C) ?cli)
        = Inr (Some (case dir of None \<Rightarrow> cfg_base_path config @ [''polkadot''] | Some q \<Rightarrow> q))"
      by (simp_all add: relay_cli_configuration_def assms(6,7))
    with service(1,2,5) client conf show ?thesis by blast
  qed simp
qed

theorem node_joins_its_relay_chain_witness:
  "\<exists>K. cc_chain_id K True = Inr ''rococo-local'' \<and> cc_base_path K = Inr (Some [''data'', ''polkadot''])
    \<and> (\<exists>u polkadot u' t. create_configuration ready_cli K u = (Inr polkadot, u')
       \<and> run ready_cli ready_sdk node_args empty_node = (Inr (), t))"
proof -
  have "\<not> isl (fst (run ready_cli ready_sdk node_args empty_node))" by code_simp
  then obtain t where run: "run ready_cli ready_sdk node_args empty_node = (Inr (), t)"
    by (metis old.unit.exhaust prod.collapse sum.collapse(2))
  have spec: "create_runner ready_cli (normalize_run ready_cli (cli_run node_args)) (world empty_node) = (Inr config, w) \<Longrightarrow>
      load_spec (preset_names_of ready_cli) (wasm_binary ready_cli) (from_json_file ready_cli) ''dev'' = Some (Inr (cfg_chain_spec config))"
    for config w
    by (auto simp: ready_cli_def ok_def load_spec_def dev_spec_def development_chain_spec_def)
  have path: "create_runner ready_cli (normalize_run ready_cli (cli_run node_args)) (world empty_node) = (Inr config, w) \<Longrightarrow>
      cfg_base_path config = [''data'']" for config w
    by (auto simp: ready_cli_def ok_def)
  have rest: "cli_subcommand node_args = None" "\<And>e. get_extension ready_cli e = Some e"
      "cc_chain_id (polkadot_command ready_cli b) True = Inr []" "cc_base_path (polkadot_command ready_cli b) = Inr None" for b
    by (simp_all add: node_args_def ready_cli_def silent_command_def)
  from node_joins_its_relay_chain [where name = "''dev''", OF run rest(1) spec _ rest(2-4)]
  obtain config w K u polkadot u' where "create_runner ready_cli (normalize_run ready_cli (cli_run node_args)) (world empty_node) = (Inr config, w)"
    and "create_configuration ready_cli K u = (Inr polkadot, u')" and "cc_chain_id K True = Inr RELAY_CHAIN"
    and "cc_base_path K = Inr (Some (cfg_base_path config @ [''polkadot'']))" by auto
  with path run show ?thesis by (intro exI [of _ K] conjI) (auto simp: RELAY_CHAIN_def)
qed

end
