(* ===== verification/Xcm_Config.thy ===== *)
theory Xcm_Config
  imports Runtime_Config
begin

text \<open>
  The cross-chain configuration of the runtime (\<^verbatim>\<open>runtime/src/configs/xcm_config.rs\<close>):
  who may have a message executed, how a location becomes an account or an origin, how messages
  are routed, weighed and filtered.  The configuration is a composition of the SDK's combinators:
  the combinators are the fields of the records below, their documented behaviour is stated as the
  laws of the locales \<open>barrier_combinators\<close> and \<open>location_converters\<close>, and what the
  runtime composes out of them are the definitions.
\<close>

section \<open>Locations\<close>

datatype BodyId = Executive | Defense | OtherBody "32 word"
datatype BodyPart = Voice | OtherPart "32 word"

datatype ('acc, 'net) Junction =
    Parachain "32 word"
  | AccountId32 "'net option" 'acc
  | Plurality BodyId BodyPart
  | OtherJunction "32 word"

record ('acc, 'net) Location =
  parents :: "8 word"
  interior :: "('acc, 'net) Junction list"

definition RelayLocation :: "('acc, 'net) Location" where
  "RelayLocation = \<lparr>parents = 1, interior = []\<rparr>"

definition RelayNetwork :: "'net option" where
  "RelayNetwork = None"

text \<open>\<open>para_id\<close> is what \<open>ParachainInfo::parachain_id\<close> returns.\<close>

definition UniversalLocation :: "32 word \<Rightarrow> ('acc, 'net) Junction list" where
  "UniversalLocation para_id = [Parachain para_id]"

fun ParentOrParentsExecutivePlurality :: "('acc, 'net) Location \<Rightarrow> bool" where
  "ParentOrParentsExecutivePlurality l \<longleftrightarrow>
     (case (parents l, interior l) of
        (p, []) \<Rightarrow> p = 1
      | (p, [Plurality Executive _]) \<Rightarrow> p = 1
      | _ \<Rightarrow> False)"

section \<open>The barrier\<close>

text \<open>
  \<open>'bar\<close> are the types that implement \<open>ShouldExecute\<close>, \<open>'den\<close> those that
  implement \<open>DenyExecution\<close>; \<open>one_of\<close> is a tuple of barriers.
\<close>

record ('acc, 'net, 'bar, 'den) barrier_api =
  TrailingSetTopicAsId :: "'bar \<Rightarrow> 'bar"
  DenyThenTry :: "'den \<Rightarrow> 'bar \<Rightarrow> 'bar"
  DenyRecursively :: "'den \<Rightarrow> 'den"
  DenyReserveTransferToRelayChain :: 'den
  TakeWeightCredit :: 'bar
  WithComputedOrigin :: "'bar \<Rightarrow> ('acc, 'net) Junction list \<Rightarrow> 32 word \<Rightarrow> 'bar"
  AllowTopLevelPaidExecutionFrom :: "(('acc, 'net) Location \<Rightarrow> bool) \<Rightarrow> 'bar"
  AllowExplicitUnpaidExecutionFrom :: "(('acc, 'net) Location \<Rightarrow> bool) \<Rightarrow> 'bar"
  one_of :: "'bar list \<Rightarrow> 'bar"

definition Everything :: "'a \<Rightarrow> bool" where
  "Everything = (\<lambda>_. True)"

definition Nothing :: "'a \<Rightarrow> bool" where
  "Nothing = (\<lambda>_. False)"

definition Barrier :: "('acc, 'net, 'bar, 'den) barrier_api \<Rightarrow> 32 word \<Rightarrow> 'bar" where
  "Barrier X para_id =
     TrailingSetTopicAsId X
       (DenyThenTry X (DenyRecursively X (DenyReserveTransferToRelayChain X))
         (one_of X
           [TakeWeightCredit X,
            WithComputedOrigin X
              (one_of X
                [AllowTopLevelPaidExecutionFrom X Everything,
                 AllowExplicitUnpaidExecutionFrom X ParentOrParentsExecutivePlurality])
              (UniversalLocation para_id) 8]))"

section \<open>Locations, accounts and origins\<close>

record ('acc, 'net) location_api =
  ParentIsPreset :: "('acc, 'net) Location \<Rightarrow> 'acc option"
  SiblingParachainConvertsVia :: "('acc, 'net) Location \<Rightarrow> 'acc option"
  AccountId32Aliases :: "'net option \<Rightarrow> ('acc, 'net) Location \<Rightarrow> 'acc option"

text \<open>A tuple of converters takes the first that succeeds.\<close>

fun first_some :: "('a \<Rightarrow> 'b option) list \<Rightarrow> 'a \<Rightarrow> 'b option" where
  "first_some [] x = None"
| "first_some (f # fs) x = (case f x of Some y \<Rightarrow> Some y | None \<Rightarrow> first_some fs x)"

definition LocationToAccountId :: "('acc, 'net) location_api \<Rightarrow> ('acc, 'net) Location \<Rightarrow> 'acc option" where
  "LocationToAccountId L =
     first_some [ParentIsPreset L, SiblingParachainConvertsVia L, AccountId32Aliases L RelayNetwork]"

datatype OriginKind = Native | SovereignAccount | Superuser | XcmKind

datatype ('acc, 'net) xcm_origin =
    SignedOrigin 'acc
  | RelayOriginNative
  | SiblingParaOrigin "32 word"
  | XcmPalletOrigin "('acc, 'net) Location"

text \<open>
  The origin converters; the first takes the location-to-account conversion as an argument.  A
  tuple of them takes the first that succeeds.
\<close>

record ('acc, 'net) origin_api =
  SovereignSignedViaLocation :: "(('acc, 'net) Location \<Rightarrow> 'acc option) \<Rightarrow> OriginKind \<times> ('acc, 'net) Location \<Rightarrow> ('acc, 'net) xcm_origin option"
  RelayChainAsNative :: "('acc, 'net) xcm_origin \<Rightarrow> OriginKind \<times> ('acc, 'net) Location \<Rightarrow> ('acc, 'net) xcm_origin option"
  SiblingParachainAsNative :: "OriginKind \<times> ('acc, 'net) Location \<Rightarrow> ('acc, 'net) xcm_origin option"
  SignedAccountId32AsNative :: "'net option \<Rightarrow> OriginKind \<times> ('acc, 'net) Location \<Rightarrow> ('acc, 'net) xcm_origin option"
  XcmPassthrough :: "OriginKind \<times> ('acc, 'net) Location \<Rightarrow> ('acc, 'net) xcm_origin option"

definition RelayChainOrigin :: "('acc, 'net) xcm_origin" where
  "RelayChainOrigin = RelayOriginNative"

definition XcmOriginToTransactDispatchOrigin ::
  "('acc, 'net) location_api \<Rightarrow> ('acc, 'net) origin_api \<Rightarrow> OriginKind \<times> ('acc, 'net) Location \<Rightarrow> ('acc, 'net) xcm_origin option"
where
  "XcmOriginToTransactDispatchOrigin L C =
     first_some [SovereignSignedViaLocation C (LocationToAccountId L), RelayChainAsNative C RelayChainOrigin,
       SiblingParachainAsNative C, SignedAccountId32AsNative C RelayNetwork, XcmPassthrough C]"

section \<open>Weights, filters and routing\<close>

definition UnitWeightCost :: "'weight weight_api \<Rightarrow> 'weight" where
  "UnitWeightCost A = from_parts A 1000000000 (64 * 1024)"

definition MaxInstructions :: "32 word" where
  "MaxInstructions = 100"

definition MaxAssetsIntoHolding :: "32 word" where
  "MaxAssetsIntoHolding = 64"

definition VERSION_DISCOVERY_QUEUE_SIZE :: "32 word" where
  "VERSION_DISCOVERY_QUEUE_SIZE = 100"

text \<open>
  A router validates a message for a destination: it is not applicable, it fails, or it has a
  ticket.  A tuple of routers asks the next one only when a router is not applicable.
\<close>

datatype ('e, 't) route = NotApplicable | RouteError 'e | Ticket 't

fun first_route :: "('d \<Rightarrow> 'm \<Rightarrow> ('e, 't) route) list \<Rightarrow> 'd \<Rightarrow> 'm \<Rightarrow> ('e, 't) route" where
  "first_route [] d m = NotApplicable"
| "first_route (r # rs) d m = (case r d m of NotApplicable \<Rightarrow> first_route rs d m | v \<Rightarrow> v)"

definition XcmRouter ::
  "(('d \<Rightarrow> 'm \<Rightarrow> ('e, 't) route) \<Rightarrow> 'd \<Rightarrow> 'm \<Rightarrow> ('e, 't) route) \<Rightarrow> ('d \<Rightarrow> 'm \<Rightarrow> ('e, 't) route)
     \<Rightarrow> ('d \<Rightarrow> 'm \<Rightarrow> ('e, 't) route) \<Rightarrow> 'd \<Rightarrow> 'm \<Rightarrow> ('e, 't) route"
where
  "XcmRouter WithUniqueTopic ParentAsUmp XcmpQueue_router = WithUniqueTopic (first_route [ParentAsUmp, XcmpQueue_router])"

definition LocalOriginToLocation ::
  "('net option \<Rightarrow> 'origin \<Rightarrow> ('acc, 'net) Location option) \<Rightarrow> 'origin \<Rightarrow> ('acc, 'net) Location option"
where
  "LocalOriginToLocation SignedToAccountId32 = SignedToAccountId32 RelayNetwork"

text \<open>
  The asset transactor: the native currency, used for assets that \<open>IsConcrete\<close> matches at
  the relay chain's location, on the accounts of \<open>LocationToAccountId\<close>; teleports are not
  tracked.
\<close>

record ('acc, 'net, 'asset, 'n) FungibleAdapter =
  transactor_currency :: runtime_pallet
  transactor_matcher :: "'asset \<Rightarrow> 'n option"
  transactor_accounts :: "('acc, 'net) Location \<Rightarrow> 'acc option"
  transactor_checking :: "'acc option"

definition LocalAssetTransactor ::
  "('acc, 'net) location_api \<Rightarrow> (('acc, 'net) Location \<Rightarrow> 'asset \<Rightarrow> 'n option) \<Rightarrow> ('acc, 'net, 'asset, 'n) FungibleAdapter"
where
  "LocalAssetTransactor L IsConcrete = \<lparr>transactor_currency = BalancesPallet,
     transactor_matcher = IsConcrete RelayLocation, transactor_accounts = LocationToAccountId L,
     transactor_checking = None\<rparr>"

text \<open>
  The settings of \<open>XcmConfig\<close> and of \<open>pallet_xcm\<close>.  \<open>NativeAsset\<close>,
  \<open>IsConcrete\<close> and the routers are the SDK's; the unit type as a filter accepts nothing and
  as a handler does nothing (\<open>None\<close>).  What is left over after a trade goes to
  \<open>ToAuthor\<close>, the author of the block.
\<close>

definition AllPalletsWithSystem :: "runtime_pallet list" where
  "AllPalletsWithSystem = [System, ParachainSystem, Timestamp, ParachainInfo, WeightReclaim, BalancesPallet,
     TransactionPayment, SponsoredTx, Sudo, Authorship, CollatorSelection, Session, Aura, AuraExt, XcmpQueue,
     PolkadotXcm, CumulusXcm, MessageQueue, TemplatePallet]"

record ('acc, 'net, 'perbill) xcm_trader =
  trader_WeightToFee :: "'perbill WeightToFeeCoefficient list"
  trader_asset_location :: "('acc, 'net) Location"
  trader_currency :: runtime_pallet
  trader_remainder_to_author :: bool

record ('acc, 'net, 'asset, 'n, 'call, 'bar, 'weight, 'perbill, 'd, 'm, 'e, 't) xcm_executor_config =
  XcmSender :: "'d \<Rightarrow> 'm \<Rightarrow> ('e, 't) route"
  XcmEventEmitter :: runtime_pallet
  AssetTransactor :: "('acc, 'net, 'asset, 'n) FungibleAdapter"
  OriginConverter :: "OriginKind \<times> ('acc, 'net) Location \<Rightarrow> ('acc, 'net) xcm_origin option"
  ResponseHandler :: runtime_pallet
  AssetTrap :: runtime_pallet
  AssetClaims :: runtime_pallet
  SubscriptionService :: runtime_pallet
  XcmRecorder :: runtime_pallet
  AssetLocker :: "runtime_pallet option"
  AssetExchanger :: "runtime_pallet option"
  FeeManager :: "runtime_pallet option"
  MessageExporter :: "runtime_pallet option"
  IsReserve :: "'asset \<Rightarrow> ('acc, 'net) Location \<Rightarrow> bool"
  IsTeleporter :: "'asset \<Rightarrow> ('acc, 'net) Location \<Rightarrow> bool"
  cfg_UniversalLocation :: "('acc, 'net) Junction list"
  cfg_Barrier :: 'bar
  weigher_unit :: 'weight
  weigher_max_instructions :: "32 word"
  Trader :: "('acc, 'net, 'perbill) xcm_trader"
  PalletInstancesInfo :: "runtime_pallet list"
  holding_limit :: "32 word"
  UniversalAliases :: "('acc, 'net) Location \<times> ('acc, 'net) Junction \<Rightarrow> bool"
  SafeCallFilter :: "'call \<Rightarrow> bool"
  Aliasers :: "('acc, 'net) Location \<times> ('acc, 'net) Location \<Rightarrow> bool"
  transactional :: bool
  HrmpNewChannelOpenRequestHandler :: "runtime_pallet option"
  HrmpChannelAcceptedHandler :: "runtime_pallet option"
  HrmpChannelClosingHandler :: "runtime_pallet option"

text \<open>\<open>transactional\<close>: instructions run in \<open>FrameTransactionalProcessor\<close>.\<close>

definition XcmConfig ::
  "'weight weight_api \<Rightarrow> (128 word \<Rightarrow> 128 word \<Rightarrow> 'perbill) \<Rightarrow> ('acc, 'net) location_api \<Rightarrow> ('acc, 'net) origin_api \<Rightarrow> ('acc, 'net, 'bar, 'den) barrier_api
     \<Rightarrow> ('d \<Rightarrow> 'm \<Rightarrow> ('e, 't) route) \<Rightarrow> (('acc, 'net) Location \<Rightarrow> 'asset \<Rightarrow> 'n option)
     \<Rightarrow> ('asset \<Rightarrow> ('acc, 'net) Location \<Rightarrow> bool) \<Rightarrow> 32 word
     \<Rightarrow> ('acc, 'net, 'asset, 'n, 'call, 'bar, 'weight, 'perbill, 'd, 'm, 'e, 't) xcm_executor_config"
where
  "XcmConfig A from_rational L C X router IsConcrete NativeAsset para_id = \<lparr>
     XcmSender = router, XcmEventEmitter = PolkadotXcm,
     AssetTransactor = LocalAssetTransactor L IsConcrete,
     OriginConverter = XcmOriginToTransactDispatchOrigin L C,
     ResponseHandler = PolkadotXcm, AssetTrap = PolkadotXcm, AssetClaims = PolkadotXcm,
     SubscriptionService = PolkadotXcm, XcmRecorder = PolkadotXcm,
     AssetLocker = None, AssetExchanger = None, FeeManager = None, MessageExporter = None,
     IsReserve = NativeAsset, IsTeleporter = (\<lambda>_ _. False),
     cfg_UniversalLocation = UniversalLocation para_id, cfg_Barrier = Barrier X para_id,
     weigher_unit = UnitWeightCost A, weigher_max_instructions = MaxInstructions,
     Trader = \<lparr>trader_WeightToFee = polynomial A from_rational, trader_asset_location = RelayLocation,
       trader_currency = BalancesPallet, trader_remainder_to_author = True\<rparr>,
     PalletInstancesInfo = AllPalletsWithSystem, holding_limit = MaxAssetsIntoHolding,
     UniversalAliases = Nothing, SafeCallFilter = Everything, Aliasers = Nothing, transactional = True,
     HrmpNewChannelOpenRequestHandler = None, HrmpChannelAcceptedHandler = None, HrmpChannelClosingHandler = None\<rparr>"

record ('acc, 'net, 'msg, 'assets, 'weight, 'd, 'm, 'e, 't, 'o, 'u) pallet_xcm_config =
  SendXcmOrigin :: "'o \<Rightarrow> 'u"
  pallet_XcmRouter :: "'d \<Rightarrow> 'm \<Rightarrow> ('e, 't) route"
  ExecuteXcmOrigin :: "'o \<Rightarrow> 'u"
  XcmExecuteFilter :: "('acc, 'net) Location \<times> 'msg \<Rightarrow> bool"
  XcmTeleportFilter :: "('acc, 'net) Location \<times> 'assets \<Rightarrow> bool"
  XcmReserveTransferFilter :: "('acc, 'net) Location \<times> 'assets \<Rightarrow> bool"
  pallet_weigher_unit :: 'weight
  pallet_weigher_max_instructions :: "32 word"
  pallet_UniversalLocation :: "('acc, 'net) Junction list"
  version_queue_size :: "32 word"
  pallet_Currency :: runtime_pallet
  CurrencyMatcher :: "runtime_pallet option"
  TrustedLockers :: "runtime_pallet option"
  SovereignAccountOf :: "('acc, 'net) Location \<Rightarrow> 'acc option"
  MaxLockers :: "32 word"
  MaxRemoteLockConsumers :: "32 word"
  AdminOrigin_root :: bool
  alias_authorization_disabled :: bool

text \<open>
  \<open>EnsureXcmOrigin\<close> checks an origin through a conversion to a location;
  \<open>AdminOrigin\<close> is \<open>EnsureRoot\<close>.
\<close>

definition pallet_xcm_Config ::
  "'weight weight_api \<Rightarrow> ('acc, 'net) location_api \<Rightarrow> ('d \<Rightarrow> 'm \<Rightarrow> ('e, 't) route)
     \<Rightarrow> (('o \<Rightarrow> ('acc, 'net) Location option) \<Rightarrow> 'o \<Rightarrow> 'u) \<Rightarrow> ('net option \<Rightarrow> 'o \<Rightarrow> ('acc, 'net) Location option) \<Rightarrow> 32 word
     \<Rightarrow> ('acc, 'net, 'msg, 'assets, 'weight, 'd, 'm, 'e, 't, 'o, 'u) pallet_xcm_config"
where
  "pallet_xcm_Config A L router EnsureXcmOrigin SignedToAccountId32 para_id = \<lparr>
     SendXcmOrigin = EnsureXcmOrigin (LocalOriginToLocation SignedToAccountId32), pallet_XcmRouter = router,
     ExecuteXcmOrigin = EnsureXcmOrigin (LocalOriginToLocation SignedToAccountId32),
     XcmExecuteFilter = Nothing, XcmTeleportFilter = Everything, XcmReserveTransferFilter = Nothing,
     pallet_weigher_unit = UnitWeightCost A, pallet_weigher_max_instructions = MaxInstructions,
     pallet_UniversalLocation = UniversalLocation para_id,
     version_queue_size = VERSION_DISCOVERY_QUEUE_SIZE, pallet_Currency = BalancesPallet,
     CurrencyMatcher = None, TrustedLockers = None, SovereignAccountOf = LocationToAccountId L,
     MaxLockers = 8, MaxRemoteLockConsumers = 0, AdminOrigin_root = True, alias_authorization_disabled = True\<rparr>"

section \<open>Who gets through the barrier\<close>

text \<open>
  The documented behaviour of the combinators.  \<open>admits b o m\<close>: barrier \<open>b\<close> lets
  message \<open>m\<close> from origin \<open>o\<close> execute; \<open>passes d o m\<close>: the filter \<open>d\<close>
  does not deny it.  \<open>topicless\<close> drops a trailing topic, \<open>nested\<close> are the messages
  inside a message, \<open>computed\<close> applies the leading origin changes.
\<close>

locale barrier_combinators =
  fixes X :: "('acc, 'net, 'bar, 'den) barrier_api"
    and admits :: "'bar \<Rightarrow> ('acc, 'net) Location \<Rightarrow> 'msg \<Rightarrow> bool"
    and passes :: "'den \<Rightarrow> ('acc, 'net) Location \<Rightarrow> 'msg \<Rightarrow> bool"
    and topicless :: "'msg \<Rightarrow> 'msg"
    and nested :: "'msg \<Rightarrow> 'msg list"
    and computed :: "('acc, 'net) Junction list \<Rightarrow> 32 word \<Rightarrow> ('acc, 'net) Location \<times> 'msg \<Rightarrow> (('acc, 'net) Location \<times> 'msg) option"
    and has_credit :: "'msg \<Rightarrow> bool"
    and pays :: "'msg \<Rightarrow> bool"
    and asks_unpaid :: "'msg \<Rightarrow> bool"
    and transfers_to_relay :: "'msg \<Rightarrow> bool"
  assumes topic: "admits (TrailingSetTopicAsId X b) l m \<longleftrightarrow> admits b l (topicless m)"
    and deny_then_try: "admits (DenyThenTry X d b) l m \<longleftrightarrow> passes d l m \<and> admits b l m"
    and deny_recursively: "passes (DenyRecursively X d) l m \<longleftrightarrow>
      passes d l m \<and> (\<forall>m' \<in> set (nested m). passes (DenyRecursively X d) l m')"
    and deny_relay: "passes (DenyReserveTransferToRelayChain X) l m \<longleftrightarrow> \<not> transfers_to_relay m"
    and tuple: "admits (one_of X bs) l m \<longleftrightarrow> (\<exists>b \<in> set bs. admits b l m)"
    and weight_credit: "admits (TakeWeightCredit X) l m \<longleftrightarrow> has_credit m"
    and computed_origin: "admits (WithComputedOrigin X b u n) l m \<longleftrightarrow>
      (case computed u n (l, m) of None \<Rightarrow> False | Some (l', m') \<Rightarrow> admits b l' m')"
    and paid_from: "admits (AllowTopLevelPaidExecutionFrom X f) l m \<longleftrightarrow> f l \<and> pays m"
    and unpaid_from: "admits (AllowExplicitUnpaidExecutionFrom X f) l m \<longleftrightarrow> f l \<and> asks_unpaid m"
begin

lemma denied_at_any_depth:
  assumes "passes (DenyRecursively X d) l m" and "(\<lambda>a b. b \<in> set (nested a))\<^sup>*\<^sup>* m m'"
  shows "passes d l m'"
  using assms(2,1)
proof (induction rule: converse_rtranclp_induct)
  case base
  then show ?case using deny_recursively by blast
next
  case (step a b)
  then show ?case using deny_recursively by blast
qed

lemma barrier_admits:
  "admits (Barrier X para_id) l m \<longleftrightarrow>
     passes (DenyRecursively X (DenyReserveTransferToRelayChain X)) l (topicless m)
   \<and> (has_credit (topicless m)
      \<or> (case computed (UniversalLocation para_id) 8 (l, topicless m) of
           None \<Rightarrow> False
         | Some (l', m') \<Rightarrow> pays m' \<or> (asks_unpaid m' \<and> ParentOrParentsExecutivePlurality l')))"
  by (auto simp: Barrier_def topic deny_then_try tuple weight_credit computed_origin paid_from unpaid_from
      Everything_def split: option.splits)

end

text \<open>
  Messages on which the laws hold: lists of instructions, where a nested program may itself contain
  programs and the leading \<open>Descend\<close> instructions move the origin down, at most as many
  as the limit allows.
\<close>

datatype demo_instr = Buy | Unpaid | ReserveToRelay | Program "demo_instr list" | Topic | Descend "(nat, unit) Junction" | Remark

fun demo_nested :: "demo_instr list \<Rightarrow> demo_instr list list" where
  "demo_nested [] = []"
| "demo_nested (Program p # is) = p # demo_nested is"
| "demo_nested (_ # is) = demo_nested is"

lemma demo_nested_size: "p \<in> set (demo_nested m) \<Longrightarrow> size_list size p < size_list size m"
  by (induction m rule: demo_nested.induct) auto

function demo_deny :: "(demo_instr list \<Rightarrow> bool) \<Rightarrow> demo_instr list \<Rightarrow> bool" where
  "demo_deny d m \<longleftrightarrow> d m \<and> (\<forall>p \<in> set (demo_nested m). demo_deny d p)"
  by pat_completeness auto
termination
  by (relation "measure (\<lambda>(d, m). size_list size m)") (simp_all add: demo_nested_size)

declare demo_deny.simps [simp del]

lemma demo_deny_flat: "demo_nested m = [] \<Longrightarrow> demo_deny d m \<longleftrightarrow> d m"
  by (subst demo_deny.simps) simp

definition demo_topicless :: "demo_instr list \<Rightarrow> demo_instr list" where
  "demo_topicless m = (if m \<noteq> [] \<and> last m = Topic then butlast m else m)"

fun demo_descend :: "nat \<Rightarrow> (nat, unit) Location \<times> demo_instr list \<Rightarrow> ((nat, unit) Location \<times> demo_instr list) option" where
  "demo_descend k (l, Descend j # m) =
     (case k of 0 \<Rightarrow> None | Suc k' \<Rightarrow> demo_descend k' (l\<lparr>interior := interior l @ [j]\<rparr>, m))"
| "demo_descend k (l, m) = Some (l, m)"

type_synonym demo_barrier = "(nat, unit) Location \<Rightarrow> demo_instr list \<Rightarrow> bool"

definition demo_barriers :: "(nat, unit, demo_barrier, demo_instr list \<Rightarrow> bool) barrier_api" where
  "demo_barriers = \<lparr>TrailingSetTopicAsId = (\<lambda>b l m. b l (demo_topicless m)),
     DenyThenTry = (\<lambda>d b l m. d m \<and> b l m), DenyRecursively = demo_deny,
     DenyReserveTransferToRelayChain = (\<lambda>m. ReserveToRelay \<notin> set m),
     TakeWeightCredit = (\<lambda>l m. m = []),
     WithComputedOrigin = (\<lambda>b u n l m. case demo_descend (unat n) (l, m) of None \<Rightarrow> False | Some (l', m') \<Rightarrow> b l' m'),
     AllowTopLevelPaidExecutionFrom = (\<lambda>f l m. f l \<and> Buy \<in> set m),
     AllowExplicitUnpaidExecutionFrom = (\<lambda>f l m. f l \<and> m \<noteq> [] \<and> hd m = Unpaid),
     one_of = (\<lambda>bs l m. \<exists>b \<in> set bs. b l m)\<rparr>"

interpretation demo_barriers: barrier_combinators demo_barriers "\<lambda>b. b" "\<lambda>d l m. d m" demo_topicless demo_nested
  "\<lambda>u n. demo_descend (unat n)" "\<lambda>m. m = []" "\<lambda>m. Buy \<in> set m" "\<lambda>m. m \<noteq> [] \<and> hd m = Unpaid"
  "\<lambda>m. ReserveToRelay \<in> set m"
proof unfold_locales
  show "DenyRecursively demo_barriers d m \<longleftrightarrow> d m \<and> (\<forall>m' \<in> set (demo_nested m). DenyRecursively demo_barriers d m')" for d m
    by (simp add: demo_barriers_def demo_deny.simps [of d m])
qed (simp_all add: demo_barriers_def)

section \<open>Which accounts and origins a location stands for\<close>

text \<open>
  The documented converters: the parent has a preset account, a sibling parachain the sovereign
  account of its id, and a local account location aliases the account when its network is
  unspecified or the given one.
\<close>

locale location_converters =
  fixes L :: "('acc, 'net) location_api"
    and C :: "('acc, 'net) origin_api"
    and parent_account :: 'acc
    and sibling_account :: "32 word \<Rightarrow> 'acc"
  assumes parent_preset: "ParentIsPreset L l = (if l = \<lparr>parents = 1, interior = []\<rparr> then Some parent_account else None)"
    and sibling_via: "SiblingParachainConvertsVia L l = (case interior l of
        [Parachain p] \<Rightarrow> if parents l = 1 then Some (sibling_account p) else None
      | _ \<Rightarrow> None)"
    and account_alias: "AccountId32Aliases L net l = (case interior l of
        [AccountId32 n a] \<Rightarrow> if parents l = 0 \<and> (n = None \<or> n = net) then Some a else None
      | _ \<Rightarrow> None)"
    and sovereign: "SovereignSignedViaLocation C conv (k, l) =
      (if k = SovereignAccount then map_option SignedOrigin (conv l) else None)"
    and relay_native: "RelayChainAsNative C r (k, l) = (if k = Native \<and> l = \<lparr>parents = 1, interior = []\<rparr> then Some r else None)"
    and sibling_native: "SiblingParachainAsNative C (k, l) = (case interior l of
        [Parachain p] \<Rightarrow> if k = Native \<and> parents l = 1 then Some (SiblingParaOrigin p) else None
      | _ \<Rightarrow> None)"
    and signed_native: "SignedAccountId32AsNative C net (k, l) = (case interior l of
        [AccountId32 n a] \<Rightarrow> if k = Native \<and> parents l = 0 \<and> (n = None \<or> n = net) then Some (SignedOrigin a) else None
      | _ \<Rightarrow> None)"
    and passthrough: "XcmPassthrough C (k, l) = (if k = XcmKind then Some (XcmPalletOrigin l) else None)"
begin

lemma location_account:
  "LocationToAccountId L l = (case (parents l, interior l) of
     (p, []) \<Rightarrow> if p = 1 then Some parent_account else None
   | (p, [Parachain i]) \<Rightarrow> if p = 1 then Some (sibling_account i) else None
   | (p, [AccountId32 n a]) \<Rightarrow> if p = 0 \<and> n = None then Some a else None
   | _ \<Rightarrow> None)"
  by (cases l) (auto simp: LocationToAccountId_def RelayNetwork_def parent_preset sibling_via account_alias
      split: list.splits Junction.splits)

lemmas converter_defs = XcmOriginToTransactDispatchOrigin_def RelayNetwork_def RelayChainOrigin_def sovereign
  relay_native sibling_native signed_native passthrough

lemma signed_only_for_own_account:
  assumes "XcmOriginToTransactDispatchOrigin L C (k, l) = Some (SignedOrigin a)"
  shows "LocationToAccountId L l = Some a"
proof (cases k)
  case Native
  with assms show ?thesis
    by (auto simp: converter_defs location_account split: option.splits list.splits Junction.splits if_splits)
qed (use assms in \<open>auto simp: converter_defs split: option.splits list.splits Junction.splits if_splits\<close>)

lemma native_only_for_own_chain:
  "XcmOriginToTransactDispatchOrigin L C (k, l) = Some RelayOriginNative \<Longrightarrow> l = RelayLocation \<and> k = Native"
  "XcmOriginToTransactDispatchOrigin L C (k, l) = Some (SiblingParaOrigin p) \<Longrightarrow>
     l = \<lparr>parents = 1, interior = [Parachain p]\<rparr> \<and> k = Native"
  "XcmOriginToTransactDispatchOrigin L C (k, l) = Some (XcmPalletOrigin l') \<Longrightarrow> l' = l \<and> k = XcmKind"
  by (cases l; cases k; auto simp: converter_defs RelayLocation_def
      split: option.splits list.splits Junction.splits if_splits)+

end

text \<open>Converters with these laws, on numbered accounts.\<close>

definition demo_locations :: "(nat, unit) location_api" where
  "demo_locations = \<lparr>
     ParentIsPreset = (\<lambda>l. if l = \<lparr>parents = 1, interior = []\<rparr> then Some 0 else None),
     SiblingParachainConvertsVia = (\<lambda>l. case interior l of
        [Parachain p] \<Rightarrow> if parents l = 1 then Some (unat p) else None | _ \<Rightarrow> None),
     AccountId32Aliases = (\<lambda>net l. case interior l of
        [AccountId32 n a] \<Rightarrow> if parents l = 0 \<and> (n = None \<or> n = net) then Some a else None | _ \<Rightarrow> None)\<rparr>"

definition demo_origins :: "(nat, unit) origin_api" where
  "demo_origins = \<lparr>
     SovereignSignedViaLocation = (\<lambda>conv (k, l). if k = SovereignAccount then map_option SignedOrigin (conv l) else None),
     RelayChainAsNative = (\<lambda>r (k, l). if k = Native \<and> l = \<lparr>parents = 1, interior = []\<rparr> then Some r else None),
     SiblingParachainAsNative = (\<lambda>(k, l). case interior l of
        [Parachain p] \<Rightarrow> if k = Native \<and> parents l = 1 then Some (SiblingParaOrigin p) else None | _ \<Rightarrow> None),
     SignedAccountId32AsNative = (\<lambda>net (k, l). case interior l of
        [AccountId32 n a] \<Rightarrow> if k = Native \<and> parents l = 0 \<and> (n = None \<or> n = net) then Some (SignedOrigin a) else None
      | _ \<Rightarrow> None),
     XcmPassthrough = (\<lambda>(k, l). if k = XcmKind then Some (XcmPalletOrigin l) else None)\<rparr>"

interpretation demo_locations: location_converters demo_locations demo_origins 0 unat
  by unfold_locales (simp_all add: demo_locations_def demo_origins_def)

section \<open>Properties\<close>

text \<open>
  C31: what the barrier lets through.  A message is executed only if neither it nor any program
  nested in it at any depth transfers reserves to the relay chain, and if it has weight credit, or
  pays for its execution, or asks for unpaid execution from the parent chain or the parent's
  executive body, where the origin that counts is the one after at most eight leading origin
  changes.
\<close>

theorem barrier_lets_through:
  assumes "barrier_combinators X admits passes topicless nested computed has_credit pays asks_unpaid transfers_to_relay"
    and "admits (Barrier X para_id) l m"
  shows "((\<lambda>a b. b \<in> set (nested a))\<^sup>*\<^sup>* (topicless m) m' \<longrightarrow> \<not> transfers_to_relay m')
    \<and> (has_credit (topicless m)
       \<or> (\<exists>l' m''. computed (UniversalLocation para_id) 8 (l, topicless m) = Some (l', m'')
           \<and> (pays m'' \<or> asks_unpaid m'' \<and> parents l' = 1
                \<and> (interior l' = [] \<or> (\<exists>part. interior l' = [Plurality Executive part])))))"
proof -
  note facts = barrier_combinators.barrier_admits [OF assms(1), of para_id l m]
    barrier_combinators.denied_at_any_depth [OF assms(1)] barrier_combinators.deny_relay [OF assms(1)]
  have "parents l' = 1 \<and> (interior l' = [] \<or> (\<exists>part. interior l' = [Plurality Executive part]))"
    if "ParentOrParentsExecutivePlurality l'" for l' :: "('a, 'b) Location"
    using that by (auto split: list.splits Junction.splits BodyId.splits)
  moreover have "\<not> transfers_to_relay m'" if "(\<lambda>a b. b \<in> set (nested a))\<^sup>*\<^sup>* (topicless m) m'"
    using facts assms(2) that by blast
  ultimately show ?thesis
    using facts(1) assms(2) by (auto split: option.splits)
qed

theorem barrier_lets_through_witness:
  "Barrier demo_barriers 1000 \<lparr>parents = 1, interior = []\<rparr> [Descend (Plurality Executive Voice), Unpaid, Topic]
   \<and> \<not> Barrier demo_barriers 1000 \<lparr>parents = 1, interior = [Parachain 2000]\<rparr> [Unpaid, Remark]
   \<and> \<not> Barrier demo_barriers 1000 \<lparr>parents = 1, interior = []\<rparr> [Unpaid, Program [Program [ReserveToRelay]]]"
proof -
  have yes: "Barrier demo_barriers 1000 \<lparr>parents = 1, interior = []\<rparr> [Descend (Plurality Executive Voice), Unpaid, Topic]"
    by (simp add: demo_barriers.barrier_admits demo_topicless_def)
      (simp add: demo_barriers_def demo_deny_flat split: nat.split)
  note use = barrier_lets_through [OF demo_barriers.barrier_combinators_axioms]
  have "\<not> Barrier demo_barriers 1000 \<lparr>parents = 1, interior = [Parachain 2000]\<rparr> [Unpaid, Remark]"
    using use [of 1000 "\<lparr>parents = 1, interior = [Parachain 2000]\<rparr>" "[Unpaid, Remark]" "[]"]
    by (auto simp: demo_topicless_def)
  moreover have "(\<lambda>a b. b \<in> set (demo_nested a))\<^sup>*\<^sup>* [Unpaid, Program [Program [ReserveToRelay]]] [ReserveToRelay]"
    by (rule converse_rtranclp_into_rtranclp [where b = "[Program [ReserveToRelay]]"]) (simp, rule r_into_rtranclp, simp)
  then have "\<not> Barrier demo_barriers 1000 \<lparr>parents = 1, interior = []\<rparr> [Unpaid, Program [Program [ReserveToRelay]]]"
    using use [of 1000 "\<lparr>parents = 1, interior = []\<rparr>" "[Unpaid, Program [Program [ReserveToRelay]]]" "[ReserveToRelay]"]
    by (auto simp: demo_topicless_def)
  ultimately show ?thesis using yes by blast
qed

text \<open>
  Who a cross-chain message speaks for.  The origin of a \<open>Transact\<close> is a signed
  origin only for the account that its location itself converts to (the relay chain's preset
  account, the sovereign account of a sibling, a local account named without a network), and it is
  the relay chain's origin only for a native message of the parent.
\<close>

theorem transact_origin_is_own:
  assumes "location_converters L C parent_account sibling_account"
    and "XcmOriginToTransactDispatchOrigin L C (k, l) = Some origin"
  shows "case origin of
      SignedOrigin a \<Rightarrow> LocationToAccountId L l = Some a
        \<and> (l = RelayLocation \<and> a = parent_account
           \<or> (\<exists>p. l = \<lparr>parents = 1, interior = [Parachain p]\<rparr> \<and> a = sibling_account p)
           \<or> l = \<lparr>parents = 0, interior = [AccountId32 None a]\<rparr>)
    | RelayOriginNative \<Rightarrow> l = RelayLocation \<and> k = Native
    | SiblingParaOrigin p \<Rightarrow> l = \<lparr>parents = 1, interior = [Parachain p]\<rparr> \<and> k = Native
    | XcmPalletOrigin l' \<Rightarrow> l' = l \<and> k = XcmKind"
proof (cases origin)
  case (SignedOrigin a)
  with location_converters.signed_only_for_own_account [OF assms(1)] assms(2)
  have a: "LocationToAccountId L l = Some a" by blast
  then show ?thesis
    using SignedOrigin location_converters.location_account [OF assms(1), of l]
    by (cases l) (auto simp: RelayLocation_def split: list.splits Junction.splits if_splits)
qed (use location_converters.native_only_for_own_chain [OF assms(1)] assms(2) in simp_all)

theorem transact_origin_is_own_witness:
  "XcmOriginToTransactDispatchOrigin demo_locations demo_origins
      (SovereignAccount, \<lparr>parents = 1, interior = [Parachain 2000]\<rparr>) = Some (SignedOrigin 2000)
   \<and> LocationToAccountId demo_locations \<lparr>parents = 1, interior = [Parachain 2000]\<rparr> = Some 2000"
proof -
  have "XcmOriginToTransactDispatchOrigin demo_locations demo_origins
      (SovereignAccount, \<lparr>parents = 1, interior = [Parachain 2000]\<rparr>) = Some (SignedOrigin 2000)"
    by (simp add: demo_locations.converter_defs demo_locations.location_account)
  from this transact_origin_is_own [OF demo_locations.location_converters_axioms this] show ?thesis by simp
qed

end
