(* ===== verification/Runtime_Pallets.thy ===== *)
theory Runtime_Pallets
  imports Xcm_Config
begin

text \<open>
  The configuration of the runtime's pallets (\<^verbatim>\<open>runtime/src/configs/mod.rs\<close>), one
  record per \<open>Config\<close> implementation: its constants at their width, the pallets of the
  runtime that it names as handlers, and the framework's strategies applied to the runtime's
  constants.  A handler that is the unit type is \<open>None\<close>.  The framework's generic types are
  arguments: block hash counts, session rotation, price and origin combinators.  Associated types
  that only fix a Rust type (hashes, nonces, call and event types) are the types of the model, and
  the weights of the framework's own calls are left out.
\<close>

section \<open>Version\<close>

record 'apis RuntimeVersion =
  version_spec_name :: string
  version_impl_name :: string
  authoring_version :: "32 word"
  spec_version :: "32 word"
  impl_version :: "32 word"
  version_apis :: 'apis
  transaction_version :: "32 word"
  system_version :: "8 word"

definition VERSION :: "'apis \<Rightarrow> 'apis RuntimeVersion" where
  "VERSION RUNTIME_API_VERSIONS = \<lparr>
     version_spec_name = ''parachain-template-runtime'', version_impl_name = ''parachain-template-runtime'',
     authoring_version = 1, spec_version = 1, impl_version = 0, version_apis = RUNTIME_API_VERSIONS,
     transaction_version = 1, system_version = 1\<rparr>"

record 'apis NativeVersion =
  native_runtime_version :: "'apis RuntimeVersion"
  can_author_with :: "(32 word) list"

definition native_version :: "'apis \<Rightarrow> 'apis NativeVersion" where
  "native_version versions = \<lparr>native_runtime_version = VERSION versions, can_author_with = []\<rparr>"

definition SS58Prefix :: "16 word" where
  "SS58Prefix = 42"

section \<open>System, time and authorship\<close>

record ('apis, 'bw, 'l) system_config =
  sys_BlockHashCount :: "32 word"
  sys_Version :: "'apis RuntimeVersion"
  sys_DbWeight :: RuntimeDbWeight
  sys_BlockWeights :: 'bw
  sys_BlockLength :: 'l
  sys_SS58Prefix :: "16 word"
  sys_OnSetCode :: runtime_pallet
  sys_MaxConsumers :: "32 word"
  sys_SingleBlockMigrations :: "unit list"

definition system_Config ::
  "32 word \<Rightarrow> 'apis \<Rightarrow> 'weight weight_api \<Rightarrow> 'bw \<Rightarrow> 'l \<Rightarrow> ('apis, 'bw, 'l) system_config"
where
  "system_Config BlockHashCount versions A block_weights block_length = \<lparr>
     sys_BlockHashCount = BlockHashCount, sys_Version = VERSION versions, sys_DbWeight = RocksDbWeight A,
     sys_BlockWeights = block_weights, sys_BlockLength = block_length, sys_SS58Prefix = SS58Prefix,
     sys_OnSetCode = ParachainSystem, sys_MaxConsumers = 16, sys_SingleBlockMigrations = []\<rparr>"

record timestamp_config =
  OnTimestampSet :: runtime_pallet
  MinimumPeriod :: "64 word"

definition timestamp_Config :: timestamp_config where
  "timestamp_Config = \<lparr>OnTimestampSet = Aura, MinimumPeriod = 0\<rparr>"

text \<open>\<open>FindAccountFromAuthorIndex\<close> looks the author index of Aura up in the session's validators.\<close>

record authorship_config =
  FindAuthor_index :: runtime_pallet
  EventHandler :: "runtime_pallet list"

definition authorship_Config :: authorship_config where
  "authorship_Config = \<lparr>FindAuthor_index = Aura, EventHandler = [CollatorSelection]\<rparr>"

section \<open>Balances and fees\<close>

definition ExistentialDeposit :: "128 word" where
  "ExistentialDeposit = EXISTENTIAL_DEPOSIT"

record balances_config =
  MaxLocks :: "32 word"
  bal_DustRemoval :: "runtime_pallet option"
  bal_ExistentialDeposit :: "128 word"
  AccountStore :: runtime_pallet
  MaxReserves :: "32 word"
  MaxFreezes :: "32 word"
  DoneSlashHandler :: "runtime_pallet option"

text \<open>\<open>freeze_reasons\<close> is the number of variants of \<open>RuntimeFreezeReason\<close>.\<close>

definition balances_Config :: "32 word \<Rightarrow> balances_config" where
  "balances_Config freeze_reasons = \<lparr>MaxLocks = 50, bal_DustRemoval = None,
     bal_ExistentialDeposit = ExistentialDeposit, AccountStore = System, MaxReserves = 50,
     MaxFreezes = freeze_reasons, DoneSlashHandler = None\<rparr>"

datatype fee_multiplier_update = SlowAdjustingFeeUpdate | NoFeeMultiplierUpdate

record 'perbill transaction_payment_config =
  charge_currency :: runtime_pallet
  charge_handler :: "runtime_pallet option"
  pay_WeightToFee :: "'perbill WeightToFeeCoefficient list"
  pay_LengthToFee :: "64 word \<Rightarrow> 128 word"
  FeeMultiplierUpdate :: fee_multiplier_update
  OperationalFeeMultiplier :: "8 word"

text \<open>\<open>constant_multiplier c\<close> is \<open>ConstantMultiplier\<close> with the constant \<open>c\<close>.\<close>

definition transaction_payment_Config ::
  "'weight weight_api \<Rightarrow> (128 word \<Rightarrow> 128 word \<Rightarrow> 'perbill) \<Rightarrow> (128 word \<Rightarrow> 64 word \<Rightarrow> 128 word)
     \<Rightarrow> 'perbill transaction_payment_config"
where
  "transaction_payment_Config A from_rational constant_multiplier = \<lparr>
     charge_currency = BalancesPallet, charge_handler = None,
     pay_WeightToFee = polynomial A from_rational,
     pay_LengthToFee = constant_multiplier TransactionByteFee,
     FeeMultiplierUpdate = SlowAdjustingFeeUpdate, OperationalFeeMultiplier = 5\<rparr>"

section \<open>Messages\<close>

datatype AggregateMessageOrigin = Here | Parent | Sibling "32 word"

definition ReservedXcmpWeight :: "('weight \<Rightarrow> 64 word \<Rightarrow> 'weight) \<Rightarrow> 'weight \<Rightarrow> 'weight" where
  "ReservedXcmpWeight saturating_div max_block_weight = saturating_div max_block_weight 4"

definition ReservedDmpWeight :: "('weight \<Rightarrow> 64 word \<Rightarrow> 'weight) \<Rightarrow> 'weight \<Rightarrow> 'weight" where
  "ReservedDmpWeight saturating_div max_block_weight = saturating_div max_block_weight 4"

definition RelayOrigin :: AggregateMessageOrigin where
  "RelayOrigin = Parent"

datatype relay_number_check = RelayNumberMonotonicallyIncreases | RelayNumberStrictlyIncreases | AnyRelayNumber

record 'weight parachain_system_config =
  OnSystemEvent :: "runtime_pallet option"
  SelfParaId :: runtime_pallet
  OutboundXcmpMessageSource :: runtime_pallet
  DmpQueue :: "runtime_pallet \<times> AggregateMessageOrigin"
  psys_ReservedDmpWeight :: 'weight
  XcmpMessageHandler :: runtime_pallet
  psys_ReservedXcmpWeight :: 'weight
  CheckAssociatedRelayNumber :: relay_number_check
  ConsensusHook_slot_millis :: "32 word"
  ConsensusHook_velocity :: "32 word"
  ConsensusHook_capacity :: "32 word"
  RelayParentOffset :: "32 word"

definition ConsensusHook :: "(32 word \<Rightarrow> 32 word \<Rightarrow> 32 word \<Rightarrow> 'hook) \<Rightarrow> 'hook" where
  "ConsensusHook FixedVelocityConsensusHook =
     FixedVelocityConsensusHook RELAY_CHAIN_SLOT_DURATION_MILLIS BLOCK_PROCESSING_VELOCITY UNINCLUDED_SEGMENT_CAPACITY"

definition parachain_system_Config ::
  "('weight \<Rightarrow> 64 word \<Rightarrow> 'weight) \<Rightarrow> 'weight \<Rightarrow> 'weight parachain_system_config"
where
  "parachain_system_Config saturating_div max_block_weight = \<lparr>
     OnSystemEvent = None, SelfParaId = ParachainInfo, OutboundXcmpMessageSource = XcmpQueue,
     DmpQueue = (MessageQueue, RelayOrigin),
     psys_ReservedDmpWeight = ReservedDmpWeight saturating_div max_block_weight,
     XcmpMessageHandler = XcmpQueue,
     psys_ReservedXcmpWeight = ReservedXcmpWeight saturating_div max_block_weight,
     CheckAssociatedRelayNumber = RelayNumberMonotonicallyIncreases,
     ConsensusHook_slot_millis = RELAY_CHAIN_SLOT_DURATION_MILLIS,
     ConsensusHook_velocity = BLOCK_PROCESSING_VELOCITY,
     ConsensusHook_capacity = UNINCLUDED_SEGMENT_CAPACITY, RelayParentOffset = 0\<rparr>"

definition MessageQueueServiceWeight :: "('perbill \<Rightarrow> 'weight \<Rightarrow> 'weight) \<Rightarrow> (nat \<Rightarrow> 'perbill) \<Rightarrow> 'weight \<Rightarrow> 'weight" where
  "MessageQueueServiceWeight ratio_mul from_percent max_block = ratio_mul (from_percent 35) max_block"

datatype message_processor = NoopMessageProcessor | ProcessXcmMessage

record 'weight message_queue_config =
  MessageProcessor :: message_processor
  QueueChangeHandler :: runtime_pallet
  QueuePausedQuery :: runtime_pallet
  HeapSize :: "32 word"
  MaxStale :: "32 word"
  ServiceWeight :: 'weight
  IdleMaxServiceWeight :: "'weight option"

definition message_queue_Config :: "bool \<Rightarrow> 'weight \<Rightarrow> 'weight message_queue_config" where
  "message_queue_Config runtime_benchmarks service_weight = \<lparr>
     MessageProcessor = (if runtime_benchmarks then NoopMessageProcessor else ProcessXcmMessage),
     QueueChangeHandler = XcmpQueue, QueuePausedQuery = XcmpQueue, HeapSize = 103 * 1024, MaxStale = 8,
     ServiceWeight = service_weight, IdleMaxServiceWeight = None\<rparr>"

definition FeeAssetId :: "('acc, 'net) Location" where
  "FeeAssetId = RelayLocation"

text \<open>
  \<open>ExponentialPrice\<close>: the asset, the base fee, the fee per byte and the pallet that tracks
  the fee factor.
\<close>

record ('acc, 'net) exponential_price =
  price_asset :: "('acc, 'net) Location"
  price_base :: "128 word"
  price_per_byte :: "128 word"
  price_factor_of :: runtime_pallet

definition PriceForSiblingParachainDelivery :: "('acc, 'net) exponential_price" where
  "PriceForSiblingParachainDelivery = \<lparr>price_asset = FeeAssetId, price_base = ToSiblingBaseDeliveryFee,
     price_per_byte = TransactionByteFee, price_factor_of = XcmpQueue\<rparr>"

definition PriceForParentDelivery :: "('acc, 'net) exponential_price" where
  "PriceForParentDelivery = \<lparr>price_asset = FeeAssetId, price_base = ToParentBaseDeliveryFee,
     price_per_byte = TransactionByteFee, price_factor_of = ParachainSystem\<rparr>"

text \<open>
  \<open>EitherOfDiverse\<close> tries the first check and then the second; the checks for root and for an
  XCM origin inside a set of locations, and the location of a body's voice, are the framework's.
\<close>

record ('acc, 'net, 'o, 'e) origin_checks =
  EnsureRoot :: "'o \<Rightarrow> 'e + unit"
  EnsureXcm :: "(('acc, 'net) Location \<Rightarrow> bool) \<Rightarrow> 'o \<Rightarrow> 'e + ('acc, 'net) Location"
  IsVoiceOfBody :: "('acc, 'net) Location \<Rightarrow> BodyId \<Rightarrow> ('acc, 'net) Location \<Rightarrow> bool"

definition EitherOfDiverse :: "('o \<Rightarrow> 'e + 'a) \<Rightarrow> ('o \<Rightarrow> 'e + 'b) \<Rightarrow> 'o \<Rightarrow> 'e + ('a + 'b)" where
  "EitherOfDiverse f g origin =
     (case f origin of Inr x \<Rightarrow> Inr (Inl x) | Inl _ \<Rightarrow> map_sum id Inr (g origin))"

record ('acc, 'net, 'o, 'e) xcmp_queue_config =
  ChannelInfo :: runtime_pallet
  VersionWrapper :: "runtime_pallet option"
  xq_queue :: runtime_pallet
  xq_transform :: "32 word \<Rightarrow> AggregateMessageOrigin"
  MaxInboundSuspended :: "32 word"
  MaxActiveOutboundChannels :: "32 word"
  MaxPageSize :: "32 word"
  ControllerOrigin :: "'o \<Rightarrow> 'e + unit"
  ControllerOriginConverter :: "OriginKind \<times> ('acc, 'net) Location \<Rightarrow> ('acc, 'net) xcm_origin option"
  PriceForSiblingDelivery :: "('acc, 'net) exponential_price"

definition xcmp_queue_Config ::
  "('acc, 'net) location_api \<Rightarrow> ('acc, 'net) origin_api \<Rightarrow> ('acc, 'net, 'o, 'e) origin_checks
     \<Rightarrow> (32 word \<Rightarrow> AggregateMessageOrigin) \<Rightarrow> ('acc, 'net, 'o, 'e) xcmp_queue_config"
where
  "xcmp_queue_Config L C K ParaIdToSibling = \<lparr>
     ChannelInfo = ParachainSystem, VersionWrapper = None, xq_queue = MessageQueue,
     xq_transform = ParaIdToSibling, MaxInboundSuspended = 1000, MaxActiveOutboundChannels = 128,
     MaxPageSize = push_bit 16 1, ControllerOrigin = EnsureRoot K, ControllerOriginConverter = XcmOriginToTransactDispatchOrigin L C,
     PriceForSiblingDelivery = PriceForSiblingParachainDelivery\<rparr>"

section \<open>Sessions and collators\<close>

text \<open>
  \<open>periodic period offset\<close> is \<open>PeriodicSessions\<close>, which both ends sessions and
  estimates their rotation; \<open>identity_collator\<close> is \<open>IdentityCollator\<close>.
\<close>

record ('acc, 'sessions) session_config =
  session_ValidatorIdOf :: "'acc \<Rightarrow> 'acc option"
  ShouldEndSession :: 'sessions
  NextSessionRotation :: 'sessions
  SessionManager :: runtime_pallet
  SessionHandlers :: "runtime_pallet list"
  DisablingStrategy :: "runtime_pallet option"
  session_currency :: runtime_pallet
  KeyDeposit :: "128 word option"

definition session_Config ::
  "(32 word \<Rightarrow> 32 word \<Rightarrow> 'sessions) \<Rightarrow> ('acc \<Rightarrow> 'acc option) \<Rightarrow> ('acc, 'sessions) session_config"
where
  "session_Config periodic identity_collator = \<lparr>session_ValidatorIdOf = identity_collator,
     ShouldEndSession = periodic Period Offset, NextSessionRotation = periodic Period Offset,
     SessionManager = CollatorSelection, SessionHandlers = [Aura], DisablingStrategy = None,
     session_currency = BalancesPallet, KeyDeposit = None\<rparr>"

record aura_config =
  DisabledValidators :: "runtime_pallet option"
  MaxAuthorities :: "32 word"
  AllowMultipleBlocksPerSlot :: bool
  aura_SlotDuration :: "64 word"

definition aura_Config :: aura_config where
  "aura_Config = \<lparr>DisabledValidators = None, MaxAuthorities = 100000, AllowMultipleBlocksPerSlot = True, aura_SlotDuration = SLOT_DURATION\<rparr>"

definition PotId :: string where
  "PotId = ''PotStake''"

definition StakingAdminBodyId :: BodyId where
  "StakingAdminBodyId = Defense"

definition CollatorSelectionUpdateOrigin ::
  "('acc, 'net, 'o, 'e) origin_checks \<Rightarrow> 'o \<Rightarrow> 'e + (unit + ('acc, 'net) Location)"
where
  "CollatorSelectionUpdateOrigin K =
     EitherOfDiverse (EnsureRoot K) (EnsureXcm K (IsVoiceOfBody K RelayLocation StakingAdminBodyId))"

record ('acc, 'net, 'o, 'e) collator_selection_config =
  collator_currency :: runtime_pallet
  UpdateOrigin :: "'o \<Rightarrow> 'e + (unit + ('acc, 'net) Location)"
  collator_PotId :: string
  MaxCandidates :: "32 word"
  MinEligibleCollators :: "32 word"
  MaxInvulnerables :: "32 word"
  KickThreshold :: "32 word"
  collator_ValidatorIdOf :: "'acc \<Rightarrow> 'acc option"
  ValidatorRegistration :: runtime_pallet

definition collator_selection_Config ::
  "('acc, 'net, 'o, 'e) origin_checks \<Rightarrow> ('acc \<Rightarrow> 'acc option) \<Rightarrow> ('acc, 'net, 'o, 'e) collator_selection_config"
where
  "collator_selection_Config K identity_collator = \<lparr>collator_currency = BalancesPallet,
     UpdateOrigin = CollatorSelectionUpdateOrigin K, collator_PotId = PotId,
     MaxCandidates = 100, MinEligibleCollators = 4, MaxInvulnerables = 20,
     KickThreshold = Period, collator_ValidatorIdOf = identity_collator, ValidatorRegistration = Session\<rparr>"

section \<open>Block limits and message weights\<close>

text \<open>
  What the validated block weights give: the block limit is the greatest limit of a class, in
  execution time; and a weight divided by a number is divided in its components.
\<close>

locale block_limits = perbill_arithmetic A parts from_percent from_rational perbill_mul ratio_mul w_sub
    + block_weights_builder BW
  for A :: "'weight weight_api" and parts :: "'perbill \<Rightarrow> nat" and from_percent and from_rational and perbill_mul
    and ratio_mul and w_sub and BW :: "('weight, 'perbill, 'bw) block_weights_api" +
  fixes max_block :: "'bw \<Rightarrow> 'weight"
    and w_div :: "'weight \<Rightarrow> 64 word \<Rightarrow> 'weight"
  assumes max_block_upper: "max_total (class_weights BW b c) = Some w \<Longrightarrow> ref_time A w \<le> ref_time A (max_block b)"
    and max_block_attained: "max_total (class_weights BW b c) = Some w \<Longrightarrow>
      \<exists>c' w'. max_total (class_weights BW b c') = Some w' \<and> ref_time A w' = ref_time A (max_block b)"
    and ref_time_div: "n \<noteq> 0 \<Longrightarrow> ref_time A (w_div w n) = ref_time A w div n"
begin

lemma runtime_max_block:
  assumes "ref_time A M = 2000000000000" and "max_total (class_weights BW start Mandatory) = None"
    and "b = RuntimeBlockWeights A BW ratio_mul w_sub from_percent M start"
  shows "ref_time A (max_block b) = 2000000000000"
proof -
  have classes: "max_total (class_weights BW b Normal) = Some (ratio_mul (NORMAL_DISPATCH_RATIO from_percent) M)"
    "max_total (class_weights BW b Operational) = Some M" "max_total (class_weights BW b Mandatory) = None"
    by (simp_all add: assms(2,3) RuntimeBlockWeights_def Let_def init_keeps for_class_applies base_keeps all_listed)
  obtain c w where "max_total (class_weights BW b c) = Some w" and w: "ref_time A w = ref_time A (max_block b)"
    using max_block_attained [OF classes(2)] by blast
  with classes have "w = ratio_mul (NORMAL_DISPATCH_RATIO from_percent) M \<or> w = M"
    by (cases c) simp_all
  then have "unat (ref_time A w) \<le> 2000000000000"
    using normal_share [OF assms(1)] assms(1) by auto
  moreover have "2000000000000 \<le> unat (ref_time A (max_block b))"
    using max_block_upper [OF classes(2)] assms(1) by (simp add: word_le_nat_alt)
  ultimately have "unat (ref_time A (max_block b)) = unat (2000000000000 :: 64 word)" using w by simp
  then show ?thesis by (simp only: word_unat_eq_iff)
qed

lemma service_share:
  assumes "ref_time A w = 2000000000000"
  shows "unat (ref_time A (MessageQueueServiceWeight ratio_mul from_percent w)) = 700000000000"
  by (simp add: MessageQueueServiceWeight_def ratio_mul_exact parts_percent assms)

end

text \<open>The block limit of the builder that maps classes to weights.\<close>

definition map_max_block :: "(DispatchClass \<Rightarrow> (64 word \<times> 64 word) WeightsPerClass) \<Rightarrow> 64 word \<times> 64 word" where
  "map_max_block b = fold (\<lambda>c m. case max_total (b c) of None \<Rightarrow> m | Some w \<Rightarrow> if fst m \<le> fst w then w else m)
     [Normal, Operational, Mandatory] (0, 0)"

interpretation map_limits: block_limits pair_weights "min 1000000000 :: nat \<Rightarrow> nat" "\<lambda>n. n * 10000000"
  "\<lambda>p q. unat p * 1000000000 div unat q" "\<lambda>r. nat_ratio (min 1000000000 r)"
  "\<lambda>r w. (nat_ratio (min 1000000000 r) (fst w), 0)" "\<lambda>x y. (fst x - fst y, snd x - snd y)"
  map_builder map_max_block "\<lambda>w n. (fst w div n, snd w div n)"
proof unfold_locales
  fix b c and w :: "64 word \<times> 64 word"
  assume "max_total (class_weights map_builder b c) = Some w"
  then have w: "max_total (b c) = Some w" by (simp add: class_weights_map_builder)
  then show "ref_time pair_weights w \<le> ref_time pair_weights (map_max_block b)"
    by (cases c) (auto simp: map_max_block_def pair_weights_def split: option.splits)
  have "\<exists>c'. max_total (b c') = Some (map_max_block b)"
    using w by (cases c; cases "max_total (b Normal)"; cases "max_total (b Operational)"; cases "max_total (b Mandatory)")
      (auto simp: map_max_block_def)
  then show "\<exists>c' w'. max_total (class_weights map_builder b c') = Some w'
      \<and> ref_time pair_weights w' = ref_time pair_weights (map_max_block b)"
    unfolding class_weights_map_builder by blast
qed (simp_all add: pair_weights_def)

section \<open>Who may update the collator selection\<close>

locale privileged_origins =
  fixes K :: "('acc, 'net, 'o, 'e) origin_checks"
    and is_root :: "'o \<Rightarrow> bool"
    and xcm_location :: "'o \<Rightarrow> ('acc, 'net) Location option"
  assumes root_check: "(\<exists>u. EnsureRoot K origin = Inr u) \<longleftrightarrow> is_root origin"
    and xcm_check: "EnsureXcm K f origin = Inr l \<longleftrightarrow> xcm_location origin = Some l \<and> f l"
    and voice: "IsVoiceOfBody K prefix body l \<longleftrightarrow>
      parents l = parents prefix \<and> interior l = interior prefix @ [Plurality body Voice]"
begin

lemma update_origin_accepts:
  "(\<exists>r. CollatorSelectionUpdateOrigin K origin = Inr r) \<longleftrightarrow>
     is_root origin \<or> xcm_location origin = Some \<lparr>parents = 1, interior = [Plurality Defense Voice]\<rparr>"
proof (cases "EnsureRoot K origin")
  case (Inr u)
  then show ?thesis using root_check [of origin]
    by (simp add: CollatorSelectionUpdateOrigin_def EitherOfDiverse_def)
next
  case (Inl e)
  let ?f = "IsVoiceOfBody K RelayLocation StakingAdminBodyId"
  have "(\<exists>r. CollatorSelectionUpdateOrigin K origin = Inr r) \<longleftrightarrow> (\<exists>l. EnsureXcm K ?f origin = Inr l)"
    using Inl by (cases "EnsureXcm K ?f origin") (simp_all add: CollatorSelectionUpdateOrigin_def EitherOfDiverse_def)
  also have "\<dots> \<longleftrightarrow> xcm_location origin = Some \<lparr>parents = 1, interior = [Plurality Defense Voice]\<rparr>"
  proof -
    have "?f l \<longleftrightarrow> l = \<lparr>parents = 1, interior = [Plurality Defense Voice]\<rparr>" for l
      by (cases l) (auto simp: voice RelayLocation_def StakingAdminBodyId_def)
    then show ?thesis by (auto simp: xcm_check)
  qed
  finally show ?thesis using Inl root_check [of origin] by auto
qed

end

datatype demo_privileged = DemoRoot | DemoXcm "(nat, unit) Location" | DemoSigned nat

definition demo_checks :: "(nat, unit, demo_privileged, unit) origin_checks" where
  "demo_checks = \<lparr>EnsureRoot = (\<lambda>origin. if origin = DemoRoot then Inr () else Inl ()),
     EnsureXcm = (\<lambda>f origin. case origin of DemoXcm l \<Rightarrow> if f l then Inr l else Inl () | _ \<Rightarrow> Inl ()),
     IsVoiceOfBody = (\<lambda>prefix body l. parents l = parents prefix \<and> interior l = interior prefix @ [Plurality body Voice])\<rparr>"

interpretation demo_checks: privileged_origins demo_checks "\<lambda>origin. origin = DemoRoot"
  "\<lambda>origin. case origin of DemoXcm l \<Rightarrow> Some l | _ \<Rightarrow> None"
  by unfold_locales (auto simp: demo_checks_def split: demo_privileged.splits)

section \<open>Properties\<close>

text \<open>
  The execution times set aside for messages.  Under the block weights the runtime builds, the
  longest message the weigher accepts (a hundred instructions) takes a tenth of a second of
  \<open>ref_time\<close>; the weights reserved for messages of sibling chains and of the relay chain have
  the time of five such messages each, the queue's service weight that of seven, and the whole block
  that of twenty.  The proof sizes, which bound a message as well, are not compared here.
\<close>

theorem message_times_reserved:
  assumes "block_limits A parts from_percent from_rational perbill_mul ratio_mul w_sub BW max_block w_div"
    and "M = MAXIMUM_BLOCK_WEIGHT A 1000000000000 pov"
    and "max_total (class_weights BW start Mandatory) = None"
    and "b = RuntimeBlockWeights A BW ratio_mul w_sub from_percent M start"
    and "longest = unat MaxInstructions * unat (ref_time A (UnitWeightCost A))"
  shows "unat (ref_time A (psys_ReservedXcmpWeight (parachain_system_Config w_div M))) = 5 * longest
    \<and> unat (ref_time A (psys_ReservedDmpWeight (parachain_system_Config w_div M))) = 5 * longest
    \<and> unat (ref_time A (ServiceWeight (message_queue_Config benches
          (MessageQueueServiceWeight ratio_mul from_percent (max_block b))))) = 7 * longest
    \<and> unat (ref_time A (max_block b)) = 20 * longest"
proof -
  note wa = perbill_arithmetic.axioms(1) [OF block_limits.axioms(1) [OF assms(1)]]
  have M: "ref_time A M = 2000000000000"
    by (simp add: assms(2) MAXIMUM_BLOCK_WEIGHT_def weight_arithmetic.ref_time_from_parts [OF wa] saturating_mul_def)
  have longest: "longest = 100000000000"
    by (simp add: assms(5) MaxInstructions_def UnitWeightCost_def weight_arithmetic.ref_time_from_parts [OF wa])
  have max: "ref_time A (max_block b) = 2000000000000"
    by (rule block_limits.runtime_max_block [OF assms(1) M assms(3,4)])
  have quarter: "unat (ref_time A (w_div M 4)) = 500000000000"
    by (simp add: block_limits.ref_time_div [OF assms(1)] M)
  show ?thesis
    using block_limits.service_share [OF assms(1) max] quarter max longest
    by (simp add: parachain_system_Config_def ReservedXcmpWeight_def ReservedDmpWeight_def message_queue_Config_def)
qed

theorem message_times_reserved_witness:
  "unat (ref_time pair_weights (psys_ReservedXcmpWeight (parachain_system_Config (\<lambda>w n. (fst w div n, snd w div n))
      (MAXIMUM_BLOCK_WEIGHT pair_weights 1000000000000 10485760)))) = 500000000000"
  using message_times_reserved [OF map_limits.block_limits_axioms refl _ refl refl, where pov = 10485760
      and start = "\<lambda>_. \<lparr>base_extrinsic = (0, 0), max_total = None, class_reserved = None\<rparr>"]
  by (simp add: class_weights_map_builder MaxInstructions_def UnitWeightCost_def pair_weights_def)

text \<open>
  C36: the collator set is updated only by root or by the voice of the relay chain's staking admin
  body (\<open>Defense\<close>); no sibling chain, no other body and no fraction of a vote is enough.
\<close>

theorem collator_update_origin_exact:
  assumes "privileged_origins K is_root xcm_location"
  shows "(\<exists>r. UpdateOrigin (collator_selection_Config K idc) origin = Inr r) =
    (is_root origin \<or> xcm_location origin = Some \<lparr>parents = 1, interior = [Plurality Defense Voice]\<rparr>)"
  by (simp add: collator_selection_Config_def privileged_origins.update_origin_accepts [OF assms])

theorem collator_update_origin_exact_witness:
  "(\<exists>r. UpdateOrigin (collator_selection_Config demo_checks Some) (DemoXcm \<lparr>parents = 1, interior = [Plurality Defense Voice]\<rparr>) = Inr r)
   \<and> \<not> (\<exists>r. UpdateOrigin (collator_selection_Config demo_checks Some) (DemoXcm \<lparr>parents = 1, interior = [Plurality Executive Voice]\<rparr>) = Inr r)
   \<and> \<not> (\<exists>r. UpdateOrigin (collator_selection_Config demo_checks Some) (DemoSigned 1) = Inr r)"
  by (simp add: collator_update_origin_exact [OF demo_checks.privileged_origins_axioms])

end
