(* ===== verification/Runtime_Apis.thy ===== *)
theory Runtime_Apis
  imports Runtime_Pallets Genesis_Presets
begin

text \<open>
  The runtime APIs (\<^verbatim>\<open>runtime/src/apis.rs\<close>): the functions that the node calls into the
  runtime.  One record per trait, built by one definition per implementation, over the functions of
  the framework's pallets and of its executive, which are the fields of \<open>runtime_fns\<close>.  Data
  that only passes through (hashes, headers, extrinsics, encoded bytes) has the one opaque type
  \<open>'x\<close>; \<open>'s\<close> is the storage, a function that writes returns it, and a panic is
  \<open>None\<close>.  The pallet functions that depend on the runtime's configuration take that part
  of it as an argument.
\<close>

section \<open>What the APIs delegate to\<close>

record ('s, 'x, 'weight, 'perbill, 'apis) runtime_fns =
  aura_authorities :: "'s \<Rightarrow> 'x list"
  fixed_velocity_can_build_upon :: "32 word \<Rightarrow> 32 word \<Rightarrow> 32 word \<Rightarrow> 'x \<Rightarrow> 64 word \<Rightarrow> 's \<Rightarrow> bool"
  RUNTIME_API_VERSIONS :: 'apis
  executive_execute_block :: "'x \<Rightarrow> 's \<Rightarrow> 's option"
  executive_initialize_block :: "'x \<Rightarrow> 's \<Rightarrow> 'x \<times> 's"
  executive_apply_extrinsic :: "'x \<Rightarrow> 's \<Rightarrow> ('x + 'x) \<times> 's"
  executive_finalize_block :: "'s \<Rightarrow> 'x \<times> 's"
  executive_validate_transaction :: "'x \<Rightarrow> 'x \<Rightarrow> 'x \<Rightarrow> 's \<Rightarrow> 'x + 'x"
  executive_offchain_worker :: "'x \<Rightarrow> 's \<Rightarrow> 's"
  executive_try_runtime_upgrade :: "'x \<Rightarrow> 's \<Rightarrow> ('x + 'weight) \<times> 's"
  executive_try_execute_block :: "'x \<Rightarrow> bool \<Rightarrow> bool \<Rightarrow> 'x \<Rightarrow> 's \<Rightarrow> ('x + 'weight) \<times> 's"
  runtime_metadata :: 'x
  opaque_metadata_new :: "'x \<Rightarrow> 'x"
  runtime_metadata_at_version :: "32 word \<Rightarrow> 'x option"
  runtime_metadata_versions :: "(32 word) list"
  runtime_execute_view_function :: "'x \<Rightarrow> 'x \<Rightarrow> 's \<Rightarrow> 'x + 'x"
  inherent_create_extrinsics :: "'x \<Rightarrow> 's \<Rightarrow> 'x list"
  inherent_check_extrinsics :: "'x \<Rightarrow> 'x \<Rightarrow> 's \<Rightarrow> 'x"
  session_keys_generate :: "'x option \<Rightarrow> 's \<Rightarrow> 'x \<times> 's"
  session_keys_decode :: "'x \<Rightarrow> ('x \<times> 'x) list option"
  system_account_nonce :: "'x \<Rightarrow> 's \<Rightarrow> 32 word"
  payment_query_info :: "'x \<Rightarrow> 32 word \<Rightarrow> 's \<Rightarrow> 'x"
  payment_query_fee_details :: "'x \<Rightarrow> 32 word \<Rightarrow> 's \<Rightarrow> 'x"
  payment_query_call_info :: "'x \<Rightarrow> 32 word \<Rightarrow> 's \<Rightarrow> 'x"
  payment_query_call_fee_details :: "'x \<Rightarrow> 32 word \<Rightarrow> 's \<Rightarrow> 'x"
  payment_weight_to_fee :: "'perbill transaction_payment_config \<Rightarrow> 'weight \<Rightarrow> 's \<Rightarrow> 128 word"
  payment_length_to_fee :: "'perbill transaction_payment_config \<Rightarrow> 32 word \<Rightarrow> 's \<Rightarrow> 128 word"
  collect_collation_info_of :: "'x \<Rightarrow> 's \<Rightarrow> 'x"
  build_state_of :: "8 word list \<Rightarrow> 's \<Rightarrow> ('x + unit) \<times> 's"
  get_preset_or_default :: "string option \<Rightarrow> (string \<Rightarrow> 8 word list option) \<Rightarrow> 8 word list option"
  parachain_info_id :: "'s \<Rightarrow> 32 word"

section \<open>Consensus\<close>

definition impl_slot_duration :: "(64 word \<Rightarrow> 'd) \<Rightarrow> 'd" where
  "impl_slot_duration from_millis = from_millis SLOT_DURATION"

definition impl_can_build_upon ::
  "('s, 'x, 'weight, 'perbill, 'apis) runtime_fns \<Rightarrow> 'x \<Rightarrow> 64 word \<Rightarrow> 's \<Rightarrow> bool"
where
  "impl_can_build_upon R included_hash slot =
     ConsensusHook (\<lambda>millis velocity capacity. fixed_velocity_can_build_upon R millis velocity capacity)
       included_hash slot"

record ('d, 's, 'x) AuraApi =
  slot_duration :: 'd
  authorities :: "'s \<Rightarrow> 'x list"

definition aura_api :: "('s, 'x, 'weight, 'perbill, 'apis) runtime_fns \<Rightarrow> (64 word \<Rightarrow> 'd) \<Rightarrow> ('d, 's, 'x) AuraApi" where
  "aura_api R from_millis = \<lparr>slot_duration = impl_slot_duration from_millis, authorities = aura_authorities R\<rparr>"

definition relay_parent_offset :: "32 word" where
  "relay_parent_offset = 0"

definition can_build_upon ::
  "('s, 'x, 'weight, 'perbill, 'apis) runtime_fns \<Rightarrow> 'x \<Rightarrow> 64 word \<Rightarrow> 's \<Rightarrow> bool"
where
  "can_build_upon R included_hash slot = impl_can_build_upon R included_hash slot"

section \<open>Blocks and transactions\<close>

record ('s, 'x, 'apis) CoreApi =
  core_version :: "'apis RuntimeVersion"
  execute_block :: "'x \<Rightarrow> 's \<Rightarrow> 's option"
  initialize_block :: "'x \<Rightarrow> 's \<Rightarrow> 'x \<times> 's"

definition core_api :: "('s, 'x, 'weight, 'perbill, 'apis) runtime_fns \<Rightarrow> ('s, 'x, 'apis) CoreApi" where
  "core_api R = \<lparr>core_version = VERSION (RUNTIME_API_VERSIONS R),
     execute_block = executive_execute_block R, initialize_block = executive_initialize_block R\<rparr>"

record 'x MetadataApi =
  metadata :: 'x
  metadata_at_version :: "32 word \<Rightarrow> 'x option"
  metadata_versions :: "(32 word) list"

definition metadata_api :: "('s, 'x, 'weight, 'perbill, 'apis) runtime_fns \<Rightarrow> 'x MetadataApi" where
  "metadata_api R = \<lparr>metadata = opaque_metadata_new R (runtime_metadata R),
     metadata_at_version = runtime_metadata_at_version R, metadata_versions = runtime_metadata_versions R\<rparr>"

definition execute_view_function ::
  "('s, 'x, 'weight, 'perbill, 'apis) runtime_fns \<Rightarrow> 'x \<Rightarrow> 'x \<Rightarrow> 's \<Rightarrow> 'x + 'x"
where
  "execute_view_function R vid input = runtime_execute_view_function R vid input"

record ('s, 'x) BlockBuilderApi =
  apply_extrinsic :: "'x \<Rightarrow> 's \<Rightarrow> ('x + 'x) \<times> 's"
  finalize_block :: "'s \<Rightarrow> 'x \<times> 's"
  inherent_extrinsics :: "'x \<Rightarrow> 's \<Rightarrow> 'x list"
  check_inherents :: "'x \<Rightarrow> 'x \<Rightarrow> 's \<Rightarrow> 'x"

definition block_builder_api :: "('s, 'x, 'weight, 'perbill, 'apis) runtime_fns \<Rightarrow> ('s, 'x) BlockBuilderApi" where
  "block_builder_api R = \<lparr>apply_extrinsic = executive_apply_extrinsic R,
     finalize_block = executive_finalize_block R,
     inherent_extrinsics = (\<lambda>data. inherent_create_extrinsics R data),
     check_inherents = (\<lambda>block data. inherent_check_extrinsics R data block)\<rparr>"

definition validate_transaction ::
  "('s, 'x, 'weight, 'perbill, 'apis) runtime_fns \<Rightarrow> 'x \<Rightarrow> 'x \<Rightarrow> 'x \<Rightarrow> 's \<Rightarrow> 'x + 'x"
where
  "validate_transaction R source tx block_hash = executive_validate_transaction R source tx block_hash"

definition offchain_worker :: "('s, 'x, 'weight, 'perbill, 'apis) runtime_fns \<Rightarrow> 'x \<Rightarrow> 's \<Rightarrow> 's" where
  "offchain_worker R header = executive_offchain_worker R header"

record ('s, 'x) SessionKeysApi =
  generate_session_keys :: "'x option \<Rightarrow> 's \<Rightarrow> 'x \<times> 's"
  decode_session_keys :: "'x \<Rightarrow> ('x \<times> 'x) list option"

definition session_keys_api :: "('s, 'x, 'weight, 'perbill, 'apis) runtime_fns \<Rightarrow> ('s, 'x) SessionKeysApi" where
  "session_keys_api R = \<lparr>generate_session_keys = session_keys_generate R, decode_session_keys = session_keys_decode R\<rparr>"

definition account_nonce :: "('s, 'x, 'weight, 'perbill, 'apis) runtime_fns \<Rightarrow> 'x \<Rightarrow> 's \<Rightarrow> 32 word" where
  "account_nonce R account = system_account_nonce R account"

section \<open>Fees\<close>

record ('s, 'x, 'weight) TransactionPaymentApi =
  query_info :: "'x \<Rightarrow> 32 word \<Rightarrow> 's \<Rightarrow> 'x"
  query_fee_details :: "'x \<Rightarrow> 32 word \<Rightarrow> 's \<Rightarrow> 'x"
  query_weight_to_fee :: "'weight \<Rightarrow> 's \<Rightarrow> 128 word"
  query_length_to_fee :: "32 word \<Rightarrow> 's \<Rightarrow> 128 word"

definition transaction_payment_api ::
  "('s, 'x, 'weight, 'perbill, 'apis) runtime_fns \<Rightarrow> 'perbill transaction_payment_config \<Rightarrow> ('s, 'x, 'weight) TransactionPaymentApi"
where
  "transaction_payment_api R cfg = \<lparr>query_info = payment_query_info R,
     query_fee_details = payment_query_fee_details R,
     query_weight_to_fee = payment_weight_to_fee R cfg, query_length_to_fee = payment_length_to_fee R cfg\<rparr>"

record ('s, 'x, 'weight) TransactionPaymentCallApi =
  query_call_info :: "'x \<Rightarrow> 32 word \<Rightarrow> 's \<Rightarrow> 'x"
  query_call_fee_details :: "'x \<Rightarrow> 32 word \<Rightarrow> 's \<Rightarrow> 'x"
  call_query_weight_to_fee :: "'weight \<Rightarrow> 's \<Rightarrow> 128 word"
  call_query_length_to_fee :: "32 word \<Rightarrow> 's \<Rightarrow> 128 word"

definition transaction_payment_call_api ::
  "('s, 'x, 'weight, 'perbill, 'apis) runtime_fns \<Rightarrow> 'perbill transaction_payment_config \<Rightarrow> ('s, 'x, 'weight) TransactionPaymentCallApi"
where
  "transaction_payment_call_api R cfg = \<lparr>query_call_info = payment_query_call_info R,
     query_call_fee_details = payment_query_call_fee_details R,
     call_query_weight_to_fee = payment_weight_to_fee R cfg, call_query_length_to_fee = payment_length_to_fee R cfg\<rparr>"

definition collect_collation_info :: "('s, 'x, 'weight, 'perbill, 'apis) runtime_fns \<Rightarrow> 'x \<Rightarrow> 's \<Rightarrow> 'x" where
  "collect_collation_info R header = collect_collation_info_of R header"

section \<open>Feature-gated APIs\<close>

text \<open>\<open>unwrap\<close> of a failed upgrade or block stops the execution.\<close>

definition try_on_runtime_upgrade ::
  "('s, 'x, 'weight, 'perbill, 'apis) runtime_fns \<Rightarrow> 'weight \<Rightarrow> 'x \<Rightarrow> 's \<Rightarrow> (('weight \<times> 'weight) \<times> 's) option"
where
  "try_on_runtime_upgrade R max_block checks s =
     (case executive_try_runtime_upgrade R checks s of
        (Inl _, _) \<Rightarrow> None
      | (Inr weight, t) \<Rightarrow> Some ((weight, max_block), t))"

definition try_execute_block ::
  "('s, 'x, 'weight, 'perbill, 'apis) runtime_fns \<Rightarrow> 'x \<Rightarrow> bool \<Rightarrow> bool \<Rightarrow> 'x \<Rightarrow> 's \<Rightarrow> ('weight \<times> 's) option"
where
  "try_execute_block R block state_root_check signature_check sel s =
     (case executive_try_execute_block R block state_root_check signature_check sel s of
        (Inl _, _) \<Rightarrow> None
      | (Inr weight, t) \<Rightarrow> Some (weight, t))"

text \<open>
  \<open>define_benchmarks!\<close>: the benchmarked pallets by name, each with the pallet of the runtime
  it stands for; the macros list or run them in this order.
\<close>

definition benchmarked_pallets :: "(string \<times> runtime_pallet) list" where
  "benchmarked_pallets =
     [(''frame_system'', System), (''pallet_balances'', BalancesPallet), (''pallet_session'', Session),
      (''pallet_timestamp'', Timestamp), (''pallet_message_queue'', MessageQueue), (''pallet_sudo'', Sudo),
      (''pallet_collator_selection'', CollatorSelection),
      (''cumulus_pallet_parachain_system'', ParachainSystem), (''cumulus_pallet_xcmp_queue'', XcmpQueue),
      (''cumulus_pallet_weight_reclaim'', WeightReclaim)]"

definition benchmark_metadata ::
  "(bool \<Rightarrow> string \<times> runtime_pallet \<Rightarrow> 'l) \<Rightarrow> 'i list \<Rightarrow> bool \<Rightarrow> 'l list \<times> 'i list"
where
  "benchmark_metadata list_benchmark storage_info extra =
     (map (list_benchmark extra) benchmarked_pallets, storage_info)"

fun add_benchmarks :: "('p \<Rightarrow> string + 'b list) \<Rightarrow> 'p list \<Rightarrow> string + 'b list" where
  "add_benchmarks run_one [] = Inr []"
| "add_benchmarks run_one (p # ps) =
     (case run_one p of
        Inl e \<Rightarrow> Inl e
      | Inr bs \<Rightarrow> (case add_benchmarks run_one ps of Inl e \<Rightarrow> Inl e | Inr rest \<Rightarrow> Inr (bs @ rest)))"

definition dispatch_benchmark ::
  "('cfg \<Rightarrow> 'wl \<Rightarrow> string \<times> runtime_pallet \<Rightarrow> string + 'b list) \<Rightarrow> 'wl \<Rightarrow> 'cfg \<Rightarrow> string + 'b list"
where
  "dispatch_benchmark add_benchmark whitelist config =
     (case add_benchmarks (add_benchmark config whitelist) benchmarked_pallets of
        Inl e \<Rightarrow> Inl e
      | Inr batches \<Rightarrow> if batches = [] then Inl ''Benchmark not found for this pallet.'' else Inr batches)"

text \<open>The two hooks that the benchmark of a runtime upgrade needs; a failed assertion is \<open>None\<close>.\<close>

definition setup_set_code_requirements :: "(32 word \<Rightarrow> 's \<Rightarrow> 's) \<Rightarrow> 8 word list \<Rightarrow> ('s, 'e, unit) op" where
  "setup_set_code_requirements initialize_for_set_code_benchmark code s =
     (Inr (), initialize_for_set_code_benchmark (of_nat (length code)) s)"

definition verify_set_code :: "('event \<Rightarrow> 's \<Rightarrow> bool) \<Rightarrow> 'event \<Rightarrow> 's \<Rightarrow> unit option" where
  "verify_set_code is_last_event ValidationFunctionStored s =
     (if is_last_event ValidationFunctionStored s then Some () else None)"

section \<open>Genesis and parachain\<close>

record ('s, 'x) GenesisBuilderApi =
  api_build_state :: "8 word list \<Rightarrow> 's \<Rightarrow> ('x + unit) \<times> 's"
  api_get_preset :: "string option \<Rightarrow> 8 word list option"
  api_preset_names :: "string list"

definition genesis_builder_api ::
  "('s, 'x, 'weight, 'perbill, 'apis) runtime_fns \<Rightarrow> preset_ids \<Rightarrow> 32 word
     \<Rightarrow> (('acc, 'aura) RuntimeGenesisConfig \<Rightarrow> 8 word list) \<Rightarrow> ('acc, 'aura) keyring \<Rightarrow> ('s, 'x) GenesisBuilderApi"
where
  "genesis_builder_api R ids XCM_VERSION to_json K = \<lparr>
     api_build_state = build_state_of R,
     api_get_preset = (\<lambda>preset. get_preset_or_default R preset (get_preset ids XCM_VERSION to_json K)),
     api_preset_names = preset_names ids\<rparr>"

definition api_parachain_id :: "('s, 'x, 'weight, 'perbill, 'apis) runtime_fns \<Rightarrow> 's \<Rightarrow> 32 word" where
  "api_parachain_id R = parachain_info_id R"

section \<open>The fee queries\<close>

text \<open>
  What the transaction payment pallet makes of its configuration: a length is charged by
  \<open>LengthToFee\<close>, and \<open>ConstantMultiplier\<close> multiplies with saturation.
\<close>

locale fee_queries =
  fixes R :: "('s, 'x, 'weight, 'perbill, 'apis) runtime_fns"
    and constant_multiplier :: "128 word \<Rightarrow> 64 word \<Rightarrow> 128 word"
  assumes length_fee: "payment_length_to_fee R cfg len s = pay_LengthToFee cfg (ucast len)"
    and multiplier: "constant_multiplier c n = saturating_mul c (ucast n)"
begin

lemma length_fee_exact:
  "unat (payment_length_to_fee R (transaction_payment_Config A from_rational constant_multiplier) len s)
     = unat len * (10 * unat MICRO_UNIT)"
proof -
  have bound: "unat len < 2 ^ 32" using unsigned_less [where 'a = nat, of len] by simp
  have "unat (ucast (ucast len :: 64 word) :: 128 word) = unat len"
    using bound by (subst ucast_up_ucast) (simp_all add: is_up unsigned_ucast_eq take_bit_nat_eq_self_iff)
  with bound show ?thesis
    by (simp add: length_fee transaction_payment_Config_def multiplier unat_saturating_mul
        TransactionByteFee_def currency_defs)
qed

end

text \<open>Runtime functions with these laws; everything else answers with a constant.\<close>

definition demo_runtime :: "(unit, nat, 64 word \<times> 64 word, nat, unit) runtime_fns" where
  "demo_runtime = \<lparr>
     aura_authorities = (\<lambda>_. [1]), fixed_velocity_can_build_upon = (\<lambda>_ _ _ _ _ _. True), RUNTIME_API_VERSIONS = (),
     executive_execute_block = (\<lambda>_. Some), executive_initialize_block = Pair, executive_apply_extrinsic = (\<lambda>x s. (Inr x, s)),
     executive_finalize_block = Pair 0, executive_validate_transaction = (\<lambda>_ tx _ _. Inr tx),
     executive_offchain_worker = (\<lambda>_. id), executive_try_runtime_upgrade = (\<lambda>_ s. (Inr (0, 0), s)),
     executive_try_execute_block = (\<lambda>_ _ _ _ s. (Inr (0, 0), s)), runtime_metadata = 0, opaque_metadata_new = id,
     runtime_metadata_at_version = (\<lambda>_. None), runtime_metadata_versions = [], runtime_execute_view_function = (\<lambda>_ x _. Inr x),
     inherent_create_extrinsics = (\<lambda>_ _. []), inherent_check_extrinsics = (\<lambda>x _ _. x),
     session_keys_generate = (\<lambda>_. Pair 0), session_keys_decode = (\<lambda>_. None), system_account_nonce = (\<lambda>_ _. 0),
     payment_query_info = (\<lambda>x _ _. x), payment_query_fee_details = (\<lambda>x _ _. x),
     payment_query_call_info = (\<lambda>x _ _. x), payment_query_call_fee_details = (\<lambda>x _ _. x),
     payment_weight_to_fee = (\<lambda>_ _ _. 0), payment_length_to_fee = (\<lambda>cfg len _. pay_LengthToFee cfg (ucast len)),
     collect_collation_info_of = (\<lambda>x _. x), build_state_of = (\<lambda>_ s. (Inr (), s)),
     get_preset_or_default = (\<lambda>preset f. case preset of None \<Rightarrow> Some [] | Some p \<Rightarrow> f p),
     parachain_info_id = (\<lambda>_. 1000)\<rparr>"

interpretation demo_runtime: fee_queries demo_runtime "\<lambda>c n. saturating_mul c (ucast n)"
  by unfold_locales (simp_all add: demo_runtime_def)

section \<open>Properties\<close>

text \<open>
  The fee queries are exact.  Both fee APIs answer the same for lengths and for weights, a
  length costs ten \<open>MICRO_UNIT\<close> per byte for every \<open>u32\<close> length without saturation,
  and so of two lengths the greater costs more.
\<close>

theorem fee_queries_exact:
  assumes "fee_queries R constant_multiplier"
    and "cfg = transaction_payment_Config A from_rational constant_multiplier"
  shows "query_length_to_fee (transaction_payment_api R cfg) = call_query_length_to_fee (transaction_payment_call_api R cfg)
    \<and> query_weight_to_fee (transaction_payment_api R cfg) = call_query_weight_to_fee (transaction_payment_call_api R cfg)
    \<and> unat (query_length_to_fee (transaction_payment_api R cfg) len s) = unat len * 10 * unat MICRO_UNIT
    \<and> (query_length_to_fee (transaction_payment_api R cfg) len s < query_length_to_fee (transaction_payment_api R cfg) len' s)
        = (len < len')"
proof -
  note exact = fee_queries.length_fee_exact [OF assms(1)]
  have "0 < unat MICRO_UNIT" by (simp add: currency_defs)
  then show ?thesis
    by (simp add: assms(2) transaction_payment_api_def transaction_payment_call_api_def exact word_less_nat_alt)
qed

theorem fee_queries_exact_witness:
  "unat (query_length_to_fee (transaction_payment_api demo_runtime
      (transaction_payment_Config pair_weights (\<lambda>p q. 0) (\<lambda>c n. saturating_mul c (ucast n)))) 4294967295 ())
     = 4294967295 * 10 * unat MICRO_UNIT"
  using fee_queries_exact [OF demo_runtime.fee_queries_axioms refl, of pair_weights "\<lambda>p q. 0" 4294967295 "()" 0,
      THEN conjunct2, THEN conjunct2, THEN conjunct1]
  by simp

end
