(* ===== verification/Subxt_Client.thy ===== *)
theory Subxt_Client
  imports Sponsor_Extension
begin

text \<open>
  The scripted client (\<^verbatim>\<open>examples/subxt-sponsor-client/src/main.rs\<close>): the payment
  extension it encodes, the parameter builder, the calls it submits, the state it queries, the
  event it looks for and the text it prints.  The SCALE codec, the dynamic values' accessors
  (\<open>at\<close>, \<open>as_u128\<close>, \<open>as_bool\<close>, the display form), the default parameter
  builder and the node's storage are not part of the repository and are arguments.
\<close>

section \<open>Constants\<close>

definition client_UNIT :: "128 word" where
  "client_UNIT = 1000000000000"

definition INITIAL_BUDGET :: "128 word" where
  "INITIAL_BUDGET = 2 * client_UNIT"

definition MAX_FEE_PER_TX :: "128 word" where
  "MAX_FEE_PER_TX = client_UNIT div 2"

definition TIP :: "128 word" where
  "TIP = 0"

section \<open>The extension of the signed payload\<close>

record 'acc ClientExtension =
  ext_tip :: "128 word"
  ext_sponsor :: "'acc option"

record 'acc SponsoredParams =
  param_tip :: "128 word"
  param_sponsor :: "'acc option"

definition client_matches :: "string \<Rightarrow> bool" where
  "client_matches identifier \<longleftrightarrow> identifier = ''SponsoredChargeTransactionPayment''"

definition client_extension_new :: "'acc SponsoredParams \<Rightarrow> 'e + 'acc ClientExtension" where
  "client_extension_new params = Inr \<lparr>ext_tip = param_tip params, ext_sponsor = param_sponsor params\<rparr>"

text \<open>\<open>encode_value_to\<close> appends to the buffer: the compact tip, then the sponsor.\<close>

definition encode_value_to ::
  "(128 word \<Rightarrow> 8 word list) \<Rightarrow> ('acc option \<Rightarrow> 8 word list) \<Rightarrow> 'acc ClientExtension \<Rightarrow> 8 word list \<Rightarrow> 8 word list"
where
  "encode_value_to enc_compact enc_option self v = (v @ enc_compact (ext_tip self)) @ enc_option (ext_sponsor self)"

text \<open>
  The runtime's side: the derived decoder of \<open>SponsoredChargeTransactionPayment\<close> reads the
  fields in the order of the declaration, the tip in compact form; the marker takes no bytes.
\<close>

definition decode_extension ::
  "(8 word list \<Rightarrow> (128 word \<times> 8 word list) option) \<Rightarrow> (8 word list \<Rightarrow> ('acc option \<times> 8 word list) option)
     \<Rightarrow> 8 word list \<Rightarrow> (('acc, 128 word) SponsoredChargeTransactionPayment \<times> 8 word list) option"
where
  "decode_extension dec_compact dec_option bs =
     (case dec_compact bs of
        None \<Rightarrow> None
      | Some (t, rest) \<Rightarrow> (case dec_option rest of
          None \<Rightarrow> None
        | Some (sp, rest') \<Rightarrow> Some (new t sp, rest')))"

section \<open>The parameter builder\<close>

text \<open>What the builder uses of \<open>DefaultExtrinsicParamsBuilder\<close>.\<close>

record ('d, 'p1, 'p2, 'p3, 'p4, 'p5, 'p6, 'p7, 'p8, 'p9) default_params_api =
  default_builder :: 'd
  set_tip :: "128 word \<Rightarrow> 'd \<Rightarrow> 'd"
  set_nonce :: "64 word \<Rightarrow> 'd \<Rightarrow> 'd"
  set_mortal :: "64 word \<Rightarrow> 'd \<Rightarrow> 'd"
  set_immortal :: "'d \<Rightarrow> 'd"
  build_default :: "'d \<Rightarrow> 'p1 \<times> 'p2 \<times> 'p3 \<times> 'p4 \<times> 'p5 \<times> 'p6 \<times> 'p7 \<times> 'p8 \<times> 'p9"

record ('d, 'acc) SponsoredParamsBuilder =
  inner :: 'd
  builder_tip :: "128 word"
  builder_sponsor :: "'acc option"

definition builder_new :: "('d, 'p1, 'p2, 'p3, 'p4, 'p5, 'p6, 'p7, 'p8, 'p9) default_params_api \<Rightarrow> ('d, 'acc) SponsoredParamsBuilder" where
  "builder_new D = \<lparr>inner = default_builder D, builder_tip = 0, builder_sponsor = None\<rparr>"

datatype 'acc builder_call =
    SetSponsor 'acc
  | SetUnsponsored
  | SetTip "128 word"
  | SetNonce "64 word"
  | SetMortal "64 word"
  | SetImmortal

fun builder_step ::
  "('d, 'p1, 'p2, 'p3, 'p4, 'p5, 'p6, 'p7, 'p8, 'p9) default_params_api \<Rightarrow> 'acc builder_call
     \<Rightarrow> ('d, 'acc) SponsoredParamsBuilder \<Rightarrow> ('d, 'acc) SponsoredParamsBuilder"
where
  "builder_step D (SetSponsor a) b = b\<lparr>builder_sponsor := Some a\<rparr>"
| "builder_step D SetUnsponsored b = b\<lparr>builder_sponsor := None\<rparr>"
| "builder_step D (SetTip t) b = b\<lparr>builder_tip := t, inner := set_tip D t (inner b)\<rparr>"
| "builder_step D (SetNonce n) b = b\<lparr>inner := set_nonce D n (inner b)\<rparr>"
| "builder_step D (SetMortal n) b = b\<lparr>inner := set_mortal D n (inner b)\<rparr>"
| "builder_step D SetImmortal b = b\<lparr>inner := set_immortal D (inner b)\<rparr>"

definition builder_build ::
  "('d, 'p1, 'p2, 'p3, 'p4, 'p5, 'p6, 'p7, 'p8, 'p9) default_params_api \<Rightarrow> ('d, 'acc) SponsoredParamsBuilder
     \<Rightarrow> 'p1 \<times> 'p2 \<times> 'p3 \<times> 'p4 \<times> 'p5 \<times> 'p6 \<times> 'p7 \<times> 'acc SponsoredParams \<times> 'p9"
where
  "builder_build D b =
     (case build_default D (inner b) of
        (verify_signature, check_spec_version, check_tx_version, check_nonce, check_genesis,
         check_mortality, charge_asset_tx_payment, _, check_metadata_hash) \<Rightarrow>
        (verify_signature, check_spec_version, check_tx_version, check_nonce, check_genesis,
         check_mortality, charge_asset_tx_payment,
         \<lparr>param_tip = builder_tip b, param_sponsor = builder_sponsor b\<rparr>, check_metadata_hash))"

text \<open>The sponsor and the tip that a chain of builder calls leaves.\<close>

fun last_sponsor :: "'acc builder_call list \<Rightarrow> 'acc option \<Rightarrow> 'acc option" where
  "last_sponsor [] sp = sp"
| "last_sponsor (SetSponsor a # cs) sp = last_sponsor cs (Some a)"
| "last_sponsor (SetUnsponsored # cs) sp = last_sponsor cs None"
| "last_sponsor (_ # cs) sp = last_sponsor cs sp"

fun last_tip :: "'acc builder_call list \<Rightarrow> 128 word \<Rightarrow> 128 word" where
  "last_tip [] t = t"
| "last_tip (SetTip t' # cs) t = last_tip cs t'"
| "last_tip (_ # cs) t = last_tip cs t"

lemma builder_fold:
  "builder_sponsor (fold (builder_step D) cs b) = last_sponsor cs (builder_sponsor b)"
  "builder_tip (fold (builder_step D) cs b) = last_tip cs (builder_tip b)"
proof -
  have "builder_sponsor (fold (builder_step D) cs b) = last_sponsor cs (builder_sponsor b)
      \<and> builder_tip (fold (builder_step D) cs b) = last_tip cs (builder_tip b)"
  proof (induction cs arbitrary: b)
    case (Cons c cs)
    then show ?case by (cases c) simp_all
  qed simp
  then show "builder_sponsor (fold (builder_step D) cs b) = last_sponsor cs (builder_sponsor b)"
    and "builder_tip (fold (builder_step D) cs b) = last_tip cs (builder_tip b)" by simp_all
qed

section \<open>Dynamic values\<close>

text \<open>\<open>scale_value::ValueDef\<close> with the constructors that the client matches on and builds.\<close>

datatype value_primitive = PrimBool bool | PrimU128 "128 word" | PrimOther

datatype scale_value =
    NamedComposite "(string \<times> scale_value) list"
  | UnnamedComposite "scale_value list"
  | NamedVariant string "(string \<times> scale_value) list"
  | UnnamedVariant string "scale_value list"
  | BitSequence "bool list"
  | PrimitiveValue value_primitive

record value_api =
  value_at :: "string \<Rightarrow> scale_value \<Rightarrow> scale_value option"
  as_u128 :: "scale_value \<Rightarrow> 128 word option"
  as_bool :: "scale_value \<Rightarrow> bool option"
  display :: "scale_value \<Rightarrow> string"
  from_bytes :: "8 word list \<Rightarrow> scale_value"

definition client_register_sponsor_call ::
  "value_api \<Rightarrow> ('acc \<Rightarrow> 8 word list) \<Rightarrow> 'acc list \<Rightarrow> 128 word \<Rightarrow> 128 word
     \<Rightarrow> string \<times> string \<times> scale_value list"
where
  "client_register_sponsor_call V bytes callers initial_budget max_fee =
     (let p = NamedComposite
            [(''allowed_callers'', UnnamedComposite (map (\<lambda>account. from_bytes V (bytes account)) callers)),
             (''max_fee_per_tx'', PrimitiveValue (PrimU128 max_fee))]
      in (''SponsoredTx'', ''register_sponsor'', [PrimitiveValue (PrimU128 initial_budget), p]))"

definition sponsored_remark_call :: "value_api \<Rightarrow> 8 word list \<Rightarrow> string \<times> string \<times> scale_value list" where
  "sponsored_remark_call V remark = (''System'', ''remark'', [from_bytes V remark])"

definition client_pause_call :: "string \<times> string \<times> scale_value list" where
  "client_pause_call = (''SponsoredTx'', ''pause'', [])"

text \<open>\<open>str::contains\<close>.\<close>

fun contains :: "string \<Rightarrow> string \<Rightarrow> bool" where
  "contains [] sub \<longleftrightarrow> sub = []"
| "contains (c # cs) sub \<longleftrightarrow> take (length sub) (c # cs) = sub \<or> contains cs sub"

text \<open>The amounts of one value, before its children are visited.\<close>

definition collect_here :: "value_api \<Rightarrow> scale_value \<Rightarrow> 128 word \<times> 128 word \<Rightarrow> 128 word \<times> 128 word" where
  "collect_here V v acc =
     (case value_at V ''amount'' v of
        None \<Rightarrow> acc
      | Some a \<Rightarrow> (case as_u128 V a of
          None \<Rightarrow> acc
        | Some amount \<Rightarrow>
            let reason = (case value_at V ''id'' v of None \<Rightarrow> '''' | Some i \<Rightarrow> display V i) in
            if contains reason ''SponsorshipBudget'' then (amount, snd acc)
            else if contains reason ''SponsorshipPending'' then (fst acc, amount)
            else acc))"

text \<open>
  The recursion, with what is done at each value as an argument: the value itself first, then its
  children one after the other.
\<close>

fun walk :: "(scale_value \<Rightarrow> 'a \<Rightarrow> 'a) \<Rightarrow> scale_value \<Rightarrow> 'a \<Rightarrow> 'a" where
  "walk visit (NamedComposite values) acc = fold (\<lambda>kv. walk visit (snd kv)) values (visit (NamedComposite values) acc)"
| "walk visit (UnnamedComposite children) acc = fold (walk visit) children (visit (UnnamedComposite children) acc)"
| "walk visit (NamedVariant name values) acc = fold (\<lambda>kv. walk visit (snd kv)) values (visit (NamedVariant name values) acc)"
| "walk visit (UnnamedVariant name children) acc = fold (walk visit) children (visit (UnnamedVariant name children) acc)"
| "walk visit (BitSequence bits) acc = visit (BitSequence bits) acc"
| "walk visit (PrimitiveValue p) acc = visit (PrimitiveValue p) acc"

definition collect_sponsor_holds :: "value_api \<Rightarrow> scale_value \<Rightarrow> 128 word \<times> 128 word \<Rightarrow> 128 word \<times> 128 word" where
  "collect_sponsor_holds V = walk (collect_here V)"

section \<open>Queries\<close>

datatype 'e client_error = Upstream 'e | MissingValue string

record DemoState =
  sponsor_active :: "bool option"
  alice_free :: "128 word"
  bob_free :: "128 word"
  budget_hold :: "128 word"
  pending_hold :: "128 word"

text \<open>
  \<open>fetch\<close> reads the latest storage under a pallet and item name and an account key,
  \<open>to_value\<close> decodes what it returned.  Both can fail; the context a failure is wrapped in
  does not change which branch is taken.
\<close>

definition account_free_balance ::
  "value_api \<Rightarrow> (string \<Rightarrow> string \<Rightarrow> 'acc \<Rightarrow> 'e + 'raw option) \<Rightarrow> ('raw \<Rightarrow> 'e + scale_value) \<Rightarrow> 'acc
     \<Rightarrow> 'e client_error + 128 word"
where
  "account_free_balance V fetch to_value account =
     (case fetch ''System'' ''Account'' account of
        Inl e \<Rightarrow> Inl (Upstream e)
      | Inr None \<Rightarrow> Inl (MissingValue ''account storage missing'')
      | Inr (Some raw) \<Rightarrow> (case to_value raw of
          Inl e \<Rightarrow> Inl (Upstream e)
        | Inr v \<Rightarrow> (case Option.bind (Option.bind (value_at V ''data'' v) (value_at V ''free'')) (as_u128 V) of
            None \<Rightarrow> Inl (MissingValue ''free balance missing from System::Account'')
          | Some n \<Rightarrow> Inr n)))"

definition sponsor_holds ::
  "value_api \<Rightarrow> (string \<Rightarrow> string \<Rightarrow> 'acc \<Rightarrow> 'e + 'raw option) \<Rightarrow> ('raw \<Rightarrow> 'e + scale_value) \<Rightarrow> 'acc
     \<Rightarrow> 'e client_error + (128 word \<times> 128 word)"
where
  "sponsor_holds V fetch to_value account =
     (case fetch ''Balances'' ''Holds'' account of
        Inl e \<Rightarrow> Inl (Upstream e)
      | Inr None \<Rightarrow> Inr (0, 0)
      | Inr (Some raw) \<Rightarrow> (case to_value raw of
          Inl e \<Rightarrow> Inl (Upstream e)
        | Inr v \<Rightarrow> Inr (collect_sponsor_holds V v (0, 0))))"

definition query_demo_state ::
  "value_api \<Rightarrow> (string \<Rightarrow> string \<Rightarrow> 'acc \<Rightarrow> 'e + 'raw option) \<Rightarrow> ('raw \<Rightarrow> 'e + scale_value) \<Rightarrow> 'acc \<Rightarrow> 'acc
     \<Rightarrow> 'e client_error + DemoState"
where
  "query_demo_state V fetch to_value spons sponsored_user =
     (case fetch ''SponsoredTx'' ''Sponsors'' spons of
        Inl e \<Rightarrow> Inl (Upstream e)
      | Inr stored \<Rightarrow>
     (case (case stored of None \<Rightarrow> Inr None | Some raw \<Rightarrow> map_sum id Some (to_value raw)) of
        Inl e \<Rightarrow> Inl (Upstream e)
      | Inr v \<Rightarrow>
          let is_active = Option.bind v (\<lambda>x. Option.bind (value_at V ''active'' x) (as_bool V)) in
     (case account_free_balance V fetch to_value spons of
        Inl e \<Rightarrow> Inl e
      | Inr alice \<Rightarrow>
     (case account_free_balance V fetch to_value sponsored_user of
        Inl e \<Rightarrow> Inl e
      | Inr bob \<Rightarrow>
     (case sponsor_holds V fetch to_value spons of
        Inl e \<Rightarrow> Inl e
      | Inr (b, p) \<Rightarrow> Inr \<lparr>sponsor_active = is_active, alice_free = alice, bob_free = bob,
                           budget_hold = b, pending_hold = p\<rparr>)))))"

section \<open>The settlement event\<close>

record SponsoredFeePaid =
  paid_actual_fee :: "128 word"
  paid_tip :: "128 word"

record 'e client_event =
  pallet_name :: string
  variant_name :: string
  field_values :: "'e + scale_value"

datatype 'e find_error = EventError 'e | FieldMissing string | EventNotFound

fun find_sponsored_fee_paid ::
  "value_api \<Rightarrow> ('e + 'e client_event) list \<Rightarrow> 'e find_error + SponsoredFeePaid"
where
  "find_sponsored_fee_paid V [] = Inl EventNotFound"
| "find_sponsored_fee_paid V (Inl e # rest) = Inl (EventError e)"
| "find_sponsored_fee_paid V (Inr ev # rest) =
     (if pallet_name ev = ''SponsoredTx'' \<and> variant_name ev = ''SponsoredTransactionFeePaid'' then
        (case field_values ev of
           Inl e \<Rightarrow> Inl (EventError e)
         | Inr values \<Rightarrow>
        (case Option.bind (value_at V ''actual_fee'' values) (as_u128 V) of
           None \<Rightarrow> Inl (FieldMissing ''actual_fee'')
         | Some fee \<Rightarrow>
        (case Option.bind (value_at V ''tip'' values) (as_u128 V) of
           None \<Rightarrow> Inl (FieldMissing ''tip'')
         | Some t \<Rightarrow> Inr \<lparr>paid_actual_fee = fee, paid_tip = t\<rparr>)))
      else find_sponsored_fee_paid V rest)"

section \<open>Printing\<close>

fun format_active :: "bool option \<Rightarrow> string" where
  "format_active (Some True) = ''yes''"
| "format_active (Some False) = ''paused''"
| "format_active None = ''not registered''"

text \<open>The decimal form of an unsigned integer, and the same padded with zeros to a width.\<close>

definition digit_char :: "nat \<Rightarrow> char" where
  "digit_char d = char_of (48 + d)"

fun decimal :: "nat \<Rightarrow> string" where
  "decimal n = (if n < 10 then [digit_char n] else decimal (n div 10) @ [digit_char (n mod 10)])"

definition padded :: "nat \<Rightarrow> nat \<Rightarrow> string" where
  "padded w n = replicate (w - length (decimal n)) (digit_char 0) @ decimal n"

definition format_balance :: "128 word \<Rightarrow> string" where
  "format_balance planck =
     (let whole = planck div client_UNIT;
          frac = (planck mod client_UNIT) div 100000000
      in decimal (unat whole) @ ''.'' @ padded 4 (unat frac) @ '' UNIT'')"

definition print_demo_state :: "string \<Rightarrow> DemoState \<Rightarrow> string list" where
  "print_demo_state label state =
     [label,
      ''  sponsor active: '' @ format_active (sponsor_active state),
      ''  Alice free: '' @ format_balance (alice_free state),
      ''  Bob free: '' @ format_balance (bob_free state),
      ''  Alice SponsorshipBudget hold: '' @ format_balance (budget_hold state),
      ''  Alice SponsorshipPending hold: '' @ format_balance (pending_hold state)]"

section \<open>Decimal text\<close>


lemma digit_char_value [simp]: "d < 10 \<Longrightarrow> of_char (digit_char d) = 48 + d"
  by (simp add: digit_char_def)

declare decimal.simps [simp del]






section \<open>The codec\<close>

locale scale_codec =
  fixes enc_compact :: "128 word \<Rightarrow> 8 word list"
    and dec_compact :: "8 word list \<Rightarrow> (128 word \<times> 8 word list) option"
    and enc_option :: "'acc option \<Rightarrow> 8 word list"
    and dec_option :: "8 word list \<Rightarrow> ('acc option \<times> 8 word list) option"
  assumes compact_roundtrip: "dec_compact (enc_compact n @ rest) = Some (n, rest)"
    and option_roundtrip: "dec_option (enc_option sp @ rest) = Some (sp, rest)"
begin

lemma extension_roundtrip:
  "decode_extension dec_compact dec_option (encode_value_to enc_compact enc_option e [] @ rest)
     = Some (new (ext_tip e) (ext_sponsor e), rest)"
  by (simp add: decode_extension_def encode_value_to_def compact_roundtrip option_roundtrip)

end

text \<open>A fixed-width codec that has the laws: little-endian bytes, and a tag byte for an option.\<close>

fun le_bytes :: "nat \<Rightarrow> nat \<Rightarrow> 8 word list" where
  "le_bytes 0 n = []"
| "le_bytes (Suc k) n = of_nat n # le_bytes k (n div 256)"

fun le_value :: "8 word list \<Rightarrow> nat" where
  "le_value [] = 0"
| "le_value (b # bs) = unat b + 256 * le_value bs"

lemma le_roundtrip: "le_value (le_bytes k n) = n mod 256 ^ k"
proof (induction k arbitrary: n)
  case (Suc k)
  have "unat (of_nat n :: 8 word) = n mod 256"
    by (simp add: unat_of_nat)
  then show ?case using Suc [of "n div 256"] by (simp add: mod_mult2_eq)
qed simp

lemma length_le_bytes [simp]: "length (le_bytes k n) = k"
  by (induction k arbitrary: n) simp_all

definition plain_enc_option :: "32 word option \<Rightarrow> 8 word list" where
  "plain_enc_option sp = (case sp of None \<Rightarrow> [0] | Some a \<Rightarrow> 1 # le_bytes 4 (unat a))"

definition plain_dec_option :: "8 word list \<Rightarrow> (32 word option \<times> 8 word list) option" where
  "plain_dec_option bs = (case bs of
       [] \<Rightarrow> None
     | t # rest \<Rightarrow> if t = 0 then Some (None, rest)
         else Some (Some (of_nat (le_value (take 4 rest))), drop 4 rest))"

interpretation plain_codec: scale_codec "\<lambda>n. le_bytes 16 (unat n)"
  "\<lambda>bs. Some (of_nat (le_value (take 16 bs)), drop 16 bs)" plain_enc_option plain_dec_option
proof unfold_locales
  have "unat n mod 256 ^ 16 = unat n" for n :: "128 word"
    using unsigned_less [where 'a = nat, of n] by simp
  then show "Some (of_nat (le_value (take 16 (le_bytes 16 (unat n) @ rest))), drop 16 (le_bytes 16 (unat n) @ rest))
      = Some (n, rest)" for n :: "128 word" and rest
    by (simp add: le_roundtrip)
  have "unat a mod 256 ^ 4 = unat a" for a :: "32 word"
    using unsigned_less [where 'a = nat, of a] by simp
  then show "plain_dec_option (plain_enc_option sp @ rest) = Some (sp, rest)" for sp rest
    by (cases sp) (simp_all add: plain_enc_option_def plain_dec_option_def le_roundtrip)
qed

section \<open>Reading the holds\<close>

text \<open>
  What the client relies on from the dynamic values: a field is found by name in a named
  composite, an unnamed variant has no named fields, and a 128-bit primitive reads as itself.
\<close>

locale dynamic_values =
  fixes V :: value_api
  assumes at_named: "value_at V k (NamedComposite vs) = map_of vs k"
    and at_unnamed: "value_at V k (UnnamedComposite us) = None" "value_at V k (UnnamedVariant n us) = None"
      "value_at V k (PrimitiveValue p) = None"
    and u128: "as_u128 V (PrimitiveValue (PrimU128 x)) = Some x"

text \<open>One entry of \<open>Balances::Holds\<close>: the reason, a variant of the pallet's variant, and the amount.\<close>

definition hold_id :: "string \<times> string \<Rightarrow> scale_value" where
  "hold_id r = UnnamedVariant (fst r) [UnnamedVariant (snd r) []]"

definition hold_entry :: "(string \<times> string) \<times> 128 word \<Rightarrow> scale_value" where
  "hold_entry h = NamedComposite [(''id'', hold_id (fst h)), (''amount'', PrimitiveValue (PrimU128 (snd h)))]"

definition hold_update :: "value_api \<Rightarrow> (string \<times> string) \<times> 128 word \<Rightarrow> 128 word \<times> 128 word \<Rightarrow> 128 word \<times> 128 word" where
  "hold_update V h acc =
     (if contains (display V (hold_id (fst h))) ''SponsorshipBudget'' then (snd h, snd acc)
      else if contains (display V (hold_id (fst h))) ''SponsorshipPending'' then (fst acc, snd h)
      else acc)"

context dynamic_values
begin

lemma collect_id [simp]: "collect_sponsor_holds V (hold_id r) acc = acc"
  by (simp add: collect_sponsor_holds_def hold_id_def collect_here_def at_unnamed)

lemma collect_entry: "collect_sponsor_holds V (hold_entry h) acc = hold_update V h acc"
  using collect_id [of "fst h"]
  by (simp add: collect_sponsor_holds_def hold_entry_def collect_here_def at_named at_unnamed u128 hold_update_def Let_def)

lemma collect_entries:
  "collect_sponsor_holds V (UnnamedComposite (map hold_entry hs)) acc = fold (hold_update V) hs acc"
proof -
  have "fold (collect_sponsor_holds V) (map hold_entry hs) acc = fold (hold_update V) hs acc" for acc
    by (induction hs arbitrary: acc) (simp_all add: collect_entry)
  then show ?thesis unfolding collect_sponsor_holds_def by (simp add: collect_here_def at_unnamed)
qed

end

text \<open>Accessors with these laws; the display form of a variant is its name and its values.\<close>

fun show_value :: "scale_value \<Rightarrow> string" where
  "show_value (UnnamedVariant n us) = n @ ''('' @ concat (map show_value us) @ '')''"
| "show_value _ = ''''"

fun named_fields :: "scale_value \<Rightarrow> (string \<times> scale_value) list" where
  "named_fields (NamedComposite vs) = vs"
| "named_fields (NamedVariant _ vs) = vs"
| "named_fields _ = []"

fun prim_u128 :: "scale_value \<Rightarrow> 128 word option" where
  "prim_u128 (PrimitiveValue (PrimU128 n)) = Some n"
| "prim_u128 _ = None"

fun prim_bool :: "scale_value \<Rightarrow> bool option" where
  "prim_bool (PrimitiveValue (PrimBool b)) = Some b"
| "prim_bool _ = None"

definition plain_values :: value_api where
  "plain_values = \<lparr>value_at = (\<lambda>k v. map_of (named_fields v) k), as_u128 = prim_u128, as_bool = prim_bool,
     display = show_value, from_bytes = (\<lambda>bs. UnnamedComposite (map (\<lambda>b. PrimitiveValue (PrimU128 (ucast b))) bs))\<rparr>"

interpretation plain_values: dynamic_values plain_values
  by unfold_locales (simp_all add: plain_values_def)

section \<open>Properties\<close>

text \<open>
  C29: client and runtime agree on the bytes.  Whatever calls a developer chains on the parameter
  builder, the encoded extension is decoded by the runtime's field order to the tip and the sponsor
  that were set last, zero and none where nothing was set, and nothing of the bytes that follow is
  consumed; the other eight extension parameters are the default builder's, and the client looks
  the extension up under the name the runtime gives it.
\<close>

theorem client_encoding_decodes_in_runtime:
  assumes "scale_codec enc_compact dec_compact enc_option dec_option"
    and "builder_build D (fold (builder_step D) calls (builder_new D))
      = (a1, a2, a3, a4, a5, a6, a7, params, a9)"
    and "client_extension_new params = Inr e"
  shows "decode_extension dec_compact dec_option (encode_value_to enc_compact enc_option e [] @ rest)
      = Some (new (last_tip calls 0) (last_sponsor calls None), rest)
    \<and> (\<exists>a8. build_default D (inner (fold (builder_step D) calls (builder_new D)))
      = (a1, a2, a3, a4, a5, a6, a7, a8, a9))
    \<and> client_matches IDENTIFIER"
proof -
  have "ext_tip e = last_tip calls 0" and "ext_sponsor e = last_sponsor calls None"
    using assms(2,3)
    by (auto simp: client_extension_new_def builder_build_def builder_fold builder_new_def split: prod.splits)
  then show ?thesis
    using scale_codec.extension_roundtrip [OF assms(1), of e rest] assms(2)
    by (auto simp: builder_build_def client_matches_def IDENTIFIER_def split: prod.splits)
qed

theorem client_encoding_decodes_in_runtime_witness:
  "decode_extension (\<lambda>bs. Some (of_nat (le_value (take 16 bs)), drop 16 bs)) plain_dec_option
      (encode_value_to (\<lambda>n. le_bytes 16 (unat n)) plain_enc_option \<lparr>ext_tip = 7, ext_sponsor = Some 3\<rparr> [] @ [9])
    = Some (new 7 (Some 3), [9])"
proof -
  let ?D = "\<lparr>default_builder = (), set_tip = (\<lambda>_ _. ()), set_nonce = (\<lambda>_ _. ()), set_mortal = (\<lambda>_ _. ()),
    set_immortal = (\<lambda>_. ()), build_default = (\<lambda>_. ((), (), (), (), (), (), (), (), ()))\<rparr>"
  show ?thesis
    using client_encoding_decodes_in_runtime [OF plain_codec.scale_codec_axioms, of ?D
        "[SetMortal 32, SetTip 5, SetSponsor 3, SetTip 7]" "()" "()" "()" "()" "()" "()" "()"
        "\<lparr>param_tip = 7, param_sponsor = Some 3\<rparr>" "()" "\<lparr>ext_tip = 7, ext_sponsor = Some 3\<rparr>" "[9]"]
    by (simp add: builder_build_def builder_new_def client_extension_new_def)
qed

text \<open>
  Reading the holds of a sponsor.  On the holds list of an account, the client's recursive
  search gives, starting from zero, the amount of the last entry whose reason mentions
  \<open>SponsorshipBudget\<close> and of the last other entry whose reason mentions
  \<open>SponsorshipPending\<close>; entries of other pallets are skipped.
\<close>

theorem client_reads_sponsor_holds:
  assumes "dynamic_values V" and "fetch ''Balances'' ''Holds'' account = Inr (Some raw)"
    and "to_value raw = Inr (UnnamedComposite (map hold_entry hs))"
  shows "sponsor_holds V fetch to_value account = Inr (fold (hold_update V) hs (0, 0))"
  by (simp add: sponsor_holds_def assms(2,3) dynamic_values.collect_entries [OF assms(1)])

theorem client_reads_sponsor_holds_witness:
  "sponsor_holds plain_values (\<lambda>_ _ _. Inr (Some ())) (\<lambda>_. Inr (UnnamedComposite (map hold_entry
      [((''SponsoredTx'', ''SponsorshipPending''), 18), ((''Session'', ''Keys''), 4),
       ((''SponsoredTx'', ''SponsorshipBudget''), 182)])) :: unit + scale_value) (1 :: nat) = Inr (182, 18)"
proof -
  note use = client_reads_sponsor_holds [OF plain_values.dynamic_values_axioms,
      of "\<lambda>_ _ _. Inr (Some ())" 1 "()" "\<lambda>_. Inr (UnnamedComposite (map hold_entry
      [((''SponsoredTx'', ''SponsorshipPending''), 18), ((''Session'', ''Keys''), 4),
       ((''SponsoredTx'', ''SponsorshipBudget''), 182)]))"]
  show ?thesis
    unfolding use [OF refl refl] by (simp add: hold_update_def hold_id_def plain_values_def)
qed


end
