(* ===== verification/Subxt_Main.thy ===== *)
theory Subxt_Main
  imports Subxt_Client
begin

text \<open>
  The script of the client (\<open>main\<close> of \<^verbatim>\<open>examples/subxt-sponsor-client/src/main.rs\<close>):
  connect, show the state, register the sponsor, send a sponsored remark and find its settlement
  event, pause the sponsor, and check that another sponsored remark is refused.  The node is an
  argument: the fields of \<open>node_api\<close> are what the script uses of the network client, each an
  operation on a network state \<open>'w\<close>.  What the script prints is recorded line by line.
\<close>

section \<open>The network client\<close>

type_synonym dynamic_call = "string \<times> string \<times> scale_value list"

record ('w, 'acc, 'key, 'ps, 'e, 'raw, 'tx) node_api =
  env_var :: "string \<Rightarrow> string option"
  from_url :: "string \<Rightarrow> ('w, 'e, unit) op"
  storage_at_latest :: "('w, 'e, string \<Rightarrow> string \<Rightarrow> 'acc \<Rightarrow> 'e + 'raw option) op"
  raw_to_value :: "'raw \<Rightarrow> 'e + scale_value"
  sign_and_submit_then_watch :: "dynamic_call \<Rightarrow> 'key \<Rightarrow> 'ps \<Rightarrow> ('w, 'e, 'tx) op"
  wait_for_finalized_success :: "'tx \<Rightarrow> ('w, 'e, ('e + 'e client_event) list) op"
  show_error :: "'e \<Rightarrow> string"

record ('acc, 'key) dev_keys =
  dev_alice :: 'key
  dev_bob :: 'key
  dev_charlie :: 'key
  account_of :: "'key \<Rightarrow> 'acc"
  account_bytes :: "'acc \<Rightarrow> 8 word list"

datatype 'e main_error =
    RpcError 'e
  | QueryError "'e client_error"
  | EventSearchError "'e find_error"
  | UnexpectedSuccess

record 'w client_session =
  network :: 'w
  printed :: "string list"

type_synonym ('w, 'e, 'a) script = "('w client_session, 'e main_error, 'a) op"

definition println :: "string \<Rightarrow> ('w, 'e, unit) script" where
  "println line = modify (\<lambda>s. s\<lparr>printed := printed s @ [line]\<rparr>)"

definition rpc :: "('w, 'e, 'a) op \<Rightarrow> ('w, 'e, 'a) script" where
  "rpc m s = (case m (network s) of
      (Inl e, w) \<Rightarrow> (Inl (RpcError e), s\<lparr>network := w\<rparr>)
    | (Inr x, w) \<Rightarrow> (Inr x, s\<lparr>network := w\<rparr>))"

section \<open>Steps of the script\<close>

definition read_demo_state ::
  "value_api \<Rightarrow> ('w, 'acc, 'key, 'ps, 'e, 'raw, 'tx) node_api \<Rightarrow> 'acc \<Rightarrow> 'acc \<Rightarrow> ('w, 'e, DemoState) script"
where
  "read_demo_state V N spons user =
     and_then (rpc (storage_at_latest N)) (\<lambda>fetch.
       of_result (map_sum QueryError id (query_demo_state V fetch (raw_to_value N) spons user)))"

definition show_demo_state ::
  "value_api \<Rightarrow> ('w, 'acc, 'key, 'ps, 'e, 'raw, 'tx) node_api \<Rightarrow> 'acc \<Rightarrow> 'acc \<Rightarrow> string \<Rightarrow> ('w, 'e, unit) script"
where
  "show_demo_state V N spons user label =
     and_then (read_demo_state V N spons user) (\<lambda>state.
       modify (\<lambda>s. s\<lparr>printed := printed s @ print_demo_state label state\<rparr>))"

definition submit_finalized ::
  "('w, 'acc, 'key, 'ps, 'e, 'raw, 'tx) node_api \<Rightarrow> dynamic_call \<Rightarrow> 'key \<Rightarrow> 'ps
     \<Rightarrow> ('w, 'e, ('e + 'e client_event) list) script"
where
  "submit_finalized N call key params =
     and_then (rpc (sign_and_submit_then_watch N call key params)) (\<lambda>tx. rpc (wait_for_finalized_success N tx))"

text \<open>The last transaction: it is an error of the demo if it succeeds, and its refusal is printed.\<close>

definition expect_rejection ::
  "('w, 'acc, 'key, 'ps, 'e, 'raw, 'tx) node_api \<Rightarrow> dynamic_call \<Rightarrow> 'key \<Rightarrow> 'ps \<Rightarrow> ('w, 'e, unit) script"
where
  "expect_rejection N call key params s =
     (case sign_and_submit_then_watch N call key params (network s) of
        (Inl e, w) \<Rightarrow> println (''  Rejected as expected: '' @ show_error N e) (s\<lparr>network := w\<rparr>)
      | (Inr tx, w) \<Rightarrow> (case wait_for_finalized_success N tx w of
          (Inr _, w') \<Rightarrow> (Inl UnexpectedSuccess, s\<lparr>network := w'\<rparr>)
        | (Inl e, w') \<Rightarrow> println (''  Rejected as expected: '' @ show_error N e) (s\<lparr>network := w'\<rparr>)))"

definition build_params ::
  "('d, 'p1, 'p2, 'p3, 'p4, 'p5, 'p6, 'p7, 'p8, 'p9) default_params_api \<Rightarrow> 'acc builder_call list
     \<Rightarrow> 'p1 \<times> 'p2 \<times> 'p3 \<times> 'p4 \<times> 'p5 \<times> 'p6 \<times> 'p7 \<times> 'acc SponsoredParams \<times> 'p9"
where
  "build_params D calls = builder_build D (fold (builder_step D) calls (builder_new D))"

definition newline :: char where
  "newline = CHR 0x0A"

text \<open>The byte strings of the two remarks.\<close>

definition bytes_of :: "string \<Rightarrow> 8 word list" where
  "bytes_of = map (\<lambda>c. of_nat (of_char c))"

definition connect_step ::
  "('w, 'acc, 'key, 'ps, 'e, 'raw, 'tx) node_api \<Rightarrow> ('w, 'e, unit) script"
where
  "connect_step N =
     (let url = (case env_var N ''SPONSORED_TX_RPC_URL'' of None \<Rightarrow> ''ws://127.0.0.1:9944'' | Some u \<Rightarrow> u)
      in and_then (println (''1. Connecting to '' @ url)) (\<lambda>_. rpc (from_url N url)))"

definition register_step ::
  "value_api \<Rightarrow> ('d, 'p1, 'p2, 'p3, 'p4, 'p5, 'p6, 'p7, 'p8, 'p9) default_params_api \<Rightarrow> ('acc, 'key) dev_keys
     \<Rightarrow> ('w, 'acc, 'key, 'p1 \<times> 'p2 \<times> 'p3 \<times> 'p4 \<times> 'p5 \<times> 'p6 \<times> 'p7 \<times> 'acc SponsoredParams \<times> 'p9, 'e, 'raw, 'tx) node_api
     \<Rightarrow> ('w, 'e, unit) script"
where
  "register_step V D K N =
     and_then (println (newline # ''2. Registering Alice as sponsor (unsponsored tx)'')) (\<lambda>_.
     and_then (submit_finalized N
         (client_register_sponsor_call V (account_bytes K)
            [account_of K (dev_bob K), account_of K (dev_charlie K)] INITIAL_BUDGET MAX_FEE_PER_TX)
         (dev_alice K) (build_params D [SetMortal 32, SetUnsponsored]))
       (\<lambda>_. ok ()))"

definition sponsored_remark_step ::
  "value_api \<Rightarrow> ('d, 'p1, 'p2, 'p3, 'p4, 'p5, 'p6, 'p7, 'p8, 'p9) default_params_api \<Rightarrow> ('acc, 'key) dev_keys
     \<Rightarrow> ('w, 'acc, 'key, 'p1 \<times> 'p2 \<times> 'p3 \<times> 'p4 \<times> 'p5 \<times> 'p6 \<times> 'p7 \<times> 'acc SponsoredParams \<times> 'p9, 'e, 'raw, 'tx) node_api
     \<Rightarrow> ('w, 'e, unit) script"
where
  "sponsored_remark_step V D K N =
     and_then (println (newline # ''3. Bob submits sponsored System::remark; Alice pays'')) (\<lambda>_.
     and_then (submit_finalized N (sponsored_remark_call V (bytes_of ''runtime native sponsored fees'')) (dev_bob K)
         (build_params D [SetMortal 32, SetTip TIP, SetSponsor (account_of K (dev_alice K))])) (\<lambda>events.
     and_then (of_result (map_sum EventSearchError id (find_sponsored_fee_paid V events))) (\<lambda>paid.
     println (''  Event: SponsoredTransactionFeePaid actual_fee='' @ format_balance (paid_actual_fee paid)
       @ '' tip='' @ format_balance (paid_tip paid)))))"

definition pause_step ::
  "('d, 'p1, 'p2, 'p3, 'p4, 'p5, 'p6, 'p7, 'p8, 'p9) default_params_api \<Rightarrow> ('acc, 'key) dev_keys
     \<Rightarrow> ('w, 'acc, 'key, 'p1 \<times> 'p2 \<times> 'p3 \<times> 'p4 \<times> 'p5 \<times> 'p6 \<times> 'p7 \<times> 'acc SponsoredParams \<times> 'p9, 'e, 'raw, 'tx) node_api
     \<Rightarrow> ('w, 'e, unit) script"
where
  "pause_step D K N =
     and_then (println (newline # ''4. Pausing Alice sponsor'')) (\<lambda>_.
     and_then (submit_finalized N client_pause_call (dev_alice K) (build_params D [SetMortal 32, SetUnsponsored]))
       (\<lambda>_. ok ()))"

definition rejected_remark_step ::
  "value_api \<Rightarrow> ('d, 'p1, 'p2, 'p3, 'p4, 'p5, 'p6, 'p7, 'p8, 'p9) default_params_api \<Rightarrow> ('acc, 'key) dev_keys
     \<Rightarrow> ('w, 'acc, 'key, 'p1 \<times> 'p2 \<times> 'p3 \<times> 'p4 \<times> 'p5 \<times> 'p6 \<times> 'p7 \<times> 'acc SponsoredParams \<times> 'p9, 'e, 'raw, 'tx) node_api
     \<Rightarrow> ('w, 'e, unit) script"
where
  "rejected_remark_step V D K N =
     and_then (println (newline # ''5. Bob tries another sponsored remark while Alice is paused'')) (\<lambda>_.
     expect_rejection N (sponsored_remark_call V (bytes_of ''should be rejected'')) (dev_bob K)
       (build_params D [SetMortal 32, SetSponsor (account_of K (dev_alice K))]))"

section \<open>The script\<close>

definition client_main ::
  "value_api \<Rightarrow> ('d, 'p1, 'p2, 'p3, 'p4, 'p5, 'p6, 'p7, 'p8, 'p9) default_params_api \<Rightarrow> ('acc, 'key) dev_keys
     \<Rightarrow> ('w, 'acc, 'key, 'p1 \<times> 'p2 \<times> 'p3 \<times> 'p4 \<times> 'p5 \<times> 'p6 \<times> 'p7 \<times> 'acc SponsoredParams \<times> 'p9, 'e, 'raw, 'tx) node_api
     \<Rightarrow> ('w, 'e, unit) script"
where
  "client_main V D K N =
     (let spons = account_of K (dev_alice K); user = account_of K (dev_bob K)
      in and_then (connect_step N) (\<lambda>_.
         and_then (show_demo_state V N spons user ''Initial state'') (\<lambda>_.
         and_then (register_step V D K N) (\<lambda>_.
         and_then (show_demo_state V N spons user ''After registration'') (\<lambda>_.
         and_then (sponsored_remark_step V D K N) (\<lambda>_.
         and_then (show_demo_state V N spons user ''After sponsored remark'') (\<lambda>_.
         and_then (pause_step D K N) (\<lambda>_.
         and_then (show_demo_state V N spons user ''After pause'') (\<lambda>_.
         and_then (rejected_remark_step V D K N) (\<lambda>_.
         show_demo_state V N spons user ''Final state''))))))))))"

end
