(* ===== verification/Client_Node.thy ===== *)
theory Client_Node
  imports Subxt_Main Sponsor_Lifecycle
begin

text \<open>
  The client's script against a node that runs the pallet.  While the script waits, the chain goes
  on: anybody else's transactions and calls are executed (\<open>foreign\<close>), only the script's own
  keys are used by nobody else.  \<open>sponsored_node\<close> states what the script relies on from such
  a node: a finalised call was dispatched, and a finalised transaction that names a sponsor passed
  the extension's validation, with the extension decoded from the bytes the client encoded.
\<close>

section \<open>What others do to a chain\<close>

inductive foreign ::
  "('acc, 'w::len word, 'c, 'e, 'r, 'b, 'o) Config \<Rightarrow>
   ('acc, 'w word, 'fee, 'u::len word, 'o, 'call, 'info, 'post, 'res, 'imp, 'src, 'v, 'valid, 'val, 'pre, 'weight, 'b)
     payment_api \<Rightarrow> 'acc \<Rightarrow> ('acc, 'w word, 'b) chain \<Rightarrow> ('acc, 'w word, 'b) chain \<Rightarrow> bool"
  for T P a s
where
  nothing: "foreign T P a s s"
| others_prepare: "foreign T P a s t \<Longrightarrow> prepare T P self v origin call info len t = (r, u) \<Longrightarrow> foreign T P a s u"
| others_call: "foreign T P a s t \<Longrightarrow> ensure_signed T origin \<noteq> Inr a \<Longrightarrow> dispatch_call T origin c t = (r, u) \<Longrightarrow>
    foreign T P a s u"
| others_pallets: "foreign T P a s t \<Longrightarrow> foreign T P a s (t\<lparr>ledger := b\<rparr>)"
| others_post: "foreign T P a s t \<Longrightarrow> post_dispatch_details T P pre info post len res t = (r, u) \<Longrightarrow> foreign T P a s u"

lemma prepare_Sponsors: "prepare T P self v origin call info len s = (r, t) \<Longrightarrow> Sponsors t = Sponsors s"
  by (auto simp: prepare_def and_then_def ok_def map_err_def on_ledger_def move_budget_run
      split: SponsoredVal.splits prod.splits sum.splits if_splits)

lemma restore_Sponsors: "Sponsors (restore_pending_to_budget T who s) = Sponsors s"
  by (auto simp: restore_pending_to_budget_def Let_def on_ledger_def split: prod.splits sum.splits)

lemma post_dispatch_Sponsors:
  "post_dispatch_details T P pre info post len res s = (r, t) \<Longrightarrow> Sponsors t = Sponsors s"
  by (auto simp: post_dispatch_details_def settle_sponsored_fee_def Let_def map_err_def on_ledger_def restore_Sponsors
      split: SponsoredPre.splits prod.splits sum.splits)

lemma dispatch_Sponsors_other:
  assumes "dispatch_call T origin c s = (r, t)" and "ensure_signed T origin \<noteq> Inr a"
  shows "Sponsors t a = Sponsors s a"
proof (cases r)
  case (Inl e)
  with assms(1) show ?thesis by (auto dest: dispatch_failure)
next
  case (Inr u)
  with assms(1) obtain who where who: "ensure_signed T origin = Inr who" by (auto elim: dispatch_signed)
  have "call_body T origin c s = (Inr u, t)" using assms(1) Inr by (simp add: dispatch_call_def op_simps)
  with who assms(2) show ?thesis
    by (cases c) (auto simp: dispatchable_runs [OF who] split: if_splits sum.splits prod.splits option.splits)
qed

lemma foreign_keeps_registration: "foreign T P a s t \<Longrightarrow> Sponsors t a = Sponsors s a"
  by (induction rule: foreign.induct) (auto dest: prepare_Sponsors post_dispatch_Sponsors dispatch_Sponsors_other)

section \<open>A node that runs the pallet\<close>

definition extension_slot :: "'p1 \<times> 'p2 \<times> 'p3 \<times> 'p4 \<times> 'p5 \<times> 'p6 \<times> 'p7 \<times> 'p8 \<times> 'p9 \<Rightarrow> 'p8" where
  "extension_slot ps = (case ps of (_, _, _, _, _, _, _, p, _) \<Rightarrow> p)"

locale sponsored_node = scale_codec enc_compact dec_compact enc_option dec_option
  for enc_compact and dec_compact and enc_option :: "'acc option \<Rightarrow> 8 word list" and dec_option +
  fixes T :: "('acc, 128 word, 'c, 'te, 'r, 'b, 'o) Config"
    and P :: "('acc, 128 word, 'fee, 'u::len word, 'o, 'call, 'info, 'post, 'res, 'imp, 'src, 'v, 'valid, 'val, 'pre, 'weight, 'b)
      payment_api"
    and K :: "('acc, 'key) dev_keys"
    and N :: "('w, 'acc, 'key, 'p1 \<times> 'p2 \<times> 'p3 \<times> 'p4 \<times> 'p5 \<times> 'p6 \<times> 'p7 \<times> 'acc SponsoredParams \<times> 'p9, 'e, 'raw, 'tx) node_api"
    and chain_of :: "'w \<Rightarrow> ('acc, 128 word, 'b) chain"
    and signed :: "'acc \<Rightarrow> 'o"
  assumes signed_origin: "ensure_signed T (signed a) = Inr a"
    and storage_foreign: "storage_at_latest N w = (r, w') \<Longrightarrow> foreign T P (account_of K k) (chain_of w) (chain_of w')"
    and pause_dispatched: "sign_and_submit_then_watch N client_pause_call k ps w = (Inr tx, w1) \<Longrightarrow>
      wait_for_finalized_success N tx w1 = (Inr evs, w2) \<Longrightarrow>
      \<exists>s1 s2. foreign T P (account_of K k) (chain_of w) s1
        \<and> dispatch_call T (signed (account_of K k)) pause_call s1 = (Inr (), s2)
        \<and> foreign T P (account_of K k) s2 (chain_of w2)"
    and transaction_validated: "sign_and_submit_then_watch N call k ps w = (Inr tx, w1) \<Longrightarrow>
      wait_for_finalized_success N tx w1 = (Inr evs, w2) \<Longrightarrow>
      client_extension_new (extension_slot ps) = (Inr e :: unit + 'acc ClientExtension) \<Longrightarrow>
      \<exists>self rest s1 c info len imp src v.
        decode_extension dec_compact dec_option (encode_value_to enc_compact enc_option e [] @ []) = Some (self, rest)
        \<and> (\<forall>k'. foreign T P (account_of K k') (chain_of w) s1)
        \<and> validate T P self (signed (account_of K k)) c info len imp src s1 = Inr v"
begin

lemma paused_after_pause:
  assumes "sign_and_submit_then_watch N client_pause_call k ps w = (Inr tx, w1)"
    and "wait_for_finalized_success N tx w1 = (Inr evs, w2)"
  shows "\<exists>st. Sponsors (chain_of w2) (account_of K k) = Some st \<and> \<not> active st"
proof -
  from pause_dispatched [OF assms] obtain s1 s2
    where run: "dispatch_call T (signed (account_of K k)) pause_call s1 = (Inr (), s2)"
    and after: "foreign T P (account_of K k) s2 (chain_of w2)" by blast
  have "pause T (signed (account_of K k)) s1 = (Inr (), s2)"
    using run by (simp add: dispatch_call_def op_simps)
  then have "\<exists>st. Sponsors s2 (account_of K k) = Some st \<and> \<not> active st"
    by (auto simp: pause_run [OF signed_origin] split: option.splits if_splits)
  with foreign_keeps_registration [OF after] show ?thesis by simp
qed

lemma paused_sponsor_refused:
  assumes "Sponsors (chain_of w) (account_of K k') = Some st" and "\<not> active st"
    and "param_sponsor (extension_slot ps) = Some (account_of K k')"
    and "sign_and_submit_then_watch N call k ps w = (Inr tx, w1)"
  shows "wait_for_finalized_success N tx w1 \<noteq> (Inr evs, w2)"
proof
  assume wait: "wait_for_finalized_success N tx w1 = (Inr evs, w2)"
  define e :: "'acc ClientExtension"
    where "e = \<lparr>ext_tip = param_tip (extension_slot ps), ext_sponsor = param_sponsor (extension_slot ps)\<rparr>"
  have "client_extension_new (extension_slot ps) = (Inr e :: unit + 'acc ClientExtension)"
    by (simp add: client_extension_new_def e_def)
  from transaction_validated [OF assms(4) wait this] obtain self rest s1 c info len imp src v
    where self: "decode_extension dec_compact dec_option (encode_value_to enc_compact enc_option e [] @ []) = Some (self, rest)"
    and before: "foreign T P (account_of K k') (chain_of w) s1"
    and valid: "validate T P self (signed (account_of K k)) c info len imp src s1 = Inr v" by blast
  have "sponsor self = Some (account_of K k')"
    using self extension_roundtrip [of e "[]"] assms(3) by (auto simp: e_def)
  moreover have "Sponsors s1 (account_of K k') = Some st"
    using foreign_keeps_registration [OF before] assms(1) by simp
  ultimately show False
    using valid assms(2)
    by (auto simp: validate_def sponsor_state_def Let_def split: option.splits)
qed

end

section \<open>The script never sees a paused sponsor pay\<close>

definition expected_only :: "('w, 'e, 'a) script \<Rightarrow> bool" where
  "expected_only m \<longleftrightarrow> (\<forall>s t. m s \<noteq> (Inl UnexpectedSuccess, t))"

lemma expected_and_then:
  assumes "expected_only m" and "\<And>x. expected_only (f x)"
  shows "expected_only (and_then m f)"
  using assms unfolding expected_only_def by (auto simp: op_simps)

lemma expected_basic:
  "expected_only (println l)" "expected_only (rpc m)" "expected_only (modify f)" "expected_only (ok x)"
  "expected_only (of_result (map_sum QueryError g r))" "expected_only (of_result (map_sum EventSearchError g q))"
proof -
  show "expected_only (rpc m)" by (auto simp: expected_only_def rpc_def split: prod.splits sum.splits)
  show "expected_only (of_result (map_sum QueryError g r))"
    by (cases r) (auto simp: expected_only_def of_result_def)
  show "expected_only (of_result (map_sum EventSearchError g q))"
    by (cases q) (auto simp: expected_only_def of_result_def)
qed (auto simp: expected_only_def println_def modify_def ok_def)

lemma expected_steps:
  "expected_only (show_demo_state V N spons user label)" "expected_only (connect_step N)"
  "expected_only (register_step V D K N)" "expected_only (sponsored_remark_step V D K N)"
  "expected_only (pause_step D K N)"
  unfolding show_demo_state_def read_demo_state_def connect_step_def register_step_def sponsored_remark_step_def
    pause_step_def submit_finalized_def Let_def
  by (intro expected_and_then expected_basic)+

lemma rpc_Inr [op_simps]:
  "rpc m s = (Inr x, t) \<longleftrightarrow> (\<exists>w. m (network s) = (Inr x, w) \<and> t = s\<lparr>network := w\<rparr>)"
  by (auto simp: rpc_def split: prod.splits sum.splits)

definition paused_on :: "'acc \<Rightarrow> ('acc, 'n, 'b) chain \<Rightarrow> bool" where
  "paused_on a s \<longleftrightarrow> (case Sponsors s a of None \<Rightarrow> False | Some st \<Rightarrow> \<not> active st)"

lemma paused_on_iff: "paused_on a s \<longleftrightarrow> (\<exists>st. Sponsors s a = Some st \<and> \<not> active st)"
  by (simp add: paused_on_def split: option.splits)

context sponsored_node
begin

lemma pause_step_pauses: "pause_step D K N s = (Inr u, t) \<Longrightarrow> paused_on (account_of K (dev_alice K)) (chain_of (network t))"
  by (auto simp: pause_step_def submit_finalized_def println_def paused_on_iff op_simps
      dest: paused_after_pause)

lemma show_keeps_paused:
  assumes "show_demo_state V N spons user label s = (Inr u, t)" and "paused_on (account_of K (dev_alice K)) (chain_of (network s))"
  shows "paused_on (account_of K (dev_alice K)) (chain_of (network t))"
proof -
  obtain x w where "storage_at_latest N (network s) = (Inr x, w)" and "network t = w"
    using assms(1) by (auto simp: show_demo_state_def read_demo_state_def op_simps)
  with foreign_keeps_registration [OF storage_foreign] assms(2) show ?thesis
    by (auto simp: paused_on_iff)
qed

lemma rejected_step_expected:
  assumes "paused_on (account_of K (dev_alice K)) (chain_of (network s))"
  shows "rejected_remark_step V D K N s \<noteq> (Inl UnexpectedSuccess, t)"
proof
  assume run: "rejected_remark_step V D K N s = (Inl UnexpectedSuccess, t)"
  let ?ps = "build_params D [SetMortal 32, SetSponsor (account_of K (dev_alice K))]"
  let ?call = "sponsored_remark_call V (bytes_of ''should be rejected'')"
  obtain tx w1 evs w2 where "sign_and_submit_then_watch N ?call (dev_bob K) ?ps (network s) = (Inr tx, w1)"
    and "wait_for_finalized_success N tx w1 = (Inr evs, w2)"
    using run by (auto simp: rejected_remark_step_def expect_rejection_def println_def and_then_def modify_def
        split: prod.splits sum.splits)
  moreover have "param_sponsor (extension_slot ?ps) = Some (account_of K (dev_alice K))"
    by (simp add: build_params_def builder_build_def builder_new_def extension_slot_def split: prod.splits)
  ultimately show False
    using assms paused_sponsor_refused unfolding paused_on_iff by blast
qed

lemma main_expected: "client_main V D K N s \<noteq> (Inl UnexpectedSuccess, t)"
proof
  assume "client_main V D K N s = (Inl UnexpectedSuccess, t)"
  then obtain u1 u2 where pause: "\<exists>u. pause_step D K N u = (Inr (), u1)"
    and shown: "show_demo_state V N (account_of K (dev_alice K)) (account_of K (dev_bob K)) ''After pause'' u1 = (Inr (), u2)"
    and last: "rejected_remark_step V D K N u2 = (Inl UnexpectedSuccess, t)"
    using expected_steps unfolding client_main_def Let_def expected_only_def
    by (fastforce simp: and_then_Inl and_then_Inr)
  from pause have "paused_on (account_of K (dev_alice K)) (chain_of (network u1))" by (auto dest: pause_step_pauses)
  from show_keeps_paused [OF shown this] have "paused_on (account_of K (dev_alice K)) (chain_of (network u2))" .
  with last show False by (blast dest: rejected_step_expected)
qed

end

end
