(* ===== verification/Reference_Node.thy ===== *)
theory Reference_Node
  imports Client_Node "HOL-Library.Code_Target_Numeral"
begin

text \<open>
  An executable node over the reference ledger with 128-bit balances, so that the client's script
  can be run: a submitted transaction is decoded, validated, prepared, dispatched and settled by the
  pallet's model at once, and storage queries answer from the chain's state.  It is not a model of a
  node; it shows that the contract of \<open>sponsored_node\<close> can be kept.
\<close>

section \<open>Codec and calls\<close>

text \<open>Account numbers in unary behind the option's tag byte.\<close>

definition unary_enc_option :: "nat option \<Rightarrow> 8 word list" where
  "unary_enc_option sp = (case sp of None \<Rightarrow> [0] | Some a \<Rightarrow> 1 # replicate a 1 @ [0])"

definition unary_dec_option :: "8 word list \<Rightarrow> (nat option \<times> 8 word list) option" where
  "unary_dec_option bs = (case bs of
       [] \<Rightarrow> None
     | t # rest \<Rightarrow> if t = 0 then Some (None, rest)
         else Some (Some (length (takeWhile (\<lambda>b. b = 1) rest)), tl (dropWhile (\<lambda>b. b = 1) rest)))"

interpretation unary_codec: scale_codec "\<lambda>n. le_bytes 16 (unat n)"
  "\<lambda>bs. Some (of_nat (le_value (take 16 bs)), drop 16 bs)" unary_enc_option unary_dec_option
proof unfold_locales
  show "Some (of_nat (le_value (take 16 (le_bytes 16 (unat n) @ rest))), drop 16 (le_bytes 16 (unat n) @ rest))
      = Some (n, rest)" for n :: "128 word" and rest
    by (rule plain_codec.compact_roundtrip)
  show "unary_dec_option (unary_enc_option sp @ rest) = Some (sp, rest)" for sp rest
    by (cases sp) (simp_all add: unary_enc_option_def unary_dec_option_def takeWhile_append dropWhile_append)
qed

datatype node_call = PalletCall "(nat, 128 word) Call" | RemarkCall

fun decode_account :: "scale_value \<Rightarrow> nat" where
  "decode_account (UnnamedComposite bs) = le_value (map (\<lambda>v. case prim_u128 v of None \<Rightarrow> 0 | Some n \<Rightarrow> ucast n) bs)"
| "decode_account _ = 0"

fun decode_policy :: "scale_value \<Rightarrow> (nat, 128 word) SponsorPolicy option" where
  "decode_policy (NamedComposite [(_, UnnamedComposite cs), (_, PrimitiveValue (PrimU128 m))]) =
     Some \<lparr>allowed_callers = map decode_account cs, max_fee_per_tx = m\<rparr>"
| "decode_policy _ = None"

definition decode_call :: "dynamic_call \<Rightarrow> node_call option" where
  "decode_call c = (case c of (p, f, args) \<Rightarrow>
     if p = ''SponsoredTx'' \<and> f = ''pause'' \<and> args = [] then Some (PalletCall pause_call)
     else if p = ''SponsoredTx'' \<and> f = ''register_sponsor'' then
       (case args of
          [n, v] \<Rightarrow> (case (prim_u128 n, decode_policy v) of
              (Some b, Some p) \<Rightarrow> Some (PalletCall (register_sponsor_call b p)) | _ \<Rightarrow> None)
        | _ \<Rightarrow> None)
     else if p = ''System'' \<and> f = ''remark'' then Some RemarkCall
     else None)"

section \<open>The node\<close>

abbreviation NodeConfig :: "(nat, 128 word, 128 word, ref_error, unit, ref_ledger, ref_origin) Config" where
  "NodeConfig \<equiv> ref_config"

abbreviation NodePayment ::
  "(nat, 128 word, 128 word, 64 word, ref_origin, unit, 128 word, 128 word, unit, unit, unit,
    ref_error, 64 word, (nat \<times> 128 word) option, unit, 64 word, ref_ledger) payment_api"
where
  "NodePayment \<equiv> ref_payment"

type_synonym node_chain = "(nat, 128 word, ref_ledger) chain"

definition dispatch_node_call :: "node_call \<Rightarrow> nat \<Rightarrow> node_chain \<Rightarrow> (ref_error DispatchError + unit) \<times> node_chain" where
  "dispatch_node_call c who s = (case c of
      PalletCall d \<Rightarrow> dispatch_call NodeConfig (RefSigned who) d s
    | RemarkCall \<Rightarrow> (Inr (), s))"

fun encode_event :: "(nat, 128 word) Event \<Rightarrow> string + string client_event" where
  "encode_event (SponsoredTransactionFeePaid _ _ fee t) = Inr \<lparr>pallet_name = ''SponsoredTx'',
     variant_name = ''SponsoredTransactionFeePaid'',
     field_values = Inr (NamedComposite [(''actual_fee'', PrimitiveValue (PrimU128 fee)), (''tip'', PrimitiveValue (PrimU128 t))])\<rparr>"
| "encode_event _ = Inr \<lparr>pallet_name = ''SponsoredTx'', variant_name = ''Other'', field_values = Inr (UnnamedComposite [])\<rparr>"

definition declared_fee :: "128 word" where
  "declared_fee = 1000000000"

definition node_extension :: "nat SponsoredParams \<Rightarrow> (nat, 128 word) SponsoredChargeTransactionPayment option" where
  "node_extension params = map_option fst (decode_extension
     (\<lambda>bs. Some (of_nat (le_value (take 16 bs)), drop 16 bs)) unary_dec_option
     (encode_value_to (\<lambda>n. le_bytes 16 (unat n)) unary_enc_option
       \<lparr>ext_tip = param_tip params, ext_sponsor = param_sponsor params\<rparr> [] @ []))"

text \<open>One transaction: its result for the watcher, and the chain after it.\<close>

definition apply_transaction ::
  "node_call \<Rightarrow> nat \<Rightarrow> (nat, 128 word) SponsoredChargeTransactionPayment \<Rightarrow> node_chain
     \<Rightarrow> (string + (string + (string + string client_event) list)) \<times> node_chain"
where
  "apply_transaction c who self s =
     (case validate NodeConfig NodePayment self (RefSigned who) () declared_fee 3 () () s of
        Inl _ \<Rightarrow> (Inl ''invalid transaction'', s)
      | Inr (_, val, _) \<Rightarrow>
     (case prepare NodeConfig NodePayment self val (RefSigned who) () declared_fee 3 s of
        (Inl _, _) \<Rightarrow> (Inl ''preparation failed'', s)
      | (Inr pre, s1) \<Rightarrow>
     (case dispatch_node_call c who s1 of (r, s2) \<Rightarrow>
     (case post_dispatch_details NodeConfig NodePayment pre declared_fee declared_fee 3 () s2 of
        (Inl _, _) \<Rightarrow> (Inl ''settlement failed'', s)
      | (Inr _, s3) \<Rightarrow> (Inr (case r of Inl _ \<Rightarrow> Inl ''dispatch error''
            | Inr _ \<Rightarrow> Inr (map encode_event (drop (length (events s)) (events s3)))), s3)))))"

type_synonym unit_params = "unit \<times> unit \<times> unit \<times> unit \<times> unit \<times> unit \<times> unit \<times> nat SponsoredParams \<times> unit"

definition node_submit ::
  "dynamic_call \<Rightarrow> nat \<Rightarrow> unit_params \<Rightarrow> (node_chain, string, string + (string + string client_event) list) op"
where
  "node_submit call k ps s =
     (case decode_call call of
        None \<Rightarrow> (Inl ''unknown call'', s)
      | Some c \<Rightarrow> (case node_extension (extension_slot ps) of
          None \<Rightarrow> (Inl ''undecodable extension'', s)
        | Some self \<Rightarrow> apply_transaction c k self s))"

definition node_storage :: "node_chain \<Rightarrow> string \<Rightarrow> string \<Rightarrow> nat \<Rightarrow> string + scale_value option" where
  "node_storage s p i a =
     (if p = ''SponsoredTx'' \<and> i = ''Sponsors'' then
        Inr (map_option (\<lambda>st. NamedComposite [(''active'', PrimitiveValue (PrimBool (active st)))]) (Sponsors s a))
      else if p = ''System'' \<and> i = ''Account'' then
        Inr (if 0 < ref_total a (ledger s)
             then Some (NamedComposite [(''data'', NamedComposite [(''free'', PrimitiveValue (PrimU128 (of_nat (ref_free (ledger s) a))))])])
             else None)
      else if p = ''Balances'' \<and> i = ''Holds'' then
        Inr (Some (UnnamedComposite (map hold_entry
          [((''SponsoredTx'', ''SponsorshipBudget''), budget_on_hold NodeConfig a s),
           ((''SponsoredTx'', ''SponsorshipPending''), pending_on_hold NodeConfig a s),
           ((''Session'', ''Keys''), ref_balance_on_hold (OtherHold ()) a (ledger s))])))
      else Inr None)"

definition reference_node :: "(node_chain, nat, nat, unit_params, string, scale_value, string + (string + string client_event) list) node_api" where
  "reference_node = \<lparr>env_var = (\<lambda>_. None), from_url = (\<lambda>_. ok ()), storage_at_latest = gets node_storage,
     raw_to_value = Inr, sign_and_submit_then_watch = node_submit,
     wait_for_finalized_success = of_result, show_error = id\<rparr>"

definition reference_keys :: "(nat, nat) dev_keys" where
  "reference_keys = \<lparr>dev_alice = 1, dev_bob = 2, dev_charlie = 3, account_of = id, account_bytes = le_bytes 4\<rparr>"

definition reference_genesis :: node_chain where
  "reference_genesis = \<lparr>Sponsors = Map.empty, ledger = \<lparr>ref_free = (\<lambda>a. if a \<in> {1, 2, 3} then 10 ^ 13 else 0),
     ref_held = (\<lambda>_ _. 0), ref_issuance = 3 * 10 ^ 13\<rparr>, events = []\<rparr>"

definition unit_defaults :: "(unit, unit, unit, unit, unit, unit, unit, unit, unit, unit) default_params_api" where
  "unit_defaults = \<lparr>default_builder = (), set_tip = (\<lambda>_ _. ()), set_nonce = (\<lambda>_ _. ()), set_mortal = (\<lambda>_ _. ()),
     set_immortal = (\<lambda>_. ()), build_default = (\<lambda>_. ((), (), (), (), (), (), (), (), ()))\<rparr>"

section \<open>The node keeps the contract\<close>

lemma transaction_steps:
  assumes "apply_transaction c who self s = (Inr (Inr evs), t)"
  shows "\<exists>v pre s1 s2 r. validate NodeConfig NodePayment self (RefSigned who) () declared_fee 3 () () s = Inr v
    \<and> prepare NodeConfig NodePayment self (fst (snd v)) (RefSigned who) () declared_fee 3 s = (Inr pre, s1)
    \<and> dispatch_node_call c who s1 = (Inr (), s2)
    \<and> post_dispatch_details NodeConfig NodePayment pre declared_fee declared_fee 3 () s2 = (Inr r, t)"
  using assms unfolding apply_transaction_def
  by (auto split: sum.splits prod.splits)

lemma decode_pause: "decode_call client_pause_call = Some (PalletCall pause_call)"
  by (simp add: decode_call_def client_pause_call_def)

lemma submit_steps:
  assumes "sign_and_submit_then_watch reference_node call k ps w = (Inr tx, w1)"
    and "wait_for_finalized_success reference_node tx w1 = (Inr evs, w2)"
  shows "\<exists>c self. decode_call call = Some c \<and> node_extension (extension_slot ps) = Some self
    \<and> apply_transaction c k self w = (Inr (Inr evs), w2)"
  using assms
  by (auto simp: reference_node_def node_submit_def of_result_def split: option.splits sum.splits)

interpretation reference_node: sponsored_node "\<lambda>n. le_bytes 16 (unat n)"
  "\<lambda>bs. Some (of_nat (le_value (take 16 bs)), drop 16 bs)" unary_enc_option unary_dec_option
  NodeConfig NodePayment reference_keys reference_node id RefSigned
proof unfold_locales
  show "ensure_signed NodeConfig (RefSigned a) = Inr a" for a
    by simp
next
  fix w r w' k
  assume "storage_at_latest reference_node w = (r, w')"
  then have "w' = w" by (simp add: reference_node_def gets_def)
  then show "foreign NodeConfig NodePayment (account_of reference_keys k) (id w) (id w')"
    by (simp add: foreign.nothing)
next
  fix k ps w tx w1 evs w2
  assume "sign_and_submit_then_watch reference_node client_pause_call k ps w = (Inr tx, w1)"
    and "wait_for_finalized_success reference_node tx w1 = (Inr evs, w2)"
  from submit_steps [OF this] obtain self where "apply_transaction (PalletCall pause_call) k self w = (Inr (Inr evs), w2)"
    by (auto simp: decode_pause)
  from transaction_steps [OF this] obtain v pre s1 s2 r
    where "validate NodeConfig NodePayment self (RefSigned k) () declared_fee 3 () () w = Inr v"
    and p: "prepare NodeConfig NodePayment self (fst (snd v)) (RefSigned k) () declared_fee 3 w = (Inr pre, s1)"
    and d: "dispatch_node_call (PalletCall pause_call) k s1 = (Inr (), s2)"
    and q: "post_dispatch_details NodeConfig NodePayment pre declared_fee declared_fee 3 () s2 = (Inr r, w2)"
    by blast
  show "\<exists>s1 s2. foreign NodeConfig NodePayment (account_of reference_keys k) (id w) s1
      \<and> dispatch_call NodeConfig (RefSigned (account_of reference_keys k)) pause_call s1 = (Inr (), s2)
      \<and> foreign NodeConfig NodePayment (account_of reference_keys k) s2 (id w2)"
    using foreign.others_prepare [OF foreign.nothing p] d foreign.others_post [OF foreign.nothing q]
    by (auto simp: dispatch_node_call_def reference_keys_def)
next
  fix call k and ps :: unit_params and w tx w1 evs w2 and e :: "nat ClientExtension"
  assume "sign_and_submit_then_watch reference_node call k ps w = (Inr tx, w1)"
    and "wait_for_finalized_success reference_node tx w1 = (Inr evs, w2)"
    and e: "client_extension_new (extension_slot ps) = (Inr e :: unit + nat ClientExtension)"
  from submit_steps [OF this(1,2)] obtain c self where ext: "node_extension (extension_slot ps) = Some self"
    and "apply_transaction c k self w = (Inr (Inr evs), w2)" by blast
  from transaction_steps [OF this(2)] obtain v
    where "validate NodeConfig NodePayment self (RefSigned k) () declared_fee 3 () () w = Inr v" by blast
  moreover obtain rest where "decode_extension (\<lambda>bs. Some (of_nat (le_value (take 16 bs)), drop 16 bs)) unary_dec_option
      (encode_value_to (\<lambda>n. le_bytes 16 (unat n)) unary_enc_option e [] @ []) = Some (self, rest)"
    using ext e by (auto simp: node_extension_def client_extension_new_def)
  ultimately show "\<exists>self rest s1 c info len imp src v.
      decode_extension (\<lambda>bs. Some (of_nat (le_value (take 16 bs)), drop 16 bs)) unary_dec_option
        (encode_value_to (\<lambda>n. le_bytes 16 (unat n)) unary_enc_option e [] @ []) = Some (self, rest)
      \<and> (\<forall>k'. foreign NodeConfig NodePayment (account_of reference_keys k') (id w) s1)
      \<and> validate NodeConfig NodePayment self (RefSigned (account_of reference_keys k)) c info len imp src s1 = Inr v"
    unfolding reference_keys_def
    by (intro exI [of _ self] exI [of _ rest] exI [of _ w] exI [of _ "()"] exI [of _ declared_fee] exI [of _ 3] exI [of _ v] conjI allI)
      (auto intro: foreign.nothing)
qed

section \<open>Property\<close>

text \<open>The chain after Alice's registration, with Bob and Charlie on her allowlist.\<close>

definition registered_node :: node_chain where
  "registered_node = reference_genesis\<lparr>
     Sponsors := [1 \<mapsto> \<lparr>active = True, policy = \<lparr>allowed_callers = [2, 3], max_fee_per_tx = MAX_FEE_PER_TX\<rparr>\<rparr>],
     ledger := ref_move budget_hold_reason 1 (8 * 10 ^ 12) (2 * 10 ^ 12) (ledger reference_genesis)\<rparr>"

text \<open>
  C20: the demo never sees a paused sponsor pay.  Against every node that runs the pallet, whoever
  else sends transactions in between, the script of the client does not end in its error for an
  unexpected success: once its pause is finalised, the sponsored remark that names the paused
  sponsor is not.
\<close>

theorem demo_never_sees_paused_sponsor_pay:
  assumes "sponsored_node enc_compact dec_compact enc_option dec_option T P K N chain_of origin_of"
  shows "fst (client_main V D K N s) \<noteq> Inl UnexpectedSuccess"
  using sponsored_node.main_expected [OF assms, of V D s] by (metis prod.collapse)

theorem demo_never_sees_paused_sponsor_pay_witness:
  "fst (client_main plain_values unit_defaults reference_keys reference_node
      \<lparr>network = reference_genesis, printed = []\<rparr>) \<noteq> Inl UnexpectedSuccess
   \<and> (let final = and_then (pause_step unit_defaults reference_keys reference_node)
        (\<lambda>_. rejected_remark_step plain_values unit_defaults reference_keys reference_node)
        \<lparr>network = registered_node, printed = []\<rparr>
      in fst final = Inr () \<and> last (printed (snd final)) = ''  Rejected as expected: invalid transaction'')"
proof (intro conjI)
  show "fst (client_main plain_values unit_defaults reference_keys reference_node
      \<lparr>network = reference_genesis, printed = []\<rparr>) \<noteq> Inl UnexpectedSuccess"
    by (rule demo_never_sees_paused_sponsor_pay [OF reference_node.sponsored_node_axioms])
  show "let final = and_then (pause_step unit_defaults reference_keys reference_node)
        (\<lambda>_. rejected_remark_step plain_values unit_defaults reference_keys reference_node)
        \<lparr>network = registered_node, printed = []\<rparr>
      in fst final = Inr () \<and> last (printed (snd final)) = ''  Rejected as expected: invalid transaction''"
    by code_simp
qed

end
