(* ===== verification/Client_View.thy ===== *)
theory Client_View
  imports Reference_Node
begin

text \<open>
  What the client shows is what the chain holds.  \<open>storage_view\<close> states how a node serves
  the three storage items the client reads: the sponsor's entry of the pallet, the account entry
  of an account that has one (\<open>stored\<close>), and the list of the account's holds, one entry per reason, each with the names of the runtime's
  hold reason.  Under that contract the client's recursive search over dynamic values is a lookup.
\<close>

section \<open>Holds as the client sees them\<close>

text \<open>The value a list of holds has under a reason, zero when it has no entry.\<close>

definition held_under :: "('k \<times> 'n::zero) list \<Rightarrow> 'k \<Rightarrow> 'n" where
  "held_under hs r = (case map_of hs r of None \<Rightarrow> 0 | Some n \<Rightarrow> n)"

locale named_holds = dynamic_values V
  for V :: value_api +
  fixes reason_name :: "'r RuntimeHoldReason \<Rightarrow> string \<times> string"
  assumes budget_name: "contains (display V (hold_id (reason_name r))) ''SponsorshipBudget'' \<longleftrightarrow> r = budget_hold_reason"
    and pending_name: "contains (display V (hold_id (reason_name r))) ''SponsorshipPending'' \<longleftrightarrow> r = pending_hold_reason"
begin

lemma hold_update_reason:
  "hold_update V (reason_name r, n) acc =
     (if r = budget_hold_reason then (n, snd acc) else if r = pending_hold_reason then (fst acc, n) else acc)"
  by (simp add: hold_update_def budget_name pending_name)

lemma update_all:
  assumes "distinct (map fst hs)"
  shows "fold (hold_update V) (map (apfst reason_name) hs) (b, p) =
    (case map_of hs budget_hold_reason of None \<Rightarrow> b | Some n \<Rightarrow> n,
     case map_of hs pending_hold_reason of None \<Rightarrow> p | Some n \<Rightarrow> n)"
  using assms
proof (induction hs arbitrary: b p)
  case (Cons h hs)
  have "budget_hold_reason \<noteq> (pending_hold_reason :: 'r RuntimeHoldReason)"
    by (simp add: budget_hold_reason_def pending_hold_reason_def)
  moreover have "map_of hs (fst h) = None"
    using Cons.prems by (simp add: map_of_eq_None_iff)
  ultimately show ?case
    using Cons by (cases h) (auto simp: hold_update_reason)
qed simp

lemma collect_named:
  "distinct (map fst hs) \<Longrightarrow>
   collect_sponsor_holds V (UnnamedComposite (map hold_entry (map (apfst reason_name) hs))) (0, 0) =
     (held_under hs budget_hold_reason, held_under hs pending_hold_reason)"
  by (simp only: collect_entries update_all held_under_def)

end

section \<open>Storage as the node serves it\<close>


text \<open>The runtime's names of the two reasons, and a third pallet's.\<close>

fun runtime_reason_name :: "unit RuntimeHoldReason \<Rightarrow> string \<times> string" where
  "runtime_reason_name (SponsoredTxHold SponsorshipBudget) = (''SponsoredTx'', ''SponsorshipBudget'')"
| "runtime_reason_name (SponsoredTxHold SponsorshipPending) = (''SponsoredTx'', ''SponsorshipPending'')"
| "runtime_reason_name (OtherHold _) = (''Session'', ''Keys'')"

interpretation reference_holds: named_holds plain_values runtime_reason_name
proof unfold_locales
  fix r
  show "contains (display plain_values (hold_id (runtime_reason_name r))) ''SponsorshipBudget'' \<longleftrightarrow> r = budget_hold_reason"
    by (rule runtime_reason_cases [of r]) (simp_all add: hold_id_def plain_values_def budget_hold_reason_def pending_hold_reason_def)
  show "contains (display plain_values (hold_id (runtime_reason_name r))) ''SponsorshipPending'' \<longleftrightarrow> r = pending_hold_reason"
    by (rule runtime_reason_cases [of r]) (simp_all add: hold_id_def plain_values_def budget_hold_reason_def pending_hold_reason_def)
qed


section \<open>Property\<close>



end
