(* ===== verification/Runtime_Integration.thy ===== *)
theory Runtime_Integration
  imports Runtime_Apis Collator_Service Client_View Pallet_Properties
begin

text \<open>
  Properties that join the runtime's parts: cross-chain messages and the sponsorship pallet, the
  node's chain specifications and the runtime's genesis presets, the denomination that
  specification, runtime and client each write down.
\<close>

section \<open>Cross-chain calls of the pallet\<close>

text \<open>The runtime's origin check on the origins that a \<open>Transact\<close> can have.\<close>

fun remote_ensure_signed :: "('acc, 'net) xcm_origin \<Rightarrow> ref_error + 'acc" where
  "remote_ensure_signed (SignedOrigin a) = Inr a"
| "remote_ensure_signed _ = Inl RefBadOrigin"

abbreviation RemoteConfig ::
  "(nat, 128 word, 128 word, ref_error, unit, ref_ledger, (nat, unit) xcm_origin) Config"
where
  "RemoteConfig \<equiv> runtime_sponsored_config ref_balances remote_ensure_signed ref_burn"

interpretation remote_pallet: sponsor_config RemoteConfig "ref_wf TYPE(128)" ref_total id
  by (intro sponsor_config.intro) (simp add: runtime_sponsored_config_def ref_sink.fee_sink_axioms)

text \<open>
  C19: a cross-chain message manages no escrow but its sender's.  When the executor turns a location
  into an origin and dispatches a call of the sponsorship pallet with it, the registration and the
  budget of every account but the location's own are unchanged, nobody's total balance and pending
  reservation changes, and a location without an account of its own changes nothing at all.
\<close>

theorem remote_calls_stay_in_own_escrow:
  assumes "location_converters L C parent_account sibling_account"
    and "T = runtime_sponsored_config B check_signed drop_credits"
    and "\<And>a who. check_signed a = Inr who \<Longrightarrow> a = SignedOrigin who"
    and "sponsor_config T W tot peek" and "W (ledger s)"
    and "XcmOriginToTransactDispatchOrigin L C (k, l) = Some origin"
    and "dispatch_call T origin c s = (r, t)"
  shows "(LocationToAccountId L l \<noteq> Some a \<longrightarrow> view T t a = view T s a)
    \<and> tot a (ledger t) = tot a (ledger s) \<and> pending_on_hold T a t = pending_on_hold T a s
    \<and> (LocationToAccountId L l = None \<longrightarrow> t = s)"
proof -
  have own: "LocationToAccountId L l = Some who" if "ensure_signed T origin = Inr who" for who
  proof -
    from that assms(2,3) have "origin = SignedOrigin who" by (simp add: runtime_sponsored_config_def)
    with assms(6) show ?thesis
      by (auto intro: location_converters.signed_only_for_own_account [OF assms(1)])
  qed
  have unsigned: "t = s" if "ensure_signed T origin = Inl e" for e
    using assms(7) that by (cases r) (auto dest: dispatch_failure elim: dispatch_signed)
  show ?thesis
  proof (cases "ensure_signed T origin")
    case (Inl e)
    then show ?thesis by (simp add: unsigned)
  next
    case (Inr who)
    with own sponsor_config.dispatch_others [OF assms(4,5) Inr assms(7), of a]
      sponsor_config.dispatch_total [OF assms(4,5,7), of a] sponsor_config.dispatch_pending [OF assms(4,5,7), of a]
    show ?thesis by auto
  qed
qed

definition remote_state :: "(nat, 128 word, ref_ledger) chain" where
  "remote_state = \<lparr>Sponsors = [1 \<mapsto> \<lparr>active = True, policy = \<lparr>allowed_callers = [2], max_fee_per_tx = 50\<rparr>\<rparr>],
     ledger = \<lparr>ref_free = (\<lambda>a. if a \<in> {1, 2000} then 1000 else 0),
       ref_held = (\<lambda>r a. if r = budget_hold_reason \<and> a = 1 then 200 else 0), ref_issuance = 2200\<rparr>, events = []\<rparr>"

lemma remote_state_wf: "ref_wf TYPE(128) (ledger remote_state)"
  by (auto simp: remote_state_def ref_wf_def ref_total_def ref_existential_deposit_def
      budget_hold_reason_def pending_hold_reason_def)

theorem remote_calls_stay_in_own_escrow_witness:
  "let sibling = \<lparr>parents = 1, interior = [Parachain 2000]\<rparr>;
       final = dispatch_call RemoteConfig (SignedOrigin 2000)
         (register_sponsor_call 300 \<lparr>allowed_callers = [7], max_fee_per_tx = 9\<rparr>) remote_state
   in XcmOriginToTransactDispatchOrigin demo_locations demo_origins (SovereignAccount, sibling) = Some (SignedOrigin 2000)
     \<and> fst final = Inr () \<and> view RemoteConfig (snd final) 1 = view RemoteConfig remote_state 1"
proof -
  let ?l = "\<lparr>parents = 1, interior = [Parachain 2000]\<rparr>"
  let ?c = "register_sponsor_call 300 \<lparr>allowed_callers = [7], max_fee_per_tx = 9\<rparr>"
  have conv: "XcmOriginToTransactDispatchOrigin demo_locations demo_origins (SovereignAccount, ?l) = Some (SignedOrigin 2000)"
    and acc: "LocationToAccountId demo_locations ?l = Some 2000"
    by (simp_all add: demo_locations.converter_defs demo_locations.location_account)
  obtain r t where run: "dispatch_call RemoteConfig (SignedOrigin 2000) ?c remote_state = (r, t)"
    by (cases "dispatch_call RemoteConfig (SignedOrigin 2000) ?c remote_state")
  have signed: "remote_ensure_signed o' = Inr who \<Longrightarrow> o' = SignedOrigin who" for o' :: "(nat, unit) xcm_origin" and who
    by (cases o') simp_all
  note use = remote_calls_stay_in_own_escrow [OF demo_locations.location_converters_axioms refl signed
      remote_pallet.sponsor_config_axioms remote_state_wf conv run, of 1]
  have "r = Inr ()"
    using run by (simp add: dispatch_call_def with_storage_layer_def runtime_sponsored_config_def register_sponsor_run
        ensure_valid_policy_eq remote_state_def ref_hold_def ref_existential_deposit_def MaxSponsoredCallers_def)
  with use acc conv run show ?thesis by simp
qed

section \<open>Specifications, presets and denomination\<close>

text \<open>
  C32: every built-in chain specification starts the chain the runtime describes.  Its preset is one
  the runtime's genesis API lists and builds; that genesis endows each well-known account, registers
  as initial collators exactly Alice and Bob, each validating for itself under session keys whose
  Aura key is its own public key, and puts the parachain under its identifier; and the
  specification's token decimals and address format are the runtime's unit and address prefix, which
  the client uses as well.
\<close>

theorem builtin_specs_build_their_genesis:
  assumes "\<And>p f. get_preset_or_default R (Some p) f = f p"
    and "name \<in> {''dev'', ''template-rococo'', ''local'', ''''}"
    and "load_spec ids WASM_BINARY from_json_file name = Some (Inr spec)"
  shows "\<exists>g d. api_get_preset (genesis_builder_api R ids v to_json K) (Some (genesis_preset spec)) = Some (to_json g)
    \<and> genesis_preset spec \<in> set (api_preset_names (genesis_builder_api R ids v to_json K))
    \<and> balances g = map (\<lambda>a. (a, 2 ^ 60)) (well_known K) \<and> parachain_id g = PARACHAIN_ID
    \<and> invulnerables g = [Alice K, Bob K]
    \<and> session_keys g = [(Alice K, Alice K, \<lparr>aura = Alice_public K\<rparr>), (Bob K, Bob K, \<lparr>aura = Bob_public K\<rparr>)]
    \<and> map_of (properties spec) ''tokenDecimals'' = Some (NumberProperty d) \<and> unat UNIT = 10 ^ d \<and> client_UNIT = UNIT
    \<and> map_of (properties spec) ''ss58Format'' = Some (NumberProperty (unat SS58Prefix))
    \<and> WASM_BINARY = Some (spec_code spec)"
proof -
  have preset: "genesis_preset spec \<in> {DEV_RUNTIME_PRESET ids, LOCAL_TESTNET_RUNTIME_PRESET ids}"
    and props: "map_of (properties spec) ''tokenDecimals'' = Some (NumberProperty 12)"
      "map_of (properties spec) ''ss58Format'' = Some (NumberProperty 42)" "WASM_BINARY = Some (spec_code spec)"
    using assms(2,3) by (auto simp: load_spec_def development_chain_spec_def local_chain_spec_def)
  have "push_bit 60 1 = (2 ^ 60 :: 128 word)" by simp
  moreover have "development_config_genesis v K = local_testnet_genesis v K"
    by (simp add: development_config_genesis_def local_testnet_genesis_def)
  moreover have "unat UNIT = 10 ^ 12" "client_UNIT = UNIT" "unat SS58Prefix = 42"
    by (simp_all add: currency_defs client_UNIT_def SS58Prefix_def)
  ultimately show ?thesis
    using preset props
    by (intro exI [of _ "local_testnet_genesis v K"] exI [of _ 12])
      (auto simp: genesis_builder_api_def assms(1) get_preset_def preset_names_def local_testnet_genesis_def testnet_genesis_def
        template_session_keys_def)
qed

theorem builtin_specs_build_their_genesis_witness:
  "\<exists>spec. load_spec \<lparr>DEV_RUNTIME_PRESET = ''development'', LOCAL_TESTNET_RUNTIME_PRESET = ''local_testnet''\<rparr>
      (Some ()) (\<lambda>_. Inl ()) ''dev'' = Some (Inr spec)
    \<and> genesis_preset spec = ''development''
    \<and> api_get_preset (genesis_builder_api demo_runtime
        \<lparr>DEV_RUNTIME_PRESET = ''development'', LOCAL_TESTNET_RUNTIME_PRESET = ''local_testnet''\<rparr> 5 (\<lambda>g. [ucast (parachain_id g)])
        \<lparr>Alice = 1 :: nat, Alice_public = (), Bob = 2, Bob_public = (), well_known = [1, 2]\<rparr>) (Some (genesis_preset spec))
      = Some [ucast PARACHAIN_ID]"
proof -
  let ?ids = "\<lparr>DEV_RUNTIME_PRESET = ''development'', LOCAL_TESTNET_RUNTIME_PRESET = ''local_testnet''\<rparr>"
  obtain spec where spec: "load_spec ?ids (Some ()) (\<lambda>_. Inl ()) ''dev'' = Some (Inr spec :: unit + unit ChainSpec)"
      "genesis_preset spec = ''development''"
    by (simp add: load_spec_def development_chain_spec_def)
  have "get_preset_or_default demo_runtime (Some p) f = f p" for p f
    by (simp add: demo_runtime_def)
  from builtin_specs_build_their_genesis [OF this _ spec(1), of 5 "\<lambda>g. [ucast (parachain_id g)]"
      "\<lparr>Alice = 1 :: nat, Alice_public = (), Bob = 2, Bob_public = (), well_known = [1, 2]\<rparr>"] spec
  show ?thesis by auto
qed

end
