(* ===== verification/Client_Search.thy ===== *)
theory Client_Search
  imports Subxt_Client
begin

text \<open>
  The recursive search of the client over a dynamic value (\<open>collect_sponsor_holds\<close> of
  \<^verbatim>\<open>examples/subxt-sponsor-client/src/main.rs\<close>) is a scan: its recursion, whatever is done at
  a value, visits every value that is nested in its argument exactly once, outer values first and
  siblings in order.
\<close>

section \<open>Nested values in the order of the visit\<close>

fun subvalues :: "scale_value \<Rightarrow> scale_value list" where
  "subvalues (NamedComposite vs) = NamedComposite vs # concat (map (\<lambda>kv. subvalues (snd kv)) vs)"
| "subvalues (UnnamedComposite us) = UnnamedComposite us # concat (map subvalues us)"
| "subvalues (NamedVariant n vs) = NamedVariant n vs # concat (map (\<lambda>kv. subvalues (snd kv)) vs)"
| "subvalues (UnnamedVariant n us) = UnnamedVariant n us # concat (map subvalues us)"
| "subvalues (BitSequence bits) = [BitSequence bits]"
| "subvalues (PrimitiveValue p) = [PrimitiveValue p]"

lemma fold_concat_map:
  "(\<And>x a. x \<in> set xs \<Longrightarrow> f x a = fold g (h x) a) \<Longrightarrow> fold f xs acc = fold g (concat (map h xs)) acc"
  by (induction xs arbitrary: acc) simp_all

lemma walk_is_scan: "walk visit v acc = fold visit (subvalues v) acc"
proof (induction v arbitrary: acc rule: subvalues.induct)
  case (1 vs)
  then show ?case by (simp add: fold_concat_map [where h = "\<lambda>kv. subvalues (snd kv)" and g = visit])
next
  case (2 us)
  then show ?case by (simp add: fold_concat_map [where h = subvalues and g = visit])
next
  case (3 n vs)
  then show ?case by (simp add: fold_concat_map [where h = "\<lambda>kv. subvalues (snd kv)" and g = visit])
next
  case (4 n us)
  then show ?case by (simp add: fold_concat_map [where h = subvalues and g = visit])
qed simp_all

lemma fold_log: "fold (\<lambda>x xs. xs @ [x]) ys acc = acc @ ys"
  by (induction ys arbitrary: acc) simp_all

section \<open>Property\<close>

text \<open>
  C38: the client's search for the sponsor's holds ends and is a scan.  On every dynamic value,
  however deeply nested, the recursion of the search, run with a log in place of the amounts, logs
  each nested value exactly once, outer values before inner ones and siblings in order; and the
  amounts it returns are those of a single pass over these values.
\<close>

theorem hold_search_is_a_scan:
  "walk (\<lambda>x log. log @ [x]) v [] = subvalues v
   \<and> collect_sponsor_holds V v acc = fold (collect_here V) (subvalues v) acc"
  by (simp add: collect_sponsor_holds_def walk_is_scan fold_log)

end
