(* ===== verification/Client_Extensions.thy ===== *)
theory Client_Extensions
  imports Subxt_Client Runtime_Config
begin

text \<open>
  The transaction extensions that the client is configured with (\<open>SponsoredConfig\<close> of
  \<^verbatim>\<open>examples/subxt-sponsor-client/src/main.rs\<close>) against the extensions of the runtime.
  The client library walks the extensions in the runtime's metadata and encodes, for each, the
  first configured one that matches its identifier; an extension without data needs none.
\<close>

datatype client_tx_extension = ClientVerifySignature | ClientCheckSpecVersion | ClientCheckTxVersion
  | ClientCheckNonce | ClientCheckGenesis | ClientCheckMortality | ClientChargeAssetTxPayment
  | ClientSponsoredCharge | ClientCheckMetadataHash

definition client_ExtrinsicParams :: "client_tx_extension list" where
  "client_ExtrinsicParams = [ClientVerifySignature, ClientCheckSpecVersion, ClientCheckTxVersion, ClientCheckNonce,
     ClientCheckGenesis, ClientCheckMortality, ClientChargeAssetTxPayment, ClientSponsoredCharge, ClientCheckMetadataHash]"

text \<open>The configured extension that answers for an identifier.\<close>

definition answers_for :: "(client_tx_extension \<Rightarrow> string \<Rightarrow> bool) \<Rightarrow> string \<Rightarrow> client_tx_extension option" where
  "answers_for matches name = List.find (\<lambda>e. matches e name) client_ExtrinsicParams"

text \<open>
  Names as the framework documents them: each of its client extensions matches one identifier, the
  runtime's \<open>CheckEra\<close> goes by \<open>CheckMortality\<close>, and three of the runtime's
  extensions carry no data.  The sponsorship extension's side of both comes from the repository.
\<close>

locale extension_names =
  fixes ident :: "tx_extension \<Rightarrow> string"
    and matches :: "client_tx_extension \<Rightarrow> string \<Rightarrow> bool"
    and has_data :: "tx_extension \<Rightarrow> bool"
  assumes runtime_names: "ident CheckSpecVersion = ''CheckSpecVersion''" "ident CheckTxVersion = ''CheckTxVersion''"
      "ident CheckGenesis = ''CheckGenesis''" "ident CheckEra = ''CheckMortality''" "ident CheckNonce = ''CheckNonce''"
      "ident SponsoredCharge = IDENTIFIER" "ident CheckMetadataHash = ''CheckMetadataHash''"
    and client_names: "matches ClientVerifySignature name \<longleftrightarrow> name = ''VerifyMultiSignature''"
      "matches ClientCheckSpecVersion name \<longleftrightarrow> name = ''CheckSpecVersion''" "matches ClientCheckTxVersion name \<longleftrightarrow> name = ''CheckTxVersion''"
      "matches ClientCheckNonce name \<longleftrightarrow> name = ''CheckNonce''" "matches ClientCheckGenesis name \<longleftrightarrow> name = ''CheckGenesis''"
      "matches ClientCheckMortality name \<longleftrightarrow> name = ''CheckMortality''"
      "matches ClientChargeAssetTxPayment name \<longleftrightarrow> name = ''ChargeAssetTxPayment''"
      "matches ClientSponsoredCharge = client_matches" "matches ClientCheckMetadataHash name \<longleftrightarrow> name = ''CheckMetadataHash''"
    and no_data: "\<not> has_data AuthorizeCall" "\<not> has_data CheckNonZeroSender" "\<not> has_data CheckWeight"
begin

lemma sponsored_answers: "answers_for matches (ident SponsoredCharge) = Some ClientSponsoredCharge"
  by (simp add: answers_for_def client_ExtrinsicParams_def runtime_names client_names IDENTIFIER_def client_matches_def)

lemma all_answered:
  assumes "e \<in> set TxExtension" and "has_data e"
  shows "\<exists>c. answers_for matches (ident e) = Some c"
proof (cases "e = SponsoredCharge")
  case False
  then have "e \<in> {CheckSpecVersion, CheckTxVersion, CheckGenesis, CheckEra, CheckNonce, CheckMetadataHash}"
    using assms no_data by (auto simp: TxExtension_def)
  then show ?thesis
    by (auto simp: answers_for_def client_ExtrinsicParams_def runtime_names client_names)
qed (simp add: sponsored_answers)

end

fun documented_identifier :: "tx_extension \<Rightarrow> string" where
  "documented_identifier CheckSpecVersion = ''CheckSpecVersion''"
| "documented_identifier CheckTxVersion = ''CheckTxVersion''"
| "documented_identifier CheckGenesis = ''CheckGenesis''"
| "documented_identifier CheckEra = ''CheckMortality''"
| "documented_identifier CheckNonce = ''CheckNonce''"
| "documented_identifier SponsoredCharge = IDENTIFIER"
| "documented_identifier CheckMetadataHash = ''CheckMetadataHash''"
| "documented_identifier AuthorizeCall = ''AuthorizeCall''"
| "documented_identifier CheckNonZeroSender = ''CheckNonZeroSender''"
| "documented_identifier CheckWeight = ''CheckWeight''"

fun documented_matches :: "client_tx_extension \<Rightarrow> string \<Rightarrow> bool" where
  "documented_matches ClientVerifySignature name \<longleftrightarrow> name = ''VerifyMultiSignature''"
| "documented_matches ClientCheckSpecVersion name \<longleftrightarrow> name = ''CheckSpecVersion''"
| "documented_matches ClientCheckTxVersion name \<longleftrightarrow> name = ''CheckTxVersion''"
| "documented_matches ClientCheckNonce name \<longleftrightarrow> name = ''CheckNonce''"
| "documented_matches ClientCheckGenesis name \<longleftrightarrow> name = ''CheckGenesis''"
| "documented_matches ClientCheckMortality name \<longleftrightarrow> name = ''CheckMortality''"
| "documented_matches ClientChargeAssetTxPayment name \<longleftrightarrow> name = ''ChargeAssetTxPayment''"
| "documented_matches ClientSponsoredCharge name \<longleftrightarrow> client_matches name"
| "documented_matches ClientCheckMetadataHash name \<longleftrightarrow> name = ''CheckMetadataHash''"

interpretation documented_names: extension_names documented_identifier documented_matches
  "\<lambda>e. e \<notin> {AuthorizeCall, CheckNonZeroSender, CheckWeight}"
  by unfold_locales (simp_all add: fun_eq_iff)

text \<open>
  The client can build a transaction for the runtime: each of the runtime's extensions that carries
  data is answered by a configured one, and the sponsorship extension by the client's own.
\<close>

lemma client_offers_runtime_extensions:
  assumes "extension_names ident matches has_data"
  shows "(\<forall>e \<in> set TxExtension. has_data e \<longrightarrow> (\<exists>c. answers_for matches (ident e) = Some c))
    \<and> answers_for matches (ident SponsoredCharge) = Some ClientSponsoredCharge"
  using extension_names.all_answered [OF assms] extension_names.sponsored_answers [OF assms] by blast

end
