(* ===== verification/Sponsor_Progress.thy ===== *)
theory Sponsor_Progress
  imports Sponsor_Lifecycle
begin

text \<open>
  Progress of the pallet: whatever happened before, a transaction in flight can be closed, and
  after that every sponsor can leave.  Beside the contracts of \<open>payment_config\<close> this needs
  two things of the environment: an account can sign, and the wrapped payment extension can finish
  what it started without charging more than it did before the dispatch.
\<close>

lemma relpowp_one:
  fixes R :: "'a \<Rightarrow> 'a \<Rightarrow> bool"
  shows "R x y \<Longrightarrow> (R ^^ Suc 0) x y"
  by (auto simp: relcompp_apply)

lemma relpowp_two:
  fixes R :: "'a \<Rightarrow> 'a \<Rightarrow> bool"
  shows "R x y \<Longrightarrow> R y z \<Longrightarrow> (R ^^ Suc (Suc 0)) x z"
  by (auto simp: relcompp_apply)

locale closing_config = payment_config T wf total peek P + burning_config T wf total peek
  for T :: "('acc, 'w::len word, 'c, 'e, 'r, 'b, 'o) Config"
    and wf :: "'b \<Rightarrow> bool"
    and total :: "'acc \<Rightarrow> 'b \<Rightarrow> nat"
    and peek :: "'c \<Rightarrow> 'w word"
    and P :: "('acc, 'w word, 'fee, 'u::len word, 'o, 'call, 'info, 'post, 'res, 'imp, 'src, 'v, 'valid, 'val, 'pre, 'weight, 'b)
     payment_api" +
  fixes sign :: "'acc \<Rightarrow> 'o"
  assumes can_sign: "ensure_signed T (sign a) = Inr a"
    and base_post_live: "wf b \<Longrightarrow> \<exists>w b'. base_post_dispatch_details P pre info post len res b = (Inr w, b')
      \<and> (\<forall>a. total a b \<le> total a b')"
begin

text \<open>A transaction in flight closes whatever its dispatch reported.\<close>

lemma transaction_closes:
  assumes inv: "escrow_inv T wf (Dispatching pre) s"
  obtains w t where "post_dispatch_details T P pre info post len res s = (Inr w, t)"
    and "Sponsors t = Sponsors s" and "\<And>a. total a (ledger s) \<le> total a (ledger t) + reserved (Dispatching pre) a"
proof (cases pre)
  case (PreUnsponsored bp)
  from base_post_live [OF escrow_invD(1) [OF inv]] obtain w b
    where "base_post_dispatch_details P bp info post len res (ledger s) = (Inr w, b)"
    and "\<And>a. total a (ledger s) \<le> total a b" by blast
  with that [of w "s\<lparr>ledger := b\<rparr>"] PreUnsponsored show ?thesis
    by (simp add: post_dispatch_details_def on_ledger_def map_err_def)
next
  case (PreSponsored spons signer est tp)
  let ?t = "snd (settle_sponsored_fee T P spons signer est tp info post len s)"
  note facts = escrow_invD [OF inv]
  have "unat (charged_fee T P spons est tp info post len s) \<le> unat est"
    by (simp add: charged_fee_def unat_min)
  then have "total a (ledger s) \<le> total a (ledger ?t) + reserved (Dispatching pre) a" for a
    using settle_total [OF facts(1), of a P spons signer est tp info post len] PreSponsored by auto
  moreover have "Sponsors ?t = Sponsors s"
    by (rule settle_frame(1) [OF facts(1)])
  moreover have "post_dispatch_details T P pre info post len res s
      = (Inr (fst (settle_sponsored_fee T P spons signer est tp info post len s)), ?t)"
    using PreSponsored by (simp add: post_dispatch_details_def split: prod.splits)
  ultimately show ?thesis using that by blast
qed

lemma idle_sponsor_leaves:
  assumes inv: "escrow_inv T wf Idle s" and "Sponsors s a \<noteq> None"
  obtains t where "lifecycle_step T wf P (Idle, s) (Idle, t)" and "view T t a = \<lparr>registration = None, budget = 0, pending = 0\<rparr>"
    and "\<And>a'. total a' (ledger t) = total a' (ledger s)"
proof -
  note facts = escrow_invD [OF inv]
  have "pending_on_hold T a s = 0" using facts(4) [of a] by (simp add: unat_eq_0)
  then obtain t where run: "dispatch_call T (sign a) unregister_call s = (Inr (), t)"
    using unregister_succeeds [OF facts(1) can_sign assms(2)] by blast
  show ?thesis
  proof (rule that [of t])
    show "lifecycle_step T wf P (Idle, s) (Idle, t)"
      by (rule lifecycle_step.pallet_call [OF _ run]) simp
    show "view T t a = \<lparr>registration = None, budget = 0, pending = 0\<rparr>"
      using dispatch_success [OF facts(1) can_sign run] by (auto simp: fun_eq_iff split: if_splits)
    show "total a' (ledger t) = total a' (ledger s)" for a'
      by (rule dispatch_total [OF facts(1) run])
  qed
qed

lemma sponsor_leaves:
  assumes "reachable T wf P ph s" and reg: "Sponsors s a \<noteq> None"
  shows "\<exists>n t. n \<le> 2 \<and> (lifecycle_step T wf P ^^ n) (ph, s) (Idle, t) \<and> Sponsors t a = None
    \<and> budget_on_hold T a t = 0 \<and> pending_on_hold T a t = 0
    \<and> total a (ledger s) \<le> total a (ledger t) + reserved ph a"
proof -
  note inv = inv_reachable [OF assms(1)]
  have gone: "Sponsors t a = None \<and> budget_on_hold T a t = 0 \<and> pending_on_hold T a t = 0"
    if "view T t a = \<lparr>registration = None, budget = 0, pending = 0\<rparr>" for t
    using that by (simp add: view_def unat_eq_0)
  show ?thesis
  proof (cases ph)
    case Idle
    with inv obtain t where step: "lifecycle_step T wf P (ph, s) (Idle, t)"
      and "view T t a = \<lparr>registration = None, budget = 0, pending = 0\<rparr>" and "total a (ledger t) = total a (ledger s)"
      using idle_sponsor_leaves [OF _ reg] by metis
    with gone [of t] relpowp_one [of "lifecycle_step T wf P", OF step] show ?thesis
      by (intro exI [of _ "Suc 0"] exI [of _ t]) (simp del: relpowp.simps)
  next
    case (Dispatching pre)
    obtain w u where "post_dispatch_details T P pre info post len res s = (Inr w, u)"
      and same: "Sponsors u = Sponsors s" and le: "total a (ledger s) \<le> total a (ledger u) + reserved ph a"
      using transaction_closes inv Dispatching by metis
    then have close: "lifecycle_step T wf P (ph, s) (Idle, u)"
      using Dispatching by (auto intro: lifecycle_step.close_transaction)
    have "escrow_inv T wf (Idle :: ('acc, 'w word, 'pre) phase) u" using inv_step [OF close] inv by simp
    then obtain t where step: "lifecycle_step T wf P (Idle, u) (Idle, t)"
      and "view T t a = \<lparr>registration = None, budget = 0, pending = 0\<rparr>" and "total a (ledger t) = total a (ledger u)"
      using idle_sponsor_leaves [of u a] reg same by metis
    with gone [of t] le relpowp_two [of "lifecycle_step T wf P", OF close step] show ?thesis
      by (intro exI [of _ "Suc (Suc 0)"] exI [of _ t]) (simp del: relpowp.simps)
  qed
qed

end

interpretation ref_closing: closing_config
  "ref_config :: (nat, 'w::len word, 'w word, ref_error, unit, ref_ledger, ref_origin) Config"
  "ref_wf TYPE('w)" ref_total id ref_payment RefSigned
  by (intro closing_config.intro ref_lifecycle.payment_config_axioms ref_burning.burning_config_axioms
      closing_config_axioms.intro) simp_all

section \<open>Property\<close>

text \<open>
  C14: escrowed funds are never locked in.  From every reachable state, with or without a transaction
  in flight, at most two steps (closing the transaction, leaving) take any registered sponsor out:
  its registration, its budget and its pending hold are gone, and of its total balance nothing is
  missing but at most the reservation of its own transaction in flight.
\<close>

theorem every_sponsor_can_leave:
  assumes "closing_config T W tot peek P sign" and "reachable T W P ph s" and "Sponsors s a \<noteq> None"
  shows "\<exists>n t. n \<le> 2 \<and> (lifecycle_step T W P ^^ n) (ph, s) (Idle, t) \<and> Sponsors t a = None
    \<and> budget_on_hold T a t = 0 \<and> pending_on_hold T a t = 0
    \<and> tot a (ledger s) \<le> tot a (ledger t) + reserved ph a"
  by (rule closing_config.sponsor_leaves [OF assms])

theorem every_sponsor_can_leave_witness:
  "\<exists>n t. n \<le> 2 \<and> (lifecycle_step Test (ref_wf TYPE(64)) TestPayment ^^ n)
      (Dispatching (PreSponsored 1 2 18 5), prepared_ext) (Idle, t) \<and> Sponsors t 1 = None
    \<and> budget_on_hold Test 1 t = 0 \<and> pending_on_hold Test 1 t = 0
    \<and> ref_total 1 (ledger prepared_ext) \<le> ref_total 1 (ledger t) + 18"
  using every_sponsor_can_leave [OF ref_closing.closing_config_axioms prepared_ext_reachable, of 1]
  by simp

end
