(* ===== verification/Sponsor_Solvency.thy ===== *)
theory Sponsor_Solvency
  imports Sponsor_Progress
begin

text \<open>
  Whole transactions that succeed.  \<open>transaction_runs\<close> is one extrinsic from validation to
  settlement.  An account \<open>covers\<close> an amount when its total balance exceeds its sponsorship
  holds by it and no other pallet holds funds of it; under \<open>solvent_config\<close> such an account
  can pay for its own transactions and hold a budget, and a sponsored transaction that the policy
  allows runs to its settlement.
\<close>

section \<open>Transactions and funds\<close>

definition transaction_runs ::
  "('acc, 'w::len word, 'c, 'e, 'r, 'b, 'o) Config \<Rightarrow>
   ('acc, 'w word, 'fee, 'u::len word, 'o, 'call, 'info, 'post, 'res, 'imp, 'src, 'v, 'valid, 'val, 'pre, 'weight, 'b)
     payment_api \<Rightarrow> (('acc, 'w word, 'b) chain, 'd, unit) op \<Rightarrow> ('acc, 'w word) SponsoredChargeTransactionPayment
     \<Rightarrow> 'o \<Rightarrow> 'call \<Rightarrow> 'info \<Rightarrow> 'u word \<Rightarrow> 'imp \<Rightarrow> 'src \<Rightarrow> 'post \<Rightarrow> 'res
     \<Rightarrow> ('acc, 'w word, 'b) chain \<Rightarrow> ('acc, 'w word, 'b) chain \<Rightarrow> bool"
where
  "transaction_runs T P run self origin call info len imp src post res s t \<longleftrightarrow>
     (\<exists>valid val origin' pre s1 s2 w.
        validate T P self origin call info len imp src s = Inr (valid, val, origin')
        \<and> prepare T P self val origin' call info len s = (Inr pre, s1)
        \<and> run s1 = (Inr (), s2)
        \<and> post_dispatch_details T P pre info post len res s2 = (Inr w, t))"

lemma transaction_runsI:
  assumes "validate T P self origin call info len imp src s = Inr (valid, val, origin')"
    and "prepare T P self val origin' call info len s = (Inr pre, s1)"
    and "run s1 = (Inr (), s2)" and "post_dispatch_details T P pre info post len res s2 = (Inr w, t)"
  shows "transaction_runs T P run self origin call info len imp src post res s t"
  using assms unfolding transaction_runs_def by blast

definition covers ::
  "('acc, 'w::len word, 'c, 'e, 'r, 'b, 'o) Config \<Rightarrow> ('acc \<Rightarrow> 'b \<Rightarrow> nat) \<Rightarrow> 'acc \<Rightarrow> nat \<Rightarrow> 'b \<Rightarrow> bool"
where
  "covers T tot a n b \<longleftrightarrow> (\<forall>x. held (Balances T) (OtherHold x) a b = 0)
     \<and> held (Balances T) budget_hold_reason a b + held (Balances T) pending_hold_reason a b + n \<le> tot a b"

lemma covers_keep:
  assumes "covers T tot a (k + n) b" and "tot a b \<le> tot a b' + k"
    and "\<And>x. held (Balances T) (OtherHold x) a b' = held (Balances T) (OtherHold x) a b"
    and "held (Balances T) budget_hold_reason a b' + held (Balances T) pending_hold_reason a b'
      \<le> held (Balances T) budget_hold_reason a b + held (Balances T) pending_hold_reason a b"
  shows "covers T tot a n b'"
  using assms by (simp add: covers_def)

lemma other_reason [simp]:
  "OtherHold x \<noteq> budget_hold_reason" "OtherHold x \<noteq> pending_hold_reason"
  by (simp_all add: budget_hold_reason_def pending_hold_reason_def)

lemma word_add_of_unat:
  fixes x y z :: "'w::len word"
  assumes "unat x + unat y = unat z"
  shows "x + y = z"
  using arg_cong [OF assms, of "of_nat :: nat \<Rightarrow> 'w word"] by simp

lemma view_updD:
  assumes "view T t = (view T s)(a := e)"
  shows "Sponsors t = (Sponsors s)(a := registration e)" and "unat (budget_on_hold T a t) = budget e"
    and "unat (pending_on_hold T a t) = pending e"
proof -
  have "registration (view T t a') = registration (((view T s)(a := e)) a')" for a'
    using assms by simp
  then show "Sponsors t = (Sponsors s)(a := registration e)" by (auto simp: fun_eq_iff)
  have "view T t a = e" using assms by simp
  then show "unat (budget_on_hold T a t) = budget e" "unat (pending_on_hold T a t) = pending e" by auto
qed

section \<open>Configurations in which a solvent account can pay\<close>

text \<open>
  \<open>reserve\<close> is what an account has to keep free, the existential deposit.  Beyond
  \<open>closing_config\<close>: a hold within the free balance is granted, and the wrapped payment
  extension accepts an account that can pay the computed fee, and withdraws at most that.
\<close>

locale solvent_config = closing_config T wf total peek P sign
  for T :: "('acc, 'w::len word, 'c, 'e, 'r, 'b, 'o) Config"
    and wf :: "'b \<Rightarrow> bool"
    and total :: "'acc \<Rightarrow> 'b \<Rightarrow> nat"
    and peek :: "'c \<Rightarrow> 'w word"
    and P :: "('acc, 'w word, 'fee, 'u::len word, 'o, 'call, 'info, 'post, 'res, 'imp, 'src, 'v, 'valid, 'val, 'pre, 'weight, 'b)
     payment_api"
    and sign :: "'acc \<Rightarrow> 'o" +
  fixes reserve :: nat
  assumes origin_signer: "as_system_origin_signer P (sign a) = Some a"
    and hold_live: "wf b \<Longrightarrow> covers T total a (unat n + reserve) b \<Longrightarrow>
      \<exists>b'. hold (Balances T) budget_hold_reason a n b = (Inr (), b')"
    and base_pays: "wf b \<Longrightarrow> covers T total a (unat (from_fee P (compute_fee P (ucast len) info f b)) + reserve) b \<Longrightarrow>
      \<exists>valid val pre b'. base_validate P f (sign a) call info len imp src b = Inr (valid, val, sign a)
        \<and> base_prepare P f val (sign a) call info len b = (Inr pre, b')
        \<and> total a b \<le> total a b' + unat (from_fee P (compute_fee P (ucast len) info f b))
        \<and> (\<forall>a'. a' \<noteq> a \<longrightarrow> total a' b' = total a' b)"
begin

lemma own_transaction_opens:
  assumes wf: "wf (ledger s)" and "sponsor self = None"
    and funds: "covers T total a (unat (estimated_fee P (tip self) info len s) + m) (ledger s)" and "reserve \<le> m"
  obtains valid val pre b where "validate T P self (sign a) call info len imp src s = Inr (valid, ValUnsponsored val, sign a)"
    and "prepare T P self (ValUnsponsored val) (sign a) call info len s = (Inr (PreUnsponsored pre), s\<lparr>ledger := b\<rparr>)"
    and "wf b" and "\<And>r a. held (Balances T) r a b = held (Balances T) r a (ledger s)" and "covers T total a m b"
    and "total a (ledger s) \<le> total a b + unat (estimated_fee P (tip self) info len s)"
    and "\<And>a'. a' \<noteq> a \<Longrightarrow> total a' b = total a' (ledger s)"
proof -
  let ?fee = "estimated_fee P (tip self) info len s"
  have "covers T total a (unat ?fee + reserve) (ledger s)"
    using funds \<open>reserve \<le> m\<close> by (simp add: covers_def)
  from base_pays [OF wf this [unfolded estimated_fee_def]] obtain valid val pre b
    where v: "base_validate P (into_fee P (tip self)) (sign a) call info len imp src (ledger s) = Inr (valid, val, sign a)"
    and p: "base_prepare P (into_fee P (tip self)) val (sign a) call info len (ledger s) = (Inr pre, b)"
    and le: "total a (ledger s) \<le> total a b + unat ?fee" and others: "\<forall>a'. a' \<noteq> a \<longrightarrow> total a' b = total a' (ledger s)"
    unfolding estimated_fee_def by blast
  have kept: "wf b" "held (Balances T) r a' b = held (Balances T) r a' (ledger s)" for r a'
    using base_prepare_keeps [OF wf p] by auto
  show ?thesis
  proof (rule that)
    show "validate T P self (sign a) call info len imp src s = Inr (valid, ValUnsponsored val, sign a)"
      using v assms(2) by (simp add: validate_def)
    show "prepare T P self (ValUnsponsored val) (sign a) call info len s = (Inr (PreUnsponsored pre), s\<lparr>ledger := b\<rparr>)"
      using p by (simp add: prepare_def op_simps on_ledger_def map_err_def ok_def and_then_def)
    show "covers T total a m b"
      by (rule covers_keep [OF funds le]) (simp_all add: kept)
  qed (use kept le others in auto)
qed

text \<open>A call of the pallet in a transaction that its caller pays.\<close>

lemma own_call_runs:
  assumes inv: "escrow_inv T wf (Idle :: ('acc, 'w word, 'pre) phase) s" and "sponsor self = None" and "call_decodes T c"
    and funds: "covers T total a (unat (estimated_fee P (tip self) info len s) + m) (ledger s)" and "reserve \<le> m"
    and succeeds: "\<forall>u. wf (ledger u) \<and> Sponsors u = Sponsors s \<and> covers T total a m (ledger u) \<longrightarrow>
      (\<exists>t. dispatch_call T (sign a) c u = (Inr (), t))"
  obtains t where "transaction_runs T P (dispatch_call T (sign a) c) self (sign a) call info len imp src post res s t"
    and "escrow_inv T wf (Idle :: ('acc, 'w word, 'pre) phase) t" and "spec_call a c (view T s) = Inr (view T t)"
    and "\<And>x a. held (Balances T) (OtherHold x) a (ledger t) = held (Balances T) (OtherHold x) a (ledger s)"
    and "total a (ledger s) \<le> total a (ledger t) + unat (estimated_fee P (tip self) info len s)"
    and "\<And>a'. a' \<noteq> a \<Longrightarrow> total a' (ledger s) \<le> total a' (ledger t)"
proof -
  note facts = escrow_invD [OF inv]
  from own_transaction_opens [OF facts(1) assms(2) funds assms(5), of call imp src]
  obtain valid val pre b where v: "validate T P self (sign a) call info len imp src s = Inr (valid, ValUnsponsored val, sign a)"
    and p: "prepare T P self (ValUnsponsored val) (sign a) call info len s = (Inr (PreUnsponsored pre), s\<lparr>ledger := b\<rparr>)"
    and b: "wf b" "\<And>r a. held (Balances T) r a b = held (Balances T) r a (ledger s)" "covers T total a m b"
      "total a (ledger s) \<le> total a b + unat (estimated_fee P (tip self) info len s)"
      "\<And>a'. a' \<noteq> a \<Longrightarrow> total a' b = total a' (ledger s)" by metis
  let ?u = "s\<lparr>ledger := b\<rparr>"
  have inv1: "escrow_inv T wf (Dispatching (PreUnsponsored pre)) ?u"
    by (rule inv_open [OF inv v p])
  from succeeds [rule_format, of ?u] b(1,3) obtain u2 where d: "dispatch_call T (sign a) c ?u = (Inr (), u2)" by auto
  have inv2: "escrow_inv T wf (Dispatching (PreUnsponsored pre)) u2"
    by (rule inv_call [OF inv1 \<open>call_decodes T c\<close> d])
  note wf2 = escrow_invD(1) [OF inv2]
  from base_post_live [OF wf2, of pre info post len res] obtain w b' where
    q: "base_post_dispatch_details P pre info post len res (ledger u2) = (Inr w, b')"
    and up: "\<forall>a. total a (ledger u2) \<le> total a b'" by blast
  let ?t = "u2\<lparr>ledger := b'\<rparr>"
  have close: "post_dispatch_details T P (PreUnsponsored pre) info post len res u2 = (Inr w, ?t)"
    using q by (simp add: post_dispatch_details_def on_ledger_def map_err_def)
  have keep: "held (Balances T) r a' b' = held (Balances T) r a' (ledger u2)" for r a'
    using base_post_keeps [OF wf2 q] by blast
  have same: "view T ?u = view T s" "view T ?t = view T u2"
    by (rule view_same_holds, simp add: b(2) keep)+
  have tot: "total a' (ledger u2) = total a' b" for a'
    using dispatch_total [OF _ d] b(1) by simp
  show ?thesis
  proof (rule that [of ?t])
    show "transaction_runs T P (dispatch_call T (sign a) c) self (sign a) call info len imp src post res s ?t"
      by (rule transaction_runsI [OF v p _ close]) (rule d)
    show "escrow_inv T wf (Idle :: ('acc, 'w word, 'pre) phase) ?t" by (rule inv_close [OF inv2 close])
    show "spec_call a c (view T s) = Inr (view T ?t)"
      using dispatch_success [OF _ can_sign d] b(1) same by simp
    show "held (Balances T) (OtherHold x) a' (ledger ?t) = held (Balances T) (OtherHold x) a' (ledger s)" for x a'
      using dispatch_holds [OF _ d] b(1,2) by (simp add: keep)
    show "total a (ledger s) \<le> total a (ledger ?t) + unat (estimated_fee P (tip self) info len s)"
      using b(4) tot [of a] up [rule_format, of a] by simp
    show "total a' (ledger s) \<le> total a' (ledger ?t)" if "a' \<noteq> a" for a'
      using b(5) [OF that] tot [of a'] up [rule_format, of a'] by simp
  qed
qed

lemma register_runs:
  assumes inv: "escrow_inv T wf (Idle :: ('acc, 'w word, 'pre) phase) s" and self: "sponsor self = None" and new: "Sponsors s a = None"
    and pol: "valid_policy p" "policy_bounded T p" and "n \<noteq> 0"
    and funds: "covers T total a (unat (estimated_fee P (tip self) info len s) + (unat n + m)) (ledger s)" and "reserve \<le> m"
  obtains t where
    "transaction_runs T P (dispatch_call T (sign a) (register_sponsor_call n p)) self (sign a) call info len imp src post res s t"
    and "escrow_inv T wf (Idle :: ('acc, 'w word, 'pre) phase) t" and "Sponsors t = (Sponsors s)(a \<mapsto> \<lparr>active = True, policy = p\<rparr>)"
    and "budget_on_hold T a t = n" and "covers T total a m (ledger t)"
    and "\<And>a'. a' \<noteq> a \<Longrightarrow> total a' (ledger s) \<le> total a' (ledger t)"
proof -
  note facts = escrow_invD [OF inv]
  have "\<exists>t. dispatch_call T (sign a) (register_sponsor_call n p) u = (Inr (), t)"
    if "wf (ledger u)" "Sponsors u = Sponsors s" "covers T total a (unat n + m) (ledger u)" for u
  proof -
    have "covers T total a (unat n + reserve) (ledger u)"
      using that(3) \<open>reserve \<le> m\<close> by (simp add: covers_def)
    from hold_live [OF that(1) this] show ?thesis
      using that(2) new pol(1) \<open>n \<noteq> 0\<close>
      by (auto simp: dispatch_call_def with_storage_layer_def register_sponsor_run [OF can_sign]
          ensure_valid_policy_eq valid_policy_def)
  qed
  then have granted: "\<forall>u. wf (ledger u) \<and> Sponsors u = Sponsors s \<and> covers T total a (unat n + m) (ledger u) \<longrightarrow>
      (\<exists>t. dispatch_call T (sign a) (register_sponsor_call n p) u = (Inr (), t))" by blast
  have ok: "call_decodes T (register_sponsor_call n p)" "reserve \<le> unat n + m"
    using pol(2) \<open>reserve \<le> m\<close> by simp_all
  obtain t
    where run: "transaction_runs T P (dispatch_call T (sign a) (register_sponsor_call n p)) self (sign a) call info len imp src post res s t"
    and inv': "escrow_inv T wf (Idle :: ('acc, 'w word, 'pre) phase) t"
    and spec: "spec_call a (register_sponsor_call n p) (view T s) = Inr (view T t)"
    and other: "\<And>x a. held (Balances T) (OtherHold x) a (ledger t) = held (Balances T) (OtherHold x) a (ledger s)"
    and tot: "total a (ledger s) \<le> total a (ledger t) + unat (estimated_fee P (tip self) info len s)"
      "\<And>a'. a' \<noteq> a \<Longrightarrow> total a' (ledger s) \<le> total a' (ledger t)"
    by (rule own_call_runs [OF inv self ok(1) funds ok(2) granted, of call imp src post res]) blast
  have zero: "budget (view T s a) = 0" "pending (view T s a) = 0"
    using escrow_sound_at(2,3) [OF facts(2), of a] new by simp_all
  have "view T t = (view T s)(a := (view T s a)\<lparr>registration := Some \<lparr>active = True, policy = p\<rparr>,
      budget := budget (view T s a) + unat n\<rparr>)"
    using spec new \<open>n \<noteq> 0\<close> pol(1) by (simp add: valid_policy_def)
  note v = view_updD [OF this]
  have holds: "unat (budget_on_hold T a t) = unat n" "unat (pending_on_hold T a t) = 0"
    using v(2,3) zero by simp_all
  have "covers T total a m (ledger t)"
    using funds tot(1) other holds zero by (simp add: covers_def hold_sel)
  moreover have "budget_on_hold T a t = n"
    using holds(1) by (simp add: word_unat_eq_iff)
  ultimately show ?thesis
    using that [OF run inv' _ _ _ tot(2)] v(1) by simp
qed

lemma pause_runs:
  assumes inv: "escrow_inv T wf (Idle :: ('acc, 'w word, 'pre) phase) s" and self: "sponsor self = None"
    and st: "Sponsors s a = Some st" "active st"
    and funds: "covers T total a (unat (estimated_fee P (tip self) info len s) + m) (ledger s)" and "reserve \<le> m"
  obtains t where "transaction_runs T P (dispatch_call T (sign a) pause_call) self (sign a) call info len imp src post res s t"
    and "escrow_inv T wf (Idle :: ('acc, 'w word, 'pre) phase) t" and "Sponsors t = (Sponsors s)(a \<mapsto> st\<lparr>active := False\<rparr>)"
    and "budget_on_hold T a t = budget_on_hold T a s" and "covers T total a m (ledger t)"
    and "\<And>a'. a' \<noteq> a \<Longrightarrow> total a' (ledger s) \<le> total a' (ledger t)"
proof -
  have granted: "\<forall>u. wf (ledger u) \<and> Sponsors u = Sponsors s \<and> covers T total a m (ledger u) \<longrightarrow>
      (\<exists>t. dispatch_call T (sign a) pause_call u = (Inr (), t))"
    using st by (simp add: dispatch_call_def with_storage_layer_def pause_run [OF can_sign])
  have ok: "call_decodes T pause_call" by simp
  obtain t
    where run: "transaction_runs T P (dispatch_call T (sign a) pause_call) self (sign a) call info len imp src post res s t"
    and inv': "escrow_inv T wf (Idle :: ('acc, 'w word, 'pre) phase) t"
    and spec: "spec_call a pause_call (view T s) = Inr (view T t)"
    and other: "\<And>x a. held (Balances T) (OtherHold x) a (ledger t) = held (Balances T) (OtherHold x) a (ledger s)"
    and own: "total a (ledger s) \<le> total a (ledger t) + unat (estimated_fee P (tip self) info len s)"
    and tot: "\<And>a'. a' \<noteq> a \<Longrightarrow> total a' (ledger s) \<le> total a' (ledger t)"
    by (rule own_call_runs [OF inv self ok funds assms(6) granted, of call imp src post res]) blast
  have "view T t = (view T s)(a := (view T s a)\<lparr>registration := Some (st\<lparr>active := False\<rparr>)\<rparr>)"
    using spec st by simp
  note v = view_updD [OF this]
  have "budget_on_hold T a t = budget_on_hold T a s"
    using v(2) by (simp add: word_unat_eq_iff)
  moreover have "covers T total a m (ledger t)"
    using funds own other v(2,3) by (simp add: covers_def hold_sel)
  ultimately show ?thesis using that [OF run inv' _ _ _ tot] v(1) by simp
qed

text \<open>A sponsored transaction whose dispatch leaves the chain alone.\<close>

lemma sponsored_transaction_runs:
  assumes inv: "escrow_inv T wf (Idle :: ('acc, 'w word, 'pre) phase) s" and self: "sponsor self = Some spons"
    and st: "Sponsors s spons = Some st" "active st" "signer \<in> set (allowed_callers (policy st))"
    and fee: "estimated_fee P (tip self) info len s \<le> max_fee_per_tx (policy st)"
      "estimated_fee P (tip self) info len s \<le> budget_on_hold T spons s"
    and funds: "covers T total spons m (ledger s)"
    and neutral: "\<forall>u. run u = (Inr (), u)"
  obtains t k where "transaction_runs T P run self (sign signer) call info len imp src post res s t"
    and "escrow_inv T wf (Idle :: ('acc, 'w word, 'pre) phase) t" and "Sponsors t = Sponsors s"
    and "events t = events s @ [SponsoredTransactionFeePaid spons signer k (min (tip self) k)]"
    and "k \<le> estimated_fee P (tip self) info len s"
    and "unat (budget_on_hold T spons t) + unat k = unat (budget_on_hold T spons s)"
    and "covers T total spons m (ledger t)"
    and "\<And>a'. a' \<noteq> spons \<Longrightarrow> total a' (ledger t) = total a' (ledger s)"
proof -
  note facts = escrow_invD [OF inv]
  let ?fee = "estimated_fee P (tip self) info len s"
  have "first_fault (Sponsors s spons) (as_system_origin_signer P (sign signer)) (budget_on_hold T spons s) ?fee = None"
    using st fee by (simp add: first_fault_def origin_signer not_less)
  then obtain valid where v: "validate T P self (sign signer) call info len imp src s
      = Inr (valid, ValSponsored spons signer ?fee (tip self), sign signer)"
    by (simp add: validate_sponsored_eq [OF self] Let_def origin_signer)
  obtain u where p: "prepare T P self (ValSponsored spons signer ?fee (tip self)) (sign signer) call info len s
      = (Inr (PreSponsored spons signer ?fee (tip self)), u)"
    and vu: "view T u = (view T s)(spons := (view T s spons)\<lparr>budget := budget (view T s spons) - unat ?fee,
         pending := pending (view T s spons) + unat ?fee\<rparr>)"
    and u: "wf (ledger u)" "Sponsors u = Sponsors s" "events u = events s" "\<And>a. total a (ledger u) = total a (ledger s)"
    using prepare_succeeds [OF facts(1) fee(2)] by metis
  have inv1: "escrow_inv T wf (Dispatching (PreSponsored spons signer ?fee (tip self)) :: ('acc, 'w word, 'pre) phase) u"
    by (rule inv_open [OF inv v p])
  define k where "k = charged_fee T P spons ?fee (tip self) info post len u"
  define t where "t = snd (settle_sponsored_fee T P spons signer ?fee (tip self) info post len u)"
  have close: "post_dispatch_details T P (PreSponsored spons signer ?fee (tip self)) info post len res u
      = (Inr (fst (settle_sponsored_fee T P spons signer ?fee (tip self) info post len u)), t)"
    by (simp add: post_dispatch_details_def t_def split: prod.splits)
  have k: "k \<le> ?fee" by (simp add: k_def charged_fee_def min.coboundedI1)
  then have le: "unat k \<le> unat ?fee" by (simp add: word_le_nat_alt)
  have "unat ?fee \<le> unat (budget_on_hold T spons s)" using fee(2) by (simp add: word_le_nat_alt)
  moreover have "pending (view T s spons) = 0" using facts(4) [of spons] by simp
  ultimately have sums: "unat (budget_on_hold T spons t) + unat k = unat (budget_on_hold T spons s)"
      "unat (pending_on_hold T spons t) = 0" "unat (pending_on_hold T spons s) = 0"
    using arg_cong [OF settle_exact [OF u(1), of P spons signer ?fee "tip self" info post len], of "\<lambda>v. v spons"] vu le
    by (simp_all add: t_def [symmetric] k_def [symmetric] view_def fun_eq_iff)
  have tot: "total a (ledger s) = total a (ledger t) + (if a = spons then unat k else 0)" for a
    using settle_total [OF u(1), of a P spons signer ?fee "tip self" info post len] u(4) by (simp add: t_def k_def)
  show ?thesis
  proof (rule that [of t k, OF transaction_runsI [OF v p _ close] _ _ _ k sums(1)])
    show "run u = (Inr (), u)" using neutral by blast
    show "escrow_inv T wf (Idle :: ('acc, 'w word, 'pre) phase) t" by (rule inv_close [OF inv1 close])
    show "Sponsors t = Sponsors s" "events t = events s @ [SponsoredTransactionFeePaid spons signer k (min (tip self) k)]"
      using settle_frame [OF u(1)] u(2,3) by (simp_all add: t_def k_def)
    have moved: "(move_budget_to_pending T spons ?fee s :: ('v TransactionValidityError + unit) \<times> _) = (Inr (), u)"
      using p by (simp add: prepare_def op_simps)
    have "held (Balances T) (OtherHold x) spons (ledger t) = held (Balances T) (OtherHold x) spons (ledger s)" for x
      using move_budget_holds [OF facts(1) moved, of "OtherHold x" spons] settle_other_holds [OF u(1), of "OtherHold x"]
      by (simp add: t_def)
    then show "covers T total spons m (ledger t)"
      using funds sums tot [of spons] by (simp add: covers_def hold_sel)
    show "total a' (ledger t) = total a' (ledger s)" if "a' \<noteq> spons" for a'
      using tot [of a'] that by simp
  qed
qed

end

text \<open>The reference ledger and payment extension, with the ledger's existential deposit.\<close>

lemma covers_ref:
  fixes b :: ref_ledger
  assumes "ref_wf TYPE('w::len) b"
    and "covers (ref_config :: (nat, 'w word, 'w word, ref_error, unit, ref_ledger, ref_origin) Config) ref_total a n b"
  shows "n \<le> ref_free b a"
  using assms(2) by (simp add: covers_def held_ref [OF assms(1)] ref_total_def)

interpretation ref_solvent: solvent_config
  "ref_config :: (nat, 'w::len word, 'w word, ref_error, unit, ref_ledger, ref_origin) Config"
  "ref_wf TYPE('w)" ref_total id ref_payment RefSigned ref_existential_deposit
proof (intro solvent_config.intro ref_closing.closing_config_axioms solvent_config_axioms.intro)
  fix b :: ref_ledger and len :: "64 word" and a n f info call imp src
  let ?T = "ref_config :: (nat, 'w word, 'w word, ref_error, unit, ref_ledger, ref_origin) Config"
  let ?P = "ref_payment :: (nat, 'w word, 'w word, 64 word, ref_origin, unit, 'w word, 'w word, unit, unit, unit,
    ref_error, 64 word, (nat \<times> 'w word) option, unit, 64 word, ref_ledger) payment_api"
  let ?fee = "unat (from_fee ?P (compute_fee ?P (ucast len) info f b))"
  assume wf: "ref_wf TYPE('w) b"
  show "\<exists>b'. hold (Balances ?T) budget_hold_reason a n b = (Inr (), b')"
    if "covers ?T ref_total a (unat n + ref_existential_deposit) b"
    using covers_ref [OF wf that] by (simp add: ref_hold_def)
  show "\<exists>valid val pre b'. base_validate ?P f (RefSigned a) call info len imp src b = Inr (valid, val, RefSigned a)
      \<and> base_prepare ?P f val (RefSigned a) call info len b = (Inr pre, b')
      \<and> ref_total a b \<le> ref_total a b' + ?fee \<and> (\<forall>a'. a' \<noteq> a \<longrightarrow> ref_total a' b' = ref_total a' b)"
    if "covers ?T ref_total a (?fee + ref_existential_deposit) b"
    using covers_ref [OF wf that] by (simp add: ref_base_validate_def ref_base_prepare_def ref_total_def)
qed simp

end
