(* ===== verification/Demo_Run.thy ===== *)
theory Demo_Run
  imports Client_View Sponsor_Solvency
begin

text \<open>
  The demo completes.  \<open>demo_node\<close> is a node that executes the script's transactions and
  nobody else's: it connects, serves storage, runs every submitted transaction that can run, and
  refuses the ones that validation rejects.  With the accounts funded, the script of the client
  then runs to its end against it, and the pallet's transactions succeed one after the other.
\<close>

section \<open>Parameters and events as the script uses them\<close>







section \<open>A node for the demo\<close>


section \<open>The reference node runs the demo\<close>










section \<open>Property\<close>




end
