(* ===== verification/Mock_Runtimes.thy ===== *)
theory Mock_Runtimes
  imports Runtime_Pallets Sponsor_Lifecycle
begin

text \<open>
  The mock runtimes that the pallets are tested with and the benchmarks of the template pallet
  (\<^verbatim>\<open>mock.rs\<close> of both pallets, \<^verbatim>\<open>pallets/template/src/benchmarking.rs\<close>).  The
  framework's pallets are arguments, as in the runtime; a panic is \<open>None\<close>.  The mock of the
  sponsorship pallet over the reference ledger is the configuration \<open>Test\<close> that the witnesses
  of the other theories run on.
\<close>

section \<open>The mock of the sponsorship pallet\<close>

definition mock_sponsored_config ::
  "(nat, 64 word, 'c, 'e, 'r, 'b) balances_api \<Rightarrow> ('o \<Rightarrow> 'e + nat) \<Rightarrow> ('c list \<Rightarrow> 'b \<Rightarrow> 'b)
     \<Rightarrow> (nat, 64 word, 'c, 'e, 'r, 'b, 'o) Config"
where
  "mock_sponsored_config B check_signed drop_credits =
     \<lparr>Balances = B, ensure_signed = check_signed, FeeDestination = drop_credits, MaxAllowedCallers = 8\<rparr>"

fun mock_pallet_index :: "runtime_pallet \<Rightarrow> (8 word) option" where
  "mock_pallet_index System = Some 0"
| "mock_pallet_index BalancesPallet = Some 1"
| "mock_pallet_index TransactionPayment = Some 2"
| "mock_pallet_index SponsoredTx = Some 3"
| "mock_pallet_index _ = None"

text \<open>
  \<open>fixed_fee n\<close> and \<open>no_fee\<close> are \<open>FixedFee\<close> and \<open>NoFee\<close> of the
  framework.
\<close>

record 'w2f mock_payment_config =
  mock_charge_currency :: runtime_pallet
  mock_charge_handler :: "runtime_pallet option"
  mock_OperationalFeeMultiplier :: "8 word"
  mock_WeightToFee :: 'w2f
  mock_LengthToFee :: 'w2f
  mock_FeeMultiplierUpdate :: "unit option"

definition mock_transaction_payment_Config :: "(64 word \<Rightarrow> 'w2f) \<Rightarrow> 'w2f \<Rightarrow> 'w2f mock_payment_config" where
  "mock_transaction_payment_Config fixed_fee no_fee =
     \<lparr>mock_charge_currency = BalancesPallet, mock_charge_handler = None, mock_OperationalFeeMultiplier = 1,
      mock_WeightToFee = fixed_fee 1, mock_LengthToFee = no_fee, mock_FeeMultiplierUpdate = None\<rparr>"

definition mock_TxExtension :: "tx_extension list" where
  "mock_TxExtension = [CheckNonZeroSender, CheckSpecVersion, CheckTxVersion, CheckGenesis, CheckEra,
     CheckNonce, CheckWeight, SponsoredCharge]"

definition EXT_VERSION :: "8 word" where
  "EXT_VERSION = 0"

text \<open>
  \<open>new_test_ext\<close>: the default storage of the system pallet, the balances genesis on top of it,
  and block number one; both builds may fail, which the test unwraps.
\<close>

definition mock_new_test_ext ::
  "'s option \<Rightarrow> ((nat \<times> 64 word) list \<Rightarrow> unit option \<Rightarrow> 's \<Rightarrow> 's option) \<Rightarrow> (64 word \<Rightarrow> 's \<Rightarrow> 's) \<Rightarrow> 's option"
where
  "mock_new_test_ext build_storage assimilate_balances set_block_number =
     Option.bind build_storage (\<lambda>ext.
     Option.bind (assimilate_balances [(1, 1000), (2, 1000), (3, 1000)] None ext) (\<lambda>ext.
     Some (set_block_number 1 ext)))"

text \<open>\<open>policy\<close>: more callers than the bound panic in \<open>expect\<close>.\<close>

definition mock_bounded_policy :: "nat list \<Rightarrow> 64 word \<Rightarrow> (nat, 64 word) SponsorPolicy option" where
  "mock_bounded_policy callers max_fee =
     (if length callers \<le> 8 then Some \<lparr>allowed_callers = callers, max_fee_per_tx = max_fee\<rparr> else None)"

definition mock_remark_call :: "(8 word) list \<times> runtime_pallet" where
  "mock_remark_call = ([1, 2, 3], System)"

section \<open>The mock of the template pallet\<close>

fun template_mock_pallet_index :: "runtime_pallet \<Rightarrow> (8 word) option" where
  "template_mock_pallet_index System = Some 0"
| "template_mock_pallet_index TemplatePallet = Some 1"
| "template_mock_pallet_index _ = None"

record template_mock_system_config =
  mock_BlockHashCount :: "64 word"
  mock_DbWeight :: RuntimeDbWeight

definition template_mock_system_Config :: "RuntimeDbWeight \<Rightarrow> template_mock_system_config" where
  "template_mock_system_Config rocksdb_of_framework = \<lparr>mock_BlockHashCount = 250, mock_DbWeight = rocksdb_of_framework\<rparr>"

text \<open>\<open>new_test_ext\<close> of the template pallet: the default storage of the system pallet, unwrapped.\<close>

definition template_new_test_ext :: "('e + 's) \<Rightarrow> 's option" where
  "template_new_test_ext build_storage = (case build_storage of Inr s \<Rightarrow> Some s | Inl _ \<Rightarrow> None)"

section \<open>The reference ledger implements the mock\<close>

lemma Test_is_mock: "Test = mock_sponsored_config ref_balances ref_ensure_signed ref_burn"
  by (simp add: ref_config_def mock_sponsored_config_def)

definition ref_assimilate :: "(nat \<times> 64 word) list \<Rightarrow> unit option \<Rightarrow> ref_ledger \<Rightarrow> ref_ledger option" where
  "ref_assimilate bs dev b = (if distinct (map fst bs)
     then Some (b\<lparr>ref_free := (\<lambda>a. case map_of bs a of None \<Rightarrow> ref_free b a | Some n \<Rightarrow> unat n),
       ref_issuance := ref_issuance b + (\<Sum>x\<leftarrow>bs. unat (snd x))\<rparr>) else None)"

lemma mock_genesis_ledger:
  "mock_new_test_ext (Some \<lparr>ref_free = (\<lambda>_. 0), ref_held = (\<lambda>_ _. 0), ref_issuance = 0\<rparr>) ref_assimilate (\<lambda>_. id)
     = Some ref_genesis_ledger"
  by (auto simp: mock_new_test_ext_def ref_assimilate_def ref_genesis_ledger_def)

lemma mock_policy_bounded:
  "mock_bounded_policy callers m = Some p \<longleftrightarrow> p = mock_policy callers m \<and> policy_bounded Test p"
  by (auto simp: mock_bounded_policy_def mock_policy_def policy_bounded_def)

section \<open>Benchmarks of the template pallet\<close>

text \<open>Each benchmark returns the state it leaves, or \<open>None\<close> when its call or its assertion fails.\<close>

definition bench_do_something ::
  "('o \<Rightarrow> 'e + 'acc) \<Rightarrow> ('acc \<Rightarrow> 'o) \<Rightarrow> 'acc \<Rightarrow> ('acc, 'w::len word) template_state
     \<Rightarrow> ('acc, 'w word) template_state option"
where
  "bench_do_something check_signed signed_origin caller s =
     (case do_something check_signed (signed_origin caller) 100 s of
        (Inl _, _) \<Rightarrow> None
      | (Inr _, t) \<Rightarrow> if map_option block_number (Something t) = Some 100 then Some t else None)"

definition bench_cause_error ::
  "('o \<Rightarrow> 'e + 'acc) \<Rightarrow> ('acc \<Rightarrow> 'o) \<Rightarrow> 'acc \<Rightarrow> ('acc, 'w::len word) template_state
     \<Rightarrow> ('acc, 'w word) template_state option"
where
  "bench_cause_error check_signed signed_origin caller s =
     (case cause_error check_signed (signed_origin caller) (s\<lparr>Something := Some \<lparr>block_number = 100\<rparr>\<rparr>) of
        (Inl _, _) \<Rightarrow> None
      | (Inr _, t) \<Rightarrow> if map_option block_number (Something t) = Some 101 then Some t else None)"

section \<open>The mock and the runtime\<close>

text \<open>
  The mock tests the extension the way the runtime runs it.  The mock's extensions are the
  runtime's, in the runtime's order, less the call authorisation and the metadata hash; its fee is
  charged to the same currency without a handler; pallets that both have keep distinct indices; and
  its allowlists are within the bound of the runtime.
\<close>

lemma mock_follows_runtime:
  "mock_TxExtension = filter (\<lambda>e. e \<noteq> AuthorizeCall \<and> e \<noteq> CheckMetadataHash) TxExtension
   \<and> mock_charge_currency (mock_transaction_payment_Config fixed_fee no_fee)
       = charge_currency (transaction_payment_Config A from_rational constant_multiplier)
   \<and> mock_charge_handler (mock_transaction_payment_Config fixed_fee no_fee)
       = charge_handler (transaction_payment_Config A from_rational constant_multiplier)
   \<and> inj_on mock_pallet_index (dom mock_pallet_index)
   \<and> MaxAllowedCallers (mock_sponsored_config B check_signed drop_credits)
       \<le> MaxAllowedCallers (runtime_sponsored_config B' check_signed' drop_credits')"
proof -
  have "x = y" if "mock_pallet_index x = Some i" "mock_pallet_index y = Some i" for x y i
    using that by (cases x; cases y) auto
  then have "inj_on mock_pallet_index (dom mock_pallet_index)"
    by (auto intro!: inj_onI)
  then show ?thesis
    by (simp add: mock_TxExtension_def TxExtension_def mock_transaction_payment_Config_def
        transaction_payment_Config_def mock_sponsored_config_def runtime_sponsored_config_def MaxSponsoredCallers_def)
qed

lemma template_benchmarks_pass:
  fixes s :: "('acc, 'w::len word) template_state"
  assumes "check_signed (signed_origin caller) = Inr caller" and "32 \<le> LENGTH('w)"
  shows "\<exists>t u. bench_do_something check_signed signed_origin caller s = Some t
    \<and> bench_cause_error check_signed signed_origin caller s = Some u"
proof -
  have "(2 :: nat) ^ 32 \<le> 2 ^ LENGTH('w)" using assms(2) by (rule power_increasing) simp
  then have "unat (100 :: 'w word) = 100"
    by (simp add: unsigned_numeral take_bit_nat_eq_self_iff) 
  moreover have "unat (- 1 :: 'w word) = 2 ^ LENGTH('w) - 1" by (rule unat_minus_one_max)
  moreover have "(100 :: nat) \<noteq> 2 ^ LENGTH('w) - 1"
    using \<open>2 ^ 32 \<le> 2 ^ LENGTH('w)\<close> by simp
  ultimately have "(100 :: 'w word) \<noteq> - 1" by metis
  then show ?thesis
    using assms(1) by (simp add: bench_do_something_def bench_cause_error_def do_something_run cause_error_run)
qed

end
