(* ===== verification/Pallet_Tests.thy ===== *)
theory Pallet_Tests
  imports Mock_Runtimes Sponsor_Solvency "HOL-Library.Monad_Syntax"
begin

text \<open>
  The tests of the pallets (\<^verbatim>\<open>pallets/sponsored-tx/src/tests.rs\<close> and
  \<^verbatim>\<open>pallets/template/src/tests.rs\<close>).  A test takes the state that
  \<open>new_test_ext\<close> builds and returns the state it leaves, or \<open>None\<close> when it panics: a
  failing assertion or an \<open>unwrap\<close> of the wrong variant.  The configuration, the payment
  extension, the remark call with its dispatch information and its length, and the post-dispatch
  information of half its weight are arguments; \<open>test_runtime\<close> says what the mock runtime
  promises about them.  The tests call the stages of the extension the way the framework's
  \<open>validate_only\<close>, \<open>validate_and_prepare\<close> and \<open>post_dispatch\<close> do.
\<close>

section \<open>Assertions\<close>

definition assert_ok :: "('s, 'e, 'a) op \<Rightarrow> 's \<Rightarrow> 's option" where
  "assert_ok m s = (case m s of (Inr _, t) \<Rightarrow> Some t | (Inl _, _) \<Rightarrow> None)"

definition assert_noop :: "('s, 'e, 'a) op \<Rightarrow> 'e \<Rightarrow> 's \<Rightarrow> 's option" where
  "assert_noop m e s = (case m s of (Inl e', t) \<Rightarrow> if e' = e \<and> t = s then Some s else None | (Inr _, _) \<Rightarrow> None)"

definition assert_that :: "('s \<Rightarrow> bool) \<Rightarrow> 's \<Rightarrow> 's option" where
  "assert_that p s = (if p s then Some s else None)"

definition unwrap :: "'e + 'a \<Rightarrow> 'a option" where
  "unwrap r = (case r of Inr x \<Rightarrow> Some x | Inl _ \<Rightarrow> None)"

definition unwrap_run :: "('s, 'e, 'a) op \<Rightarrow> 's \<Rightarrow> ('a \<times> 's) option" where
  "unwrap_run m s = (case m s of (Inr x, t) \<Rightarrow> Some (x, t) | (Inl _, _) \<Rightarrow> None)"

definition unwrap_err :: "'e + 'a \<Rightarrow> 'e option" where
  "unwrap_err r = (case r of Inl e \<Rightarrow> Some e | Inr _ \<Rightarrow> None)"

definition assert_result :: "bool \<Rightarrow> 's \<Rightarrow> 's option" where
  "assert_result p s = (if p then Some s else None)"

section \<open>Tests of the dispatchables\<close>

definition register_sponsor_holds_budget ::
  "(nat, 64 word, 'c, 'e, 'r, 'b, 'o) Config \<Rightarrow> (nat \<Rightarrow> 'o) \<Rightarrow> (nat, 64 word, 'b) chain \<Rightarrow> (nat, 64 word, 'b) chain option"
where
  "register_sponsor_holds_budget T origin_of s = do {
     p \<leftarrow> mock_bounded_policy [2] 50;
     s \<leftarrow> assert_ok (register_sponsor T (origin_of 1) 200 p) s;
     s \<leftarrow> assert_that (\<lambda>s. budget_on_hold T 1 s = 200) s;
     assert_that (\<lambda>s. pending_on_hold T 1 s = 0) s }"

definition register_requires_non_empty_unique_allowlist ::
  "(nat, 64 word, 'c, 'e, 'r, 'b, 'o) Config \<Rightarrow> (nat \<Rightarrow> 'o) \<Rightarrow> (nat, 64 word, 'b) chain \<Rightarrow> (nat, 64 word, 'b) chain option"
where
  "register_requires_non_empty_unique_allowlist T origin_of s = do {
     p \<leftarrow> mock_bounded_policy [] 50;
     s \<leftarrow> assert_noop (register_sponsor T (origin_of 1) 200 p) (ModuleError EmptyAllowlist) s;
     dup_policy \<leftarrow> mock_bounded_policy [2, 2] 50;
     assert_noop (register_sponsor T (origin_of 1) 200 dup_policy) (ModuleError DuplicateAllowedCaller) s }"

definition can_increase_decrease_pause_resume_and_unregister ::
  "(nat, 64 word, 'c, 'e, 'r, 'b, 'o) Config \<Rightarrow> (nat \<Rightarrow> 'o) \<Rightarrow> (nat, 64 word, 'b) chain \<Rightarrow> (nat, 64 word, 'b) chain option"
where
  "can_increase_decrease_pause_resume_and_unregister T origin_of s = do {
     p \<leftarrow> mock_bounded_policy [2] 50;
     s \<leftarrow> assert_ok (register_sponsor T (origin_of 1) 200 p) s;
     s \<leftarrow> assert_ok (increase_budget T (origin_of 1) 25) s;
     s \<leftarrow> assert_that (\<lambda>s. budget_on_hold T 1 s = 225) s;
     s \<leftarrow> assert_ok (decrease_budget T (origin_of 1) 20) s;
     s \<leftarrow> assert_that (\<lambda>s. budget_on_hold T 1 s = 205) s;
     s \<leftarrow> assert_ok (pause T (origin_of 1)) s;
     s \<leftarrow> assert_ok (resume T (origin_of 1)) s;
     s \<leftarrow> assert_ok (unregister T (origin_of 1)) s;
     s \<leftarrow> assert_that (\<lambda>s. sponsor_state 1 s = None) s;
     assert_that (\<lambda>s. budget_on_hold T 1 s = 0) s }"

section \<open>Tests of the extension\<close>

text \<open>The remark call with what the tests derive from it, and the other arguments of the extension.\<close>

record ('call, 'info, 'u, 'post, 'res, 'imp, 'src) test_call =
  the_call :: 'call
  the_info :: 'info
  the_len :: 'u
  half_weight_post :: 'post
  ok_result :: 'res
  no_implication :: 'imp
  external :: 'src

definition sponsored_validation_accepts_allowlisted_signer ::
  "(nat, 64 word, 'c, 'e, 'r, 'b, 'o) Config \<Rightarrow>
   (nat, 64 word, 'fee, 'u::len word, 'o, 'call, 'info, 'post, 'res, 'imp, 'src, 'v, 'valid, 'val, 'pre, 'weight, 'b)
     payment_api \<Rightarrow> (nat \<Rightarrow> 'o) \<Rightarrow> ('call, 'info, 'u word, 'post, 'res, 'imp, 'src) test_call
     \<Rightarrow> (nat, 64 word, 'b) chain \<Rightarrow> (nat, 64 word, 'b) chain option"
where
  "sponsored_validation_accepts_allowlisted_signer T P origin_of c s = do {
     p \<leftarrow> mock_bounded_policy [2] 50;
     s \<leftarrow> assert_ok (register_sponsor T (origin_of 1) 200 p) s;
     _ \<leftarrow> unwrap (validate T P (new 0 (Some 1)) (origin_of 2) (the_call c) (the_info c) (the_len c) (no_implication c) (external c) s);
     Some s }"

text \<open>
  The four tests of a refused validation differ in the budget, the policy, the sender, whether the
  sponsor is paused, and the expected code.
\<close>

definition rejected_with ::
  "(nat, 64 word, 'c, 'e, 'r, 'b, 'o) Config \<Rightarrow>
   (nat, 64 word, 'fee, 'u::len word, 'o, 'call, 'info, 'post, 'res, 'imp, 'src, 'v, 'valid, 'val, 'pre, 'weight, 'b)
     payment_api \<Rightarrow> (nat \<Rightarrow> 'o) \<Rightarrow> ('call, 'info, 'u word, 'post, 'res, 'imp, 'src) test_call \<Rightarrow> nat \<Rightarrow> 8 word
     \<Rightarrow> (nat, 64 word, 'b) chain \<Rightarrow> (nat, 64 word, 'b) chain option"
where
  "rejected_with T P origin_of c sender code s = do {
     err \<leftarrow> unwrap_err (validate T P (new 0 (Some 1)) (origin_of sender) (the_call c) (the_info c) (the_len c)
       (no_implication c) (external c) s);
     assert_result (err = Custom code) s }"

definition sponsored_validation_rejects_non_allowlisted_signer ::
  "(nat, 64 word, 'c, 'e, 'r, 'b, 'o) Config \<Rightarrow>
   (nat, 64 word, 'fee, 'u::len word, 'o, 'call, 'info, 'post, 'res, 'imp, 'src, 'v, 'valid, 'val, 'pre, 'weight, 'b)
     payment_api \<Rightarrow> (nat \<Rightarrow> 'o) \<Rightarrow> ('call, 'info, 'u word, 'post, 'res, 'imp, 'src) test_call
     \<Rightarrow> (nat, 64 word, 'b) chain \<Rightarrow> (nat, 64 word, 'b) chain option"
where
  "sponsored_validation_rejects_non_allowlisted_signer T P origin_of c s = do {
     p \<leftarrow> mock_bounded_policy [2] 50;
     s \<leftarrow> assert_ok (register_sponsor T (origin_of 1) 200 p) s;
     rejected_with T P origin_of c 3 3 s }"

definition sponsored_validation_rejects_inactive_sponsor ::
  "(nat, 64 word, 'c, 'e, 'r, 'b, 'o) Config \<Rightarrow>
   (nat, 64 word, 'fee, 'u::len word, 'o, 'call, 'info, 'post, 'res, 'imp, 'src, 'v, 'valid, 'val, 'pre, 'weight, 'b)
     payment_api \<Rightarrow> (nat \<Rightarrow> 'o) \<Rightarrow> ('call, 'info, 'u word, 'post, 'res, 'imp, 'src) test_call
     \<Rightarrow> (nat, 64 word, 'b) chain \<Rightarrow> (nat, 64 word, 'b) chain option"
where
  "sponsored_validation_rejects_inactive_sponsor T P origin_of c s = do {
     p \<leftarrow> mock_bounded_policy [2] 50;
     s \<leftarrow> assert_ok (register_sponsor T (origin_of 1) 200 p) s;
     s \<leftarrow> assert_ok (pause T (origin_of 1)) s;
     rejected_with T P origin_of c 2 2 s }"

definition sponsored_validation_rejects_fee_cap_exceeded ::
  "(nat, 64 word, 'c, 'e, 'r, 'b, 'o) Config \<Rightarrow>
   (nat, 64 word, 'fee, 'u::len word, 'o, 'call, 'info, 'post, 'res, 'imp, 'src, 'v, 'valid, 'val, 'pre, 'weight, 'b)
     payment_api \<Rightarrow> (nat \<Rightarrow> 'o) \<Rightarrow> ('call, 'info, 'u word, 'post, 'res, 'imp, 'src) test_call
     \<Rightarrow> (nat, 64 word, 'b) chain \<Rightarrow> (nat, 64 word, 'b) chain option"
where
  "sponsored_validation_rejects_fee_cap_exceeded T P origin_of c s = do {
     p \<leftarrow> mock_bounded_policy [2] 1;
     s \<leftarrow> assert_ok (register_sponsor T (origin_of 1) 200 p) s;
     s \<leftarrow> assert_that (\<lambda>s. 1 < from_fee P (compute_fee P (ucast (the_len c)) (the_info c) (into_fee P 0) (ledger s))) s;
     rejected_with T P origin_of c 2 4 s }"

definition sponsored_validation_rejects_insufficient_budget ::
  "(nat, 64 word, 'c, 'e, 'r, 'b, 'o) Config \<Rightarrow>
   (nat, 64 word, 'fee, 'u::len word, 'o, 'call, 'info, 'post, 'res, 'imp, 'src, 'v, 'valid, 'val, 'pre, 'weight, 'b)
     payment_api \<Rightarrow> (nat \<Rightarrow> 'o) \<Rightarrow> ('call, 'info, 'u word, 'post, 'res, 'imp, 'src) test_call
     \<Rightarrow> (nat, 64 word, 'b) chain \<Rightarrow> (nat, 64 word, 'b) chain option"
where
  "sponsored_validation_rejects_insufficient_budget T P origin_of c s = do {
     p \<leftarrow> mock_bounded_policy [2] 500;
     s \<leftarrow> assert_ok (register_sponsor T (origin_of 1) 1 p) s;
     s \<leftarrow> assert_that (\<lambda>s. 1 < from_fee P (compute_fee P (ucast (the_len c)) (the_info c) (into_fee P 0) (ledger s))) s;
     rejected_with T P origin_of c 2 5 s }"

definition sponsored_prepare_moves_budget_to_pending_and_post_dispatch_restores_refund ::
  "(nat, 64 word, 'c, 'e, 'r, 'b, 'o) Config \<Rightarrow>
   (nat, 64 word, 'fee, 'u::len word, 'o, 'call, 'info, 'post, 'res, 'imp, 'src, 'v, 'valid, 'val, 'pre, 'weight, 'b)
     payment_api \<Rightarrow> (nat \<Rightarrow> 'o) \<Rightarrow> ('call, 'info, 'u word, 'post, 'res, 'imp, 'src) test_call
     \<Rightarrow> (nat, 64 word, 'b) chain \<Rightarrow> (nat, 64 word, 'b) chain option"
where
  "sponsored_prepare_moves_budget_to_pending_and_post_dispatch_restores_refund T P origin_of c s = do {
     p \<leftarrow> mock_bounded_policy [2] 50;
     s \<leftarrow> assert_ok (register_sponsor T (origin_of 1) 200 p) s;
     let estimated_fee = from_fee P (compute_fee P (ucast (the_len c)) (the_info c) (into_fee P 0) (ledger s));
     (_, val, origin) \<leftarrow> unwrap (validate T P (new 0 (Some 1)) (origin_of 2) (the_call c) (the_info c) (the_len c) (no_implication c) (external c) s);
     (pre, s) \<leftarrow> unwrap_run (prepare T P (new 0 (Some 1)) val origin (the_call c) (the_info c) (the_len c)) s;
     s \<leftarrow> assert_that (\<lambda>s. budget_on_hold T 1 s = 200 - estimated_fee) s;
     s \<leftarrow> assert_that (\<lambda>s. pending_on_hold T 1 s = estimated_fee) s;
     let actual_fee = from_fee P (compute_actual_fee P (ucast (the_len c)) (the_info c) (half_weight_post c) (into_fee P 0) (ledger s));
     s \<leftarrow> assert_ok (post_dispatch_details T P pre (the_info c) (half_weight_post c) (the_len c) (ok_result c)) s;
     s \<leftarrow> assert_that (\<lambda>s. pending_on_hold T 1 s = 0) s;
     s \<leftarrow> assert_that (\<lambda>s. budget_on_hold T 1 s < 200) s;
     assert_that (\<lambda>s. SponsoredTransactionFeePaid 1 2 actual_fee 0 \<in> set (events s)) s }"

definition unregister_blocked_while_pending_hold_exists ::
  "(nat, 64 word, 'c, 'e, 'r, 'b, 'o) Config \<Rightarrow>
   (nat, 64 word, 'fee, 'u::len word, 'o, 'call, 'info, 'post, 'res, 'imp, 'src, 'v, 'valid, 'val, 'pre, 'weight, 'b)
     payment_api \<Rightarrow> (nat \<Rightarrow> 'o) \<Rightarrow> ('call, 'info, 'u word, 'post, 'res, 'imp, 'src) test_call
     \<Rightarrow> (nat, 64 word, 'b) chain \<Rightarrow> (nat, 64 word, 'b) chain option"
where
  "unregister_blocked_while_pending_hold_exists T P origin_of c s = do {
     p \<leftarrow> mock_bounded_policy [2] 50;
     s \<leftarrow> assert_ok (register_sponsor T (origin_of 1) 200 p) s;
     (_, val, origin) \<leftarrow> unwrap (validate T P (new 0 (Some 1)) (origin_of 2) (the_call c) (the_info c) (the_len c) (no_implication c) (external c) s);
     (pre, s) \<leftarrow> unwrap_run (prepare T P (new 0 (Some 1)) val origin (the_call c) (the_info c) (the_len c)) s;
     s \<leftarrow> assert_that (\<lambda>s. 0 < pending_on_hold T 1 s) s;
     assert_noop (unregister T (origin_of 1)) (ModuleError PendingBudgetNotEmpty) s }"

fun fee_paid_tips :: "('acc, 'n) Event list \<Rightarrow> 'n list" where
  "fee_paid_tips [] = []"
| "fee_paid_tips (SponsoredTransactionFeePaid _ _ _ event_tip # es) = event_tip # fee_paid_tips es"
| "fee_paid_tips (_ # es) = fee_paid_tips es"

definition sponsored_tx_with_tip_splits_correctly ::
  "(nat, 64 word, 'c, 'e, 'r, 'b, 'o) Config \<Rightarrow>
   (nat, 64 word, 'fee, 'u::len word, 'o, 'call, 'info, 'post, 'res, 'imp, 'src, 'v, 'valid, 'val, 'pre, 'weight, 'b)
     payment_api \<Rightarrow> (nat \<Rightarrow> 'o) \<Rightarrow> ('call, 'info, 'u word, 'post, 'res, 'imp, 'src) test_call
     \<Rightarrow> (nat, 64 word, 'b) chain \<Rightarrow> (nat, 64 word, 'b) chain option"
where
  "sponsored_tx_with_tip_splits_correctly T P origin_of c s = do {
     p \<leftarrow> mock_bounded_policy [2] 200;
     s \<leftarrow> assert_ok (register_sponsor T (origin_of 1) 500 p) s;
     (_, val, origin) \<leftarrow> unwrap (validate T P (new 5 (Some 1)) (origin_of 2) (the_call c) (the_info c) (the_len c) (no_implication c) (external c) s);
     (pre, s) \<leftarrow> unwrap_run (prepare T P (new 5 (Some 1)) val origin (the_call c) (the_info c) (the_len c)) s;
     s \<leftarrow> assert_ok (post_dispatch_details T P pre (the_info c) (half_weight_post c) (the_len c) (ok_result c)) s;
     s \<leftarrow> assert_that (\<lambda>s. pending_on_hold T 1 s = 0) s;
     s \<leftarrow> assert_that (\<lambda>s. length (fee_paid_tips (events s)) = 1) s;
     assert_that (\<lambda>s. fee_paid_tips (events s) ! 0 = 5) s }"

text \<open>\<open>free_balance\<close> and the dispatch of the remark belong to the framework.\<close>

definition unsponsored_path_keeps_signer_payment_behavior ::
  "(nat, 64 word, 'c, 'e, 'r, 'b, 'o) Config \<Rightarrow>
   (nat, 64 word, 'fee, 'u::len word, 'o, 'call, 'info, 'post, 'res, 'imp, 'src, 'v, 'valid, 'val, 'pre, 'weight, 'b)
     payment_api \<Rightarrow> (nat \<Rightarrow> 'o) \<Rightarrow> ('call, 'info, 'u word, 'post, 'res, 'imp, 'src) test_call
     \<Rightarrow> (nat \<Rightarrow> 'b \<Rightarrow> nat) \<Rightarrow> ('o \<Rightarrow> ((nat, 64 word, 'b) chain, 'd, 'post) op)
     \<Rightarrow> (nat, 64 word, 'b) chain \<Rightarrow> (nat, 64 word, 'b) chain option"
where
  "unsponsored_path_keeps_signer_payment_behavior T P origin_of c free_balance dispatch s = do {
     let signer_before = free_balance 2 (ledger s);
     (_, val, origin) \<leftarrow> unwrap (validate T P (new 0 None) (origin_of 2) (the_call c) (the_info c) (the_len c)
       (no_implication c) (external c) s);
     (pre, s) \<leftarrow> unwrap_run (prepare T P (new 0 None) val origin (the_call c) (the_info c) (the_len c)) s;
     (post, s) \<leftarrow> unwrap_run (dispatch origin) s;
     s \<leftarrow> assert_ok (post_dispatch_details T P pre (the_info c) post (the_len c) (ok_result c)) s;
     assert_that (\<lambda>s. free_balance 2 (ledger s) < signer_before) s }"

section \<open>Tests of the template pallet\<close>

definition it_works_for_default_value ::
  "('o \<Rightarrow> 'e + nat) \<Rightarrow> (nat \<Rightarrow> 'o) \<Rightarrow> (nat, 64 word) template_state \<Rightarrow> (nat, 64 word) template_state option"
where
  "it_works_for_default_value check_signed origin_of s = do {
     s \<leftarrow> assert_ok (do_something check_signed (origin_of 1) 42) s;
     assert_that (\<lambda>s. map_option block_number (Something s) = Some 42) s }"

definition correct_error_for_none_value ::
  "('o \<Rightarrow> 'e + nat) \<Rightarrow> (nat \<Rightarrow> 'o) \<Rightarrow> (nat, 64 word) template_state \<Rightarrow> (nat, 64 word) template_state option"
where
  "correct_error_for_none_value check_signed origin_of s =
     assert_noop (cause_error check_signed (origin_of 1)) (TemplateError NoneValue) s"

end
