(* ===== verification/Pallet_Test_Runs.thy ===== *)
theory Pallet_Test_Runs
  imports Pallet_Tests
begin

text \<open>
  The tests of the pallets pass on every runtime that keeps the contracts of the framework, not
  only on one: \<open>test_runtime\<close> states what the mock runtime promises (endowed accounts
  without holds, a fee between two and fifty, an actual fee that is not zero and not above it).
\<close>

section \<open>What the mock runtime promises\<close>

locale test_runtime = solvent_config T wf total peek P origin_of reserve
  for T :: "(nat, 64 word, 'c, 'e, 'r, 'b, 'o) Config"
    and wf :: "'b \<Rightarrow> bool"
    and total :: "nat \<Rightarrow> 'b \<Rightarrow> nat"
    and peek :: "'c \<Rightarrow> 64 word"
    and P :: "(nat, 64 word, 'fee, 'u::len word, 'o, 'call, 'info, 'post, 'res, 'imp, 'src, 'v, 'valid, 'val, 'pre, 'weight, 'b)
      payment_api"
    and origin_of :: "nat \<Rightarrow> 'o"
    and reserve :: nat +
  fixes c :: "('call, 'info, 'u word, 'post, 'res, 'imp, 'src) test_call"
    and s0 :: "(nat, 64 word, 'b) chain"
    and fee afee :: "64 word"
    and free_balance :: "nat \<Rightarrow> 'b \<Rightarrow> nat"
    and dispatch :: "'o \<Rightarrow> ((nat, 64 word, 'b) chain, 'd, 'post) op"
  assumes fresh: "genesis T wf s0"
    and endowed: "a \<in> {1, 2, 3} \<Longrightarrow> total a (ledger s0) = 1000"
    and no_holds: "held (Balances T) (OtherHold x) a (ledger s0) = 0"
    and small_reserve: "reserve \<le> 400"
    and callers_fit: "1 \<le> unat (MaxAllowedCallers T)"
    and fees: "wf (ledger s) \<Longrightarrow> t \<in> {0, 5} \<Longrightarrow> estimated_fee P t (the_info c) (the_len c) s = fee + t"
    and fee_range: "1 < fee" "fee \<le> 50"
    and actual_fees: "wf (ledger s) \<Longrightarrow> t \<in> {0, 5} \<Longrightarrow>
      actual_fee P t (the_info c) (half_weight_post c) (the_len c) s = afee + t"
    and actual_range: "0 < afee" "afee \<le> fee"
    and remark: "\<exists>post. dispatch (origin_of a) s = (Inr post, s)
      \<and> 0 < from_fee P (compute_actual_fee P (ucast (the_len c)) (the_info c) post (into_fee P 0) (ledger s))"
    and base_charges: "wf b \<Longrightarrow> base_validate P f (origin_of a) call info len imp src b = Inr (valid, val, origin') \<Longrightarrow>
      base_prepare P f val origin' call info len b = (Inr pre, b1) \<Longrightarrow>
      base_post_dispatch_details P pre info post len res b1 = (Inr w, b2) \<Longrightarrow>
      total a b2 + unat (from_fee P (compute_actual_fee P (ucast len) info post f b1)) \<le> total a b"
    and free_without_holds: "wf b \<Longrightarrow> (\<And>r. held (Balances T) r a b = 0) \<Longrightarrow> free_balance a b = total a b"
begin

lemma start:
  shows "wf (ledger s0)" and "Sponsors s0 = Map.empty" and "events s0 = []"
    and "escrow_inv T wf (Idle :: (nat, 64 word, 'pre) phase) s0"
    and "a \<in> {1, 2, 3} \<Longrightarrow> covers T total a 1000 (ledger s0)"
    and "held (Balances T) r a (ledger s0) = 0"
proof -
  show "wf (ledger s0)" "Sponsors s0 = Map.empty" "events s0 = []"
    using fresh by (simp_all add: genesis_def)
  show "escrow_inv T wf (Idle :: (nat, 64 word, 'pre) phase) s0"
    by (rule inv_reachable [OF reachable.initially [OF fresh]])
  have zero: "held (Balances T) budget_hold_reason a (ledger s0) = 0" "held (Balances T) pending_hold_reason a (ledger s0) = 0" for a
    using fresh by (simp_all add: genesis_def flip: hold_sel)
  then show "covers T total a 1000 (ledger s0)" if "a \<in> {1, 2, 3}"
    using no_holds endowed [OF that] by (simp add: covers_def)
  show "held (Balances T) r a (ledger s0) = 0"
  proof (cases r)
    case (SponsoredTxHold x)
    then show ?thesis using zero [of a] by (cases x) (simp_all add: budget_hold_reason_def pending_hold_reason_def)
  qed (simp add: no_holds)
qed

text \<open>A call of account 1, without the storage layer, as the tests make it.\<close>

lemma call_step:
  assumes "wf (ledger s)" and run: "dispatch_call T (origin_of a) k s = (Inr (), t)"
  shows "assert_ok (call_body T (origin_of a) k) s = Some t" and "wf (ledger t)"
    and "spec_call a k (view T s) = Inr (view T t)"
  using dispatch_wf [OF assms] dispatch_success [OF assms(1) can_sign run] run
  by (simp_all add: dispatch_call_def op_simps assert_ok_def)

text \<open>The entry of the caller after a call.\<close>

lemma entry_after:
  assumes "wf (ledger s)" and "dispatch_call T (origin_of a) k s = (Inr (), t)" and "view T s a = e"
  shows "map_sum id (\<lambda>v. v a) (spec_call a k ((view T s)(a := e))) = Inr (view T t a)"
  using call_step(3) [OF assms(1,2)] assms(3) by (auto simp: fun_upd_idem)

lemma entry_holds:
  assumes "view T s a = \<lparr>registration = r, budget = unat n, pending = unat m\<rparr>"
  shows "Sponsors s a = r" and "budget_on_hold T a s = n" and "pending_on_hold T a s = m"
  using assms by (simp_all add: view_def word_unat_eq_iff)

lemma budget_calls_run:
  assumes wf1: "wf (ledger s1)" and v1: "view T s1 a = \<lparr>registration = Some st, budget = unat (200 :: 64 word), pending = unat (0 :: 64 word)\<rparr>"
    and funds: "covers T total a 500 (ledger s1)"
  obtains s2 s3 where "assert_ok (increase_budget T (origin_of a) 25) s1 = Some s2" and "budget_on_hold T a s2 = 225"
    and "assert_ok (decrease_budget T (origin_of a) 20) s2 = Some s3" and "wf (ledger s3)"
    and "view T s3 a = \<lparr>registration = Some st, budget = unat (205 :: 64 word), pending = unat (0 :: 64 word)\<rparr>"
proof -
  have "covers T total a (unat (25 :: 64 word) + reserve) (ledger s1)"
    using funds small_reserve by (simp add: covers_def)
  from hold_live [OF wf1 this] obtain s2 where run2: "dispatch_call T (origin_of a) (increase_budget_call 25) s1 = (Inr (), s2)"
    using entry_holds(1) [OF v1] by (auto simp: dispatch_call_def with_storage_layer_def increase_budget_run [OF can_sign])
  note s2 = call_step [OF wf1 run2]
  have v2: "view T s2 a = \<lparr>registration = Some st, budget = unat (225 :: 64 word), pending = unat (0 :: 64 word)\<rparr>"
    using entry_after [OF wf1 run2 v1] by simp
  have "(20 :: 64 word) \<noteq> 0" "Sponsors s2 a \<noteq> None" "20 \<le> budget_on_hold T a s2"
    using entry_holds [OF v2] by simp_all
  then obtain s3 where run3: "dispatch_call T (origin_of a) (decrease_budget_call 20) s2 = (Inr (), s3)"
    by (rule decrease_budget_succeeds [OF s2(2) can_sign])
  note s3 = call_step [OF s2(2) run3]
  have "view T s3 a = \<lparr>registration = Some st, budget = unat (205 :: 64 word), pending = unat (0 :: 64 word)\<rparr>"
    using entry_after [OF s2(2) run3 v2] by simp
  with that [of s2 s3] s2(1) s3(1,2) entry_holds [OF v2] show ?thesis by simp
qed

lemma pausing_calls_run:
  assumes wf3: "wf (ledger s3)" and v3: "view T s3 a = \<lparr>registration = Some st, budget = unat (n :: 64 word), pending = unat (0 :: 64 word)\<rparr>"
    and "active st"
  obtains s4 s5 s6 where "assert_ok (pause T (origin_of a)) s3 = Some s4" and "assert_ok (resume T (origin_of a)) s4 = Some s5"
    and "assert_ok (unregister T (origin_of a)) s5 = Some s6" and "sponsor_state a s6 = None" and "budget_on_hold T a s6 = 0"
proof -
  obtain s4 where run4: "dispatch_call T (origin_of a) pause_call s3 = (Inr (), s4)"
    using entry_holds(1) [OF v3] \<open>active st\<close> by (auto simp: dispatch_call_def with_storage_layer_def pause_run [OF can_sign])
  note s4 = call_step [OF wf3 run4]
  have v4: "view T s4 a = \<lparr>registration = Some (st\<lparr>active := False\<rparr>), budget = unat n, pending = unat (0 :: 64 word)\<rparr>"
    using entry_after [OF wf3 run4 v3] \<open>active st\<close> by simp
  obtain s5 where run5: "dispatch_call T (origin_of a) resume_call s4 = (Inr (), s5)"
    using entry_holds(1) [OF v4] by (auto simp: dispatch_call_def with_storage_layer_def resume_run [OF can_sign])
  note s5 = call_step [OF s4(2) run5]
  have v5: "view T s5 a = \<lparr>registration = Some (st\<lparr>active := True\<rparr>), budget = unat n, pending = unat (0 :: 64 word)\<rparr>"
    using entry_after [OF s4(2) run5 v4] by simp
  have "Sponsors s5 a \<noteq> None" "pending_on_hold T a s5 = 0" using entry_holds [OF v5] by simp_all
  then obtain s6 where run6: "dispatch_call T (origin_of a) unregister_call s5 = (Inr (), s6)"
    by (rule unregister_succeeds [OF s5(2) can_sign])
  note s6 = call_step [OF s5(2) run6]
  have "view T s6 a = \<lparr>registration = None, budget = unat (0 :: 64 word), pending = unat (0 :: 64 word)\<rparr>"
    using entry_after [OF s5(2) run6 v5] by simp
  note h = entry_holds [OF this]
  from that [of s4 s5 s6] s4(1) s5(1) s6(1) h show ?thesis by (simp add: sponsor_state_def)
qed

lemma registers:
  assumes "valid_policy p" and "policy_bounded T p" and "n \<noteq> 0" and "unat n \<le> 500"
  obtains s where "assert_ok (register_sponsor T (origin_of 1) n p) s0 = Some s"
    and "escrow_inv T wf (Idle :: (nat, 64 word, 'pre) phase) s" and "Sponsors s 1 = Some \<lparr>active = True, policy = p\<rparr>"
    and "budget_on_hold T 1 s = n" and "pending_on_hold T 1 s = 0" and "events s = [SponsorRegistered 1 n]"
    and "covers T total 1 500 (ledger s)"
proof -
  have "covers T total 1 (unat n + reserve) (ledger s0)"
    using start(5) [of 1] assms(4) small_reserve by (simp add: covers_def)
  from hold_live [OF start(1) this] obtain s where run: "dispatch_call T (origin_of 1) (register_sponsor_call n p) s0 = (Inr (), s)"
    using start(2) assms(1,3)
    by (auto simp: dispatch_call_def with_storage_layer_def register_sponsor_run [OF can_sign]
        ensure_valid_policy_eq valid_policy_def)
  note step = call_step [OF start(1) run]
  have "view T s = (view T s0)(1 := (view T s0 1)\<lparr>registration := Some \<lparr>active = True, policy = p\<rparr>,
      budget := budget (view T s0 1) + unat n\<rparr>)"
    using step(3) start(2) assms(1,3) by (auto simp: valid_policy_def)
  note v = view_updD [OF this]
  have holds: "unat (budget_on_hold T 1 s) = unat n" "unat (pending_on_hold T 1 s) = 0"
    using v(2,3) start(6) by (simp_all add: hold_sel)
  show ?thesis
  proof (rule that)
    show "assert_ok (register_sponsor T (origin_of 1) n p) s0 = Some s" using step(1) by simp
    show "escrow_inv T wf (Idle :: (nat, 64 word, 'pre) phase) s"
      by (rule inv_call [OF start(4) _ run]) (simp add: assms(2))
    show "Sponsors s 1 = Some \<lparr>active = True, policy = p\<rparr>" using v(1) by simp
    show "budget_on_hold T 1 s = n" "pending_on_hold T 1 s = 0"
      using holds by (simp_all add: word_unat_eq_iff)
    show "events s = [SponsorRegistered 1 n]"
      using dispatch_event [OF can_sign run] start(3) by simp
    show "covers T total 1 500 (ledger s)"
      using holds dispatch_holds [OF start(1) run] dispatch_total [OF start(1) run] endowed [of 1] no_holds assms(4)
      by (simp add: covers_def hold_sel)
  qed
qed

lemma registers_mock:
  assumes "n \<noteq> 0" and "unat n \<le> 500"
  obtains s where "assert_ok (register_sponsor T (origin_of 1) n \<lparr>allowed_callers = [2], max_fee_per_tx = m\<rparr>) s0 = Some s"
    and "escrow_inv T wf (Idle :: (nat, 64 word, 'pre) phase) s"
    and "Sponsors s 1 = Some \<lparr>active = True, policy = \<lparr>allowed_callers = [2], max_fee_per_tx = m\<rparr>\<rparr>"
    and "budget_on_hold T 1 s = n" and "pending_on_hold T 1 s = 0" and "events s = [SponsorRegistered 1 n]"
    and "covers T total 1 500 (ledger s)"
proof -
  have "valid_policy \<lparr>allowed_callers = [2 :: nat], max_fee_per_tx = m\<rparr>" "policy_bounded T \<lparr>allowed_callers = [2], max_fee_per_tx = m\<rparr>"
    using callers_fit by (simp_all add: valid_policy_def policy_bounded_def)
  from registers [OF this assms] that show ?thesis by metis
qed

lemma test_holds_budget: "register_sponsor_holds_budget T origin_of s0 \<noteq> None"
  by (rule registers_mock [of 200 50])
    (auto simp: register_sponsor_holds_budget_def mock_bounded_policy_def assert_that_def)

lemma test_allowlist: "register_requires_non_empty_unique_allowlist T origin_of s0 \<noteq> None"
  using start(2)
  by (simp add: register_requires_non_empty_unique_allowlist_def mock_bounded_policy_def assert_noop_def
      register_sponsor_run [OF can_sign] ensure_valid_policy_eq)

lemma test_lifecycle: "can_increase_decrease_pause_resume_and_unregister T origin_of s0 \<noteq> None"
proof -
  let ?st = "\<lparr>active = True, policy = \<lparr>allowed_callers = [2], max_fee_per_tx = 50\<rparr>\<rparr> :: (nat, 64 word) SponsorState"
  obtain s1 where r: "assert_ok (register_sponsor T (origin_of 1) 200 \<lparr>allowed_callers = [2], max_fee_per_tx = 50\<rparr>) s0 = Some s1"
    and inv: "escrow_inv T wf (Idle :: (nat, 64 word, 'pre) phase) s1"
    and s1: "Sponsors s1 1 = Some ?st" "budget_on_hold T 1 s1 = 200" "pending_on_hold T 1 s1 = 0" and funds: "covers T total 1 500 (ledger s1)"
    by (rule registers_mock [of 200 50]) auto
  have v1: "view T s1 1 = \<lparr>registration = Some ?st, budget = unat (200 :: 64 word), pending = unat (0 :: 64 word)\<rparr>"
    using s1 by (simp add: view_def)
  obtain s2 s3 where a: "assert_ok (increase_budget T (origin_of 1) 25) s1 = Some s2" "budget_on_hold T 1 s2 = 225"
      "assert_ok (decrease_budget T (origin_of 1) 20) s2 = Some s3" and wf3: "wf (ledger s3)"
    and v3: "view T s3 1 = \<lparr>registration = Some ?st, budget = unat (205 :: 64 word), pending = unat (0 :: 64 word)\<rparr>"
    by (rule budget_calls_run [OF escrow_invD(1) [OF inv] v1 funds])
  have "active ?st" by simp
  then obtain s4 s5 s6 where b: "assert_ok (pause T (origin_of 1)) s3 = Some s4" "assert_ok (resume T (origin_of 1)) s4 = Some s5"
      "assert_ok (unregister T (origin_of 1)) s5 = Some s6" "sponsor_state 1 s6 = None" "budget_on_hold T 1 s6 = 0"
    by (rule pausing_calls_run [OF wf3 v3])
  show ?thesis
    using r a b entry_holds(2) [OF v3]
    by (simp add: can_increase_decrease_pause_resume_and_unregister_def mock_bounded_policy_def assert_that_def)
qed

text \<open>What validation answers, and the tests of its refusals.\<close>

lemma validation:
  assumes "wf (ledger s)" and "t \<in> {0, 5}"
  shows "validate T P (new t (Some 1)) (origin_of a) (the_call c) (the_info c) (the_len c) (no_implication c) (external c) s =
    (case first_fault (Sponsors s 1) (Some a) (budget_on_hold T 1 s) (fee + t) of
       Some why \<Rightarrow> Inl (invalid why)
     | None \<Rightarrow> Inr (with_priority P (get_priority P (the_info c) (the_len c) (into_fee P t) (into_fee P (fee + t))),
         ValSponsored 1 a (fee + t) t, origin_of a))"
  using fees [OF assms] by (simp add: validate_sponsored_eq [of _ 1] origin_signer Let_def split: option.split)

lemmas refusal_defs = mock_bounded_policy_def assert_that_def assert_result_def rejected_with_def unwrap_err_def
  first_fault_def invalid_def

lemma fee_shown:
  fixes s :: "(nat, 64 word, 'b) chain"
  shows "wf (ledger s) \<Longrightarrow>
    from_fee P (compute_fee P (ucast (the_len c)) (the_info c) (into_fee P 0) (ledger s)) = fee"
  using fees [of s 0] by (simp add: estimated_fee_def)

lemma test_accepts: "sponsored_validation_accepts_allowlisted_signer T P origin_of c s0 \<noteq> None"
proof (rule registers_mock [of 200 50])
  fix s
  assume "assert_ok (register_sponsor T (origin_of 1) 200 \<lparr>allowed_callers = [2], max_fee_per_tx = 50\<rparr>) s0 = Some s"
    and inv: "escrow_inv T wf (Idle :: (nat, 64 word, 'pre) phase) s"
    and "Sponsors s 1 = Some \<lparr>active = True, policy = \<lparr>allowed_callers = [2], max_fee_per_tx = 50\<rparr>\<rparr>" "budget_on_hold T 1 s = 200"
  moreover have "fee \<le> 200" using fee_range(2) by (rule order_trans) simp
  ultimately show ?thesis
    using fee_range validation [OF escrow_invD(1) [OF inv], of 0 2]
    by (simp add: sponsored_validation_accepts_allowlisted_signer_def mock_bounded_policy_def unwrap_def first_fault_def
        linorder_not_less [symmetric])
qed simp_all

lemma test_rejects_others: "sponsored_validation_rejects_non_allowlisted_signer T P origin_of c s0 \<noteq> None"
proof (rule registers_mock [of 200 50])
  fix s
  assume "assert_ok (register_sponsor T (origin_of 1) 200 \<lparr>allowed_callers = [2], max_fee_per_tx = 50\<rparr>) s0 = Some s"
    and inv: "escrow_inv T wf (Idle :: (nat, 64 word, 'pre) phase) s"
    and "Sponsors s 1 = Some \<lparr>active = True, policy = \<lparr>allowed_callers = [2], max_fee_per_tx = 50\<rparr>\<rparr>"
  then show ?thesis
    using validation [OF escrow_invD(1) [OF inv], of 0 3]
    by (simp add: sponsored_validation_rejects_non_allowlisted_signer_def refusal_defs)
qed simp_all

lemma test_rejects_cap: "sponsored_validation_rejects_fee_cap_exceeded T P origin_of c s0 \<noteq> None"
proof (rule registers_mock [of 200 1])
  fix s
  assume "assert_ok (register_sponsor T (origin_of 1) 200 \<lparr>allowed_callers = [2], max_fee_per_tx = 1\<rparr>) s0 = Some s"
    and inv: "escrow_inv T wf (Idle :: (nat, 64 word, 'pre) phase) s"
    and "Sponsors s 1 = Some \<lparr>active = True, policy = \<lparr>allowed_callers = [2], max_fee_per_tx = 1\<rparr>\<rparr>"
  then show ?thesis
    using fee_range(1) validation [OF escrow_invD(1) [OF inv], of 0 2] fee_shown [OF escrow_invD(1) [OF inv]]
    by (simp add: sponsored_validation_rejects_fee_cap_exceeded_def refusal_defs)
qed simp_all

lemma test_rejects_budget: "sponsored_validation_rejects_insufficient_budget T P origin_of c s0 \<noteq> None"
proof (rule registers_mock [of 1 500])
  fix s
  assume "assert_ok (register_sponsor T (origin_of 1) 1 \<lparr>allowed_callers = [2], max_fee_per_tx = 500\<rparr>) s0 = Some s"
    and inv: "escrow_inv T wf (Idle :: (nat, 64 word, 'pre) phase) s" and "budget_on_hold T 1 s = 1"
    and "Sponsors s 1 = Some \<lparr>active = True, policy = \<lparr>allowed_callers = [2], max_fee_per_tx = 500\<rparr>\<rparr>"
  moreover have "\<not> 500 < fee" using fee_range(2) by (simp add: not_less order_trans [of _ "50 :: 64 word"])
  ultimately show ?thesis
    using fee_range(1) validation [OF escrow_invD(1) [OF inv], of 0 2] fee_shown [OF escrow_invD(1) [OF inv]]
    by (simp add: sponsored_validation_rejects_insufficient_budget_def refusal_defs)
qed simp_all

lemma test_rejects_paused: "sponsored_validation_rejects_inactive_sponsor T P origin_of c s0 \<noteq> None"
proof (rule registers_mock [of 200 50])
  fix s
  assume reg: "assert_ok (register_sponsor T (origin_of 1) 200 \<lparr>allowed_callers = [2], max_fee_per_tx = 50\<rparr>) s0 = Some s"
    and inv: "escrow_inv T wf (Idle :: (nat, 64 word, 'pre) phase) s"
    and st: "Sponsors s 1 = Some \<lparr>active = True, policy = \<lparr>allowed_callers = [2], max_fee_per_tx = 50\<rparr>\<rparr>"
  let ?u = "deposit_event (SponsorPaused 1) (s\<lparr>Sponsors := (Sponsors s)(1 \<mapsto> \<lparr>active = False, policy = \<lparr>allowed_callers = [2], max_fee_per_tx = 50\<rparr>\<rparr>)\<rparr>)"
  have "assert_ok (pause T (origin_of 1)) s = Some ?u"
    using st by (simp add: assert_ok_def pause_run [OF can_sign])
  moreover have "wf (ledger ?u)" using escrow_invD(1) [OF inv] by simp
  ultimately show ?thesis
    using reg validation [of ?u 0 2]
    by (simp add: sponsored_validation_rejects_inactive_sponsor_def refusal_defs)
qed simp_all

text \<open>The tests of a whole sponsored transaction.\<close>

lemma opens:
  assumes inv: "escrow_inv T wf (Idle :: (nat, 64 word, 'pre) phase) s" and "t \<in> {0, 5}"
    and st: "Sponsors s 1 = Some \<lparr>active = True, policy = \<lparr>allowed_callers = [2], max_fee_per_tx = m\<rparr>\<rparr>"
    and fits: "fee + t \<le> m" "fee + t \<le> budget_on_hold T 1 s"
  obtains valid u where "validate T P (new t (Some 1)) (origin_of 2) (the_call c) (the_info c) (the_len c) (no_implication c) (external c) s
      = Inr (valid, ValSponsored 1 2 (fee + t) t, origin_of 2)"
    and "prepare T P (new t (Some 1)) (ValSponsored 1 2 (fee + t) t) (origin_of 2) (the_call c) (the_info c) (the_len c) s
      = (Inr (PreSponsored 1 2 (fee + t) t), u)"
    and "escrow_inv T wf (Dispatching (PreSponsored 1 2 (fee + t) t) :: (nat, 64 word, 'pre) phase) u"
    and "unat (budget_on_hold T 1 u) + unat (fee + t) = unat (budget_on_hold T 1 s)" and "pending_on_hold T 1 u = fee + t"
    and "Sponsors u = Sponsors s" and "events u = events s"
proof -
  note wf = escrow_invD(1) [OF inv]
  have "first_fault (Sponsors s 1) (Some 2) (budget_on_hold T 1 s) (fee + t) = None"
    using st fits by (simp add: first_fault_def not_less)
  then obtain valid where v: "validate T P (new t (Some 1)) (origin_of 2) (the_call c) (the_info c) (the_len c) (no_implication c) (external c) s
      = Inr (valid, ValSponsored 1 2 (fee + t) t, origin_of 2)"
    using validation [OF wf assms(2), of 2] by simp
  obtain u where p: "prepare T P (new t (Some 1)) (ValSponsored 1 2 (fee + t) t) (origin_of 2) (the_call c) (the_info c) (the_len c) s
      = (Inr (PreSponsored 1 2 (fee + t) t), u)"
    and vu: "view T u = (view T s)(1 := (view T s 1)\<lparr>budget := budget (view T s 1) - unat (fee + t),
         pending := pending (view T s 1) + unat (fee + t)\<rparr>)"
    and u: "Sponsors u = Sponsors s" "events u = events s"
    using prepare_succeeds [OF wf fits(2)] by metis
  have i: "escrow_inv T wf (Dispatching (PreSponsored 1 2 (fee + t) t) :: (nat, 64 word, 'pre) phase) u"
    by (rule inv_open [OF inv v p])
  have "unat (fee + t) \<le> unat (budget_on_hold T 1 s)" using fits(2) by (simp add: word_le_nat_alt)
  moreover have "pending (view T s 1) = 0" using escrow_invD(4) [OF inv, of 1] by simp
  ultimately have "unat (budget_on_hold T 1 u) + unat (fee + t) = unat (budget_on_hold T 1 s)" "pending_on_hold T 1 u = fee + t"
    using view_updD(2,3) [OF vu] by (simp_all add: word_unat_eq_iff)
  with that [OF v p i] u show ?thesis by simp
qed

lemma no_wrap:
  assumes "t \<in> {0, 5}"
  shows "fee + t \<le> 55" and "afee + t \<le> fee + t" and "unat (afee + t) = unat afee + unat t" and "unat (fee + t) = unat fee + unat t"
proof -
  have "unat fee \<le> 50" "unat afee \<le> unat fee" using fee_range(2) actual_range(2) by (simp_all add: word_le_nat_alt)
  moreover have "unat t \<le> 5" using assms by auto
  ultimately show "unat (afee + t) = unat afee + unat t" "unat (fee + t) = unat fee + unat t"
    by (simp_all add: unat_add_lem [THEN iffD1])
  with \<open>unat fee \<le> 50\<close> \<open>unat afee \<le> unat fee\<close> \<open>unat t \<le> 5\<close> show "fee + t \<le> 55" "afee + t \<le> fee + t"
    by (simp_all add: word_le_nat_alt)
qed

lemma closes:
  assumes inv: "escrow_inv T wf (Dispatching (PreSponsored 1 2 (fee + t) t) :: (nat, 64 word, 'pre) phase) u" and t: "t \<in> {0, 5}"
  obtains s where "assert_ok (post_dispatch_details T P (PreSponsored 1 2 (fee + t) t) (the_info c) (half_weight_post c) (the_len c) (ok_result c)) u = Some s"
    and "pending_on_hold T 1 s = 0"
    and "unat (budget_on_hold T 1 s) + unat (afee + t) = unat (budget_on_hold T 1 u) + unat (fee + t)"
    and "events s = events u @ [SponsoredTransactionFeePaid 1 2 (afee + t) t]"
proof -
  note facts = escrow_invD [OF inv]
  let ?s = "snd (settle_sponsored_fee T P 1 2 (fee + t) t (the_info c) (half_weight_post c) (the_len c) u)"
  have k: "charged_fee T P 1 (fee + t) t (the_info c) (half_weight_post c) (the_len c) u = afee + t"
    using settle_in_flight [OF inv] actual_fees [OF facts(1) t] no_wrap(2) [OF t] by (simp add: min_def)
  have "t \<le> afee + t" using no_wrap(3) [OF t] by (simp add: word_le_nat_alt)
  then have ev: "events ?s = events u @ [SponsoredTransactionFeePaid 1 2 (afee + t) t]"
    unfolding settle_frame(2) [OF facts(1)] k by (simp add: min_absorb1)
  have "unat (afee + t) \<le> unat (fee + t)" using no_wrap(2) [OF t] by (simp add: word_le_nat_alt)
  moreover have "pending (view T u 1) = unat (fee + t)" using facts(4) [of 1] by simp
  ultimately have "unat (pending_on_hold T 1 ?s) = 0"
      "unat (budget_on_hold T 1 ?s) + unat (afee + t) = unat (budget_on_hold T 1 u) + unat (fee + t)"
    using view_updD(2,3) [OF settle_exact [OF facts(1), of P 1 2 "fee + t" t "the_info c" "half_weight_post c" "the_len c"]] k by simp_all
  moreover have "assert_ok (post_dispatch_details T P (PreSponsored 1 2 (fee + t) t) (the_info c) (half_weight_post c) (the_len c) (ok_result c)) u = Some ?s"
    by (simp add: assert_ok_def post_dispatch_details_def split: prod.splits)
  ultimately show ?thesis using that [of ?s] ev by (simp add: unat_eq_0)
qed

lemma test_settles: "sponsored_prepare_moves_budget_to_pending_and_post_dispatch_restores_refund T P origin_of c s0 \<noteq> None"
proof (rule registers_mock [of 200 50])
  fix s
  assume reg: "assert_ok (register_sponsor T (origin_of 1) 200 \<lparr>allowed_callers = [2], max_fee_per_tx = 50\<rparr>) s0 = Some s"
    and inv: "escrow_inv T wf (Idle :: (nat, 64 word, 'pre) phase) s" and b: "budget_on_hold T 1 s = 200"
    and st: "Sponsors s 1 = Some \<lparr>active = True, policy = \<lparr>allowed_callers = [2], max_fee_per_tx = 50\<rparr>\<rparr>"
  have t: "(0 :: 64 word) \<in> {0, 5}" by simp
  have "fee + 0 \<le> 200" using fee_range(2) by (simp add: order_trans [of _ "50 :: 64 word"])
  then have fits: "fee + 0 \<le> 50" "fee + 0 \<le> budget_on_hold T 1 s" using fee_range(2) b by simp_all
  obtain valid u where v: "validate T P (new 0 (Some 1)) (origin_of 2) (the_call c) (the_info c) (the_len c) (no_implication c) (external c) s
      = Inr (valid, ValSponsored 1 2 (fee + 0) 0, origin_of 2)"
    and p: "prepare T P (new 0 (Some 1)) (ValSponsored 1 2 (fee + 0) 0) (origin_of 2) (the_call c) (the_info c) (the_len c) s
      = (Inr (PreSponsored 1 2 (fee + 0) 0), u)"
    and i: "escrow_inv T wf (Dispatching (PreSponsored 1 2 (fee + 0) 0) :: (nat, 64 word, 'pre) phase) u"
    and bu: "unat (budget_on_hold T 1 u) + unat (fee + 0) = unat (budget_on_hold T 1 s)" and pu: "pending_on_hold T 1 u = fee + 0"
    by (rule opens [OF inv t st fits])
  obtain s' where q: "assert_ok (post_dispatch_details T P (PreSponsored 1 2 (fee + 0) 0) (the_info c) (half_weight_post c) (the_len c) (ok_result c)) u = Some s'"
    and p': "pending_on_hold T 1 s' = 0" and b': "unat (budget_on_hold T 1 s') + unat (afee + 0) = unat (budget_on_hold T 1 u) + unat (fee + 0)"
    and ev: "events s' = events u @ [SponsoredTransactionFeePaid 1 2 (afee + 0) 0]"
    by (rule closes [OF i t])
  have "budget_on_hold T 1 u + fee = 200"
    by (rule word_add_of_unat) (use bu b in simp)
  then have bu': "budget_on_hold T 1 u = 200 - fee" by (simp add: eq_diff_eq)
  have "0 < unat afee" using actual_range(1) by (simp add: word_less_nat_alt)
  with b' bu b have less: "budget_on_hold T 1 s' < 200" by (simp add: word_less_nat_alt)
  have af: "from_fee P (compute_actual_fee P (ucast (the_len c)) (the_info c) (half_weight_post c) (into_fee P 0) (ledger u)) = afee"
    using actual_fees [OF escrow_invD(1) [OF i] t] by (simp add: actual_fee_def)
  show ?thesis
    using reg v p pu q p' less ev bu' af fee_shown [OF escrow_invD(1) [OF inv]]
    by (simp add: sponsored_prepare_moves_budget_to_pending_and_post_dispatch_restores_refund_def mock_bounded_policy_def
        unwrap_def unwrap_run_def assert_that_def Let_def)
qed simp_all

lemma test_unregister_blocked: "unregister_blocked_while_pending_hold_exists T P origin_of c s0 \<noteq> None"
proof (rule registers_mock [of 200 50])
  fix s
  assume reg: "assert_ok (register_sponsor T (origin_of 1) 200 \<lparr>allowed_callers = [2], max_fee_per_tx = 50\<rparr>) s0 = Some s"
    and inv: "escrow_inv T wf (Idle :: (nat, 64 word, 'pre) phase) s" and b: "budget_on_hold T 1 s = 200"
    and st: "Sponsors s 1 = Some \<lparr>active = True, policy = \<lparr>allowed_callers = [2], max_fee_per_tx = 50\<rparr>\<rparr>"
  have t: "(0 :: 64 word) \<in> {0, 5}" by simp
  have "fee + 0 \<le> 200" using fee_range(2) by (simp add: order_trans [of _ "50 :: 64 word"])
  then have fits: "fee + 0 \<le> 50" "fee + 0 \<le> budget_on_hold T 1 s" using fee_range(2) b by simp_all
  obtain valid u where "validate T P (new 0 (Some 1)) (origin_of 2) (the_call c) (the_info c) (the_len c) (no_implication c) (external c) s
      = Inr (valid, ValSponsored 1 2 (fee + 0) 0, origin_of 2)"
    and "prepare T P (new 0 (Some 1)) (ValSponsored 1 2 (fee + 0) 0) (origin_of 2) (the_call c) (the_info c) (the_len c) s
      = (Inr (PreSponsored 1 2 (fee + 0) 0), u)"
    and "pending_on_hold T 1 u = fee + 0" and "Sponsors u = Sponsors s"
    by (rule opens [OF inv t st fits])
  moreover have "0 < fee" "fee \<noteq> 0" using fee_range(1) by (auto simp: word_less_nat_alt)
  ultimately show ?thesis
    using reg st
    by (simp add: unregister_blocked_while_pending_hold_exists_def mock_bounded_policy_def unwrap_def unwrap_run_def
        assert_that_def assert_noop_def unregister_run [OF can_sign])
qed simp_all

lemma test_tip: "sponsored_tx_with_tip_splits_correctly T P origin_of c s0 \<noteq> None"
proof (rule registers_mock [of 500 200])
  fix s
  assume reg: "assert_ok (register_sponsor T (origin_of 1) 500 \<lparr>allowed_callers = [2], max_fee_per_tx = 200\<rparr>) s0 = Some s"
    and inv: "escrow_inv T wf (Idle :: (nat, 64 word, 'pre) phase) s" and b: "budget_on_hold T 1 s = 500"
    and st: "Sponsors s 1 = Some \<lparr>active = True, policy = \<lparr>allowed_callers = [2], max_fee_per_tx = 200\<rparr>\<rparr>"
    and ev0: "events s = [SponsorRegistered 1 500]"
  have t: "(5 :: 64 word) \<in> {0, 5}" by simp
  have fits: "fee + 5 \<le> 200" "fee + 5 \<le> budget_on_hold T 1 s"
    using no_wrap(1) [OF t] b by (simp_all add: order_trans [of _ "55 :: 64 word"])
  obtain valid u where v: "validate T P (new 5 (Some 1)) (origin_of 2) (the_call c) (the_info c) (the_len c) (no_implication c) (external c) s
      = Inr (valid, ValSponsored 1 2 (fee + 5) 5, origin_of 2)"
    and p: "prepare T P (new 5 (Some 1)) (ValSponsored 1 2 (fee + 5) 5) (origin_of 2) (the_call c) (the_info c) (the_len c) s
      = (Inr (PreSponsored 1 2 (fee + 5) 5), u)"
    and i: "escrow_inv T wf (Dispatching (PreSponsored 1 2 (fee + 5) 5) :: (nat, 64 word, 'pre) phase) u" and ev: "events u = events s"
    by (rule opens [OF inv t st fits])
  obtain s' where "assert_ok (post_dispatch_details T P (PreSponsored 1 2 (fee + 5) 5) (the_info c) (half_weight_post c) (the_len c) (ok_result c)) u = Some s'"
    and "pending_on_hold T 1 s' = 0" and "events s' = events u @ [SponsoredTransactionFeePaid 1 2 (afee + 5) 5]"
    by (rule closes [OF i t])
  then show ?thesis
    using reg v p ev ev0
    by (simp add: sponsored_tx_with_tip_splits_correctly_def mock_bounded_policy_def unwrap_def unwrap_run_def assert_that_def)
qed simp_all

lemma test_unsponsored: "unsponsored_path_keeps_signer_payment_behavior T P origin_of c free_balance dispatch s0 \<noteq> None"
proof -
  have self: "sponsor (new 0 None :: (nat, 64 word) SponsoredChargeTransactionPayment) = None" by simp
  have "unat fee \<le> 50" using fee_range(2) by (simp add: word_le_nat_alt)
  then have funds: "covers T total 2 (unat (estimated_fee P (tip (new 0 None :: (nat, 64 word) SponsoredChargeTransactionPayment))
      (the_info c) (the_len c) s0) + reserve) (ledger s0)"
    using start(5) [of 2] small_reserve fees [OF start(1), of 0] by (simp add: covers_def)
  obtain valid val pre b
    where v: "validate T P (new 0 None) (origin_of 2) (the_call c) (the_info c) (the_len c) (no_implication c) (external c) s0
      = Inr (valid, ValUnsponsored val, origin_of 2)"
    and p: "prepare T P (new 0 None) (ValUnsponsored val) (origin_of 2) (the_call c) (the_info c) (the_len c) s0
      = (Inr (PreUnsponsored pre), s0\<lparr>ledger := b\<rparr>)"
    and wf: "wf b" and kept: "\<And>r a. held (Balances T) r a b = held (Balances T) r a (ledger s0)"
    by (rule own_transaction_opens [OF start(1) self funds order_refl]) blast
  obtain post where d: "dispatch (origin_of 2) (s0\<lparr>ledger := b\<rparr>) = (Inr post, s0\<lparr>ledger := b\<rparr>)"
    and pos: "0 < unat (from_fee P (compute_actual_fee P (ucast (the_len c)) (the_info c) post (into_fee P 0) b))"
    using remark [of 2 "s0\<lparr>ledger := b\<rparr>"] by (auto simp: word_less_nat_alt)
  obtain w b' where q: "base_post_dispatch_details P pre (the_info c) post (the_len c) (ok_result c) b = (Inr w, b')"
    using base_post_live [OF wf] by blast
  have bv: "base_validate P (into_fee P 0) (origin_of 2) (the_call c) (the_info c) (the_len c) (no_implication c) (external c) (ledger s0)
      = Inr (valid, val, origin_of 2)"
    using v by (auto simp: validate_def split: sum.splits)
  have bp: "base_prepare P (into_fee P 0) val (origin_of 2) (the_call c) (the_info c) (the_len c) (ledger s0) = (Inr pre, b)"
    using p by (auto simp: prepare_def op_simps dest: arg_cong [where f = ledger])
  have zero: "held (Balances T) r 2 b' = 0" for r
    using base_post_keeps [OF wf q] kept start(6) by simp
  then have "free_balance 2 b' < free_balance 2 (ledger s0)"
    using base_charges [OF start(1) bv bp q] pos free_without_holds [of b' 2] free_without_holds [of "ledger s0" 2] start(1,6)
      base_post_keeps [OF wf q] by simp
  then show ?thesis
    using v p d q
    by (simp add: unsponsored_path_keeps_signer_payment_behavior_def unwrap_def unwrap_run_def assert_ok_def assert_that_def
        Let_def post_dispatch_details_def on_ledger_def map_err_def)
qed

end

section \<open>The mock over the reference ledger\<close>

definition ref_test_call :: "(unit, 64 word, 64 word, 64 word, unit, unit, unit) test_call" where
  "ref_test_call = \<lparr>the_call = (), the_info = 1, the_len = 1, half_weight_post = 0, ok_result = (), no_implication = (), external = ()\<rparr>"

interpretation ref_tests: test_runtime Test "ref_wf TYPE(64)" ref_total id TestPayment RefSigned ref_existential_deposit
  ref_test_call new_test_ext 2 1 "\<lambda>a b. ref_free b a" "\<lambda>_. ok 1"
proof (intro test_runtime.intro ref_solvent.solvent_config_axioms test_runtime_axioms.intro)
  show "genesis Test (ref_wf TYPE(64)) new_test_ext"
    using new_test_ext_wf
    by (simp add: genesis_def new_test_ext_def budget_on_hold_def pending_on_hold_def ref_balance_on_hold_def ref_genesis_ledger_def)
next
  fix b :: ref_ledger and f info post :: "64 word" and len :: "64 word" and a call imp src valid val origin' pre res w b1 b2
  assume "base_validate TestPayment f (RefSigned a) call info len imp src b = Inr (valid, val, origin')"
    and "base_prepare TestPayment f val origin' call info len b = (Inr pre, b1)"
    and "base_post_dispatch_details TestPayment pre info post len res b1 = (Inr w, b2)"
  then have "ref_total a b2 + unat (ref_compute_fee (ucast len) info f b) = ref_total a b"
    by (auto simp: ref_base_validate_def ref_base_prepare_def ref_total_def Let_def split: if_splits)
  moreover have "unat (ref_compute_actual_fee (ucast len) info post f b1) \<le> unat (ref_compute_fee (ucast len) info f b)"
    by (simp add: ref_compute_fee_def ref_compute_actual_fee_def nat_of_word)
  ultimately show "ref_total a b2 + unat (from_fee TestPayment (compute_actual_fee TestPayment (ucast len) info post f b1)) \<le> ref_total a b"
    by simp
next
  fix a and b :: ref_ledger
  assume wf: "ref_wf TYPE(64) b" and none: "\<And>r. held (Balances Test) r a b = 0"
  show "ref_free b a = ref_total a b"
    using none by (simp add: held_ref [OF wf] ref_total_def)
qed (auto simp: new_test_ext_def ref_genesis_ledger_def ref_total_def held_def ref_balance_on_hold_def ref_existential_deposit_def
    estimated_fee_def actual_fee_def ref_test_call_def ref_fee_defs ok_def)

section \<open>Property\<close>

text \<open>
  C23: the repository's tests of the pallet pass on every runtime that keeps the contracts.  Given a
  balances pallet and a payment extension with their documented laws, the endowments of the mock
  and a fee in the range the tests assume, none of the twelve tests panics: every call returns what
  its test expects, every refused validation carries the expected code, and balances, holds and
  events after each step are the asserted ones.
\<close>

theorem repository_tests_pass:
  assumes "test_runtime T W tot peek P origin_of reserve c s0 fee afee free_balance dispatch"
  shows "register_sponsor_holds_budget T origin_of s0 \<noteq> None
   \<and> register_requires_non_empty_unique_allowlist T origin_of s0 \<noteq> None
   \<and> can_increase_decrease_pause_resume_and_unregister T origin_of s0 \<noteq> None
   \<and> sponsored_validation_accepts_allowlisted_signer T P origin_of c s0 \<noteq> None
   \<and> sponsored_validation_rejects_non_allowlisted_signer T P origin_of c s0 \<noteq> None
   \<and> sponsored_prepare_moves_budget_to_pending_and_post_dispatch_restores_refund T P origin_of c s0 \<noteq> None
   \<and> sponsored_validation_rejects_inactive_sponsor T P origin_of c s0 \<noteq> None
   \<and> sponsored_validation_rejects_fee_cap_exceeded T P origin_of c s0 \<noteq> None
   \<and> sponsored_validation_rejects_insufficient_budget T P origin_of c s0 \<noteq> None
   \<and> unregister_blocked_while_pending_hold_exists T P origin_of c s0 \<noteq> None
   \<and> sponsored_tx_with_tip_splits_correctly T P origin_of c s0 \<noteq> None
   \<and> unsponsored_path_keeps_signer_payment_behavior T P origin_of c free_balance dispatch s0 \<noteq> None"
  by (intro conjI) (rule test_runtime.test_holds_budget [OF assms] test_runtime.test_allowlist [OF assms] test_runtime.test_lifecycle [OF assms] test_runtime.test_accepts [OF assms] test_runtime.test_rejects_others [OF assms] test_runtime.test_settles [OF assms] test_runtime.test_rejects_paused [OF assms] test_runtime.test_rejects_cap [OF assms] test_runtime.test_rejects_budget [OF assms] test_runtime.test_unregister_blocked [OF assms] test_runtime.test_tip [OF assms] test_runtime.test_unsponsored [OF assms])+

theorem repository_tests_pass_witness:
  "register_sponsor_holds_budget Test RefSigned new_test_ext \<noteq> None
   \<and> register_requires_non_empty_unique_allowlist Test RefSigned new_test_ext \<noteq> None
   \<and> can_increase_decrease_pause_resume_and_unregister Test RefSigned new_test_ext \<noteq> None
   \<and> sponsored_validation_accepts_allowlisted_signer Test TestPayment RefSigned ref_test_call new_test_ext \<noteq> None
   \<and> sponsored_validation_rejects_non_allowlisted_signer Test TestPayment RefSigned ref_test_call new_test_ext \<noteq> None
   \<and> sponsored_prepare_moves_budget_to_pending_and_post_dispatch_restores_refund Test TestPayment RefSigned ref_test_call new_test_ext \<noteq> None
   \<and> sponsored_validation_rejects_inactive_sponsor Test TestPayment RefSigned ref_test_call new_test_ext \<noteq> None
   \<and> sponsored_validation_rejects_fee_cap_exceeded Test TestPayment RefSigned ref_test_call new_test_ext \<noteq> None
   \<and> sponsored_validation_rejects_insufficient_budget Test TestPayment RefSigned ref_test_call new_test_ext \<noteq> None
   \<and> unregister_blocked_while_pending_hold_exists Test TestPayment RefSigned ref_test_call new_test_ext \<noteq> None
   \<and> sponsored_tx_with_tip_splits_correctly Test TestPayment RefSigned ref_test_call new_test_ext \<noteq> None
   \<and> unsponsored_path_keeps_signer_payment_behavior Test TestPayment RefSigned ref_test_call (\<lambda>a b. ref_free b a) (\<lambda>_. ok 1 :: (_, unit, _) op) new_test_ext \<noteq> None"
  by (rule repository_tests_pass [OF ref_tests.test_runtime_axioms])

text \<open>The two tests of the template pallet, from its genesis state.\<close>

lemma template_tests_pass:
  assumes "check_signed (origin_of 1) = Inr 1" and "Something s = None"
  shows "it_works_for_default_value check_signed origin_of s \<noteq> None \<and> correct_error_for_none_value check_signed origin_of s \<noteq> None"
  using assms
  by (simp add: it_works_for_default_value_def correct_error_for_none_value_def assert_ok_def assert_that_def assert_noop_def
      do_something_run cause_error_run)

end
