(* ===== verification/Sponsor_Machine.thy ===== *)
theory Sponsor_Machine
  imports Sponsor_Lifecycle
begin

text \<open>
  The pallet and its extension as seen through the event log.  The abstract machine keeps, per
  account, only the registration and one amount of escrowed funds: it does not know holds, reasons,
  reservations or phases, and each of its steps is labelled by one event of the pallet.  Every
  run of the lifecycle is a run of this machine whose labels are the log: opening a transaction,
  closing an unsponsored one and the code of other pallets are invisible, everything else is
  exactly one labelled step.
\<close>

section \<open>The abstract machine\<close>

record ('acc, 'n) account =
  enrolment :: "('acc, 'n) SponsorState option"
  funds :: nat

inductive account_step ::
  "('acc, 'w::len word) Event \<Rightarrow> ('acc \<Rightarrow> ('acc, 'w word) account) \<Rightarrow> ('acc \<Rightarrow> ('acc, 'w word) account) \<Rightarrow> bool"
where
  enrol: "enrolment (m a) = None \<Longrightarrow> n \<noteq> 0 \<Longrightarrow> valid_policy p \<Longrightarrow>
    account_step (SponsorRegistered a n) m (m(a := \<lparr>enrolment = Some \<lparr>active = True, policy = p\<rparr>, funds = unat n\<rparr>))"
| fund: "enrolment (m a) \<noteq> None \<Longrightarrow> n \<noteq> 0 \<Longrightarrow> unat left \<le> funds (m a) + unat n \<Longrightarrow>
    account_step (BudgetIncreased a n left) m (m(a := (m a)\<lparr>funds := funds (m a) + unat n\<rparr>))"
| withdraw: "enrolment (m a) \<noteq> None \<Longrightarrow> n \<noteq> 0 \<Longrightarrow> unat n + unat left \<le> funds (m a) \<Longrightarrow>
    account_step (BudgetDecreased a n left) m (m(a := (m a)\<lparr>funds := funds (m a) - unat n\<rparr>))"
| change_policy: "enrolment (m a) = Some st \<Longrightarrow> valid_policy p \<Longrightarrow>
    account_step (SponsorPolicyUpdated a) m (m(a := (m a)\<lparr>enrolment := Some (st\<lparr>policy := p\<rparr>)\<rparr>))"
| suspend: "enrolment (m a) = Some st \<Longrightarrow> active st \<Longrightarrow>
    account_step (SponsorPaused a) m (m(a := (m a)\<lparr>enrolment := Some (st\<lparr>active := False\<rparr>)\<rparr>))"
| continue: "enrolment (m a) = Some st \<Longrightarrow> \<not> active st \<Longrightarrow>
    account_step (SponsorResumed a) m (m(a := (m a)\<lparr>enrolment := Some (st\<lparr>active := True\<rparr>)\<rparr>))"
| leave: "enrolment (m a) \<noteq> None \<Longrightarrow>
    account_step (SponsorUnregistered a) m (m(a := \<lparr>enrolment = None, funds = 0\<rparr>))"
| pay: "unat fee \<le> funds (m a) \<Longrightarrow> t \<le> fee \<Longrightarrow>
    account_step (SponsoredTransactionFeePaid a signer fee t) m (m(a := (m a)\<lparr>funds := funds (m a) - unat fee\<rparr>))"

inductive_cases account_stepE:
  "account_step (SponsorRegistered a n) m m'" "account_step (BudgetIncreased a n left) m m'"
  "account_step (BudgetDecreased a n left) m m'" "account_step (SponsorPolicyUpdated a) m m'"
  "account_step (SponsorPaused a) m m'" "account_step (SponsorResumed a) m m'"
  "account_step (SponsorUnregistered a) m m'" "account_step (SponsoredTransactionFeePaid a signer fee t) m m'"

inductive account_run ::
  "('acc, 'w::len word) Event list \<Rightarrow> ('acc \<Rightarrow> ('acc, 'w word) account) \<Rightarrow> bool"
where
  empty_log: "account_run [] (\<lambda>_. \<lparr>enrolment = None, funds = 0\<rparr>)"
| logged: "account_run evs m \<Longrightarrow> account_step ev m m' \<Longrightarrow> account_run (evs @ [ev]) m'"

inductive_cases account_run_snocE: "account_run (evs @ [ev]) m"

section \<open>What the log determines\<close>

text \<open>Who is enrolled and active, and with what funds; policies are not in the log.\<close>

definition public :: "('acc, 'n) account \<Rightarrow> bool option \<times> nat" where
  "public x = (map_option active (enrolment x), funds x)"

lemma public_upd: "public \<circ> m(a := x) = (public \<circ> m)(a := public x)"
  by (auto simp: fun_eq_iff)

lemma step_public_unique:
  assumes "account_step ev m1 n1" and "account_step ev m2 n2" and same: "public \<circ> m1 = public \<circ> m2"
  shows "public \<circ> n1 = public \<circ> n2"
proof -
  have at: "map_option active (enrolment (m1 a)) = map_option active (enrolment (m2 a))" "funds (m1 a) = funds (m2 a)" for a
    using fun_cong [OF same, of a] by (simp_all add: public_def)
  have agree: "active x = active y" if "enrolment (m1 a) = Some x" "enrolment (m2 a) = Some y" for a x y
    using at(1) [of a] that by simp
  show ?thesis
    using assms(1,2) at
    by (cases ev) (auto elim!: account_stepE simp: public_upd same public_def dest: agree)
qed

lemma run_public_unique:
  assumes "account_run evs m1" and "account_run evs m2"
  shows "public \<circ> m1 = public \<circ> m2"
  using assms
proof (induction evs arbitrary: m1 m2 rule: rev_induct)
  case Nil
  then show ?case by (auto elim: account_run.cases)
next
  case (snoc ev evs)
  from snoc.prems obtain k1 k2 where "account_run evs k1" "account_step ev k1 m1" "account_run evs k2" "account_step ev k2 m2"
    by (blast elim: account_run_snocE)
  with snoc.IH step_public_unique show ?case by blast
qed

section \<open>The simulation\<close>

definition account_view :: "('acc, 'n) escrow \<Rightarrow> ('acc, 'n) account" where
  "account_view e = \<lparr>enrolment = registration e, funds = budget e + pending e\<rparr>"

definition accounts ::
  "('acc, 'w::len word, 'c, 'e, 'r, 'b, 'o) Config \<Rightarrow> ('acc, 'w word, 'b) chain \<Rightarrow> 'acc \<Rightarrow> ('acc, 'w word) account"
where
  "accounts T s = account_view \<circ> view T s"

lemma account_view_upd: "account_view \<circ> v(a := e) = (account_view \<circ> v)(a := account_view e)"
  by (auto simp: fun_eq_iff)

lemma account_step_eqI: "account_step ev m m' \<Longrightarrow> m' = n \<Longrightarrow> account_step ev m n"
  by simp

text \<open>A successful call is the step that its event labels.\<close>

lemma call_is_step:
  assumes "spec_call who c v = Inr (view T t)" and "escrow_sound v"
  shows "account_step (call_event T who c t) (account_view \<circ> v) (accounts T t)"
proof -
  obtain v' where v': "view T t = v'" by simp
  have left: "unat (budget_on_hold T who t) = budget (v' who)" by (simp flip: v')
  have none: "registration (v who) = None \<Longrightarrow> account_view (v who) = \<lparr>enrolment = None, funds = 0\<rparr>"
    using escrow_sound_at(2,3) [OF assms(2), of who] by (simp add: account_view_def)
  have "account_step (call_event T who c t) (account_view \<circ> v) (account_view \<circ> v')"
    using assms(1) [unfolded v'] none left
    by (cases c) (auto simp: account_view_upd account_view_def valid_policy_def split: if_splits option.splits
        intro!: account_step.intros [THEN account_step_eqI])
  then show ?thesis by (simp add: accounts_def v')
qed

context payment_config
begin

text \<open>Opening a transaction moves funds between the two reasons of one account, at most.\<close>

lemma open_is_silent:
  assumes wf: "wf (ledger s)"
    and pre: "prepare T P self v origin call info len s = (Inr pre, t)"
  shows "accounts T t = accounts T s" and "events t = events s"
proof -
  consider (base) bv bp b where "v = ValUnsponsored bv" and "t = s\<lparr>ledger := b\<rparr>"
      and "base_prepare P (into_fee P (tip self)) bv origin call info len (ledger s) = (Inr bp, b)"
    | (reserve) spons signer fee tp where "v = ValSponsored spons signer fee tp"
      and "(move_budget_to_pending T spons fee s :: ('v TransactionValidityError + unit) \<times> _) = (Inr (), t)"
    using pre by (cases v) (auto simp: prepare_def op_simps)
  then have "accounts T t = accounts T s \<and> events t = events s"
  proof cases
    case base
    with base_prepare_keeps [OF wf base(3)] have "view T t = view T s" by (auto intro: view_same_holds)
    with base(2) show ?thesis by (simp add: accounts_def)
  next
    case reserve
    note v = move_budget_view [OF wf reserve(2)]
    from v(1) have "account_view ((view T s spons)\<lparr>budget := budget (view T s spons) - unat fee,
        pending := pending (view T s spons) + unat fee\<rparr>) = account_view (view T s spons)"
      by (simp add: account_view_def)
    then show ?thesis
      using v(2) move_budget_frame(2) [OF wf reserve(2)] by (simp add: accounts_def account_view_upd fun_upd_idem)
  qed
  then show "accounts T t = accounts T s" and "events t = events s" by simp_all
qed

text \<open>Closing a sponsored transaction is the payment that its event reports.\<close>

lemma close_is_step:
  assumes inv: "escrow_inv T wf (Dispatching pre) s"
    and run: "post_dispatch_details T P pre info post len res s = (Inr w, t)"
  shows "accounts T t = accounts T s \<and> events t = events s
    \<or> (\<exists>ev. account_step ev (accounts T s) (accounts T t) \<and> events t = events s @ [ev])"
proof (cases pre)
  case (PreUnsponsored bp)
  with run obtain b where post: "base_post_dispatch_details P bp info post len res (ledger s) = (Inr w, b)"
    and t: "t = s\<lparr>ledger := b\<rparr>"
    by (auto simp: post_dispatch_details_def op_simps)
  with base_post_keeps [OF escrow_invD(1) [OF inv] post] have "view T t = view T s" by (auto intro: view_same_holds)
  with t show ?thesis by (simp add: accounts_def)
next
  case (PreSponsored spons signer est tp)
  with run have t: "t = snd (settle_sponsored_fee T P spons signer est tp info post len s)"
    by (auto simp: post_dispatch_details_def split: prod.splits)
  note wf = escrow_invD(1) [OF inv]
  let ?k = "charged_fee T P spons est tp info post len s"
  have k: "unat ?k \<le> pending (view T s spons)" by (simp add: charged_fee_def unat_min)
  have "account_step (SponsoredTransactionFeePaid spons signer ?k (min tp ?k)) (accounts T s) (accounts T t)"
    unfolding t accounts_def settle_exact [OF wf] account_view_upd
    by (rule account_step_eqI, rule account_step.pay) (use k in \<open>auto simp: account_view_def\<close>)
  moreover have "events t = events s @ [SponsoredTransactionFeePaid spons signer ?k (min tp ?k)]"
    unfolding t by (rule settle_frame(2) [OF wf])
  ultimately show ?thesis by blast
qed

lemma step_simulates:
  assumes "lifecycle_step T wf P x y" and "escrow_inv T wf (fst x) (snd x)"
  shows "accounts T (snd y) = accounts T (snd x) \<and> events (snd y) = events (snd x)
    \<or> (\<exists>ev. account_step ev (accounts T (snd x)) (accounts T (snd y)) \<and> events (snd y) = events (snd x) @ [ev])"
  using assms
proof (induction rule: lifecycle_step.induct)
  case (open_transaction self origin call info len imp src s valid val origin' pre t)
  from open_is_silent [OF escrow_invD(1) [OF open_transaction(3)]] open_transaction(2) show ?case by simp
next
  case (pallet_call c origin s r t ph)
  show ?case
  proof (cases r)
    case (Inl e)
    with pallet_call show ?thesis by (auto dest: dispatch_failure)
  next
    case (Inr u)
    with pallet_call obtain who where who: "ensure_signed T origin = Inr who" by (auto elim: dispatch_signed)
    note facts = escrow_invD [OF pallet_call(3) [simplified]]
    have "spec_call who c (view T s) = Inr (view T t)"
      using dispatch_success [OF facts(1) who] pallet_call(2) Inr by simp
    from call_is_step [OF this facts(2)] have "account_step (call_event T who c t) (accounts T s) (accounts T t)"
      by (simp add: accounts_def)
    moreover have "events t = events s @ [call_event T who c t]"
      using dispatch_event [OF who] pallet_call(2) Inr by blast
    ultimately show ?thesis by auto
  qed
next
  case (other_pallets b s ph)
  then show ?case using view_same_holds by (simp add: accounts_def)
next
  case (close_transaction pre info post len res s w t)
  then show ?case using close_is_step by simp
qed

lemma genesis_accounts: "genesis T wf s \<Longrightarrow> accounts T s = (\<lambda>_. \<lparr>enrolment = None, funds = 0\<rparr>)"
  by (simp add: genesis_def accounts_def account_view_def fun_eq_iff)

lemma log_is_run: "reachable T wf P ph s \<Longrightarrow> account_run (events s) (accounts T s)"
proof (induction rule: reachable.induct)
  case (initially s)
  then show ?case using account_run.empty_log by (simp add: genesis_accounts genesis_def [of _ _ s])
next
  case (stepped ph s ph' t)
  from step_simulates [OF stepped(2)] inv_reachable [OF stepped(1)] stepped(3) show ?case
    by (auto intro: account_run.logged)
qed

end

section \<open>Properties\<close>

text \<open>
  C15: the event log is a trace of the abstract machine.  In every reachable state, the log read as
  a sequence of labels is a run of the account machine, from the empty machine to the registrations
  and escrowed funds of that state.  So every event of the pallet stands for exactly one change of
  an account, made under the conditions of the machine's rule, and every change has its event; what
  opening a transaction reserves and what other pallets do is invisible to it.
\<close>

theorem reachable_log_is_account_run:
  assumes "payment_config T W tot peek P" and "reachable T W P ph s"
  shows "account_run (events s) (accounts T s)"
  by (rule payment_config.log_is_run [OF assms])

theorem reachable_log_is_account_run_witness:
  "account_run [SponsorRegistered 1 200] (accounts Test prepared_ext)
   \<and> funds (accounts Test prepared_ext 1) = 200 \<and> pending_on_hold Test 1 prepared_ext = 18"
  using reachable_log_is_account_run [OF ref_lifecycle.payment_config_axioms prepared_ext_reachable]
  by (simp add: accounts_def account_view_def)

text \<open>
  C16: the event log determines what the public can know.  Two reachable states with the same log
  agree on which accounts are registered, which of them are active and how much each has in escrow,
  even if one of them is in the middle of a transaction.  A client that follows the events needs
  no access to storage for these.
\<close>

theorem event_log_determines_public_state:
  assumes "payment_config T W tot peek P" and "reachable T W P ph s" and "reachable T W P ph' t"
    and "events s = events t"
  shows "public (accounts T s a) = public (accounts T t a)"
proof -
  note runs = payment_config.log_is_run [OF assms(1)]
  have "account_run (events s) (accounts T t)"
    using runs [OF assms(3)] assms(4) by simp
  from fun_cong [OF run_public_unique [OF runs [OF assms(2)] this], of a] show ?thesis
    by (simp only: comp_apply)
qed

theorem event_log_determines_public_state_witness:
  "public (accounts Test registered_ext 1) = public (accounts Test prepared_ext 1)
   \<and> budget_on_hold Test 1 registered_ext \<noteq> budget_on_hold Test 1 prepared_ext"
  using event_log_determines_public_state
    [OF ref_lifecycle.payment_config_axioms registered_ext_reachable prepared_ext_reachable]
  by simp

end
