(* ===== verification/Sponsor_Order.thy ===== *)
theory Sponsor_Order
  imports Sponsor_Lifecycle
begin

text \<open>
  The order of calls.  Two calls of different accounts may be executed in either order: neither
  sees the other, because a call reads and writes only the caller's entry of the escrow.
\<close>

lemma spec_call_frame:
  assumes "a \<noteq> b"
  shows "spec_call b c (v(a := x)) = map_sum id (\<lambda>v'. v'(a := x)) (spec_call b c v)"
  using assms by (cases c) (auto simp: fun_upd_twist split: option.splits)

lemma spec_call_writes_own:
  assumes "spec_call a c v = Inr v'"
  shows "v' = v(a := v' a)"
  using assms by (cases c) (auto split: if_splits option.splits)

lemma spec_calls_commute:
  assumes "a \<noteq> b" and "spec_call a ca v = Inr va" and "spec_call b cb v = Inr vb"
  shows "spec_call b cb va = Inr (va(b := vb b))" and "spec_call a ca vb = Inr (va(b := vb b))"
proof -
  have va: "va = v(a := va a)" and vb: "vb = v(b := vb b)"
    using assms(2,3) by (blast dest: spec_call_writes_own)+
  have "spec_call b cb va = Inr (vb(a := va a))"
    using spec_call_frame [OF assms(1), of cb v "va a"] assms(3) va by simp
  moreover have "vb(a := va a) = va(b := vb b)"
    using va vb assms(1) by (metis fun_upd_twist)
  ultimately show "spec_call b cb va = Inr (va(b := vb b))" by simp
  show "spec_call a ca vb = Inr (va(b := vb b))"
    using spec_call_frame [OF assms(1) [symmetric], of ca v "vb b"] assms(2) vb by simp
qed

context sponsor_config
begin

text \<open>Where the balances pallet does not refuse, a call does exactly what the specification says.\<close>

lemma dispatch_exact:
  assumes "wf (ledger s)" and "ensure_signed T origin = Inr who" and "dispatch_call T origin c s = (r, t)"
    and "\<And>e. r \<noteq> Inl (SystemError e)"
  shows "r = map_sum ModuleError (\<lambda>_. ()) (spec_call who c (view T s))"
    and "view T t = (case spec_call who c (view T s) of Inl _ \<Rightarrow> view T s | Inr v \<Rightarrow> v)"
  using dispatch_refines [OF assms(1,2), of c] assms(3,4)
  by (cases "spec_call who c (view T s)"; cases r; auto simp: implements_call_def)+

lemma calls_commute:
  assumes wf: "wf (ledger s)" and a: "ensure_signed T oa = Inr a" and b: "ensure_signed T ob = Inr b" and "a \<noteq> b"
    and first: "dispatch_call T oa ca s = (ra, s1)" "dispatch_call T ob cb s1 = (rb, s12)"
    and swapped: "dispatch_call T ob cb s = (rb', s2)" "dispatch_call T oa ca s2 = (ra', s21)"
    and granted: "\<And>e. Inl (SystemError e) \<notin> {ra, rb, ra', rb'}"
  shows "ra' = ra \<and> rb' = rb \<and> view T s12 = view T s21"
proof -
  have wf1: "wf (ledger s1)" and wf2: "wf (ledger s2)"
    using dispatch_wf [OF wf] first(1) swapped(1) by blast+
  have no: "ra \<noteq> Inl (SystemError e)" "rb \<noteq> Inl (SystemError e)" "ra' \<noteq> Inl (SystemError e)" "rb' \<noteq> Inl (SystemError e)" for e
    using granted [of e] by auto
  note e1 = dispatch_exact [OF wf a first(1) no(1)] and e12 = dispatch_exact [OF wf1 b first(2) no(2)]
    and e2 = dispatch_exact [OF wf b swapped(1) no(4)] and e21 = dispatch_exact [OF wf2 a swapped(2) no(3)]
  show ?thesis
  proof (cases "spec_call a ca (view T s)"; cases "spec_call b cb (view T s)")
    fix va vb
    assume ok: "spec_call a ca (view T s) = Inr va" "spec_call b cb (view T s) = Inr vb"
    show ?thesis
      using e1 e12 e2 e21 spec_calls_commute [OF \<open>a \<noteq> b\<close> ok] ok by simp
  next
    fix va e
    assume ok: "spec_call a ca (view T s) = Inr va" and bad: "spec_call b cb (view T s) = Inl e"
    have "spec_call b cb va = Inl e"
      using spec_call_frame [OF \<open>a \<noteq> b\<close>, of cb "view T s" "va a"] spec_call_writes_own [OF ok] bad by simp
    with e1 e12 e2 e21 ok bad show ?thesis by simp
  next
    fix vb e
    assume bad: "spec_call a ca (view T s) = Inl e" and ok: "spec_call b cb (view T s) = Inr vb"
    have "spec_call a ca vb = Inl e"
      using spec_call_frame [OF \<open>a \<noteq> b\<close> [symmetric], of ca "view T s" "vb b"] spec_call_writes_own [OF ok] bad by simp
    with e1 e12 e2 e21 ok bad show ?thesis by simp
  qed (use e1 e12 e2 e21 in simp)
qed

end

section \<open>Property\<close>

text \<open>
  C17: calls of different sponsors commute.  For two signed calls of different accounts, executed in
  one order and in the other from the same state, each call returns the same result and the two
  final states have the same registrations, budgets and pending amounts, as long as the balances
  pallet refuses none of the four.  Who is first in a block decides nothing between sponsors.
\<close>

theorem independent_calls_commute:
  assumes "sponsor_config T W tot peek" and "W (ledger s)"
    and "ensure_signed T oa = Inr a" and "ensure_signed T ob = Inr b" and "a \<noteq> b"
    and "dispatch_call T oa ca s = (ra, s1)" and "dispatch_call T ob cb s1 = (rb, s12)"
    and "dispatch_call T ob cb s = (rb', s2)" and "dispatch_call T oa ca s2 = (ra', s21)"
    and "\<And>e. Inl (SystemError e) \<notin> {ra, rb, ra', rb'}"
  shows "ra' = ra \<and> rb' = rb \<and> view T s12 = view T s21"
  by (rule sponsor_config.calls_commute [OF assms])

text \<open>In the state of the mock tests: account 1 pauses while account 2 registers.\<close>

lemma pause_beside_register:
  fixes s :: "(nat, 64 word, ref_ledger) chain"
  assumes "Sponsors s 1 = Some st" and "active st" and "Sponsors s 2 = None" and "ref_free (ledger s) 2 = 1000"
  defines "c2 \<equiv> register_sponsor_call 100 (mock_policy [3] 50)"
  shows "fst (dispatch_call Test (RefSigned 1) pause_call s) = Inr ()"
    and "fst (dispatch_call Test (RefSigned 2) c2 s) = Inr ()"
    and "fst (dispatch_call Test (RefSigned 2) c2 (snd (dispatch_call Test (RefSigned 1) pause_call s))) = Inr ()"
    and "fst (dispatch_call Test (RefSigned 1) pause_call (snd (dispatch_call Test (RefSigned 2) c2 s))) = Inr ()"
    and "budget_on_hold Test 2 s = 0 \<Longrightarrow> ref_wf TYPE(64) (ledger s) \<Longrightarrow>
      budget_on_hold Test 2 (snd (dispatch_call Test (RefSigned 1) pause_call (snd (dispatch_call Test (RefSigned 2) c2 s)))) = 100"
  using assms(1-4)
  by (simp_all add: c2_def dispatch_call_def with_storage_layer_def pause_run register_sponsor_run ensure_valid_policy_eq mock_policy_def
      ref_hold_def ref_existential_deposit_def budget_on_hold_def ref_balance_on_hold_def ref_held_move)

theorem independent_calls_commute_witness:
  "let c2 = register_sponsor_call 100 (mock_policy [3] 50);
       s1 = snd (dispatch_call Test (RefSigned 1) pause_call registered_ext);
       s2 = snd (dispatch_call Test (RefSigned 2) c2 registered_ext);
       s12 = snd (dispatch_call Test (RefSigned 2) c2 s1);
       s21 = snd (dispatch_call Test (RefSigned 1) pause_call s2)
   in view Test s12 = view Test s21 \<and> budget_on_hold Test 2 s21 = 100"
proof -
  let ?c2 = "register_sponsor_call 100 (mock_policy [3] 50) :: (nat, 64 word) Call"
  have start: "Sponsors registered_ext 1 = Some \<lparr>active = True, policy = mock_policy [2] 50\<rparr>"
      "active \<lparr>active = True, policy = mock_policy [2] (50 :: 64 word)\<rparr>" "Sponsors registered_ext 2 = None"
      "ref_free (ledger registered_ext) 2 = 1000" "budget_on_hold Test 2 registered_ext = 0"
    by (simp_all add: registered_ext_eq ref_genesis_ledger_def ref_move_def budget_on_hold_def ref_balance_on_hold_def)
  note runs = pause_beside_register [OF start(1-4)]
  have "view Test (snd (dispatch_call Test (RefSigned 2) ?c2 (snd (dispatch_call Test (RefSigned 1) pause_call registered_ext))))
      = view Test (snd (dispatch_call Test (RefSigned 1) pause_call (snd (dispatch_call Test (RefSigned 2) ?c2 registered_ext))))"
    by (rule independent_calls_commute [where a = 1 and b = 2, OF ref_pallet.sponsor_config_axioms registered_ext_wf _ _ _
          prod.collapse [symmetric] prod.collapse [symmetric] prod.collapse [symmetric] prod.collapse [symmetric],
          THEN conjunct2, THEN conjunct2]) (use runs(1-4) in auto)
  with runs(5) [OF start(5) registered_ext_wf] show ?thesis by (simp add: Let_def)
qed

end
