(* ===== verification/Build_Scripts.thy ===== *)
theory Build_Scripts
  imports Runtime_Integration
begin

text \<open>
  The build scripts (\<^verbatim>\<open>node/build.rs\<close>, \<^verbatim>\<open>runtime/build.rs\<close>).  The helpers of the
  SDK act on the build's outputs, the world of the model; the Cargo features that select one of
  the runtime's three \<open>main\<close> functions are arguments.
\<close>

section \<open>The node's script\<close>

record 'w build_script_utils =
  generate_cargo_keys :: "'w \<Rightarrow> 'w"
  rerun_if_git_head_changed :: "'w \<Rightarrow> 'w"

definition node_build_main :: "'w build_script_utils \<Rightarrow> 'w \<Rightarrow> 'w" where
  "node_build_main U w = rerun_if_git_head_changed U (generate_cargo_keys U w)"

section \<open>The runtime's script\<close>

record ('b, 'w) WasmBuilder =
  init_with_defaults :: 'b
  enable_metadata_hash :: "string \<Rightarrow> 8 word \<Rightarrow> 'b \<Rightarrow> 'b"
  build :: "'b \<Rightarrow> 'w \<Rightarrow> 'w"
  build_using_defaults :: "'w \<Rightarrow> 'w"

record features =
  feature_std :: bool
  feature_metadata_hash :: bool

definition runtime_build_main :: "('b, 'w) WasmBuilder \<Rightarrow> features \<Rightarrow> 'w \<Rightarrow> 'w" where
  "runtime_build_main B f w =
     (if feature_std f \<and> feature_metadata_hash f then
        build B (enable_metadata_hash B ''UNIT'' 12 (init_with_defaults B)) w
      else if feature_std f \<and> \<not> feature_metadata_hash f then build_using_defaults B w
      else w)"

text \<open>
  A build with \<open>metadata-hash\<close> commits the hash to the denomination that every built-in chain
  specification shows and the runtime counts in: an offline signer displays the amounts that the
  chain means.
\<close>

lemma metadata_hash_denomination:
  assumes "name \<in> {''dev'', ''template-rococo'', ''local'', ''''}"
    and "load_spec ids WASM_BINARY from_json_file name = Some (Inr spec)"
  shows "\<exists>symbol decimals.
    runtime_build_main B \<lparr>feature_std = True, feature_metadata_hash = True\<rparr> w
      = build B (enable_metadata_hash B symbol decimals (init_with_defaults B)) w
    \<and> map_of (properties spec) ''tokenSymbol'' = Some (TextProperty symbol)
    \<and> map_of (properties spec) ''tokenDecimals'' = Some (NumberProperty (unat decimals))
    \<and> unat UNIT = 10 ^ unat decimals"
proof -
  have "map_of (properties spec) ''tokenSymbol'' = Some (TextProperty ''UNIT'')"
    and "map_of (properties spec) ''tokenDecimals'' = Some (NumberProperty 12)"
    using assms by (auto simp: load_spec_def development_chain_spec_def local_chain_spec_def)
  then show ?thesis
    by (intro exI [of _ "''UNIT''"] exI [of _ 12]) (simp add: runtime_build_main_def currency_defs)
qed

end
