(* ===== verification/Spec2Isabelle.thy ===== *)
theory Spec2Isabelle
  imports Extension_Properties Pallet_Properties Collator_Command Runtime_Integration Client_Search Client_Extensions
    Demo_Run Pallet_Test_Runs Sponsor_Machine Sponsor_Order Build_Scripts
begin

text \<open>
  \<^bold>\<open>Sponsored native fees: a verification development\<close>

  The repository is a parachain whose own logic is the FRAME pallet \<^verbatim>\<open>pallets/sponsored-tx\<close>.
  A sponsor registers a policy (an allowlist and a fee cap) and escrows native balance on its own
  account under the hold reason \<open>SponsorshipBudget\<close>.  A transaction may name a sponsor in
  the payment extension; \<open>validate\<close> checks policy and budget, \<open>prepare\<close> moves the
  estimated fee to the reason \<open>SponsorshipPending\<close>, and after dispatch
  \<open>post_dispatch_details\<close> slashes the actual fee, routes it to the fee destination and
  restores the remainder.  Around it are a template pallet, the runtime's configuration with its
  cross-chain settings, runtime APIs and genesis presets, the collator node and a scripted client.

  \<^bold>\<open>Theories and sources\<close>

  \<^item> \<open>Sponsor_Prelude\<close>: state and error operators for Rust's \<open>?\<close>, \<open>ensure!\<close>,
    storage reads and writes, the storage layer around a call; saturating arithmetic on words.
  \<^item> \<open>Sponsor_Types\<close> (\<^verbatim>\<open>types.rs\<close> and the declarations of \<^verbatim>\<open>lib.rs\<close>): policy,
    sponsor state, hold reasons, events, errors, and the record \<open>chain\<close>: the map
    \<open>Sponsors\<close>, the storage of all other pallets (\<open>ledger\<close>) and the pallet's event log.
  \<^item> \<open>Frame_Interface\<close>: the balances pallet, the origin check and the fee destination as
    records of operations, with their documented contracts as the locales \<open>hold_ledger\<close>,
    \<open>live_ledger\<close>, \<open>rehold_ledger\<close>, \<open>fee_sink\<close> and \<open>burning_sink\<close>.
  \<^item> \<open>Sponsor_Pallet\<close> (\<^verbatim>\<open>lib.rs\<close>): the seven dispatchables, the hold movements and
    the call enum, one definition per function; the result of each on every branch.
  \<^item> \<open>Sponsor_Spec\<close>: the abstract escrow (registration, budget and pending amount per
    account), \<open>spec_call\<close>, and the refinement of every call to it in the locale
    \<open>sponsor_config\<close>; soundness of the escrow; the event of each call.
  \<^item> \<open>Sponsor_Extension\<close> (\<^verbatim>\<open>extension.rs\<close>): \<open>weight\<close>, \<open>validate\<close>,
    \<open>prepare\<close>, \<open>post_dispatch_details\<close> and \<open>settle_sponsored_fee\<close>, over the
    record \<open>payment_api\<close> that stands for the transaction payment pallet.
  \<^item> \<open>Sponsor_Settlement\<close>, \<open>Fee_Settlement\<close>: the money flow of reservation, charge
    and restoration; the interface \<open>escrow_account\<close> between extension and pallet, provided
    by every \<open>sponsor_config\<close>; \<open>settling_config\<close> adds that released funds can be held
    again, \<open>burning_config\<close> that fees are burned, as the runtime configures.
  \<^item> \<open>Sponsor_Lifecycle\<close>: pallet and extension as a step relation, with calls of this pallet
    and code of other pallets interleaved between opening and closing a transaction; the invariant
    \<open>escrow_inv\<close> by rule induction; the replay of the event log.
  \<^item> \<open>Sponsor_Machine\<close>: an abstract machine over accounts (registration and funds), its steps
    labelled by the pallet's events, and the simulation of the lifecycle by it, in which reserving
    a fee and other pallets' code are silent.  \<open>Sponsor_Order\<close>: the order of calls.
  \<^item> \<open>Reference_Ledger\<close>, \<open>Reference_Payment\<close>: an executable ledger and payment
    extension that satisfy every contract, on which each locale is interpreted and the witnesses
    run the transactions of the mock runtime's tests.
  \<^item> \<open>Pallet_Properties\<close>, \<open>Extension_Properties\<close> and this theory: the properties.
  \<^item> \<open>Runtime_Weights\<close>, \<open>Template_Pallet\<close>, \<open>Runtime_Config\<close>,
    \<open>Genesis_Presets\<close>: the weights, the template pallet, and the runtime's constants, fee
    polynomial, block limits, pallet indices and presets (\<^verbatim>\<open>runtime/src\<close>).
  \<^item> \<open>Xcm_Config\<close> (\<^verbatim>\<open>configs/xcm_config.rs\<close>), \<open>Runtime_Pallets\<close>
    (\<^verbatim>\<open>configs/mod.rs\<close>), \<open>Runtime_Apis\<close> (\<^verbatim>\<open>apis.rs\<close>): the
    cross-chain barrier, converters and filters, one record per pallet configuration, one
    definition per runtime API; the SDK's combinators are parameters whose documented laws are the
    locales \<open>barrier_combinators\<close>, \<open>location_converters\<close>,
    \<open>block_limits\<close>, \<open>privileged_origins\<close> and \<open>fee_queries\<close>; \<open>polynomial_fees\<close>
    is the framework's evaluation of the fee polynomial.
  \<^item> \<open>Collator_Node\<close>, \<open>Collator_Cli\<close>, \<open>Collator_Service\<close>, \<open>Collator_Command\<close>
    (\<^verbatim>\<open>node/src\<close>): chain specifications, command-line interfaces and relay chain
    resolution; the start-up of the node with every early return, over the record
    \<open>service_api\<close> of the SDK's operations on an abstract world, with the tasks it spawns; the
    program with its subcommands on top, over the record \<open>cli_api\<close> of the framework's command line.
  \<^item> \<open>Subxt_Client\<close>, \<open>Subxt_Main\<close>
    (\<^verbatim>\<open>examples/subxt-sponsor-client\<close>): the client's encoding, builder, queries,
    output and its script, over the record \<open>node_api\<close> of what it uses of a node.
  \<^item> \<open>Client_Node\<close>, \<open>Reference_Node\<close>, \<open>Client_View\<close>: client and pallet
    together.  \<open>sponsored_node\<close> is a node that runs the pallet while others use it too
    (the relation \<open>foreign\<close>), \<open>storage_view\<close> how it serves storage, with no entry for an
    account that does not exist; both are
    interpreted on an executable node over the reference ledger.
  \<^item> \<open>Sponsor_Progress\<close>, \<open>Sponsor_Solvency\<close>: progress.  \<open>closing_config\<close>
    adds that transactions can be closed, \<open>solvent_config\<close> that an account with funds can
    pay and hold; whole transactions then run from validation to settlement.
  \<^item> \<open>Demo_Run\<close>: the client's script against a node that executes its transactions
    (\<open>demo_node\<close>), to its end.  \<open>Client_Search\<close>: the search over dynamic values as a
    single scan.  \<open>Client_Extensions\<close>: the client's list of extensions against the
    runtime's.
  \<^item> \<open>Runtime_Integration\<close>: properties that join cross-chain messages with the pallet,
    and chain specifications with presets.  \<open>Mock_Runtimes\<close>: the mock runtimes of the
    pallets' tests and the template pallet's benchmarks.
  \<^item> \<open>Build_Scripts\<close> (\<^verbatim>\<open>node/build.rs\<close>, \<^verbatim>\<open>runtime/build.rs\<close>): the build scripts,
    and that the metadata hash commits to the denomination of the chain specifications.
  \<^item> \<open>Pallet_Tests\<close>, \<open>Pallet_Test_Runs\<close> (\<^verbatim>\<open>tests.rs\<close> of both pallets):
    every test as a definition, and that none panics on a runtime with the promises of
    \<open>test_runtime\<close>.

  \<^bold>\<open>What is shown\<close>

  The dispatchables refine the abstract escrow and touch only the caller's entry; a failing body
  has written nothing.  From every reachable state at most two steps take a sponsor out with its
  funds.
  Validation accepts exactly the transactions the policy and the budget allow and names the
  fault with the least code.  Preparation succeeds after validation and moves exactly the estimate.  A settlement
  charges the least of estimate, actual fee and reservation, routes all of it, restores the rest,
  reports it in one event and, with burned fees, changes no balance but the sponsor's by exactly
  the charge.  In every reachable state the escrow is sound, the pending holds are the transaction
  in flight, the event log accounts for all escrowed funds, and no settlement falls short.  That log
  is a run of the abstract account machine and determines who is registered, who is active and how
  much everyone has in escrow.  Calls of different sponsors commute.
  The extension without a sponsor is the wrapped payment extension, and its stages hand on values
  of the kind and for the sponsor that the transaction named.

  A cross-chain message can manage no escrow but that of its own location's account, and the
  barrier lets only paid messages, messages with weight credit and unpaid ones of the parent
  through, never a reserve transfer to the relay chain however deeply nested.  A node runs the
  block authoring task exactly when the program was called without a subcommand, started and is an
  authority, and it joins the relay chain its arguments or its specification name.  The fee of a
  weight is linear in its execution time.  Every built-in specification starts a genesis that the
  runtime lists, with each collator under its own key.  The client's bytes decode to what its builder
  was told, it shows the chain's state or reports a missing account, its script never sees a paused
  sponsor pay, and it runs to its end where the accounts are funded.  The search for the holds visits
  every value once.  The repository's tests pass on every runtime that keeps the contracts.

  \<^bold>\<open>Assumptions and representation\<close>

  Balances are words of any width (64 in the mock runtime, 128 in the runtime), amounts in
  specifications are natural numbers.  Results that need the balances pallet to make progress name
  \<open>settling_config\<close>; the weaker \<open>sponsor_config\<close> covers refusals at every step, which
  is how the non-atomic reservation and the best-effort restoration are described.  Other pallets
  may do anything in between except touch this pallet's storage and holds.  All functions are
  total: the loops of the sources are recursions over lists or values, so there is no fuel.

  \<^bold>\<open>Not modelled\<close>

  Log lines; the SCALE encoding of storage; the framework's own code (balances, transaction
  payment, executive, XCM executor, networking, consensus, argument parsing), which appears only as
  arguments with contracts; associated types that only fix a Rust type and the weights of the
  framework's calls; help texts.  What is left of the sources besides is
  imports, type aliases, trait bounds and macro attributes.
\<close>

section \<open>Properties of the whole pallet\<close>

text \<open>
  C2: in every reachable state, whatever calls, transactions and other pallets' code ran before,
  every registered sponsor has a non-empty allowlist free of duplicates and within its bound, and
  an account that is not registered has neither a budget nor a pending reservation: no escrowed
  funds are ever orphaned.
\<close>

theorem reachable_registrations_sound:
  assumes "payment_config T W tot peek P" and "reachable T W P ph s"
  shows "case Sponsors s a of
      None \<Rightarrow> budget_on_hold T a s = 0 \<and> pending_on_hold T a s = 0
    | Some st \<Rightarrow> valid_policy (policy st) \<and> policy_bounded T (policy st)"
proof -
  note inv = escrow_invD [OF payment_config.inv_reachable [OF assms]]
  show ?thesis
    using escrow_sound_at [OF inv(2), of a] inv(3) [of a] by (auto simp: unat_eq_0 split: option.splits)
qed

theorem reachable_registrations_sound_witness:
  "valid_policy (mock_policy [2] 50) \<and> policy_bounded Test (mock_policy [2] 50)
   \<and> budget_on_hold Test 2 prepared_ext = 0"
  using reachable_registrations_sound [OF ref_lifecycle.payment_config_axioms prepared_ext_reachable, of 1]
    reachable_registrations_sound [OF ref_lifecycle.payment_config_axioms prepared_ext_reachable, of 2]
  by simp

text \<open>
  C4: in every reachable state the pending hold of an account is exactly the estimate of the
  sponsored transaction in flight if the account is its sponsor, and zero otherwise.  Between
  transactions nothing is pending.
\<close>

theorem reachable_pending_is_in_flight:
  assumes "payment_config T W tot peek P" and "reachable T W P ph s"
  shows "unat (pending_on_hold T a s) = reserved ph a"
  using escrow_invD(4) [OF payment_config.inv_reachable [OF assms], of a] by simp

theorem reachable_pending_is_in_flight_witness:
  "unat (pending_on_hold Test 1 prepared_ext) = 18 \<and> unat (pending_on_hold Test 1 registered_ext) = 0"
  using reachable_pending_is_in_flight [OF ref_lifecycle.payment_config_axioms prepared_ext_reachable, of 1]
    reachable_pending_is_in_flight [OF ref_lifecycle.payment_config_axioms registered_ext_reachable, of 1]
  by simp

text \<open>
  C3: the event log accounts for the escrow.  In every reachable state the funds an account has
  in escrow, budget and pending together, are what replaying the pallet's events gives:
  registrations and increases add, decreases and paid fees subtract, leaving resets to zero.
\<close>

theorem reachable_events_account_for_escrow:
  assumes "payment_config T W tot peek P" and "reachable T W P ph s"
  shows "unat (budget_on_hold T a s) + unat (pending_on_hold T a s) = replay (events s) a"
  using escrow_invD(5) [OF payment_config.inv_reachable [OF assms], of a] by simp

theorem reachable_events_account_for_escrow_witness:
  "unat (budget_on_hold Test 1 prepared_ext) + unat (pending_on_hold Test 1 prepared_ext)
     = replay [SponsorRegistered (1 :: nat) (200 :: 64 word)] 1"
  using reachable_events_account_for_escrow [OF ref_lifecycle.payment_config_axioms prepared_ext_reachable, of 1]
  by simp

text \<open>
  C9: a settlement is never short.  When a sponsored transaction is in flight in a reachable
  state, whatever its dispatch did, closing it succeeds, the fee destination receives exactly the
  smaller of the estimate and the actual fee, the event reports that amount and its tip part, and
  the sponsor's budget gets back all the rest of the estimate: the reservation covers the fee and
  nothing stays behind.
\<close>

theorem in_flight_settlement_never_short:
  assumes "payment_config T W tot peek P"
    and "reachable T W P (Dispatching (PreSponsored spons signer est t)) s"
    and "k = min est (actual_fee P t info post len s)"
  shows "\<exists>w u b fee_credit tip_credit.
      post_dispatch_details T P (PreSponsored spons signer est t) info post len res s = (Inr w, u)
    \<and> u = deposit_event (SponsoredTransactionFeePaid spons signer k (min t k))
        (restore_pending_to_budget T spons (s\<lparr>ledger := FeeDestination T [fee_credit, tip_credit] b\<rparr>))
    \<and> peek tip_credit = min t k \<and> unat (peek fee_credit) + unat (peek tip_credit) = unat k
    \<and> unat (budget_on_hold T spons u) = unat (budget_on_hold T spons s) + (unat est - unat k)
    \<and> pending_on_hold T spons u = 0"
proof -
  note inv = payment_config.inv_reachable [OF assms(1,2)]
  note set = payment_config.axioms(1) [OF assms(1)] and wf = escrow_invD(1) [OF inv]
  note sc = settling_config.axioms(1) [OF set]
  have k: "charged_fee T P spons est t info post len s = k"
    using payment_config.settle_in_flight [OF assms(1) inv] assms(3) by simp
  define u where "u = snd (settle_sponsored_fee T P spons signer est t info post len s)"
  have pend: "pending (view T s spons) = unat est"
    using escrow_invD(4) [OF inv, of spons] by simp
  have v: "view T u spons = (view T s spons)\<lparr>pending := 0, budget := budget (view T s spons) + (unat est - unat k)\<rparr>"
    unfolding u_def settling_config.settle_exact [OF set wf] k pend by simp
  have "budget (view T u spons) = unat (budget_on_hold T spons s) + (unat est - unat k)" and "pending (view T u spons) = 0"
    unfolding v by simp_all
  then have after: "unat (budget_on_hold T spons u) = unat (budget_on_hold T spons s) + (unat est - unat k)" "pending_on_hold T spons u = 0"
    by (simp_all add: unat_eq_0)
  show ?thesis
  proof (rule sponsor_config.settle_steps [OF sc wf, of spons est P t info post len signer, unfolded k])
    fix credit missing b tc fc
    assume c: "peek credit = k" and sp: "credit_split (Balances T) credit (min t k) = (tc, fc)"
      and res: "settle_sponsored_fee T P spons signer est t info post len s =
        (db_reads_writes P SPONSORED_POST_DISPATCH_READS SPONSORED_POST_DISPATCH_WRITES,
         deposit_event (SponsoredTransactionFeePaid spons signer k (min t k))
           (restore_pending_to_budget T spons (s\<lparr>ledger := FeeDestination T [fc, tc] b\<rparr>)))"
    have "post_dispatch_details T P (PreSponsored spons signer est t) info post len res s = (Inr (fst
        (settle_sponsored_fee T P spons signer est t info post len s)), u)"
      by (simp add: post_dispatch_details_def u_def split: prod.splits)
    moreover have "u = deposit_event (SponsoredTransactionFeePaid spons signer k (min t k))
        (restore_pending_to_budget T spons (s\<lparr>ledger := FeeDestination T [fc, tc] b\<rparr>))"
      by (simp add: u_def res)
    ultimately show ?thesis
      using after sponsor_config.credit_parts [OF sc sp c] by blast
  qed
qed

theorem in_flight_settlement_never_short_witness:
  "\<exists>w u. post_dispatch_details Test TestPayment (PreSponsored 1 2 18 5) 10 4 3 () prepared_ext = (Inr w, u)
    \<and> unat (budget_on_hold Test 1 u) = 188 \<and> pending_on_hold Test 1 u = 0
    \<and> last (events u) = SponsoredTransactionFeePaid 1 2 12 5"
proof -
  have "12 = min 18 (actual_fee TestPayment 5 10 4 3 prepared_ext)"
    by (simp add: actual_fee_def ref_fee_defs)
  from in_flight_settlement_never_short [OF ref_lifecycle.payment_config_axioms prepared_ext_reachable this, where res = "()"]
  show ?thesis by fastforce
qed

text \<open>
  C12: a sponsor never pays more than its policy allows.  If a transaction was accepted for a
  sponsor in some state, then in whatever state it is settled, the settlement takes no more out of
  the sponsor's escrow than the \<open>max_fee_per_tx\<close> that its policy had at validation, and reports
  no larger fee.
\<close>

theorem charge_within_policy_cap:
  assumes "settling_config T W tot peek" and "W (ledger s')"
    and "validate T P self origin call info len imp src s
      = Inr (validity, ValSponsored spons signer est t, origin')"
    and "settle_sponsored_fee T P spons signer est t info' post len' s' = (w, u)"
  shows "\<exists>st fee tip_part. Sponsors s spons = Some st \<and> fee \<le> max_fee_per_tx (policy st) \<and> tip_part \<le> fee
    \<and> events u = events s' @ [SponsoredTransactionFeePaid spons signer fee tip_part]
    \<and> budget (view T s' spons) + pending (view T s' spons)
        = budget (view T u spons) + pending (view T u spons) + unat fee"
proof (rule validate_sponsored [OF assms(3)])
  fix st
  assume st: "Sponsors s spons = Some st" and cap: "est \<le> max_fee_per_tx (policy st)"
  let ?k = "charged_fee T P spons est t info' post len' s'"
  have le: "?k \<le> est" and pend: "unat ?k \<le> pending (view T s' spons)"
    by (simp_all add: charged_fee_def min_le_iff_disj unat_min)
  have "view T u spons = (view T s' spons)\<lparr>pending := 0,
      budget := budget (view T s' spons) + (pending (view T s' spons) - unat ?k)\<rparr>"
    using fun_cong [OF settling_config.settle_exact [OF assms(1,2)], of P spons signer est t info' post len' spons] assms(4) by simp
  moreover have "events u = events s' @ [SponsoredTransactionFeePaid spons signer ?k (min t ?k)]"
    using sponsor_config.settle_frame(2) [OF settling_config.axioms(1) [OF assms(1)] assms(2),
        of P spons signer est t info' post len'] assms(4) by simp
  ultimately show ?thesis
    using st order_trans [OF le cap] pend
    by (intro exI [of _ st] exI [of _ ?k] exI [of _ "min t ?k"]) (simp del: view_sel)
qed

theorem charge_within_policy_cap_witness:
  "\<exists>st fee tip_part. Sponsors registered_ext 1 = Some st \<and> fee \<le> max_fee_per_tx (policy st) \<and> tip_part \<le> fee
    \<and> events (snd (settle_sponsored_fee Test TestPayment 1 2 18 5 10 90 3 prepared_ext))
        = events prepared_ext @ [SponsoredTransactionFeePaid 1 2 fee tip_part]
    \<and> budget (view Test prepared_ext 1) + pending (view Test prepared_ext 1)
        = budget (view Test (snd (settle_sponsored_fee Test TestPayment 1 2 18 5 10 90 3 prepared_ext)) 1)
          + pending (view Test (snd (settle_sponsored_fee Test TestPayment 1 2 18 5 10 90 3 prepared_ext)) 1) + unat fee"
  by (rule charge_within_policy_cap [OF ref_settling.settling_config_axioms prepared_ext_wf mock_validate prod.collapse [symmetric]])

text \<open>
  C5: the books of one sponsored transaction.  Let \<open>s\<close> be a reachable state between
  transactions, \<open>u\<close> the state after preparation, \<open>v\<close> any reachable state the
  dispatch leads to, and \<open>x\<close> the state after the post-dispatch step.  Preparation takes the
  estimate from the sponsor's budget and changes nobody's total; the post-dispatch step returns
  the estimate minus the charge to the budget, leaves nothing pending, and takes exactly the
  charge, the smaller of estimate and actual fee, from the sponsor and from nobody else.
\<close>

theorem sponsored_transaction_accounting:
  assumes "payment_config T W tot peek P" and "burning_config T W tot peek" and "reachable T W P Idle s"
    and "validate T P self origin call info len imp src s
      = Inr (validity, ValSponsored spons signer est t, origin')"
    and "prepare T P self (ValSponsored spons signer est t) origin call info len s = (Inr pre, u)"
    and "reachable T W P (Dispatching pre) v"
    and "post_dispatch_details T P pre info' post len' res v = (Inr w, x)"
    and "k = min est (actual_fee P t info' post len' v)"
  shows "unat (budget_on_hold T spons s) = unat (budget_on_hold T spons u) + unat est
    \<and> unat (budget_on_hold T spons x) + unat k = unat (budget_on_hold T spons v) + unat est
    \<and> pending_on_hold T spons x = 0
    \<and> tot a (ledger u) = tot a (ledger s)
    \<and> tot a (ledger v) = tot a (ledger x) + (if a = spons then unat k else 0)"
proof -
  note set = payment_config.axioms(1) [OF assms(1)]
  note invs = payment_config.inv_reachable [OF assms(1,3)]
  have le: "est \<le> budget_on_hold T spons s"
    using assms(4) by (rule validate_sponsored)
  have pre: "pre = PreSponsored spons signer est t"
    and view_u: "view T u = (view T s)(spons := (view T s spons)
      \<lparr>budget := budget (view T s spons) - unat est, pending := pending (view T s spons) + unat est\<rparr>)"
    and tot_u: "tot a (ledger u) = tot a (ledger s)"
    by (rule settling_config.prepare_succeeds [OF set escrow_invD(1) [OF invs] le, where P = P and self = self
          and signer = signer and t = t and origin = origin and call = call and info = info and len = len],
        use assms(5) in simp)+
  note invv = payment_config.inv_reachable [OF assms(1) assms(6) [unfolded pre]]
  note charge = payment_config.settle_in_flight [OF assms(1) invv, of info' post len', folded assms(8)]
  have x: "x = snd (settle_sponsored_fee T P spons signer est t info' post len' v)"
    using assms(7) pre by (auto simp: post_dispatch_details_def split: prod.splits)
  note view_x = settling_config.settle_exact [OF set escrow_invD(1) [OF invv], of P spons signer est t info' post len',
      folded x, unfolded charge]
  have "unat (pending_on_hold T spons v) = unat est"
    using escrow_invD(4) [OF invv, of spons] by simp
  then have "unat (budget_on_hold T spons x) + unat k = unat (budget_on_hold T spons v) + unat est"
    and "unat (pending_on_hold T spons x) = 0"
    using arg_cong [OF view_x, of "\<lambda>v. budget (v spons)"] arg_cong [OF view_x, of "\<lambda>v. pending (v spons)"]
    by (simp_all add: assms(8) unat_min)
  moreover have "unat (budget_on_hold T spons s) = unat (budget_on_hold T spons u) + unat est"
    using arg_cong [OF view_u, of "\<lambda>v. budget (v spons)"] le by (simp add: word_le_nat_alt)
  ultimately show ?thesis
    using burning_config.settle_total [OF assms(2) escrow_invD(1) [OF invv], of a P spons signer est t info' post len']
      tot_u by (simp add: charge unat_eq_0 flip: x)
qed

theorem sponsored_transaction_accounting_witness:
  "\<exists>w x. post_dispatch_details Test TestPayment (PreSponsored 1 2 18 5) 10 4 3 () prepared_ext = (Inr w, x)
    \<and> unat (budget_on_hold Test 1 x) + 12 = 182 + 18 \<and> pending_on_hold Test 1 x = 0
    \<and> ref_total 2 (ledger prepared_ext) = ref_total 2 (ledger x)"
proof -
  obtain w x where run: "post_dispatch_details Test TestPayment (PreSponsored 1 2 18 5) 10 4 3 () prepared_ext = (Inr w, x)"
    by (cases "settle_sponsored_fee Test TestPayment 1 2 18 5 10 4 3 prepared_ext")
      (simp add: post_dispatch_details_def)
  have "12 = min 18 (actual_fee TestPayment 5 10 4 3 prepared_ext)"
    by (simp add: actual_fee_def ref_fee_defs)
  from sponsored_transaction_accounting [OF ref_lifecycle.payment_config_axioms ref_burning.burning_config_axioms
      registered_ext_reachable mock_validate mock_prepare(1) prepared_ext_reachable run this, of 2] run
  show ?thesis by auto
qed

end
